(* ===== verification/Prelude.thy ===== *)
theory Prelude
  imports Main "HOL-Library.AList" "HOL-Library.Sublist" "HOL-Library.Multiset"
    "HOL-Library.Monad_Syntax"
begin

text \<open>
  What every component of the development shares: the collections of simplification rules,
  Go's maps (as association lists without duplicate keys), pointers and heaps, and the
  generic lemmas about them.

  Conventions.  A Go panic (nil dereference, index out of range, explicit panic) is
  \<open>None\<close> of an option result, so a handler that can panic is a function
  \<open>'s \<Rightarrow> ('a \<times> 's) option\<close> and its calls are composed with the option monad's
  \<open>do\<close> notation.  A Go error value is an \<open>error option\<close>, \<open>None\<close> standing for
  the nil error; a Go pointer is a \<open>ptr option\<close>, \<open>None\<close> standing for nil.
\<close>

named_theorems go_simps \<open>equations of the Go library functions\<close>
named_theorems heap_simps \<open>reads after writes on heaps and pools\<close>
named_theorems frame_simps \<open>fields an operation does not write\<close>
named_theorems keeps_intros \<open>decomposition of frame statements along a handler's text\<close>
named_theorems wf_intros \<open>preservation of the well-formedness of the stores\<close>

type_synonym error = string
type_synonym ptr = nat
type_synonym path = string

section \<open>Option monad\<close>

lemma bind_Some_conv [go_simps]:
  "(Option.bind m f = Some y) \<longleftrightarrow> (\<exists>x. m = Some x \<and> f x = Some y)"
  by (rule Option.bind_eq_Some_conv)

text \<open>
  A frame statement about a handler that may panic: whenever it returns, the new state is
  related to the old one.  The rules below follow the text of the handler.
\<close>

definition keeps :: "('s \<Rightarrow> 's \<Rightarrow> bool) \<Rightarrow> 's \<Rightarrow> ('a \<times> 's) option \<Rightarrow> bool" where
  "keeps R s m \<longleftrightarrow> (\<forall>r t. m = Some (r, t) \<longrightarrow> R s t)"

lemma keepsD: "keeps R s m \<Longrightarrow> m = Some (r, t) \<Longrightarrow> R s t"
  by (simp add: keeps_def)

lemma keepsI: "(\<And>r t. m = Some (r, t) \<Longrightarrow> R s t) \<Longrightarrow> keeps R s m"
  by (simp add: keeps_def)

lemma keeps_simps [simp]: "keeps R s None" "keeps R s (Some (r, t)) = R s t"
  by (simp_all add: keeps_def)

lemma keeps_step: "transp R \<Longrightarrow> R s t \<Longrightarrow> keeps R t m \<Longrightarrow> keeps R s m"
  unfolding keeps_def by (blast dest: transpD)

lemma keeps_bind:
  "transp R \<Longrightarrow> keeps R s m \<Longrightarrow> (\<And>r t. m = Some (r, t) \<Longrightarrow> keeps R t (f (r, t))) \<Longrightarrow> keeps R s (Option.bind m f)"
  by (cases m) (auto intro: keeps_step)

lemma keeps_bind_pure: "(\<And>x. m = Some x \<Longrightarrow> keeps R s (f x)) \<Longrightarrow> keeps R s (Option.bind m f)"
  by (cases m) auto

lemma keeps_pair:
  "transp R \<Longrightarrow> (\<And>a t. p = (a, t) \<Longrightarrow> R s t) \<Longrightarrow> (\<And>a t. p = (a, t) \<Longrightarrow> keeps R t (g a t)) \<Longrightarrow>
   keeps R s (case p of (a, t) \<Rightarrow> g a t)"
  by (cases p) (auto intro: keeps_step)

lemma keeps_pair2:
  "transp R \<Longrightarrow> (\<And>a b t. p = ((a, b), t) \<Longrightarrow> R s t) \<Longrightarrow> (\<And>a b t. p = ((a, b), t) \<Longrightarrow> keeps R t (g a b t)) \<Longrightarrow>
   keeps R s ((\<lambda>((a, b), t). g a b t) p)"
  by (cases p) (auto intro: keeps_step split: prod.split)

text \<open>The same along the notations of the handlers: a reply, a binding, a \<open>let\<close>.\<close>

lemma keeps_reply:
  "transp R \<Longrightarrow> (\<And>a b t. p = ((a, b), t) \<Longrightarrow> R s t) \<Longrightarrow> (\<And>a b t. p = ((a, b), t) \<Longrightarrow> keeps R t (g a b t)) \<Longrightarrow>
   keeps R s (case p of ((a, b), t) \<Rightarrow> g a b t)"
  by (cases p) (auto intro: keeps_step split: prod.split)

lemma keeps_do:
  "transp R \<Longrightarrow> keeps R s m \<Longrightarrow> (\<And>r t. m = Some (r, t) \<Longrightarrow> keeps R t (g r t)) \<Longrightarrow> keeps R s (m \<bind> (\<lambda>(r, t). g r t))"
  by (rule keeps_bind) auto

lemma keeps_let:
  "transp R \<Longrightarrow> (\<And>a t. p = (a, t) \<Longrightarrow> R s t) \<Longrightarrow> (\<And>a t. p = (a, t) \<Longrightarrow> keeps R t (g a t)) \<Longrightarrow>
   keeps R s (let (a, t) = p in g a t)"
  by (cases p) (auto intro: keeps_step)

lemma keeps_pure:
  "(\<And>a b. q = (a, b) \<Longrightarrow> keeps R s (f a b)) \<Longrightarrow> keeps R s (let (a, b) = q in f a b)"
  "(\<And>a b. q = (a, b) \<Longrightarrow> keeps R s (f a b)) \<Longrightarrow> keeps R s (case q of (a, b) \<Rightarrow> f a b)"
  by (cases q; simp)+

lemma keeps_name: "(\<And>x. x = v \<Longrightarrow> keeps R s (f x)) \<Longrightarrow> keeps R s (Let v f)"
  by simp

lemma keeps_cases [keeps_intros]:
  "(\<And>e. r = Inl e \<Longrightarrow> keeps R s (f e)) \<Longrightarrow> (\<And>x. r = Inr x \<Longrightarrow> keeps R s (g x)) \<Longrightarrow> keeps R s (case_sum f g r)"
  "(ov = None \<Longrightarrow> keeps R s u) \<Longrightarrow> (\<And>x. ov = Some x \<Longrightarrow> keeps R s (v x)) \<Longrightarrow> keeps R s (case_option u v ov)"
  "(b \<Longrightarrow> keeps R s m) \<Longrightarrow> (\<not> b \<Longrightarrow> keeps R s n) \<Longrightarrow> keeps R s (if b then m else n)"
  by (auto split: sum.splits option.splits)

section \<open>Go maps\<close>

text \<open>
  A Go \<open>map[string]V\<close>.  The list is the order in which the next \<open>range\<close> loop
  happens to visit the entries: Go leaves that order open, so statements that must not
  depend on it quantify over all lists, and the service's step relation may permute it.
\<close>

type_synonym 'v gomap = "(string \<times> 'v) list"

abbreviation mget :: "'v gomap \<Rightarrow> string \<Rightarrow> 'v option" where
  "mget m k \<equiv> map_of m k"

abbreviation mset_key :: "string \<Rightarrow> 'v \<Rightarrow> 'v gomap \<Rightarrow> 'v gomap" where
  "mset_key k v m \<equiv> AList.update k v m"

abbreviation mdel :: "string \<Rightarrow> 'v gomap \<Rightarrow> 'v gomap" where
  "mdel k m \<equiv> AList.delete k m"

abbreviation mkeys :: "'v gomap \<Rightarrow> string set" where
  "mkeys m \<equiv> fst ` set m"

definition mwf :: "'v gomap \<Rightarrow> bool" where
  "mwf m \<longleftrightarrow> distinct (map fst m)"

text \<open>Reading a missing key of a \<open>map[string]string\<close> gives the empty string.\<close>

definition mstr :: "string gomap \<Rightarrow> string \<Rightarrow> string" where
  "mstr m k = (case mget m k of None \<Rightarrow> [] | Some v \<Rightarrow> v)"

lemma mget_update [heap_simps]: "mget (mset_key k v m) j = (if j = k then Some v else mget m j)"
  by (simp add: update_conv')

lemma mget_delete [heap_simps]: "mget (mdel k m) j = (if j = k then None else mget m j)"
  by (simp add: delete_conv')

lemma mwf_Nil [simp]: "mwf []"
  by (simp add: mwf_def)

lemma mwf_update [simp, wf_intros]: "mwf m \<Longrightarrow> mwf (mset_key k v m)"
  unfolding mwf_def by (rule distinct_update)

lemma mwf_delete [simp, wf_intros]: "mwf m \<Longrightarrow> mwf (mdel k m)"
  unfolding mwf_def by (rule distinct_delete)

lemma mwf_mset: "mset m = mset m' \<Longrightarrow> mwf m \<Longrightarrow> mwf m'"
proof -
  assume "mset m = mset m'"
  then have "mset (map fst m) = mset (map fst m')" by simp
  then show "mwf m \<Longrightarrow> mwf m'"
    unfolding mwf_def using mset_eq_imp_distinct_iff by blast
qed

lemma mget_mset: "mset m = mset m' \<Longrightarrow> mwf m \<Longrightarrow> mget m' k = mget m k"
proof -
  assume perm: "mset m = mset m'" and wf: "mwf m"
  have wf': "mwf m'" using perm wf by (rule mwf_mset)
  have "set m = set m'" using perm by (metis set_mset_mset)
  then have "map_of m = map_of m'"
    using wf wf' unfolding mwf_def by (simp add: map_of_inject_set)
  then show ?thesis by simp
qed

lemma mget_in_set: "mget m k = Some v \<Longrightarrow> (k, v) \<in> set m"
  by (rule map_of_SomeD)

lemma in_set_mget: "mwf m \<Longrightarrow> (k, v) \<in> set m \<Longrightarrow> mget m k = Some v"
  by (simp add: mwf_def)

lemma set_delete_subset: "set (mdel k m) \<subseteq> set m"
  by (induction m) auto

lemma set_update_subset: "set (mset_key k v m) \<subseteq> insert (k, v) (set m)"
  by (induction m) auto

lemma mstr_update [heap_simps]: "mstr (mset_key k v m) j = (if j = k then v else mstr m j)"
  by (simp add: mstr_def update_conv')

section \<open>Heaps\<close>

text \<open>
  The objects a Go program reaches through pointers.  Dereferencing an address that holds
  no object (or nil) is the panic \<open>None\<close>.
\<close>

record 'o heap =
  cells :: "ptr \<Rightarrow> 'o option"
  next_free :: ptr

definition empty_heap :: "'o heap" where
  "empty_heap = \<lparr>cells = (\<lambda>_. None), next_free = 0\<rparr>"

definition alloc :: "'o \<Rightarrow> 'o heap \<Rightarrow> ptr \<times> 'o heap" where
  "alloc v h = (next_free h, h\<lparr>cells := (cells h)(next_free h := Some v), next_free := Suc (next_free h)\<rparr>)"

definition deref :: "ptr option \<Rightarrow> 'o heap \<Rightarrow> 'o option" where
  "deref p h = (case p of None \<Rightarrow> None | Some a \<Rightarrow> cells h a)"

definition assign :: "ptr \<Rightarrow> 'o \<Rightarrow> 'o heap \<Rightarrow> 'o heap" where
  "assign a v h = h\<lparr>cells := (cells h)(a := Some v)\<rparr>"

text \<open>The allocator only hands out addresses below \<open>next_free\<close>.\<close>

definition heap_wf :: "'o heap \<Rightarrow> bool" where
  "heap_wf h \<longleftrightarrow> (\<forall>a. next_free h \<le> a \<longrightarrow> cells h a = None)"

lemma deref_simps [simp]: "deref None h = None" "deref (Some a) h = cells h a"
  by (simp_all add: deref_def)

lemma cells_assign [simp]: "cells (assign a v h) = (cells h)(a := Some v)"
  by (simp add: assign_def)

lemma next_free_assign [simp]: "next_free (assign a v h) = next_free h"
  by (simp add: assign_def)

lemma cells_alloc: "alloc v h = (a, h') \<Longrightarrow> a = next_free h \<and> cells h' = (cells h)(a := Some v)"
  by (auto simp: alloc_def)

lemma cells_empty [simp]: "cells empty_heap a = None"
  by (simp add: empty_heap_def)

lemma heap_wf_empty [simp]: "heap_wf empty_heap"
  by (simp add: heap_wf_def empty_heap_def)

lemma heap_wf_alloc [wf_intros]: "heap_wf h \<Longrightarrow> heap_wf (snd (alloc v h))"
  by (simp add: heap_wf_def alloc_def)

lemma heap_wf_assign [wf_intros]: "heap_wf h \<Longrightarrow> cells h a \<noteq> None \<Longrightarrow> heap_wf (assign a v h)"
  by (auto simp: heap_wf_def)

lemma heap_wf_fresh: "heap_wf h \<Longrightarrow> cells h a = Some v \<Longrightarrow> a < next_free h"
  by (metis heap_wf_def not_le option.distinct(1))

end
