(* ===== verification/Go_Strings.thy ===== *)
theory Go_Strings
  imports Prelude "HOL-Library.Word"
begin

text \<open>
  The functions of Go's \<open>strings\<close>, \<open>strconv\<close> and \<open>fmt\<close> packages that the sources
  call, on byte strings.  \<open>sprintf\<close> takes its arguments already rendered as strings, one
  for every verb of the format.  Case folding is that of ASCII.
\<close>

abbreviation nl :: string where "nl \<equiv> [CHR 0x0A]"
abbreviation dquote :: string where "dquote \<equiv> [CHR 0x22]"
abbreviation backslash :: string where "backslash \<equiv> [CHR 0x5C]"

section \<open>strings\<close>

definition HasPrefix :: "string \<Rightarrow> string \<Rightarrow> bool" where
  "HasPrefix s p = prefix p s"

definition HasSuffix :: "string \<Rightarrow> string \<Rightarrow> bool" where
  "HasSuffix s p = prefix (rev p) (rev s)"

fun Contains :: "string \<Rightarrow> string \<Rightarrow> bool" where
  "Contains [] sub = (sub = [])"
| "Contains (c # s) sub = (prefix sub (c # s) \<or> Contains s sub)"

text \<open>
  \<open>strings.Split\<close>: scan for the separator from the left; \<open>acc\<close> is the part read so
  far, reversed.  Every separator of the sources is a non-empty literal, and for those
  dropping \<open>length sep - 1\<close> characters of the tail skips the separator.
\<close>

fun split_scan :: "string \<Rightarrow> string \<Rightarrow> string \<Rightarrow> string list" where
  "split_scan sep acc [] = [rev acc]"
| "split_scan sep acc (c # s) =
     (if prefix sep (c # s) then rev acc # split_scan sep [] (drop (length sep - 1) s)
      else split_scan sep (c # acc) s)"

definition Split :: "string \<Rightarrow> string \<Rightarrow> string list" where
  "Split s sep = (if sep = [] then map (\<lambda>c. [c]) s else split_scan sep [] s)"

fun Join :: "string list \<Rightarrow> string \<Rightarrow> string" where
  "Join [] sep = []"
| "Join [x] sep = x"
| "Join (x # y # xs) sep = x @ sep @ Join (y # xs) sep"

definition ReplaceAll :: "string \<Rightarrow> string \<Rightarrow> string \<Rightarrow> string" where
  "ReplaceAll s old new = Join (Split s old) new"

definition is_space :: "char \<Rightarrow> bool" where
  "is_space c \<longleftrightarrow> c \<in> {CHR 0x20, CHR 0x09, CHR 0x0A, CHR 0x0B, CHR 0x0C, CHR 0x0D}"

definition TrimSpace :: "string \<Rightarrow> string" where
  "TrimSpace s = rev (dropWhile is_space (rev (dropWhile is_space s)))"

definition TrimPrefix :: "string \<Rightarrow> string \<Rightarrow> string" where
  "TrimPrefix s p = (if HasPrefix s p then drop (length p) s else s)"

definition to_lower_char :: "char \<Rightarrow> char" where
  "to_lower_char c = (if 65 \<le> (of_char c :: nat) \<and> (of_char c :: nat) \<le> 90
     then char_of ((of_char c :: nat) + 32) else c)"

definition ToLower :: "string \<Rightarrow> string" where
  "ToLower s = map to_lower_char s"

definition EqualFold :: "string \<Rightarrow> string \<Rightarrow> bool" where
  "EqualFold s t \<longleftrightarrow> ToLower s = ToLower t"

lemma prefix_dropD: "prefix sep (c # s) \<Longrightarrow> sep \<noteq> [] \<Longrightarrow> c # s = sep @ drop (length sep - 1) s"
  by (cases sep) (auto simp: prefix_def)

lemma split_scan_ne [simp]: "split_scan sep acc s \<noteq> []"
  by (induction sep acc s rule: split_scan.induct) auto

lemma Split_ne: "sep \<noteq> [] \<Longrightarrow> Split s sep \<noteq> []"
  by (simp add: Split_def)

lemma length_Split: "sep \<noteq> [] \<Longrightarrow> 1 \<le> length (Split s sep)"
  using Split_ne [of sep s] by (cases "Split s sep") auto

lemma Join_Cons: "xs \<noteq> [] \<Longrightarrow> Join (x # xs) sep = x @ sep @ Join xs sep"
  by (cases xs) auto

lemma Join_split_scan: "sep \<noteq> [] \<Longrightarrow> Join (split_scan sep acc s) sep = rev acc @ s"
proof (induction sep acc s rule: split_scan.induct)
  case (1 sep acc)
  then show ?case by simp
next
  case (2 sep acc c s)
  show ?case
  proof (cases "prefix sep (c # s)")
    case True
    then have "c # s = sep @ drop (length sep - 1) s"
      using "2.prems" by (rule prefix_dropD)
    moreover have "Join (split_scan sep acc (c # s)) sep
        = rev acc @ sep @ Join (split_scan sep [] (drop (length sep - 1) s)) sep"
      using True by (simp add: Join_Cons)
    ultimately show ?thesis using True "2.IH"(1) "2.prems" by simp
  next
    case False
    with "2.IH"(2) "2.prems" show ?thesis by simp
  qed
qed

lemma Join_Split: "sep \<noteq> [] \<Longrightarrow> Join (Split s sep) sep = s"
  by (simp add: Split_def Join_split_scan)

lemma split_scan_absent:
  "\<not> Contains s sep \<Longrightarrow> split_scan sep acc s = [rev acc @ s]"
  by (induction s arbitrary: acc) auto

lemma Split_absent: "sep \<noteq> [] \<Longrightarrow> \<not> Contains s sep \<Longrightarrow> Split s sep = [s]"
  by (simp add: Split_def split_scan_absent)

lemma split_scan_prefix:
  "sep \<noteq> [] \<Longrightarrow> split_scan sep acc (sep @ s) = rev acc # split_scan sep [] s"
proof -
  assume ne: "sep \<noteq> []"
  then obtain d ds where "sep = d # ds" by (cases sep) auto
  then show ?thesis by simp
qed

lemma Split_prefix: "sep \<noteq> [] \<Longrightarrow> Split (sep @ s) sep = [] # Split s sep"
  by (simp add: Split_def split_scan_prefix)

lemma Contains_char: "Contains s [c] \<longleftrightarrow> c \<in> set s"
  by (induction s) auto

lemma split_scan_char_step:
  "c \<notin> set x \<Longrightarrow> split_scan [c] acc (x @ c # s) = (rev acc @ x) # split_scan [c] [] s"
  by (induction x arbitrary: acc) auto

lemma Split_char_step:
  "c \<notin> set x \<Longrightarrow> Split (x @ c # s) [c] = x # Split s [c]"
  by (simp add: Split_def split_scan_char_step)

lemma Split_char_last: "c \<notin> set x \<Longrightarrow> Split x [c] = [x]"
  by (simp add: Split_absent Contains_char)

lemma Split_char_parts: "x \<in> set (Split s [c]) \<Longrightarrow> c \<notin> set x"
proof -
  have "\<forall>y\<in>set (split_scan [c] acc s). c \<notin> set y" if "c \<notin> set acc" for acc
    using that
  proof (induction s arbitrary: acc)
    case Nil
    then show ?case by simp
  next
    case (Cons d s)
    from Cons.IH [of "[]"] have "\<forall>y\<in>set (split_scan [c] [] s). c \<notin> set y" by simp
    moreover have "d \<noteq> c \<Longrightarrow> \<forall>y\<in>set (split_scan [c] (d # acc) s). c \<notin> set y"
      using Cons.IH [of "d # acc"] Cons.prems by simp
    ultimately show ?case using Cons.prems by auto
  qed
  from this [of "[]"] show "x \<in> set (Split s [c]) \<Longrightarrow> c \<notin> set x" by (simp add: Split_def)
qed

text \<open>A separator whose first character is not repeated in it cannot overlap with the text before it.\<close>

lemma Split_first:
  assumes "\<not> Contains x (c # r)" and "c \<notin> set r"
  shows "Split (x @ (c # r) @ s) (c # r) = x # Split s (c # r)"
proof -
  have apart: "\<not> prefix (c # r) (q @ (c # r) @ s)" if "q \<noteq> []" "\<not> prefix (c # r) q" for q
  proof
    assume "prefix (c # r) (q @ (c # r) @ s)"
    with that(2) obtain us where us: "c # r = q @ us" "prefix us ((c # r) @ s)"
      unfolding prefix_append [of "c # r" q] by blast
    with that have "us \<noteq> []" by auto
    with us(2) have "hd us = c" by (cases us) auto
    moreover have "hd us \<in> set r" using us(1) that(1) \<open>us \<noteq> []\<close> by (cases q) auto
    ultimately show False using assms(2) by simp
  qed
  have "split_scan (c # r) acc (x @ (c # r) @ s) = (rev acc @ x) # split_scan (c # r) [] s" for acc
    using assms(1)
  proof (induction x arbitrary: acc)
    case (Cons d x)
    then show ?case using apart [of "d # x"] by simp
  qed (simp add: split_scan_prefix [of "c # r" acc s, simplified])
  from this [of "[]"] show ?thesis by (simp add: Split_def)
qed

lemma HasPrefix_append [simp]: "HasPrefix (p @ s) p"
  by (simp add: HasPrefix_def)

lemma TrimPrefix_append [simp]: "TrimPrefix (p @ s) p = s"
  by (simp add: TrimPrefix_def HasPrefix_def)

lemma HasPrefixD: "HasPrefix s p \<Longrightarrow> s = p @ TrimPrefix s p"
  by (auto simp: HasPrefix_def TrimPrefix_def prefix_def)

lemma Contains_refl [simp]: "Contains s s"
  by (cases s) auto

lemma Contains_append2 [simp]: "Contains (a @ b) b"
  by (induction a) auto

lemma Contains_append: "Contains a sub \<Longrightarrow> Contains (a @ b) sub"
proof (induction a)
  case Nil
  then show ?case by (cases b) auto
next
  case (Cons x a)
  show ?case
  proof (cases "prefix sub (x # a)")
    case True
    then have "prefix sub ((x # a) @ b)" by (rule prefix_prefix)
    then show ?thesis by simp
  next
    case False
    with Cons show ?thesis by simp
  qed
qed

text \<open>Replacing one character is a map over the string.\<close>

lemma Join_split_scan_char:
  "Join (split_scan [c] acc s) d = rev acc @ concat (map (\<lambda>x. if x = c then d else [x]) s)"
proof (induction s arbitrary: acc)
  case (Cons a s)
  show ?case
  proof (cases "a = c")
    case True
    with Cons.IH [of "[]"] show ?thesis by (simp add: Join_Cons)
  next
    case False
    with Cons.IH [of "a # acc"] show ?thesis by auto
  qed
qed simp

lemma ReplaceAll_concat: "ReplaceAll s [c] d = concat (map (\<lambda>x. if x = c then d else [x]) s)"
  by (simp add: ReplaceAll_def Split_def Join_split_scan_char)

lemma ReplaceAll_char: "ReplaceAll s [c] [d] = map (\<lambda>x. if x = c then d else x) s"
  unfolding ReplaceAll_concat by (induction s) auto

section \<open>fmt\<close>

fun sprintf :: "string \<Rightarrow> string list \<Rightarrow> string" where
  "sprintf [] args = []"
| "sprintf [c] args = [c]"
| "sprintf (c # d # f) args =
     (if c = CHR 0x25 then (case args of [] \<Rightarrow> c # d # sprintf f [] | a # as \<Rightarrow> a @ sprintf f as)
      else c # sprintf (d # f) args)"

declare sprintf.simps [simp del, go_simps]

text \<open>\<open>%q\<close>: the argument between double quotes, with quotes and backslashes escaped.\<close>

fun quote :: "string \<Rightarrow> string" where
  "quote s = dquote @ concat (map (\<lambda>c. if c = CHR 0x22 \<or> c = CHR 0x5C then [CHR 0x5C, c] else [c]) s) @ dquote"

section \<open>strconv\<close>

definition digit_char :: "nat \<Rightarrow> char" where
  "digit_char d = char_of (48 + d)"

definition is_digit :: "char \<Rightarrow> bool" where
  "is_digit c \<longleftrightarrow> 48 \<le> (of_char c :: nat) \<and> (of_char c :: nat) \<le> 57"

definition digit_val :: "char \<Rightarrow> nat" where
  "digit_val c = of_char c - 48"

fun nat_digits :: "nat \<Rightarrow> string" where
  "nat_digits n = (if n < 10 then [digit_char n] else nat_digits (n div 10) @ [digit_char (n mod 10)])"

declare nat_digits.simps [simp del]

definition itoa :: "int \<Rightarrow> string" where
  "itoa z = (if z < 0 then CHR ''-'' # nat_digits (nat (- z)) else nat_digits (nat z))"

definition digits_val :: "string \<Rightarrow> nat" where
  "digits_val s = foldl (\<lambda>a c. 10 * a + digit_val c) 0 s"

definition max_int64 :: int where "max_int64 = 2 ^ 63 - 1"
definition min_int64 :: int where "min_int64 = - (2 ^ 63)"

text \<open>
  \<open>strconv.Atoi\<close>: the value, and whether the returned error is nil.  A syntax error
  returns 0, a value out of the range of \<open>int\<close> the nearest bound.
\<close>

definition Atoi :: "string \<Rightarrow> int \<times> bool" where
  "Atoi s =
     (let neg = (s \<noteq> [] \<and> hd s = CHR ''-'');
          body = (if s \<noteq> [] \<and> (hd s = CHR ''-'' \<or> hd s = CHR ''+'') then tl s else s);
          v = (if neg then - int (digits_val body) else int (digits_val body))
      in if body = [] \<or> \<not> list_all is_digit body then (0, False)
         else if v < min_int64 then (min_int64, False)
         else if max_int64 < v then (max_int64, False)
         else (v, True))"

definition Atoi_error :: "string \<Rightarrow> error" where
  "Atoi_error s = ''strconv.Atoi: parsing '' @ quote s @ (if fst (Atoi s) = 0 then '': invalid syntax'' else '': value out of range'')"

definition ParseBool :: "string \<Rightarrow> bool option" where
  "ParseBool s =
     (if s \<in> {''1'', ''t'', ''T'', ''true'', ''TRUE'', ''True''} then Some True
      else if s \<in> {''0'', ''f'', ''F'', ''false'', ''FALSE'', ''False''} then Some False
      else None)"

text \<open>Go's conversion \<open>int32(x)\<close> keeps the low 32 bits.\<close>

definition int32 :: "int \<Rightarrow> int" where
  "int32 x = sint (word_of_int x :: 32 word)"

lemma digit_val_char: "d < 10 \<Longrightarrow> digit_val (digit_char d) = d"
  by (simp add: digit_val_def digit_char_def)

lemma is_digit_char: "d < 10 \<Longrightarrow> is_digit (digit_char d)"
  by (simp add: is_digit_def digit_char_def)

lemma nat_digits_props: "list_all is_digit (nat_digits n) \<and> digits_val (nat_digits n) = n \<and> nat_digits n \<noteq> []"
proof (induction n rule: nat_digits.induct)
  case (1 n)
  show ?case
  proof (cases "n < 10")
    case True
    then show ?thesis
      by (subst nat_digits.simps, subst (2) nat_digits.simps)
        (simp add: is_digit_char digits_val_def digit_val_char nat_digits.simps [of n])
  next
    case False
    with 1 show ?thesis
      by (simp add: nat_digits.simps [of n] is_digit_char digits_val_def digit_val_char)
  qed
qed

lemma nat_digits_hd: "is_digit (hd (nat_digits n))"
  using nat_digits_props [of n] by (cases "nat_digits n") auto

lemma Atoi_itoa:
  assumes "min_int64 \<le> z" and "z \<le> max_int64"
  shows "Atoi (itoa z) = (z, True)"
proof (cases "z < 0")
  case True
  with assms nat_digits_props [of "nat (- z)"] show ?thesis
    by (simp add: Atoi_def itoa_def Let_def)
next
  case False
  have "hd (nat_digits (nat z)) \<noteq> CHR ''-''" "hd (nat_digits (nat z)) \<noteq> CHR ''+''"
    using nat_digits_hd [of "nat z"] by (auto simp: is_digit_def)
  with False assms nat_digits_props [of "nat z"] show ?thesis
    by (simp add: Atoi_def itoa_def Let_def)
qed

lemma Atoi_not_digit: "CHR '':'' \<in> set s \<Longrightarrow> Atoi s = (0, False)"
proof -
  assume c: "CHR '':'' \<in> set s"
  have nd: "\<not> is_digit (CHR '':'')" by (simp add: is_digit_def)
  have "CHR '':'' \<in> set (tl s) \<or> hd s = CHR '':''" using c by (cases s) auto
  then have "\<not> list_all is_digit (if s \<noteq> [] \<and> (hd s = CHR ''-'' \<or> hd s = CHR ''+'') then tl s else s)"
    using c nd by (auto simp: list_all_iff)
  then show ?thesis by (auto simp: Atoi_def Let_def)
qed

lemma int32_id: "- (2 ^ 31) \<le> x \<Longrightarrow> x < 2 ^ 31 \<Longrightarrow> int32 x = x"
  by (simp add: int32_def signed_of_int signed_take_bit_int_eq_self)

lemma int32_bounds: "- (2 ^ 31) \<le> int32 x \<and> int32 x < 2 ^ 31"
  unfolding int32_def using sint_range_size [of "word_of_int x :: 32 word"] by (simp add: word_size)

lemma itoa_digits_nonspace: "0 \<le> z \<Longrightarrow> c \<in> set (itoa z) \<Longrightarrow> is_digit c"
  using nat_digits_props [of "nat z"] by (auto simp: itoa_def list_all_iff)

lemma dropWhile_hd: "s \<noteq> [] \<Longrightarrow> \<not> P (hd s) \<Longrightarrow> dropWhile P s = s"
  by (cases s) auto

lemma TrimSpace_id: "s = [] \<or> (\<not> is_space (hd s) \<and> \<not> is_space (last s)) \<Longrightarrow> TrimSpace s = s"
  by (cases "s = []") (simp_all add: TrimSpace_def dropWhile_hd hd_rev)

lemma TrimSpace_no_space: "\<forall>c\<in>set s. \<not> is_space c \<Longrightarrow> TrimSpace s = s"
  by (rule TrimSpace_id) (cases "s = []", auto)

end
