(* ===== verification/Go_OS.thy ===== *)
theory Go_OS
  imports Go_Strings
begin

text \<open>
  Go's \<open>path\<close> and \<open>filepath\<close> functions, the part of the operating system the
  sources use through package \<open>os\<close>, and the two source packages that wrap it:
  \<open>pkg/os\<close> (type \<open>RealOS\<close>) and \<open>pkg/cri/common/file\<close>.

  The file system is a map from path names to entries together with two oracles: the paths
  the kernel refuses to touch and the files it fails to write (a full disk).  Names are
  compared as written, with no symbolic links.
\<close>

section \<open>Paths\<close>

text \<open>
  \<open>path.Clean\<close> works on the components between slashes: it drops empty and \<open>.\<close>
  components and lets \<open>..\<close> cancel the component before it (at the root it vanishes).
\<close>

fun clean_step :: "bool \<Rightarrow> string list \<Rightarrow> string \<Rightarrow> string list" where
  "clean_step rooted out c =
     (if c = [] \<or> c = ''.'' then out
      else if c = ''..'' then
        (if out \<noteq> [] \<and> hd out \<noteq> ''..'' then tl out
         else if rooted then out else c # out)
      else c # out)"

definition Clean :: "string \<Rightarrow> string" where
  "Clean p =
     (if p = [] then ''.''
      else let rooted = (hd p = CHR ''/'');
               comps = rev (foldl (clean_step rooted) [] (Split p ''/''));
               body = Join comps ''/''
           in if rooted then CHR ''/'' # body else if body = [] then ''.'' else body)"

definition path_Join :: "string list \<Rightarrow> string" where
  "path_Join es = (let es' = dropWhile (\<lambda>e. e = []) es in if es' = [] then [] else Clean (Join es' ''/''))"

definition strip_slashes :: "string \<Rightarrow> string" where
  "strip_slashes p = rev (dropWhile (\<lambda>c. c = CHR ''/'') (rev p))"

definition Base :: "string \<Rightarrow> string" where
  "Base p = (if p = [] then ''.'' else let q = strip_slashes p in
     if q = [] then ''/'' else last (Split q ''/''))"

text \<open>\<open>path.Dir\<close>: everything up to the last slash, cleaned.\<close>

definition Dir :: "string \<Rightarrow> string" where
  "Dir p = Clean (rev (dropWhile (\<lambda>c. c \<noteq> CHR ''/'') (rev p)))"

section \<open>The file system\<close>

datatype entry = File string | Directory

record fs =
  entries :: "string \<Rightarrow> entry option"
  refused :: "string \<Rightarrow> bool"
  full :: "string \<Rightarrow> bool"

datatype stat_result = StatOK | StatNotExist | StatError

definition os_Stat :: "string \<Rightarrow> fs \<Rightarrow> stat_result" where
  "os_Stat p f = (if refused f p then StatError else case entries f p of None \<Rightarrow> StatNotExist | Some _ \<Rightarrow> StatOK)"

text \<open>A path and its ancestors, from the top down.\<close>

fun ancestors_scan :: "string \<Rightarrow> string \<Rightarrow> string list" where
  "ancestors_scan acc [] = (if acc = [] then [] else [rev acc])"
| "ancestors_scan acc (c # s) =
     (if c = CHR ''/'' \<and> acc \<noteq> [] then rev acc # ancestors_scan (c # acc) s
      else ancestors_scan (c # acc) s)"

definition ancestors :: "string \<Rightarrow> string list" where
  "ancestors p = ancestors_scan [] p"

definition is_file :: "fs \<Rightarrow> string \<Rightarrow> bool" where
  "is_file f p \<longleftrightarrow> (case entries f p of Some (File _) \<Rightarrow> True | _ \<Rightarrow> False)"

definition file_content :: "fs \<Rightarrow> string \<Rightarrow> string option" where
  "file_content f p = (case entries f p of Some (File c) \<Rightarrow> Some c | _ \<Rightarrow> None)"

definition os_MkdirAll :: "string \<Rightarrow> fs \<Rightarrow> error option \<times> fs" where
  "os_MkdirAll p f =
     (if refused f p \<or> list_ex (is_file f) (ancestors p) then (Some (''mkdir '' @ p), f)
      else (None, f\<lparr>entries := (\<lambda>q. if q \<in> set (ancestors p) then Some Directory else entries f q)\<rparr>))"

text \<open>
  \<open>os.OpenFile\<close> with \<open>O_CREATE\<close> and \<open>O_WRONLY\<close>; \<open>trunc\<close> says whether
  \<open>O_TRUNC\<close> is given (else \<open>O_APPEND\<close> is).  Only the error and the created or
  truncated file are seen here; \<open>os_Append\<close> is a write through the opened handle.
\<close>

definition os_OpenCreate :: "bool \<Rightarrow> string \<Rightarrow> fs \<Rightarrow> error option \<times> fs" where
  "os_OpenCreate trunc p f =
     (if refused f p \<or> entries f p = Some Directory then (Some (''open '' @ p), f)
      else (None, f\<lparr>entries := (entries f)(p \<mapsto>
         (case entries f p of Some (File c) \<Rightarrow> File (if trunc then [] else c) | _ \<Rightarrow> File []))\<rparr>))"

definition os_Append :: "string \<Rightarrow> string \<Rightarrow> fs \<Rightarrow> error option \<times> fs" where
  "os_Append p d f =
     (if full f p then (Some (''write '' @ p), f)
      else (None, f\<lparr>entries := (entries f)(p \<mapsto>
         (case entries f p of Some (File c) \<Rightarrow> File (c @ d) | _ \<Rightarrow> File d))\<rparr>))"

definition os_ReadFile :: "string \<Rightarrow> fs \<Rightarrow> error + string" where
  "os_ReadFile p f =
     (if refused f p then Inl (''open '' @ p)
      else case entries f p of Some (File c) \<Rightarrow> Inr c | _ \<Rightarrow> Inl (''open '' @ p))"

text \<open>
  \<open>os.Open\<close> for reading, and \<open>io.Copy\<close> from an opened file to an opened file (a
  directory opens but cannot be read).
\<close>

definition os_Open :: "string \<Rightarrow> fs \<Rightarrow> error option" where
  "os_Open p f = (if refused f p \<or> entries f p = None then Some (''open '' @ p) else None)"

definition io_Copy :: "string \<Rightarrow> string \<Rightarrow> fs \<Rightarrow> error option \<times> fs" where
  "io_Copy dest src f =
     (case entries f src of Some (File c) \<Rightarrow> os_Append dest c f | _ \<Rightarrow> (Some (''read '' @ src), f))"

definition beneath :: "string \<Rightarrow> string \<Rightarrow> bool" where
  "beneath p q \<longleftrightarrow> q = p \<or> prefix (p @ ''/'') q"

definition os_RemoveAll :: "string \<Rightarrow> fs \<Rightarrow> error option \<times> fs" where
  "os_RemoveAll p f =
     (if refused f p then (Some (''unlinkat '' @ p), f)
      else (None, f\<lparr>entries := (\<lambda>q. if beneath p q then None else entries f q)\<rparr>))"

section \<open>pkg/os: RealOS\<close>

definition RealOS_MkdirAll :: "string \<Rightarrow> fs \<Rightarrow> error option \<times> fs" where
  "RealOS_MkdirAll p f = os_MkdirAll p f"

definition RealOS_RemoveAll :: "string \<Rightarrow> fs \<Rightarrow> error option \<times> fs" where
  "RealOS_RemoveAll p f = os_RemoveAll p f"

definition RealOS_Stat :: "string \<Rightarrow> fs \<Rightarrow> stat_result" where
  "RealOS_Stat p f = os_Stat p f"

definition RealOS_CopyFile :: "string \<Rightarrow> string \<Rightarrow> fs \<Rightarrow> error option \<times> fs" where
  "RealOS_CopyFile src dest f =
     (case os_Open src f of
        Some e \<Rightarrow> (Some e, f)
      | None \<Rightarrow> (case os_OpenCreate True dest f of
          (Some e, f) \<Rightarrow> (Some e, f)
        | (None, f) \<Rightarrow> io_Copy dest src f))"

definition RealOS_WriteFile :: "string \<Rightarrow> string \<Rightarrow> fs \<Rightarrow> error option \<times> fs" where
  "RealOS_WriteFile p d f =
     (case os_OpenCreate True p f of
        (Some e, f) \<Rightarrow> (Some e, f)
      | (None, f) \<Rightarrow> os_Append p d f)"

definition RealOS_IsNotExist :: "stat_result \<Rightarrow> bool" where
  "RealOS_IsNotExist r \<longleftrightarrow> r = StatNotExist"

text \<open>
  Fifos and mounts are the business of third-party packages and of the kernel; handles are
  numbers and may be nil.
\<close>

record 'w mountlib =
  ml_OpenFifo :: "path \<Rightarrow> int \<Rightarrow> int \<Rightarrow> 'w \<Rightarrow> (nat option \<times> error option) \<times> 'w"
  ml_Mount :: "path \<Rightarrow> path \<Rightarrow> string \<Rightarrow> 64 word \<Rightarrow> string \<Rightarrow> 'w \<Rightarrow> error option \<times> 'w"
  ml_Mounted :: "path \<Rightarrow> 'w \<Rightarrow> bool \<times> error option"
  ml_Unmount :: "path \<Rightarrow> int \<Rightarrow> 'w \<Rightarrow> error option \<times> 'w"

definition RealOS_OpenFifo :: "'w mountlib \<Rightarrow> path \<Rightarrow> int \<Rightarrow> int \<Rightarrow> 'w \<Rightarrow> (nat option \<times> error option) \<times> 'w" where
  "RealOS_OpenFifo M fn flag perm w = ml_OpenFifo M fn flag perm w"

definition RealOS_Mount :: "'w mountlib \<Rightarrow> path \<Rightarrow> path \<Rightarrow> string \<Rightarrow> 64 word \<Rightarrow> string \<Rightarrow> 'w \<Rightarrow> error option \<times> 'w" where
  "RealOS_Mount M source target fstype flags d w = ml_Mount M source target fstype flags d w"

definition RealOS_Unmount :: "'w mountlib \<Rightarrow> path \<Rightarrow> int \<Rightarrow> 'w \<Rightarrow> error option \<times> 'w" where
  "RealOS_Unmount M target flags w =
     (let (mounted, err) = ml_Mounted M target w
      in if err \<noteq> None \<or> \<not> mounted then (err, w) else ml_Unmount M target flags w)"

section \<open>pkg/cri/common/file\<close>

definition CheckFileExist :: "string \<Rightarrow> fs \<Rightarrow> bool" where
  "CheckFileExist p f \<longleftrightarrow> os_Stat p f \<noteq> StatNotExist"

definition CreatePathDirectory :: "string \<Rightarrow> fs \<Rightarrow> error option \<times> fs" where
  "CreatePathDirectory p f = os_MkdirAll p f"

definition EnsurePathExist :: "string \<Rightarrow> fs \<Rightarrow> error option \<times> fs" where
  "EnsurePathExist p f = (if \<not> CheckFileExist p f then CreatePathDirectory p f else (None, f))"

text \<open>A directory has a size too; the model reports 0 for it.\<close>

definition FileSize :: "string \<Rightarrow> fs \<Rightarrow> error + int" where
  "FileSize p f =
     (if refused f p then Inl (''open '' @ p)
      else case entries f p of
        None \<Rightarrow> Inl (''open '' @ p)
      | Some (File c) \<Rightarrow> Inr (int (length c))
      | Some Directory \<Rightarrow> Inr 0)"

definition GenerateTmpFile :: "string \<Rightarrow> string \<Rightarrow> string \<Rightarrow> string \<Rightarrow> string" where
  "GenerateTmpFile stamp path name extension = sprintf ''%s/%s_job_%s.%s'' [path, name, stamp, extension]"

definition GenerateLogDir :: "string \<Rightarrow> string \<Rightarrow> string" where
  "GenerateLogDir sandboxLogDir sandboxID =
     (if sandboxLogDir \<noteq> [] then sandboxLogDir else ''/var/log/pods/'' @ sandboxID)"

text \<open>
  \<open>copyLocalFile\<close>: the source is opened, then the destination truncated, then the
  bytes copied; copying a file onto itself empties it.
\<close>

definition copyLocalFile :: "string \<Rightarrow> string \<Rightarrow> fs \<Rightarrow> error option \<times> fs" where
  "copyLocalFile destiny source f =
     (case os_Open source f of
        Some e \<Rightarrow> (Some e, f)
      | None \<Rightarrow> (case os_OpenCreate True destiny f of
          (Some e, f) \<Rightarrow> (Some e, f)
        | (None, f) \<Rightarrow> io_Copy destiny source f))"

text \<open>
  Downloading: \<open>http.Get\<close> answers with the bytes of the body; \<open>gzip.NewReader\<close> refuses bytes
  that have no gzip header, else reads some bytes and then ends well or with an error.
\<close>

record 'w httplib =
  http_Get :: "string \<Rightarrow> 'w \<Rightarrow> (error + string) \<times> 'w"
  gzip_NewReader :: "string \<Rightarrow> error + (string \<times> error option)"

text \<open>
  The error of \<open>NewReader\<close> is overwritten before it is looked at; copying from the nil reader it
  came with crashes.
\<close>

definition downloadAndUncompressFile :: "'w httplib \<Rightarrow> path \<Rightarrow> string \<Rightarrow> fs \<Rightarrow> 'w \<Rightarrow> (error option \<times> fs \<times> 'w) option" where
  "downloadAndUncompressFile D destiny source f w =
     (case os_OpenCreate True destiny f of
        (Some e, f) \<Rightarrow> Some (Some e, f, w)
      | (None, f) \<Rightarrow> (case http_Get D source w of
          (Inl e, w) \<Rightarrow> Some (Some e, f, w)
        | (Inr body, w) \<Rightarrow> (case gzip_NewReader D body of
            Inl e \<Rightarrow> None
          | Inr (d, err) \<Rightarrow> (case (if d = [] then (None, f) else os_Append destiny d f) of
              (Some e, f) \<Rightarrow> Some (Some e, f, w)
            | (None, f) \<Rightarrow> Some (err, f, w)))))"

section \<open>Lemmas\<close>

lemma entries_RemoveAll:
  "os_RemoveAll p f = (None, f') \<Longrightarrow> entries f' q = (if beneath p q then None else entries f q)"
  by (auto simp: os_RemoveAll_def split: if_splits)

lemma ancestors_scan_self: "rev acc @ s \<noteq> [] \<Longrightarrow> rev acc @ s \<in> set (ancestors_scan acc s)"
proof (induction acc s rule: ancestors_scan.induct)
  case (1 acc)
  then show ?case by simp
next
  case (2 acc c s)
  then show ?case by (cases "c = CHR ''/'' \<and> acc \<noteq> []") auto
qed

lemma ancestors_self [simp]: "p \<noteq> [] \<Longrightarrow> p \<in> set (ancestors p)"
  unfolding ancestors_def using ancestors_scan_self [of "[]" p] by simp

lemma MkdirAll_entry:
  "os_MkdirAll p f = (None, f') \<Longrightarrow> q \<in> set (ancestors p) \<Longrightarrow> entries f' q = Some Directory"
  by (auto simp: os_MkdirAll_def split: if_splits)

lemma MkdirAll_frame:
  "os_MkdirAll p f = (e, f') \<Longrightarrow> q \<notin> set (ancestors p) \<Longrightarrow> entries f' q = entries f q"
  by (auto simp: os_MkdirAll_def split: if_splits)

lemma OpenCreate_Append:
  assumes "os_OpenCreate t p f = (None, f1)" and "os_Append p d f1 = (None, f2)"
  shows "file_content f2 p =
    Some ((if t then [] else (case file_content f p of None \<Rightarrow> [] | Some c \<Rightarrow> c)) @ d)"
  using assms by (auto simp: os_OpenCreate_def os_Append_def file_content_def
      split: if_splits option.splits entry.splits)

lemma copy_content:
  assumes "copyLocalFile dst src f = (None, f')" and "dst \<noteq> src"
  shows "file_content f' dst = file_content f src"
  using assms
  by (auto simp: copyLocalFile_def os_Open_def io_Copy_def os_OpenCreate_def os_Append_def file_content_def
      split: if_splits option.splits entry.splits sum.splits)

lemma copy_self:
  assumes "copyLocalFile p p f = (None, f')"
  shows "file_content f' p = Some []"
  using assms
  by (auto simp: copyLocalFile_def os_Open_def io_Copy_def os_OpenCreate_def os_Append_def file_content_def
      split: if_splits option.splits entry.splits sum.splits)

text \<open>A download that returns without an error leaves the uncompressed bytes.\<close>

lemma download_content:
  assumes "downloadAndUncompressFile D p u f w = Some (None, f', w')"
  obtains body d where "fst (http_Get D u w) = Inr body" "gzip_NewReader D body = Inr (d, None)"
    "file_content f' p = Some d"
  using assms
  by (fastforce simp: downloadAndUncompressFile_def os_OpenCreate_def os_Append_def file_content_def
      split: if_splits option.splits entry.splits sum.splits prod.splits)

text \<open>A body that is not compressed crashes the download, after the destination was truncated.\<close>

lemma download_crashes:
  "downloadAndUncompressFile D p u f w = None \<longleftrightarrow>
     fst (os_OpenCreate True p f) = None \<and> (\<exists>body e. fst (http_Get D u w) = Inr body \<and> gzip_NewReader D body = Inl e)"
  by (auto simp: downloadAndUncompressFile_def split: prod.splits option.splits sum.splits)

lemma CheckFileExist_MkdirAll:
  "p \<noteq> [] \<Longrightarrow> EnsurePathExist p f = (None, f') \<Longrightarrow> CheckFileExist p f'"
  by (auto simp: EnsurePathExist_def CreatePathDirectory_def CheckFileExist_def os_Stat_def
      os_MkdirAll_def split: if_splits option.splits)

end
