(* ===== verification/Metadata.thy ===== *)
theory Metadata
  imports Go_OS
begin

text \<open>
  The data of the service: the metadata records of \<open>pkg/cri/store/metadata.go\<close>, the
  fields of the Kubernetes CRI messages that the sources read or write, and the state all
  components share.

  Message types are generated code outside the repository; a record here holds the fields
  the sources use.  A message pointer that the sources dereference is an option.
  \<open>SandboxMetadata.id\<close>, an unexported field nothing reads, is left out.
\<close>

section \<open>CRI enumerations\<close>

datatype ContainerState = CONTAINER_CREATED | CONTAINER_RUNNING | CONTAINER_EXITED | CONTAINER_UNKNOWN

datatype PodSandboxState = SANDBOX_READY | SANDBOX_NOTREADY

datatype NamespaceMode = NamespaceMode_POD | NamespaceMode_CONTAINER | NamespaceMode_NODE

text \<open>
  The wire numbers of the states.  A list filter carries a number from the wire, which
  need not be one of the named states.
\<close>

fun container_state_num :: "ContainerState \<Rightarrow> int" where
  "container_state_num CONTAINER_CREATED = 0"
| "container_state_num CONTAINER_RUNNING = 1"
| "container_state_num CONTAINER_EXITED = 2"
| "container_state_num CONTAINER_UNKNOWN = 3"

fun sandbox_state_num :: "PodSandboxState \<Rightarrow> int" where
  "sandbox_state_num SANDBOX_READY = 0"
| "sandbox_state_num SANDBOX_NOTREADY = 1"

lemma container_state_num_inj: "container_state_num a = container_state_num b \<longleftrightarrow> a = b"
  by (cases a; cases b) auto

lemma sandbox_state_num_inj: "sandbox_state_num a = sandbox_state_num b \<longleftrightarrow> a = b"
  by (cases a; cases b) auto

text \<open>Go compares enumeration values as integers; this is that order.\<close>

instantiation ContainerState :: linorder
begin

definition less_eq_ContainerState :: "ContainerState \<Rightarrow> ContainerState \<Rightarrow> bool" where
  "less_eq_ContainerState a b \<longleftrightarrow> container_state_num a \<le> container_state_num b"

definition less_ContainerState :: "ContainerState \<Rightarrow> ContainerState \<Rightarrow> bool" where
  "less_ContainerState a b \<longleftrightarrow> container_state_num a < container_state_num b"

instance
proof
  fix x y z :: ContainerState
  show "x < y \<longleftrightarrow> x \<le> y \<and> \<not> y \<le> x"
    by (auto simp: less_eq_ContainerState_def less_ContainerState_def)
  show "x \<le> x" by (simp add: less_eq_ContainerState_def)
  show "x \<le> y \<Longrightarrow> y \<le> z \<Longrightarrow> x \<le> z" by (simp add: less_eq_ContainerState_def)
  show "x \<le> y \<Longrightarrow> y \<le> x \<Longrightarrow> x = y"
    unfolding less_eq_ContainerState_def by (rule iffD1 [OF container_state_num_inj]) (rule antisym)
  show "x \<le> y \<or> y \<le> x" by (auto simp: less_eq_ContainerState_def)
qed

end

section \<open>CRI messages\<close>

record PodSandboxMetadata =
  pm_Name :: string
  pm_Uid :: string
  pm_Namespace :: string

record DNSConfig =
  dns_Servers :: "string list"
  dns_Searches :: "string list"
  dns_Options :: "string list"

record PortMapping =
  pmap_Protocol :: string
  pmap_ContainerPort :: int
  pmap_HostPort :: int
  pmap_HostIp :: string

record LinuxPodSandboxConfig =
  lx_CgroupParent :: string
  lx_Network :: NamespaceMode

record PodSandboxConfig =
  pc_Metadata :: "PodSandboxMetadata option"
  pc_LogDirectory :: string
  pc_DnsConfig :: "DNSConfig option"
  pc_PortMappings :: "PortMapping list"
  pc_Labels :: "string gomap"
  pc_Annotations :: "string gomap"
  pc_Linux :: "LinuxPodSandboxConfig option"

record Mount =
  mt_ContainerPath :: string
  mt_HostPath :: string

record ContainerConfig =
  cc_Metadata :: "string option"
  cc_Image :: "string option"
  cc_Command :: "string list"
  cc_Args :: "string list"
  cc_Envs :: "(string \<times> string) list"
  cc_Mounts :: "Mount list"
  cc_Labels :: "string gomap"
  cc_Annotations :: "string gomap"

record AuthConfig =
  au_Username :: string
  au_Password :: string
  au_ServerAddress :: string
  au_IdentityToken :: string
  au_RegistryToken :: string

text \<open>The generated getters are nil-safe: on a nil message they return zero values.\<close>

definition get_pod_name :: "PodSandboxConfig \<Rightarrow> string" where
  "get_pod_name c = (case pc_Metadata c of None \<Rightarrow> [] | Some m \<Rightarrow> pm_Name m)"

definition get_pod_namespace :: "PodSandboxConfig \<Rightarrow> string" where
  "get_pod_namespace c = (case pc_Metadata c of None \<Rightarrow> [] | Some m \<Rightarrow> pm_Namespace m)"

definition get_pod_network :: "PodSandboxConfig \<Rightarrow> NamespaceMode" where
  "get_pod_network c = (case pc_Linux c of None \<Rightarrow> NamespaceMode_POD | Some l \<Rightarrow> lx_Network l)"

section \<open>metadata.go\<close>

datatype RepoType = SingularityRepositoryImageRepo | DockerRepositoryImageRepo | LocalImageRepo
  | LocalDefinitionFile | UnknownImageRepo

record SandboxMetadata =
  s_ID :: string
  s_State :: PodSandboxState
  s_Containers :: "string list"
  s_Config :: PodSandboxConfig
  s_LogPath :: string
  s_NetNSPath :: string
  s_CreatedAt :: int
  s_CgroupsParent :: string
  s_IP :: string
  s_VolumePath :: string
  s_RuntimeHandler :: string

record ImageMetadata =
  i_ID :: string
  i_ImageName :: string
  i_LocalPath :: string
  i_RemotePath :: string
  i_RepoTags :: "string list"
  i_RepoDigest :: "string list"
  i_Size :: "64 word"
  i_PodSandbox :: SandboxMetadata
  i_RepoType :: RepoType
  i_Auth :: AuthConfig

record ContainerMetadata =
  c_ID :: string
  c_Name :: string
  c_State :: ContainerState
  c_PodSandbox :: SandboxMetadata
  c_Config :: ContainerConfig
  c_Image :: "ptr option"
  c_Command :: "string list"
  c_Args :: "string list"
  c_CreatedAt :: int
  c_StartedAt :: int
  c_FinishedAt :: int
  c_IsService :: bool
  c_Environment :: "string gomap"
  c_Mounts :: "Mount list"
  c_Reason :: string
  c_ExitCode :: int
  c_Port :: int
  c_Pid :: int
  c_LogFile :: string
  c_Extra :: "string gomap"

text \<open>Go's zero values.\<close>

definition zero_pod_config :: PodSandboxConfig where
  "zero_pod_config = \<lparr>pc_Metadata = None, pc_LogDirectory = [], pc_DnsConfig = None,
     pc_PortMappings = [], pc_Labels = [], pc_Annotations = [], pc_Linux = None\<rparr>"

definition zero_sandbox :: SandboxMetadata where
  "zero_sandbox = \<lparr>s_ID = [], s_State = SANDBOX_READY, s_Containers = [], s_Config = zero_pod_config,
     s_LogPath = [], s_NetNSPath = [], s_CreatedAt = 0, s_CgroupsParent = [], s_IP = [],
     s_VolumePath = [], s_RuntimeHandler = []\<rparr>"

definition zero_auth :: AuthConfig where
  "zero_auth = \<lparr>au_Username = [], au_Password = [], au_ServerAddress = [], au_IdentityToken = [],
     au_RegistryToken = []\<rparr>"

definition zero_image :: ImageMetadata where
  "zero_image = \<lparr>i_ID = [], i_ImageName = [], i_LocalPath = [], i_RemotePath = [], i_RepoTags = [],
     i_RepoDigest = [], i_Size = 0, i_PodSandbox = zero_sandbox,
     i_RepoType = SingularityRepositoryImageRepo, i_Auth = zero_auth\<rparr>"

definition zero_container_config :: ContainerConfig where
  "zero_container_config = \<lparr>cc_Metadata = None, cc_Image = None, cc_Command = [], cc_Args = [],
     cc_Envs = [], cc_Mounts = [], cc_Labels = [], cc_Annotations = []\<rparr>"

definition zero_container :: ContainerMetadata where
  "zero_container = \<lparr>c_ID = [], c_Name = [], c_State = CONTAINER_CREATED, c_PodSandbox = zero_sandbox,
     c_Config = zero_container_config, c_Image = None, c_Command = [], c_Args = [], c_CreatedAt = 0,
     c_StartedAt = 0, c_FinishedAt = 0, c_IsService = False, c_Environment = [], c_Mounts = [],
     c_Reason = [], c_ExitCode = 0, c_Port = 0, c_Pid = 0, c_LogFile = [], c_Extra = []\<rparr>"

section \<open>The state of the service\<close>

text \<open>
  The key-value store behind the persistence files is a third-party package
  (\<open>github.com/jorgesece/skv\<close>): its operations are parameters acting on the outside
  world \<open>'w\<close>.  \<open>Get\<close> decodes a record onto the object it is given, whose old value it takes:
  decoding leaves fields that the record does not carry as they were.
\<close>

record ('v, 'w) KVStore =
  kv_Put :: "string \<Rightarrow> 'v \<Rightarrow> 'w \<Rightarrow> error option \<times> 'w"
  kv_Get :: "string \<Rightarrow> 'v \<Rightarrow> 'w \<Rightarrow> error option \<times> 'v"
  kv_Delete :: "string \<Rightarrow> 'w \<Rightarrow> error option \<times> 'w"
  kv_List :: "'w \<Rightarrow> (string \<times> 'v) list \<times> error option"
  kv_Close :: "'w \<Rightarrow> error option \<times> 'w"

text \<open>
  Gob encoding follows pointers, so a stored container carries the value of its image.
\<close>

type_synonym stored_container = "ContainerMetadata \<times> ImageMetadata option"

text \<open>
  \<open>sbxs\<close>, \<open>ctrs\<close> and \<open>imgs\<close> are the objects; the pools are the stores' maps from
  IDs to pointers; \<open>files\<close> is the local file system; \<open>world\<close> is everything else:
  the cluster, remote runtimes, network, clock and database files.
\<close>

record 'w mstate =
  sbxs :: "SandboxMetadata heap"
  ctrs :: "ContainerMetadata heap"
  imgs :: "ImageMetadata heap"
  SandboxPool :: "ptr gomap"
  ContainerPool :: "ptr gomap"
  ImagePool :: "ptr gomap"
  sandbox_persist :: "(SandboxMetadata, 'w) KVStore option"
  container_persist :: "(stored_container, 'w) KVStore option"
  image_persist :: "(ImageMetadata, 'w) KVStore option"
  basePath :: string
  files :: fs
  world :: 'w

text \<open>
  Sources of nondeterminism outside the repository: \<open>uuid.Generate().String()\<close>, the
  clock in nanoseconds since the epoch, and the clock formatted as \<open>20060102150405\<close>.
\<close>

record 'w golib =
  uuid_Generate :: "'w \<Rightarrow> string \<times> 'w"
  time_Now :: "'w \<Rightarrow> int \<times> 'w"
  time_Stamp :: "'w \<Rightarrow> string \<times> 'w"

text \<open>Drop the dashes of a generated UUID, as every store does.\<close>

definition new_uuid :: "'w golib \<Rightarrow> 'w mstate \<Rightarrow> string \<times> 'w mstate" where
  "new_uuid L s = (let (u, w) = uuid_Generate L (world s)
     in (ReplaceAll u ''-'' [], s\<lparr>world := w\<rparr>))"

definition now :: "'w golib \<Rightarrow> 'w mstate \<Rightarrow> int \<times> 'w mstate" where
  "now L s = (let (t, w) = time_Now L (world s) in (t, s\<lparr>world := w\<rparr>))"

section \<open>Well-formed pools\<close>

text \<open>
  Every entry of a pool points to an allocated object that carries the entry's key as its
  ID, keys are unique, and the allocator has not run over live objects.
\<close>

definition pool_wf :: "('o \<Rightarrow> string) \<Rightarrow> 'o heap \<Rightarrow> ptr gomap \<Rightarrow> bool" where
  "pool_wf idof h m \<longleftrightarrow> mwf m \<and> heap_wf h \<and>
     (\<forall>k p. (k, p) \<in> set m \<longrightarrow> (\<exists>ob. cells h p = Some ob \<and> idof ob = k))"

lemma pool_wf_empty [simp]: "pool_wf idof empty_heap []"
  by (simp add: pool_wf_def)

lemma pool_wfD: "pool_wf idof h m \<Longrightarrow> mget m k = Some p \<Longrightarrow> \<exists>ob. cells h p = Some ob \<and> idof ob = k"
  unfolding pool_wf_def by (blast dest: mget_in_set)

lemma pool_wf_put [wf_intros]:
  "pool_wf idof h m \<Longrightarrow> cells h p = Some ob \<Longrightarrow> pool_wf idof h (mset_key (idof ob) p m)"
  unfolding pool_wf_def using set_update_subset [of "idof ob" p m] by auto

lemma pool_wf_del [wf_intros]: "pool_wf idof h m \<Longrightarrow> pool_wf idof h (mdel k m)"
  unfolding pool_wf_def using set_delete_subset [of k m] by auto

lemma pool_wf_assign [wf_intros]:
  "pool_wf idof h m \<Longrightarrow> cells h p = Some ob \<Longrightarrow> idof ob' = idof ob \<Longrightarrow> pool_wf idof (assign p ob' h) m"
  unfolding pool_wf_def by (force intro: heap_wf_assign)

lemma pool_wf_alloc [wf_intros]:
  "pool_wf idof h m \<Longrightarrow> pool_wf idof (snd (alloc v h)) m"
  unfolding pool_wf_def using heap_wf_fresh [of h] heap_wf_alloc [of h v]
  by (force simp: alloc_def)

lemma pool_wf_mset: "mset m = mset m' \<Longrightarrow> pool_wf idof h m \<Longrightarrow> pool_wf idof h m'"
  unfolding pool_wf_def using mwf_mset by (metis set_mset_mset)

definition state_wf :: "'w mstate \<Rightarrow> bool" where
  "state_wf s \<longleftrightarrow> pool_wf s_ID (sbxs s) (SandboxPool s) \<and> pool_wf c_ID (ctrs s) (ContainerPool s)
     \<and> pool_wf i_ID (imgs s) (ImagePool s)"

section \<open>The interface of a store\<close>

text \<open>
  What the runtime relies on in all three stores: writing an object files its pointer under
  its ID, removing an ID forgets it, and neither touches the objects themselves.
\<close>

locale keyed_store =
  fixes pool :: "'s \<Rightarrow> ptr gomap"
    and hp :: "'s \<Rightarrow> 'o heap"
    and idof :: "'o \<Rightarrow> string"
    and put :: "ptr \<Rightarrow> 's \<Rightarrow> 's option"
    and rem :: "string \<Rightarrow> 's \<Rightarrow> 's"
  assumes put_defined: "cells (hp s) p = Some ob \<Longrightarrow> \<exists>s'. put p s = Some s'"
    and put_pool: "put p s = Some s' \<Longrightarrow> cells (hp s) p = Some ob \<Longrightarrow>
      pool s' = mset_key (idof ob) p (pool s)"
    and put_heap: "put p s = Some s' \<Longrightarrow> hp s' = hp s"
    and put_nil: "cells (hp s) p = None \<Longrightarrow> put p s = None"
    and rem_pool: "pool (rem k s) = mdel k (pool s)"
    and rem_heap: "hp (rem k s) = hp s"
begin

lemma put_lookup:
  "put p s = Some s' \<Longrightarrow> cells (hp s) p = Some ob \<Longrightarrow>
   mget (pool s') k = (if k = idof ob then Some p else mget (pool s) k)"
  by (simp add: put_pool mget_update)

lemma rem_lookup: "mget (pool (rem k s)) j = (if j = k then None else mget (pool s) j)"
  by (simp add: rem_pool mget_delete)

lemma put_object: "put p s = Some s' \<Longrightarrow> \<exists>ob. cells (hp s) p = Some ob"
  using put_nil by (cases "cells (hp s) p") auto

lemma put_wf: "put p s = Some s' \<Longrightarrow> pool_wf idof (hp s) (pool s) \<Longrightarrow> pool_wf idof (hp s') (pool s')"
  using put_object [of p s s'] by (auto simp: put_heap put_pool intro: pool_wf_put)

lemma rem_wf: "pool_wf idof (hp s) (pool s) \<Longrightarrow> pool_wf idof (hp (rem k s)) (pool (rem k s))"
  by (simp add: rem_heap rem_pool pool_wf_del)

lemma rem_put_fresh:
  assumes "put p s = Some s'" and "cells (hp s) p = Some ob" and "mget (pool s) (idof ob) = None"
  shows "mget (pool (rem (idof ob) s')) k = mget (pool s) k"
  using assms by (simp add: rem_lookup put_lookup)

end

text \<open>A store with an exact lookup.\<close>

locale lookup_store = keyed_store +
  fixes get :: "string \<Rightarrow> 's \<Rightarrow> ptr option \<times> error option"
  assumes get_hit: "mget (pool s) k = Some p \<Longrightarrow> get k s = (Some p, None)"
    and get_miss: "mget (pool s) k = None \<Longrightarrow> \<exists>e. get k s = (None, Some e)"
begin

lemma get_put: "put p s = Some s' \<Longrightarrow> cells (hp s) p = Some ob \<Longrightarrow> get (idof ob) s' = (Some p, None)"
  by (simp add: get_hit put_lookup)

lemma get_rem: "\<exists>e. get k (rem k s) = (None, Some e)"
  by (rule get_miss) (simp add: rem_lookup)

lemma get_cases: obtains p where "get k s = (Some p, None)" "mget (pool s) k = Some p"
  | e where "get k s = (None, Some e)" "mget (pool s) k = None"
  using get_hit get_miss by (cases "mget (pool s) k") blast+

lemma get_wf: "pool_wf idof (hp s) (pool s) \<Longrightarrow> get k s = (Some p, x) \<Longrightarrow>
    \<exists>ob. cells (hp s) p = Some ob \<and> idof ob = k"
  by (rule get_cases [of k s]) (auto dest: pool_wfD)

end

end
