(* ===== verification/Network.thy ===== *)
theory Network
  imports Metadata
begin

text \<open>
  \<open>pkg/cri/network\<close>: network namespaces (\<open>netns.go\<close>) and the forwarding rules of the
  pod network (\<open>iptables.go\<close>).  The CNI namespace package, the unmount system call and
  the \<open>iptables\<close> program are parameters acting on the outside world.
\<close>

section \<open>External operations\<close>

text \<open>A \<open>cnins.NetNS\<close> handle is represented by the path it reports.\<close>

record 'w nslib =
  cnins_GetNS :: "string \<Rightarrow> 'w \<Rightarrow> (error + string) \<times> 'w"
  cnins_NewNS :: "'w \<Rightarrow> (error + string) \<times> 'w"
  cnins_Close :: "string \<Rightarrow> 'w \<Rightarrow> error option \<times> 'w"
  unix_Unmount :: "string \<Rightarrow> 'w \<Rightarrow> error option \<times> 'w"

text \<open>Running a program: its output and whether it exited without error.\<close>

record 'w execlib =
  exec_Run :: "string list \<Rightarrow> 'w \<Rightarrow> (string \<times> bool) \<times> 'w"

section \<open>netns.go\<close>

record NetNS =
  ns :: "string option"
  closed :: bool

definition new_NetNS :: NetNS where
  "new_NetNS = \<lparr>ns = None, closed = False\<rparr>"

definition NetNS_openNetNS :: "'w nslib \<Rightarrow> string \<Rightarrow> NetNS \<Rightarrow> 'w mstate \<Rightarrow> error option \<times> NetNS \<times> 'w mstate" where
  "NetNS_openNetNS N path n s =
     (case cnins_GetNS N path (world s) of
        (Inl e, w) \<Rightarrow> (Some (sprintf ''failed to setup network namespace %v'' [e]), n, s\<lparr>world := w\<rparr>)
      | (Inr h, w) \<Rightarrow> (None, n\<lparr>ns := Some h\<rparr>, s\<lparr>world := w\<rparr>))"

definition NetNS_newNetNS :: "'w nslib \<Rightarrow> NetNS \<Rightarrow> 'w mstate \<Rightarrow> error option \<times> NetNS \<times> 'w mstate" where
  "NetNS_newNetNS N n s =
     (case cnins_NewNS N (world s) of
        (Inl e, w) \<Rightarrow> (Some (sprintf ''failed to setup network namespace %v'' [e]), n, s\<lparr>world := w\<rparr>)
      | (Inr h, w) \<Rightarrow> (None, n\<lparr>ns := Some h\<rparr>, s\<lparr>world := w\<rparr>))"

definition NetNS_CreateNetNS :: "'w nslib \<Rightarrow> string \<Rightarrow> NetNS \<Rightarrow> 'w mstate \<Rightarrow> error option \<times> NetNS \<times> 'w mstate" where
  "NetNS_CreateNetNS N path n s =
     (if path = [] then NetNS_newNetNS N n s
      else case NetNS_openNetNS N path n s of
        (Some e, n, s) \<Rightarrow> NetNS_newNetNS N n s
      | (None, n, s) \<Rightarrow> (None, n, s))"

text \<open>
  \<open>OpenNetNamespace\<close> drops the error of \<open>CreateNetNS\<close>: the namespace it returns may
  hold no handle, and the returned error is always nil.
\<close>

definition CNINetwork_OpenNetNamespace ::
    "'w nslib \<Rightarrow> string \<Rightarrow> 'w mstate \<Rightarrow> (NetNS \<times> error option) \<times> 'w mstate" where
  "CNINetwork_OpenNetNamespace N path s =
     (let (err, n, s) = NetNS_CreateNetNS N path new_NetNS s in ((n, None), s))"

text \<open>A namespace without a handle makes \<open>GetPath\<close> and \<open>Remove\<close> dereference nil.\<close>

definition NetNS_GetPath :: "NetNS \<Rightarrow> string option" where
  "NetNS_GetPath n = ns n"

definition NetNS_ensureNSDelete :: "'w nslib \<Rightarrow> string \<Rightarrow> 'w mstate \<Rightarrow> error option \<times> 'w mstate" where
  "NetNS_ensureNSDelete N path s =
     (if os_Stat path (files s) = StatOK then
        (case unix_Unmount N path (world s) of
           (Some e, w) \<Rightarrow> (Some (sprintf ''Failed to unmount namespace %s: %v'' [path, e]), s\<lparr>world := w\<rparr>)
         | (None, w) \<Rightarrow> (case os_RemoveAll path (files s) of
             (Some e, f) \<Rightarrow> (Some (sprintf ''Failed to clean up namespace %s: %v'' [path, e]),
                s\<lparr>world := w, files := f\<rparr>)
           | (None, f) \<Rightarrow> (None, s\<lparr>world := w, files := f\<rparr>)))
      else (None, s))"

definition NetNS_Remove :: "'w nslib \<Rightarrow> NetNS \<Rightarrow> 'w mstate \<Rightarrow> (error option \<times> NetNS \<times> 'w mstate) option" where
  "NetNS_Remove N n s =
     (if closed n then Some (None, n, s)
      else do {
        h \<leftarrow> ns n;
        Some (case cnins_Close N h (world s) of
            (Some e, w) \<Rightarrow> (Some e, n, s\<lparr>world := w\<rparr>)
          | (None, w) \<Rightarrow> (case NetNS_ensureNSDelete N h (s\<lparr>world := w\<rparr>) of
              (Some e, s) \<Rightarrow> (Some e, n, s)
            | (None, s) \<Rightarrow> (None, n\<lparr>closed := True\<rparr>, s)))
      })"

subsection \<open>Lemmas\<close>

definition same_stores :: "'w mstate \<Rightarrow> 'w mstate \<Rightarrow> bool" where
  "same_stores s t \<longleftrightarrow> sbxs t = sbxs s \<and> ctrs t = ctrs s \<and> imgs t = imgs s
     \<and> SandboxPool t = SandboxPool s \<and> ContainerPool t = ContainerPool s \<and> ImagePool t = ImagePool s
     \<and> sandbox_persist t = sandbox_persist s \<and> container_persist t = container_persist s
     \<and> image_persist t = image_persist s \<and> basePath t = basePath s"

lemma same_stores_refl [simp]: "same_stores s s"
  by (simp add: same_stores_def)

lemma same_stores_trans: "same_stores s t \<Longrightarrow> same_stores t u \<Longrightarrow> same_stores s u"
  by (simp add: same_stores_def)

lemma same_stores_world [simp]: "same_stores s (s\<lparr>world := w\<rparr>)" "same_stores s (s\<lparr>files := f\<rparr>)"
  "same_stores s (s\<lparr>files := f, world := w\<rparr>)" "same_stores s (s\<lparr>world := w, files := f\<rparr>)"
  by (simp_all add: same_stores_def)

lemma same_stores_wf: "same_stores s t \<Longrightarrow> state_wf s \<Longrightarrow> state_wf t"
  by (simp add: same_stores_def state_wf_def)

lemma openNetNS_frame: "NetNS_openNetNS N p n s = (e, n', s') \<Longrightarrow> same_stores s s' \<and> closed n' = closed n"
  by (auto simp: NetNS_openNetNS_def split: prod.splits sum.splits)

lemma newNetNS_frame: "NetNS_newNetNS N n s = (e, n', s') \<Longrightarrow> same_stores s s' \<and> closed n' = closed n"
  by (auto simp: NetNS_newNetNS_def split: prod.splits sum.splits)

lemma CreateNetNS_frame: "NetNS_CreateNetNS N p n s = (e, n', s') \<Longrightarrow> same_stores s s' \<and> closed n' = closed n"
  by (fastforce simp: NetNS_CreateNetNS_def split: if_splits prod.splits option.splits
      dest: newNetNS_frame openNetNS_frame intro: same_stores_trans)

lemma OpenNetNamespace_frame:
  "CNINetwork_OpenNetNamespace N p s = ((n, e), s') \<Longrightarrow> same_stores s s' \<and> e = None \<and> \<not> closed n"
  by (auto simp: CNINetwork_OpenNetNamespace_def new_NetNS_def split: prod.splits dest: CreateNetNS_frame)

lemma ensureNSDelete_frame: "NetNS_ensureNSDelete N p s = (e, s') \<Longrightarrow> same_stores s s'"
  by (auto simp: NetNS_ensureNSDelete_def split: if_splits prod.splits option.splits)

lemma Remove_frame:
  assumes "NetNS_Remove N n s = Some (e, n', s')"
  shows "same_stores s s'"
proof (cases "closed n")
  case True
  with assms show ?thesis by (simp add: NetNS_Remove_def)
next
  case False
  with assms obtain h where h: "ns n = Some h"
    by (cases "ns n") (simp_all add: NetNS_Remove_def)
  obtain e1 w where c: "cnins_Close N h (world s) = (e1, w)" by (metis prod.exhaust)
  obtain e2 t where d: "NetNS_ensureNSDelete N h (s\<lparr>world := w\<rparr>) = (e2, t)"
    by (metis prod.exhaust)
  have "same_stores s t"
    by (rule same_stores_trans [OF same_stores_world(1) ensureNSDelete_frame [OF d]])
  with assms False h c d show ?thesis
    by (cases e1; cases e2) (auto simp: NetNS_Remove_def)
qed

section \<open>iptables.go\<close>

definition generateIPTablesCommand :: "string \<Rightarrow> string list \<Rightarrow> string list" where
  "generateIPTablesCommand action args = [''iptables'', action] @ args"

definition addIPTableTarget :: "'w execlib \<Rightarrow> string \<Rightarrow> 'w \<Rightarrow> error option \<times> 'w" where
  "addIPTableTarget X targetDef w =
     (case exec_Run X (generateIPTablesCommand ''-N'' [targetDef]) w of
        ((out, ok), w) \<Rightarrow>
          if ok then (None, w)
          else if Contains out ''Chain already exists'' then (None, w)
          else (Some (sprintf ''Error when creating iptable target %v'' [targetDef]), w))"

definition checkIPTableRule :: "'w execlib \<Rightarrow> string list \<Rightarrow> 'w \<Rightarrow> bool \<times> 'w" where
  "checkIPTableRule X rule w =
     (case exec_Run X (generateIPTablesCommand ''-C'' rule) w of ((out, ok), w) \<Rightarrow> (ok, w))"

definition createIPTableRule :: "'w execlib \<Rightarrow> string list \<Rightarrow> 'w \<Rightarrow> error option \<times> 'w" where
  "createIPTableRule X rule w =
     (case exec_Run X (generateIPTablesCommand ''-A'' rule) w of
        ((out, ok), w) \<Rightarrow>
          (if ok then None else Some (sprintf ''Error when creating iptable rule [%v]''
             [Join (generateIPTablesCommand ''-A'' rule) '' '']), w))"

definition deleteIPTableRule :: "'w execlib \<Rightarrow> string list \<Rightarrow> 'w \<Rightarrow> error option \<times> 'w" where
  "deleteIPTableRule X rule w =
     (case exec_Run X (generateIPTablesCommand ''-D'' rule) w of
        ((out, ok), w) \<Rightarrow>
          (if ok then None else Some (sprintf ''Error when deleting iptable rule [%v]''
             [Join (generateIPTablesCommand ''-D'' rule) '' '']), w))"

definition ensureIPTableRuleExists :: "'w execlib \<Rightarrow> string list \<Rightarrow> 'w \<Rightarrow> error option \<times> 'w" where
  "ensureIPTableRuleExists X rule w =
     (case checkIPTableRule X rule w of
        (itExists, w) \<Rightarrow> if \<not> itExists then createIPTableRule X rule w else (None, w))"

definition cni_rules :: "string \<Rightarrow> string list list" where
  "cni_rules netInterface =
     [[''FORWARD'', ''-o'', netInterface, ''-m'', ''conntrack'', ''--ctstate'', ''RELATED,ESTABLISHED'', ''-j'', ''ACCEPT''],
      [''FORWARD'', ''-o'', netInterface, ''-j'', ''CNI''],
      [''FORWARD'', ''-i'', netInterface, ''!'', ''-o'', ''cni0'', ''-j'', ''ACCEPT''],
      [''FORWARD'', ''-i'', netInterface, ''-o'', ''cni0'', ''-j'', ''ACCEPT'']]"

text \<open>The four calls for the four rules, each followed by its error check.\<close>

fun ensure_rules :: "'w execlib \<Rightarrow> string list list \<Rightarrow> 'w \<Rightarrow> error option \<times> 'w" where
  "ensure_rules X [] w = (None, w)"
| "ensure_rules X (r # rs) w =
     (case ensureIPTableRuleExists X r w of
        (Some e, w) \<Rightarrow> (Some (sprintf ''Error when creating rule [%v]. %v'' [Join r '' '', e]), w)
      | (None, w) \<Rightarrow> ensure_rules X rs w)"

definition EnsureCNIIPTableRules :: "'w execlib \<Rightarrow> string \<Rightarrow> 'w \<Rightarrow> error option \<times> 'w" where
  "EnsureCNIIPTableRules X netInterface w =
     (case addIPTableTarget X ''CNI'' w of
        (Some e, w) \<Rightarrow> (Some (sprintf ''Error when creating target %s. %v'' [''CNI'', e]), w)
      | (None, w) \<Rightarrow> ensure_rules X (cni_rules netInterface) w)"

text \<open>
  The documented behaviour of the \<open>iptables\<close> program the sources rely on: \<open>-C\<close>
  succeeds exactly for a present rule and changes nothing, a successful \<open>-A\<close> appends
  the rule to the chain, a failed one does not, and \<open>-N\<close> adds no rule.
\<close>

definition iptables_behaves :: "'w execlib \<Rightarrow> ('w \<Rightarrow> string list multiset) \<Rightarrow> bool" where
  "iptables_behaves X rules \<longleftrightarrow>
     (\<forall>r w out ok w'. exec_Run X ([''iptables'', ''-C''] @ r) w = ((out, ok), w') \<longrightarrow>
        rules w' = rules w \<and> (ok \<longleftrightarrow> r \<in># rules w)) \<and>
     (\<forall>r w out ok w'. exec_Run X ([''iptables'', ''-A''] @ r) w = ((out, ok), w') \<longrightarrow>
        rules w' = (if ok then add_mset r (rules w) else rules w)) \<and>
     (\<forall>t w out ok w'. exec_Run X [''iptables'', ''-N'', t] w = ((out, ok), w') \<longrightarrow> rules w' = rules w)"

lemma ensure_rule_effect:
  assumes "iptables_behaves X rules" and "ensureIPTableRuleExists X r w = (None, w')"
  shows "rules w' = (if r \<in># rules w then rules w else add_mset r (rules w))"
proof -
  obtain out ok w1 where c: "exec_Run X ([''iptables'', ''-C''] @ r) w = ((out, ok), w1)"
    by (metis prod.exhaust)
  obtain out2 ok2 w2 where a: "exec_Run X ([''iptables'', ''-A''] @ r) w1 = ((out2, ok2), w2)"
    by (metis prod.exhaust)
  have "rules w1 = rules w" "ok \<longleftrightarrow> r \<in># rules w"
    using assms(1) c unfolding iptables_behaves_def by blast+
  moreover have "rules w2 = (if ok2 then add_mset r (rules w1) else rules w1)"
    using assms(1) a unfolding iptables_behaves_def by blast
  ultimately show ?thesis using assms(2) a c
    by (auto simp: ensureIPTableRuleExists_def checkIPTableRule_def createIPTableRule_def
        generateIPTablesCommand_def split: if_splits)
qed

fun add_missing :: "'a list \<Rightarrow> 'a multiset \<Rightarrow> 'a multiset" where
  "add_missing [] M = M"
| "add_missing (r # rs) M = add_missing rs (if r \<in># M then M else add_mset r M)"

lemma ensure_rules_effect:
  "iptables_behaves X rules \<Longrightarrow> ensure_rules X rs w = (None, w') \<Longrightarrow> rules w' = add_missing rs (rules w)"
proof (induction rs arbitrary: w)
  case Nil
  then show ?case by simp
next
  case (Cons r rs)
  from Cons.prems(2) obtain w1 where w1: "ensureIPTableRuleExists X r w = (None, w1)"
    and rest: "ensure_rules X rs w1 = (None, w')"
    by (auto split: prod.splits option.splits)
  from Cons.IH [OF Cons.prems(1) rest] ensure_rule_effect [OF Cons.prems(1) w1]
  show ?case by simp
qed

lemma add_missing_mono: "M \<subseteq># add_missing rs M"
proof (induction rs arbitrary: M)
  case (Cons r rs)
  have "M \<subseteq># (if r \<in># M then M else add_mset r M)" by simp
  with Cons show ?case by (metis add_missing.simps(2) subset_mset.order_trans)
qed simp

lemma add_missing_present: "r \<in> set rs \<Longrightarrow> r \<in># add_missing rs M"
proof (induction rs arbitrary: M)
  case (Cons a rs)
  show ?case
  proof (cases "r = a")
    case True
    then have "r \<in># (if a \<in># M then M else add_mset a M)" by simp
    then show ?thesis using add_missing_mono [of "if a \<in># M then M else add_mset a M" rs]
      by (metis add_missing.simps(2) mset_subset_eqD)
  qed (use Cons in simp)
qed simp

lemma add_missing_idem: "set rs \<subseteq> set_mset M \<Longrightarrow> add_missing rs M = M"
  by (induction rs) auto

lemma add_missing_count: "count (add_missing rs M) r \<le> max 1 (count M r)"
proof (induction rs arbitrary: M)
  case (Cons a rs)
  let ?M = "if a \<in># M then M else add_mset a M"
  have "count ?M r \<le> max 1 (count M r)"
    by (auto simp: not_in_iff)
  then have "max 1 (count ?M r) \<le> max 1 (count M r)" by simp
  with Cons.IH [of ?M] have "count (add_missing rs ?M) r \<le> max 1 (count M r)"
    by (rule order_trans)
  then show ?case by simp
qed simp

lemma Ensure_effect:
  assumes "iptables_behaves X rules" and "EnsureCNIIPTableRules X i w = (None, w')"
  shows "rules w' = add_missing (cni_rules i) (rules w)"
proof -
  obtain out ok w1 where n: "exec_Run X [''iptables'', ''-N'', ''CNI''] w = ((out, ok), w1)"
    by (metis prod.exhaust)
  have "rules w1 = rules w" using assms(1) n unfolding iptables_behaves_def by blast
  moreover have "ensure_rules X (cni_rules i) w1 = (None, w')"
    using assms(2) n by (auto simp: EnsureCNIIPTableRules_def addIPTableTarget_def
        generateIPTablesCommand_def split: if_splits prod.splits option.splits)
  ultimately show ?thesis using ensure_rules_effect [OF assms(1)] by metis
qed

end
