(* ===== verification/Common.thy ===== *)
theory Common
  imports Network
begin

text \<open>
  \<open>pkg/cri/common\<close>: environment variables, dates, escaping, the container loggers and the
  Singularity command line (\<open>common/cmd/singularity.go\<close>), with the image authentication of
  \<open>pkg/cri/auth\<close>.  The process environment is an argument; the log writers of containerd
  append to the log file whatever text the parameter \<open>cri_format\<close> makes of the data.
\<close>

section \<open>constants.go\<close>

definition CRIMulticrikey :: string where "CRIMulticrikey = ''multicri''"
definition CRIProxyAnnotation :: string where "CRIProxyAnnotation = ''kubernetes.io/target-runtime''"
definition DefaultMaxLogLength :: int where "DefaultMaxLogLength = 100"

section \<open>env.go\<close>

definition GetEnv :: "(string \<Rightarrow> string) \<Rightarrow> string \<Rightarrow> string option \<Rightarrow> string option" where
  "GetEnv env name defaultString = (let value = env name in if value = [] then defaultString else Some value)"

definition GetBoolEnv :: "(string \<Rightarrow> string) \<Rightarrow> string \<Rightarrow> bool option \<Rightarrow> bool option" where
  "GetBoolEnv env name defaultString =
     (let value = env name in if value = [] then defaultString else ParseBool value)"

section \<open>parse.go\<close>

text \<open>
  \<open>time.Parse\<close> for the layout \<open>2006-01-02T15:04:05\<close>: four digits of year, two of
  month, day, minute and second, one or two of hour, and after the seconds an optional
  fraction.  The value is in seconds since the epoch.
\<close>

fun take_digits :: "nat \<Rightarrow> string \<Rightarrow> (nat \<times> string) option" where
  "take_digits n s = (if length s < n \<or> \<not> list_all is_digit (take n s) then None
     else Some (digits_val (take n s), drop n s))"

fun take_hour :: "string \<Rightarrow> (nat \<times> string) option" where
  "take_hour (a # b # s) = (if \<not> is_digit a then None else if is_digit b then take_digits 2 (a # b # s)
     else Some (digit_val a, b # s))"
| "take_hour s = take_digits 1 s"

definition expect :: "char \<Rightarrow> string \<Rightarrow> string option" where
  "expect c s = (case s of [] \<Rightarrow> None | d # t \<Rightarrow> if d = c then Some t else None)"

definition drop_fraction :: "string \<Rightarrow> string" where
  "drop_fraction s =
     (case s of c # d # t \<Rightarrow> if c = CHR ''.'' \<and> is_digit d then dropWhile is_digit (d # t) else s | _ \<Rightarrow> s)"

definition leap :: "nat \<Rightarrow> bool" where
  "leap y \<longleftrightarrow> 4 dvd y \<and> (\<not> 100 dvd y \<or> 400 dvd y)"

definition month_days :: "nat \<Rightarrow> nat \<Rightarrow> nat" where
  "month_days y m = (if m = 2 then (if leap y then 29 else 28) else if m \<in> {4, 6, 9, 11} then 30 else 31)"

definition leaps_before :: "nat \<Rightarrow> int" where
  "leaps_before y = (int y + 3) div 4 - (int y + 99) div 100 + (int y + 399) div 400"

definition unix_days :: "nat \<Rightarrow> nat \<Rightarrow> nat \<Rightarrow> int" where
  "unix_days y m d = 365 * (int y - 1970) + (leaps_before y - leaps_before 1970)
     + int (sum_list (map (month_days y) [1..<m])) + int d - 1"

definition time_Parse :: "string \<Rightarrow> int option" where
  "time_Parse s = do {
     (y, s) \<leftarrow> take_digits 4 s; s \<leftarrow> expect CHR ''-'' s;
     (mo, s) \<leftarrow> take_digits 2 s; s \<leftarrow> expect CHR ''-'' s;
     (d, s) \<leftarrow> take_digits 2 s; s \<leftarrow> expect CHR ''T'' s;
     (h, s) \<leftarrow> take_hour s; s \<leftarrow> expect CHR '':'' s;
     (mi, s) \<leftarrow> take_digits 2 s; s \<leftarrow> expect CHR '':'' s;
     (sec, s) \<leftarrow> take_digits 2 s;
     if drop_fraction s \<noteq> [] \<or> mo = 0 \<or> 12 < mo \<or> d = 0 \<or> month_days y mo < d \<or> 24 \<le> h \<or> 60 \<le> mi \<or> 60 \<le> sec
     then None
     else Some (86400 * unix_days y mo d + 3600 * int h + 60 * int mi + int sec)
   }"

definition ParseDate :: "string \<Rightarrow> int" where
  "ParseDate dateString =
     (if dateString \<noteq> ''Unknown'' then 0
      else case time_Parse dateString of None \<Rightarrow> 0 | Some t \<Rightarrow> t)"

definition EscapeSpeciaCharacters :: "string \<Rightarrow> string" where
  "EscapeSpeciaCharacters s = foldl (\<lambda>s c. ReplaceAll s c (backslash @ c)) s [''('', '')'']"

text \<open>One pass over the string does the same.\<close>

lemma EscapeSpeciaCharacters_concat:
  "EscapeSpeciaCharacters s = concat (map (\<lambda>c. if c = CHR ''('' \<or> c = CHR '')'' then backslash @ [c] else [c]) s)"
  unfolding EscapeSpeciaCharacters_def by (induction s) (simp_all add: ReplaceAll_concat)

lemma ParseDate_zero: "ParseDate d = 0"
  by (simp add: ParseDate_def time_Parse_def is_digit_def)

section \<open>logger.go\<close>

datatype Stream = Stdout | Stderr

datatype Logger = FileLogger string Stream int | DiscardLogger

record 'w cilib =
  cri_format :: "Stream \<Rightarrow> int \<Rightarrow> string \<Rightarrow> 'w \<Rightarrow> string \<times> 'w"

text \<open>The writers for standard output and (a nil one with a tty) standard error.\<close>

definition CreateContainerLoggers ::
    "string \<Rightarrow> bool \<Rightarrow> int \<Rightarrow> 'w mstate \<Rightarrow> (error + Logger \<times> Logger option) \<times> 'w mstate" where
  "CreateContainerLoggers logPath tty maxLen s =
     (if logPath \<noteq> [] then
        (let maxLen = (if maxLen = 0 then DefaultMaxLogLength else maxLen)
         in case os_OpenCreate False logPath (files s) of
              (Some e, f) \<Rightarrow> (Inl (sprintf ''failed to create and open log file %v'' [e]), s\<lparr>files := f\<rparr>)
            | (None, f) \<Rightarrow> (Inr (FileLogger logPath Stdout maxLen,
                  if \<not> tty then Some (FileLogger logPath Stderr maxLen) else None), s\<lparr>files := f\<rparr>))
      else (Inr (DiscardLogger, Some DiscardLogger), s))"

fun Logger_Write :: "'w cilib \<Rightarrow> Logger \<Rightarrow> string \<Rightarrow> 'w mstate \<Rightarrow> 'w mstate" where
  "Logger_Write C DiscardLogger d s = s"
| "Logger_Write C (FileLogger p st n) d s =
     (let (line, w) = cri_format C st n d (world s); (e, f) = os_Append p line (files s)
      in s\<lparr>world := w, files := f\<rparr>)"

lemma Loggers_frame [frame_simps]: "CreateContainerLoggers p tty n s = (r, s') \<Longrightarrow> same_stores s s'"
  by (auto simp: CreateContainerLoggers_def Let_def split: if_splits prod.splits option.splits)

lemma Logger_Write_frame [frame_simps]: "same_stores s (Logger_Write C l d s)"
  by (cases l) (auto simp: Let_def split: prod.splits)

lemma Loggers_no_tty:
  "CreateContainerLoggers p False n s = (Inr (so, se), s') \<Longrightarrow> se \<noteq> None"
  by (auto simp: CreateContainerLoggers_def Let_def split: if_splits prod.splits option.splits)

section \<open>cmd/singularity.go\<close>

text \<open>\<open>osexec.LookPath\<close> searches the path of the process.\<close>

record singularity_cli =
  singularityPath :: string
  globalFlags :: "string list"

text \<open>Running a program that may also write local files, as \<open>singularity pull\<close> does.\<close>

record 'w proclib =
  proc_Run :: "string list \<Rightarrow> fs \<Rightarrow> 'w \<Rightarrow> (string \<times> bool) \<times> fs \<times> 'w"

definition NewSingularityCLI :: "(string \<Rightarrow> error + string) \<Rightarrow> string \<Rightarrow> fs \<Rightarrow> error + singularity_cli" where
  "NewSingularityCLI LookPath path f =
     (case (if path = [] then LookPath ''singularity'' else Inr path) of
        Inl e \<Rightarrow> Inl (sprintf ''must have Singularity 3.0 installed: %v'' [e])
      | Inr path \<Rightarrow>
          if os_Stat path f \<noteq> StatOK then
            Inl (sprintf ''singularity binary did not exist at %q: %v'' [quote path, ''stat error''])
          else Inr \<lparr>singularityPath = path, globalFlags = []\<rparr>)"

definition generateSingularityImageCommand ::
    "singularity_cli \<Rightarrow> string \<Rightarrow> string \<Rightarrow> string \<Rightarrow> string list \<Rightarrow> string \<Rightarrow> string list" where
  "generateSingularityImageCommand c subCommand img instanceName args auth =
     (let cmd_args = (if 0 < length args then args else []);
          cmd_args = cmd_args @ [img];
          cmd_args = (if instanceName \<noteq> [] then cmd_args @ [instanceName] else cmd_args);
          cmd = (if auth \<noteq> [] then [auth] else []);
          cmd = cmd @ [singularityPath c, subCommand]
      in cmd @ globalFlags c @ cmd_args)"

text \<open>An empty command panics at \<open>command[0]\<close>.\<close>

definition RunAsyncCommand :: "'w proclib \<Rightarrow> string list \<Rightarrow> 'w mstate \<Rightarrow> (error option \<times> 'w mstate) option" where
  "RunAsyncCommand X command s =
     (if command = [] then None
      else case proc_Run X command (files s) (world s) of
        ((out, ok), f, w) \<Rightarrow> Some (if ok then None
          else Some (sprintf ''failed to run %v: %v'' [Join command '' '', ''exit status'']), s\<lparr>files := f, world := w\<rparr>))"

definition RunSyncCommand ::
    "'w proclib \<Rightarrow> string list \<Rightarrow> 'w mstate \<Rightarrow> ((string list \<times> error option) \<times> 'w mstate) option" where
  "RunSyncCommand X command s =
     (if command = [] then None
      else case proc_Run X command (files s) (world s) of
        ((out, ok), f, w) \<Rightarrow> Some ((Split (TrimSpace out) nl, if ok then None
          else Some (sprintf ''failed to run %v: %v'' [Join command '' '', ''exit status''])), s\<lparr>files := f, world := w\<rparr>))"

definition SingularityPullImage ::
    "'w proclib \<Rightarrow> singularity_cli \<Rightarrow> string \<Rightarrow> string \<Rightarrow> string \<Rightarrow> 'w mstate \<Rightarrow> (error option \<times> 'w mstate) option" where
  "SingularityPullImage X c imagePath imageRemote auth s =
     RunAsyncCommand X (generateSingularityImageCommand c ''pull'' imagePath imageRemote [] auth) s"

lemma image_command_ne: "generateSingularityImageCommand c sub i n a auth \<noteq> []"
  by (simp add: generateSingularityImageCommand_def Let_def)

lemma SingularityPullImage_total: "\<exists>e f w. SingularityPullImage X c p r a s = Some (e, s\<lparr>files := f, world := w\<rparr>)"
  by (auto simp: SingularityPullImage_def RunAsyncCommand_def image_command_ne split: prod.splits)

section \<open>auth.go\<close>

definition authImageDocker :: "ImageMetadata \<Rightarrow> string" where
  "authImageDocker img =
     (if au_Username (i_Auth img) \<noteq> [] \<and> au_Password (i_Auth img) \<noteq> [] then
        (let cmd = sprintf ''%s SINGULARITY_DOCKER_USERNAME=%s '' [[], au_Username (i_Auth img)]
         in sprintf ''%s SINGULARITY_DOCKER_PASSWORD=%s '' [cmd, au_Password (i_Auth img)])
      else [])"

definition authImageSingularityHub :: "ImageMetadata \<Rightarrow> string" where
  "authImageSingularityHub img = []"

definition ParseImageAuth :: "ContainerMetadata \<Rightarrow> 'w mstate \<Rightarrow> string option" where
  "ParseImageAuth cm s = do {
     img \<leftarrow> deref (c_Image cm) (imgs s);
     Some (if i_RepoType img = DockerRepositoryImageRepo then authImageDocker img
           else if i_RepoType img = SingularityRepositoryImageRepo then authImageSingularityHub img
           else [])
   }"

end
