(* ===== verification/Ssh.thy ===== *)
theory Ssh
  imports Common
begin

text \<open>
  \<open>pkg/cri/common/ssh/ssh.go\<close>: the SSH client.  The packages \<open>golang.org/x/crypto/ssh\<close>
  and \<open>github.com/tmc/scp\<close> are parameters; connections and sessions are numbered handles.
  \<open>None\<close> is a panic, or the end of the process by \<open>klog.Fatalf\<close>.
\<close>

datatype AuthMethod = PublicKeys string | PasswordAuth string

text \<open>\<open>ssh_Dial\<close> may panic: the sources can hand it a nil authentication method.\<close>

record 'w sshlib =
  ssh_ParsePrivateKey :: "string \<Rightarrow> error + string"
  ssh_Dial :: "string \<Rightarrow> string \<Rightarrow> AuthMethod option list \<Rightarrow> 'w \<Rightarrow> ((error + nat) \<times> 'w) option"
  ssh_NewSession :: "nat \<Rightarrow> 'w \<Rightarrow> (error + nat) \<times> 'w"
  ssh_RequestPty :: "nat \<Rightarrow> 'w \<Rightarrow> error option \<times> 'w"
  ssh_Run :: "nat \<Rightarrow> string \<Rightarrow> 'w \<Rightarrow> (string \<times> string \<times> error option) \<times> 'w"
  ssh_Start :: "nat \<Rightarrow> string \<Rightarrow> 'w \<Rightarrow> error option \<times> 'w"
  ssh_StdoutPipe :: "nat \<Rightarrow> 'w \<Rightarrow> error option \<times> 'w"
  ssh_ReadPipe :: "nat \<Rightarrow> 'w \<Rightarrow> (string \<times> error option) \<times> 'w"
  ssh_Wait :: "nat \<Rightarrow> 'w \<Rightarrow> error option \<times> 'w"
  ssh_Close :: "nat \<Rightarrow> 'w \<Rightarrow> 'w"
  scp_CopyPath :: "string \<Rightarrow> string \<Rightarrow> nat \<Rightarrow> fs \<Rightarrow> 'w \<Rightarrow> error option \<times> 'w"

record SSH =
  client :: "nat option"
  user :: string
  host :: string
  port :: string
  keypath :: "string option"
  key :: "string option"
  password :: "string option"

definition onw :: "('w \<Rightarrow> 'a \<times> 'w) \<Rightarrow> 'w mstate \<Rightarrow> 'a \<times> 'w mstate" where
  "onw f s = (let (x, w) = f (world s) in (x, s\<lparr>world := w\<rparr>))"

definition session_Close :: "'w sshlib \<Rightarrow> nat \<Rightarrow> 'w mstate \<Rightarrow> 'w mstate" where
  "session_Close S h s = s\<lparr>world := ssh_Close S h (world s)\<rparr>"

section \<open>Connections and sessions\<close>

definition publicKey :: "'w sshlib \<Rightarrow> string \<Rightarrow> AuthMethod option" where
  "publicKey S k = (case ssh_ParsePrivateKey S k of Inl e \<Rightarrow> None | Inr signer \<Rightarrow> Some (PublicKeys signer))"

definition publicKeyFile :: "'w sshlib \<Rightarrow> string \<Rightarrow> fs \<Rightarrow> AuthMethod option" where
  "publicKeyFile S file f =
     (case os_ReadFile file f of
        Inl e \<Rightarrow> None
      | Inr buffer \<Rightarrow> (case ssh_ParsePrivateKey S buffer of Inl e \<Rightarrow> None | Inr k \<Rightarrow> Some (PublicKeys k)))"

definition NewSSH :: "string \<Rightarrow> string \<Rightarrow> string \<Rightarrow> string option \<Rightarrow> string option \<Rightarrow> string option \<Rightarrow> SSH" where
  "NewSSH usr hst prt kpath pwd k =
     \<lparr>client = None, user = usr, host = hst, port = prt, keypath = kpath, key = k, password = pwd\<rparr>"

definition SSH_auth :: "'w sshlib \<Rightarrow> SSH \<Rightarrow> fs \<Rightarrow> AuthMethod option list" where
  "SSH_auth S a f =
     (case key a of None \<Rightarrow> [] | Some k \<Rightarrow> [publicKey S k])
     @ (case keypath a of None \<Rightarrow> [] | Some p \<Rightarrow> [publicKeyFile S p f])
     @ (case password a of None \<Rightarrow> [] | Some p \<Rightarrow> [Some (PasswordAuth p)])"

definition SSH_Connect :: "'w sshlib \<Rightarrow> SSH \<Rightarrow> 'w mstate \<Rightarrow> (error option \<times> SSH \<times> 'w mstate) option" where
  "SSH_Connect S a s = do {
     let addr = sprintf ''%s:%s'' [host a, port a];
     (r, w) \<leftarrow> ssh_Dial S addr (user a) (SSH_auth S a (files s)) (world s);
     let s = s\<lparr>world := w\<rparr>;
     Some (case r of
        Inl e \<Rightarrow> (Some (sprintf ''Error connecting to %s:%s  : %s'' [host a, port a, e]), a, s)
      | Inr c \<Rightarrow> (None, a\<lparr>client := Some c\<rparr>, s))
   }"

text \<open>
  A refused pseudo terminal ends the process.  The method has a pointer receiver: it stores
  the connection in the adapter it was called on, which is returned here.
\<close>

definition SSH_GetSession ::
    "'w sshlib \<Rightarrow> bool \<Rightarrow> SSH \<Rightarrow> 'w mstate \<Rightarrow> ((error + nat) \<times> SSH \<times> 'w mstate) option" where
  "SSH_GetSession S tty a s = do {
     (err, a, s) \<leftarrow> (if client a = None then SSH_Connect S a s else Some (None, a, s));
     case err of
       Some e \<Rightarrow> Some (Inl (sprintf ''Unable to create a session, could not connect: %v'' [e]), a, s)
     | None \<Rightarrow> do {
         c \<leftarrow> client a;
         let (r, s) = onw (ssh_NewSession S c) s;
         (case r of
            Inl e \<Rightarrow> Some (Inl (sprintf ''Error creating a new session for %s@%s:%s : %v''
              [user a, host a, port a, e]), a, s)
          | Inr h \<Rightarrow>
              if tty then
                (let (err, s) = onw (ssh_RequestPty S h) s
                 in case err of Some e \<Rightarrow> None | None \<Rightarrow> Some (Inr h, a, s))
              else Some (Inr h, a, s))
       }
   }"

section \<open>Commands\<close>

text \<open>
  These methods have value receivers: the connection opened by \<open>GetSession\<close> is stored in
  the copy and lost when the method returns.
\<close>

definition write_if :: "'w cilib \<Rightarrow> Logger option \<Rightarrow> string \<Rightarrow> 'w mstate \<Rightarrow> 'w mstate" where
  "write_if C l d s = (case l of None \<Rightarrow> s | Some l \<Rightarrow> Logger_Write C l d s)"

definition SSH_Run ::
    "'w sshlib \<Rightarrow> 'w cilib \<Rightarrow> SSH \<Rightarrow> string \<Rightarrow> Logger option \<Rightarrow> Logger option \<Rightarrow> bool \<Rightarrow> 'w mstate \<Rightarrow>
     ((string \<times> string \<times> error option) \<times> 'w mstate) option" where
  "SSH_Run S C a command so se tty s = do {
     (r, _, s) \<leftarrow> SSH_GetSession S tty a s;
     Some (case r of
        Inl e \<Rightarrow> (([], [], Some (sprintf ''Unable to get a session: %s'' [e])), s)
      | Inr h \<Rightarrow>
          (let ((out, errString, err), s) = onw (ssh_Run S h command) s;
               s = write_if C se errString s;
               s = write_if C so out s;
               s = session_Close S h s
           in if 0 < length errString then
                ((out, errString, Some (sprintf ''Command %s error '' [errString])), s)
              else case err of
                Some e \<Rightarrow> ((out, errString, Some (sprintf ''Error running the command %s : %v'' [command, e])), s)
              | None \<Rightarrow> ((out, errString, None), s)))
   }"

definition SSH_RunAsync :: "'w sshlib \<Rightarrow> SSH \<Rightarrow> string \<Rightarrow> 'w mstate \<Rightarrow> ((error + nat) \<times> 'w mstate) option" where
  "SSH_RunAsync S a command s = do {
     (r, _, s) \<leftarrow> SSH_GetSession S True a s;
     Some (case r of
        Inl e \<Rightarrow> (Inl (sprintf ''Unable to get a session: %s'' [e]), s)
      | Inr h \<Rightarrow>
          (let (err, s) = onw (ssh_Start S h command) s
           in case err of
                Some e \<Rightarrow> (Inl (sprintf ''Unable to launch the command %s : %s'' [command, e]), s)
              | None \<Rightarrow> (Inr h, s)))
   }"

definition SSH_CopyTo :: "'w sshlib \<Rightarrow> SSH \<Rightarrow> string \<Rightarrow> string \<Rightarrow> 'w mstate \<Rightarrow> (error option \<times> 'w mstate) option" where
  "SSH_CopyTo S a source destination s = do {
     (r, _, s) \<leftarrow> SSH_GetSession S False a s;
     Some (case r of
        Inl e \<Rightarrow> (Some (sprintf ''Unable to get a session: %v'' [e]), s)
      | Inr h \<Rightarrow>
          (let (err, s) = onw (scp_CopyPath S source destination h (files s)) s;
               s = session_Close S h s
           in case err of
                Some e \<Rightarrow> (Some (sprintf ''Unable to copy file %s to %s:%s:%s: %v''
                  [source, host a, port a, destination, e]), s)
              | None \<Rightarrow> (None, s)))
   }"

text \<open>\<open>strconv.ParseUint(s, 8, 32)\<close>.\<close>

definition parse_mode :: "string \<Rightarrow> nat option" where
  "parse_mode s =
     (let v = foldl (\<lambda>a c. 8 * a + digit_val c) 0 s
      in if s = [] \<or> \<not> list_all (\<lambda>c. is_digit c \<and> digit_val c < 8) s \<or> 2 ^ 32 \<le> v then None else Some v)"

definition ParseUint_error :: "string \<Rightarrow> error" where
  "ParseUint_error s = ''strconv.ParseUint: parsing '' @ quote s
     @ (if s \<noteq> [] \<and> list_all (\<lambda>c. is_digit c \<and> digit_val c < 8) s then '': value out of range'' else '': invalid syntax'')"

definition TrimSuffix :: "string \<Rightarrow> string \<Rightarrow> string" where
  "TrimSuffix s p = (if HasSuffix s p then take (length s - length p) s else s)"

definition SSH_CopyFrom ::
    "'w sshlib \<Rightarrow> 'w cilib \<Rightarrow> SSH \<Rightarrow> string \<Rightarrow> string \<Rightarrow> 'w mstate \<Rightarrow> (error option \<times> 'w mstate) option" where
  "SSH_CopyFrom S C a source destination s = do {
     let cmd = ''stat -c '' @ dquote @ ''%a'' @ dquote @ '' '' @ source;
     ((out, _, err), s) \<leftarrow> SSH_Run S C a cmd None None False s;
     case err of
       Some e \<Rightarrow> Some (Some (sprintf ''Unable to get file permissions for file %s : %s'' [destination, e]), s)
     | None \<Rightarrow> (case parse_mode (TrimSuffix out nl) of
         None \<Rightarrow> Some (Some (sprintf ''Unable to get file permissions for file %s : %s'' [out, ParseUint_error (TrimSuffix out nl)]), s)
       | Some mode \<Rightarrow> do {
           (r, _, s) \<leftarrow> SSH_GetSession S False a s;
           Some (case r of
              Inl e \<Rightarrow> (Some (sprintf ''Unable to get a session: %s'' [e]), s)
            | Inr h \<Rightarrow>
                (case onw (ssh_StdoutPipe S h) s of
                   (Some e, s) \<Rightarrow> (Some (sprintf ''Unable to get a pipe from %s:%s: %s'' [host a, port a, e]),
                      session_Close S h s)
                 | (None, s) \<Rightarrow> (case os_OpenCreate True destination (files s) of
                     (Some e, f) \<Rightarrow> (Some (sprintf ''Unable to create the file %s: %s'' [destination, e]),
                        session_Close S h (s\<lparr>files := f\<rparr>))
                   | (None, f) \<Rightarrow> (case onw (ssh_Start S h (sprintf ''cat %s'' [source])) (s\<lparr>files := f\<rparr>) of
                       (Some e, s) \<Rightarrow> (Some (sprintf ''Unable to launch the command %s : %s''
                          [sprintf ''cat %s'' [source], e]), session_Close S h s)
                     | (None, s) \<Rightarrow> (case onw (ssh_ReadPipe S h) s of
                         ((d, err), s) \<Rightarrow> (case os_Append destination d (files s) of
                           (werr, f) \<Rightarrow> (case (if werr = None then err else werr) of
                              Some e \<Rightarrow> (Some (sprintf ''Unable to copy file %s : %s'' [source, e]),
                                 session_Close S h (s\<lparr>files := f\<rparr>))
                            | None \<Rightarrow> (case onw (ssh_Wait S h) (s\<lparr>files := f\<rparr>) of
                                (Some e, s) \<Rightarrow> (Some (sprintf ''Error waiting for the file to be copied : %s'' [e]),
                                   session_Close S h s)
                              | (None, s) \<Rightarrow> (None, session_Close S h s))))))))) })
   }"

section \<open>Lemmas\<close>

lemma onw_frame: "onw f s = (x, s') \<Longrightarrow> same_stores s s' \<and> files s' = files s"
  by (auto simp: onw_def split: prod.splits)

lemma session_Close_frame: "same_stores s (session_Close S h s)" "files (session_Close S h s) = files s"
  by (simp_all add: session_Close_def)

lemma write_if_frame: "same_stores s (write_if C l d s)"
  by (auto simp: write_if_def Logger_Write_frame split: option.splits)

lemma Connect_frame:
  assumes "SSH_Connect S a s = Some (e, a', s')"
  shows "same_stores s s' \<and> files s' = files s"
proof -
  obtain r w where d: "ssh_Dial S (sprintf ''%s:%s'' [host a, port a]) (user a) (SSH_auth S a (files s)) (world s) = Some (r, w)"
    using assms by (auto simp: SSH_Connect_def bind_eq_Some_conv)
  then have "s' = s\<lparr>world := w\<rparr>"
    using assms by (cases r) (simp_all add: SSH_Connect_def)
  then show ?thesis by simp
qed

lemma GetSession_frame:
  assumes g: "SSH_GetSession S tty a s = Some (r, a', s')"
  shows "same_stores s s' \<and> files s' = files s"
proof -
  obtain e a1 s1 where c: "(if client a = None then SSH_Connect S a s else Some (None, a, s)) = Some (e, a1, s1)"
    using g by (auto simp: SSH_GetSession_def bind_eq_Some_conv)
  have s1: "same_stores s s1 \<and> files s1 = files s"
    using c Connect_frame [of S a s e a1 s1] by (auto split: if_splits)
  show ?thesis
  proof (cases e)
    case None
    with g c obtain cl where cl: "client a1 = Some cl" by (auto simp: SSH_GetSession_def bind_eq_Some_conv)
    obtain q s2 where n: "onw (ssh_NewSession S cl) s1 = (q, s2)" by (metis prod.exhaust)
    have s2: "same_stores s s2" "files s2 = files s"
      using s1 onw_frame [OF n] same_stores_trans [of s s1 s2] by auto
    have "s' = s2 \<or> (\<exists>h. onw (ssh_RequestPty S h) s2 = (None, s'))"
      using g c None cl n by (auto simp: SSH_GetSession_def split: sum.splits if_splits prod.splits option.splits)
    with s2 same_stores_trans [OF s2(1)] onw_frame show ?thesis by metis
  qed (use g c s1 in \<open>simp add: SSH_GetSession_def\<close>)
qed

lemma SSH_Run_frame:
  assumes "SSH_Run S C a cmd so se tty s = Some (r, s')"
  shows "same_stores s s'"
proof -
  obtain q a1 s1 where g: "SSH_GetSession S tty a s = Some (q, a1, s1)"
    using assms by (auto simp: SSH_Run_def bind_eq_Some_conv)
  have s1: "same_stores s s1" using GetSession_frame [OF g] by simp
  show ?thesis
  proof (cases q)
    case (Inl e)
    with assms g s1 show ?thesis by (simp add: SSH_Run_def)
  next
    case (Inr h)
    obtain out es er s2 where r: "onw (ssh_Run S h cmd) s1 = ((out, es, er), s2)" by (metis prod.exhaust)
    have "s' = session_Close S h (write_if C so out (write_if C se es s2))"
      using assms g Inr r by (auto simp: SSH_Run_def Let_def split: if_splits option.splits)
    then show ?thesis
      using same_stores_trans [OF s1 same_stores_trans [OF conjunct1 [OF onw_frame [OF r]]
          same_stores_trans [OF write_if_frame [of s2 C se es]
            same_stores_trans [OF write_if_frame session_Close_frame(1)]]]]
      by blast
  qed
qed

lemma SSH_CopyTo_frame:
  assumes "SSH_CopyTo S a p q s = Some (r, s')"
  shows "same_stores s s' \<and> files s' = files s"
proof -
  obtain x a1 s1 where g: "SSH_GetSession S False a s = Some (x, a1, s1)"
    using assms by (auto simp: SSH_CopyTo_def bind_eq_Some_conv)
  have s1: "same_stores s s1" "files s1 = files s" using GetSession_frame [OF g] by simp_all
  show ?thesis
  proof (cases x)
    case (Inl e)
    with assms g s1 show ?thesis by (simp add: SSH_CopyTo_def)
  next
    case (Inr h)
    obtain er s2 where r: "onw (scp_CopyPath S p q h (files s1)) s1 = (er, s2)" by (metis prod.exhaust)
    have s': "s' = session_Close S h s2"
      using assms g Inr r by (auto simp: SSH_CopyTo_def Let_def split: option.splits)
    have "same_stores s2 s'" "files s' = files s2" unfolding s' by (rule session_Close_frame)+
    with onw_frame [OF r] s1 show ?thesis
      using same_stores_trans [OF s1(1) same_stores_trans [of s1 s2 s']] by simp
  qed
qed

text \<open>A command that succeeds wrote nothing to its standard error.\<close>

lemma SSH_Run_ok:
  assumes "SSH_Run S C a cmd so se tty s = Some ((out, es, None), s')"
  shows "es = []"
proof -
  obtain q a1 s1 where g: "SSH_GetSession S tty a s = Some (q, a1, s1)"
    using assms by (auto simp: SSH_Run_def bind_eq_Some_conv)
  with assms obtain h where h: "q = Inr h" by (cases q) (auto simp: SSH_Run_def)
  obtain o2 e2 er s2 where r: "onw (ssh_Run S h cmd) s1 = ((o2, e2, er), s2)" by (metis prod.exhaust)
  show ?thesis
    using assms g h r by (cases "e2 = []"; cases er) (simp_all add: SSH_Run_def Let_def)
qed

lemma SSH_Run_dial_fails:
  assumes "client a = None" and "ssh_Dial S (sprintf ''%s:%s'' [host a, port a]) (user a) (SSH_auth S a (files s)) (world s)
    = Some (Inl e, w)"
  shows "\<exists>e'. SSH_Run S C a cmd so se tty s = Some (([], [], Some e'), s\<lparr>world := w\<rparr>)"
  using assms by (simp add: SSH_Run_def SSH_GetSession_def SSH_Connect_def)

end
