(* ===== verification/Slurm_Cmd.thy ===== *)
theory Slurm_Cmd
  imports Ssh
begin

text \<open>
  \<open>pkg/cri/adapters/slurm/cmd/cmd.go\<close>: the Slurm client.  It writes job scripts to local
  temporary files, copies them to the cluster, runs Slurm's commands over SSH and parses
  their output.
\<close>

record 'w lib =
  lib_go :: "'w golib"
  lib_ssh :: "'w sshlib"
  lib_ci :: "'w cilib"
  lib_proc :: "'w proclib"

record JobConfigField =
  jf_Flag :: string
  jf_Value :: string

record JobConfig =
  jc_Headers :: "JobConfigField list"
  jc_CustomHeaders :: string
  jc_Command :: string
  jc_Path :: string
  jc_Script :: string
  jc_Prerun :: string
  jc_ENV :: "string gomap"

record JobStatus =
  js_JobState :: string
  js_ExitCode :: int
  js_Reason :: string
  js_StarTime :: int
  js_EndTime :: int

record SlurmCmd =
  sc_sshClient :: SSH
  sc_logPath :: string

definition PreRunScript :: string where "PreRunScript = ''prerun.sh''"
definition BatchScript :: string where "BatchScript = ''batch.sh''"

definition index :: "'a list \<Rightarrow> nat \<Rightarrow> 'a option" where
  "index xs i = (if i < length xs then Some (xs ! i) else None)"

section \<open>Construction\<close>

definition NewSlurmCMD :: "string \<Rightarrow> string \<Rightarrow> string \<Rightarrow> string \<Rightarrow> string \<Rightarrow> string \<Rightarrow> error + SlurmCmd" where
  "NewSlurmCMD usr hst prt logPath k pwd =
     (if k \<noteq> [] then Inr \<lparr>sc_sshClient = NewSSH usr hst prt None None (Some k), sc_logPath = logPath\<rparr>
      else if pwd \<noteq> [] then Inr \<lparr>sc_sshClient = NewSSH usr hst prt None (Some pwd) None, sc_logPath = logPath\<rparr>
      else Inl ''KeyPath or password must be setup'')"

definition CreateCMD :: "ContainerMetadata \<Rightarrow> error + SlurmCmd" where
  "CreateCMD cm =
     (let env = c_Environment cm
      in NewSlurmCMD (mstr env ''CLUSTER_USERNAME'') (mstr env ''CLUSTER_HOST'') (mstr env ''CLUSTER_PORT'')
           (c_LogFile cm) (mstr env ''CLUSTER_KEYVALUE'') (mstr env ''CLUSTER_PASSWORD''))"

section \<open>Remote commands\<close>

definition SlurmCmd_run ::
    "'w lib \<Rightarrow> SlurmCmd \<Rightarrow> string \<Rightarrow> Logger option \<Rightarrow> Logger option \<Rightarrow> 'w mstate \<Rightarrow>
     ((string \<times> error option) \<times> 'w mstate) option" where
  "SlurmCmd_run B sl cmd so se s = do {
     ((response, _, err), s) \<leftarrow> SSH_Run (lib_ssh B) (lib_ci B) (sc_sshClient sl) cmd so se True s;
     Some ((response, err), s)
   }"

definition SlurmCmd_ExecCmd ::
    "'w lib \<Rightarrow> SlurmCmd \<Rightarrow> string \<Rightarrow> 'w mstate \<Rightarrow> ((string \<times> error option) \<times> 'w mstate) option" where
  "SlurmCmd_ExecCmd B sl cmd s =
     (case CreateContainerLoggers (sc_logPath sl) False 100 s of
        (Inl e, s) \<Rightarrow> Some (([], Some (sprintf ''failed to start container logger: %s'' [e])), s)
      | (Inr (so, se), s) \<Rightarrow> do {
          ((response, err), s) \<leftarrow> SlurmCmd_run B sl cmd (Some so) se s;
          Some (case err of Some e \<Rightarrow> (([], Some (sprintf ''%s. %s'' [response, e])), s)
                | None \<Rightarrow> ((response, None), s))
        })"

text \<open>The job's error output is logged on standard error twice over: both writers are it.\<close>

definition SlurmCmd_GetStderr ::
    "'w lib \<Rightarrow> SlurmCmd \<Rightarrow> string \<Rightarrow> 'w mstate \<Rightarrow> ((string \<times> error option) \<times> 'w mstate) option" where
  "SlurmCmd_GetStderr B sl stdoerrPath s =
     (case CreateContainerLoggers (sc_logPath sl) False 100 s of
        (Inl e, s) \<Rightarrow> Some (([], Some (sprintf ''failed to start container logger: %s'' [e])), s)
      | (Inr (so, se), s) \<Rightarrow> do {
          ((response, err), s) \<leftarrow> SlurmCmd_run B sl (sprintf ''cat %s'' [stdoerrPath]) se se s;
          Some (case err of Some e \<Rightarrow> (([], Some (sprintf ''%s. %s'' [response, e])), s)
                | None \<Rightarrow> ((response, None), s))
        })"

definition SlurmCmd_GetStdout ::
    "'w lib \<Rightarrow> SlurmCmd \<Rightarrow> string \<Rightarrow> 'w mstate \<Rightarrow> ((string \<times> error option) \<times> 'w mstate) option" where
  "SlurmCmd_GetStdout B sl stdoerrPath s = SlurmCmd_ExecCmd B sl (sprintf ''cat %s'' [stdoerrPath]) s"

definition SlurmCmd_CopyTo ::
    "'w lib \<Rightarrow> SlurmCmd \<Rightarrow> string \<Rightarrow> string \<Rightarrow> 'w mstate \<Rightarrow> (error option \<times> 'w mstate) option" where
  "SlurmCmd_CopyTo B sl resourcePath destinyPath s = do {
     (err, s) \<leftarrow> SSH_CopyTo (lib_ssh B) (sc_sshClient sl) resourcePath destinyPath s;
     Some (map_option (\<lambda>e. sprintf ''Error copying file to ssh server. %s '' [e]) err, s)
   }"

definition SlurmCmd_CopyInternal ::
    "'w lib \<Rightarrow> SlurmCmd \<Rightarrow> string \<Rightarrow> string \<Rightarrow> 'w mstate \<Rightarrow> (error option \<times> 'w mstate) option" where
  "SlurmCmd_CopyInternal B sl resourcePath destinyPath s = do {
     ((_, err), s) \<leftarrow> SlurmCmd_ExecCmd B sl (sprintf ''cp -r %s %s'' [resourcePath, destinyPath]) s;
     Some (map_option (\<lambda>e. sprintf ''Error copying folder/file inside the server cluster. %s '' [e]) err, s)
   }"

section \<open>Scripts\<close>

definition writeNewLine :: "string \<Rightarrow> string \<Rightarrow> string" where
  "writeNewLine b content = b @ sprintf (''%s '' @ nl) [content]"

fun writeLines :: "string \<Rightarrow> string list \<Rightarrow> string" where
  "writeLines b [] = b"
| "writeLines b (v # vs) = writeLines (writeNewLine b v) vs"

definition tmp_file :: "'w lib \<Rightarrow> string \<Rightarrow> 'w mstate \<Rightarrow> string \<times> 'w mstate" where
  "tmp_file B name s = (let (stamp, w) = time_Stamp (lib_go B) (world s)
     in (GenerateTmpFile stamp ''/tmp'' name ''sh'', s\<lparr>world := w\<rparr>))"

text \<open>
  Open for appending and write: the name has the granularity of a second, so a script
  written in the same second is extended, not replaced.
\<close>

definition append_script :: "string \<Rightarrow> string \<Rightarrow> 'w mstate \<Rightarrow> (error + string) \<times> 'w mstate" where
  "append_script filePath b s =
     (case os_OpenCreate False filePath (files s) of
        (Some e, f) \<Rightarrow> (Inl e, s\<lparr>files := f\<rparr>)
      | (None, f) \<Rightarrow> (case os_Append filePath b f of
          (Some e, f) \<Rightarrow> (Inl e, s\<lparr>files := f\<rparr>)
        | (None, f) \<Rightarrow> (Inr filePath, s\<lparr>files := f\<rparr>)))"

definition buildPreRunScript :: "'w lib \<Rightarrow> string \<Rightarrow> 'w mstate \<Rightarrow> (error + string) \<times> 'w mstate" where
  "buildPreRunScript B clusterConf s =
     (let b = writeNewLine [] clusterConf;
          (filePath, s) = tmp_file B ''prerun'' s
      in append_script filePath b s)"

definition env_line :: "string \<Rightarrow> string \<Rightarrow> string" where
  "env_line k v = sprintf (''export %s='' @ dquote @ ''%s'' @ dquote @ '' '' @ nl) [k, v]"

definition run_script_text :: "JobConfig \<Rightarrow> string" where
  "run_script_text config =
     (let b = writeNewLine [] ''#!/bin/bash'';
          envString = foldl (\<lambda>e (k, v). e @ env_line k v) [] (jc_ENV config);
          b = (if envString \<noteq> [] then writeNewLine b envString else b);
          b = writeNewLine b (sprintf ''cd %s'' [jc_Path config]);
          b = (if jc_Prerun config \<noteq> [] then writeNewLine b (sprintf ''source %s'' [PreRunScript]) else b)
      in writeNewLine b (sprintf ''sbatch %s'' [BatchScript]))"

definition buildRunScript :: "'w lib \<Rightarrow> JobConfig \<Rightarrow> 'w mstate \<Rightarrow> (error + string) \<times> 'w mstate" where
  "buildRunScript B config s =
     (let b = run_script_text config;
          (filePath, s) = tmp_file B ''run'' s
      in append_script filePath b s)"

definition sbatch_lines :: "JobConfig \<Rightarrow> string list" where
  "sbatch_lines config =
     [''#!/bin/bash''] @ (if jc_CustomHeaders config \<noteq> [] then [jc_CustomHeaders config] else [])
     @ map (\<lambda>c. sprintf ''#SBATCH %s %s'' [jf_Flag c, jf_Value c]) (jc_Headers config) @ [jc_Command config]"

definition buildSbatch :: "'w lib \<Rightarrow> JobConfig \<Rightarrow> 'w mstate \<Rightarrow> (error + string) \<times> 'w mstate" where
  "buildSbatch B config s =
     (if length (jc_Headers config) = 0 then (Inl ''no configuration provided'', s)
      else let b = writeLines [] (sbatch_lines config);
               (filePath, s) = tmp_file B ''batch'' s
           in append_script filePath b s)"

text \<open>The three scripts are built and copied in this order; the first failure ends it.\<close>

definition copy_script ::
    "'w lib \<Rightarrow> SlurmCmd \<Rightarrow> string \<Rightarrow> string \<Rightarrow> string \<Rightarrow> (error + string) \<times> 'w mstate \<Rightarrow>
     (error option \<times> 'w mstate) option" where
  "copy_script B sl script file dest r =
     (case r of
        (Inl e, s) \<Rightarrow> Some (Some (sprintf ''Error generating %s script %s '' [script, e]), s)
      | (Inr p, s) \<Rightarrow> do {
          (err, s) \<leftarrow> SlurmCmd_CopyTo B sl p dest s;
          Some (map_option (\<lambda>e. sprintf ''Error copying %s file to Slurm cluster. %s '' [file, e]) err, s)
        })"

definition SlurmCmd_batchScript :: "'w lib \<Rightarrow> SlurmCmd \<Rightarrow> JobConfig \<Rightarrow> 'w mstate \<Rightarrow> (error option \<times> 'w mstate) option" where
  "SlurmCmd_batchScript B sl config s = do {
     (err, s) \<leftarrow> (if jc_Prerun config \<noteq> [] then
        copy_script B sl ''batch'' ''prerun'' (sprintf ''%s/%s'' [jc_Path config, PreRunScript])
          (buildPreRunScript B (jc_Prerun config) s)
      else Some (None, s));
     if err \<noteq> None then Some (err, s) else do {
       (err, s) \<leftarrow> copy_script B sl ''batch'' ''batch'' (sprintf ''%s/%s'' [jc_Path config, BatchScript])
          (buildSbatch B config s);
       if err \<noteq> None then Some (err, s)
       else copy_script B sl ''run'' ''run'' (jc_Script config) (buildRunScript B config s)
     }
   }"

section \<open>Parsing Slurm's output\<close>

definition scan_item :: "string gomap \<Rightarrow> string \<Rightarrow> string gomap" where
  "scan_item jobInfo i =
     (let item = Split i ''=''
      in if 1 < length item then mset_key (TrimSpace (item ! 0)) (TrimSpace (item ! 1)) jobInfo else jobInfo)"

definition scan_control :: "string \<Rightarrow> string gomap" where
  "scan_control out =
     foldl (\<lambda>m l. foldl scan_item m (Split (TrimSpace l) '' '')) [] (Split out nl)"

definition parseControlStatus :: "string \<Rightarrow> JobStatus" where
  "parseControlStatus out =
     (let jobInfo = scan_control out;
          exitCode = (case mget jobInfo ''ExitCode'' of None \<Rightarrow> 0 | Some val \<Rightarrow> fst (Atoi val));
          start = ParseDate (mstr jobInfo ''StartTime'');
          endDate = ParseDate (mstr jobInfo ''EndTime'')
      in \<lparr>js_JobState = mstr jobInfo ''JobState'', js_ExitCode = exitCode, js_Reason = mstr jobInfo ''Reason'',
          js_StarTime = start, js_EndTime = endDate\<rparr>)"

definition parseAcctStatus :: "string \<Rightarrow> (error + JobStatus) option" where
  "parseAcctStatus out =
     (let lines = Split (TrimSpace out) nl
      in if length lines = 0 then Some (Inl (sprintf ''Accounting data cannot be parsed %s '' [out]))
         else do {
           let output = Split (lines ! 0) ''|'';
           o0 \<leftarrow> index output 0;
           let start = ParseDate o0;
           o1 \<leftarrow> index output 1;
           let endDate = ParseDate o1;
           o2 \<leftarrow> index output 2;
           let (exitCode, ok) = Atoi (Split o2 '':'' ! 0);
           if \<not> ok then Some (Inl (sprintf ''Exitcode cannot be parsed %s '' [o0]))
           else do {
             state \<leftarrow> index output 3;
             o4 \<leftarrow> index output 4;
             let reason = (if o4 \<noteq> [] then o4 else state);
             Some (Inr \<lparr>js_JobState = state, js_ExitCode = exitCode, js_Reason = reason,
               js_StarTime = start, js_EndTime = endDate\<rparr>)
           }
         })"

definition parseJobId :: "string \<Rightarrow> error + string" where
  "parseJobId response =
     (let splitResponse = Split response ''Submitted batch job ''
      in if 1 < length splitResponse then Inr (TrimSpace (splitResponse ! 1))
         else Inl (sprintf ''Not submitted batch job id found: %s '' [response]))"

section \<open>Jobs\<close>

definition SlurmCmd_Sbatch ::
    "'w lib \<Rightarrow> SlurmCmd \<Rightarrow> JobConfig \<Rightarrow> 'w mstate \<Rightarrow> ((error + string) \<times> 'w mstate) option" where
  "SlurmCmd_Sbatch B sl config s = do {
     (err, s) \<leftarrow> SlurmCmd_batchScript B sl config s;
     case err of
       Some e \<Rightarrow> Some (Inl e, s)
     | None \<Rightarrow> (case CreateContainerLoggers (sc_logPath sl) False 100 s of
         (Inl e, s) \<Rightarrow> Some (Inl (sprintf ''failed to start container logger: %s'' [e]), s)
       | (Inr (so, se), s) \<Rightarrow> do {
           ((response, err), s) \<leftarrow> SlurmCmd_run B sl (jc_Script config) (Some so) se s;
           Some (case err of Some e \<Rightarrow> (Inl e, s) | None \<Rightarrow> (parseJobId response, s))
         })
   }"

definition SlurmCmd_Scancel :: "'w lib \<Rightarrow> SlurmCmd \<Rightarrow> int \<Rightarrow> 'w mstate \<Rightarrow> (error option \<times> 'w mstate) option" where
  "SlurmCmd_Scancel B sl jobId s =
     (case CreateContainerLoggers (sc_logPath sl) False 100 s of
        (Inl e, s) \<Rightarrow> Some (Some (sprintf ''failed to start container logger: %s'' [e]), s)
      | (Inr (so, se), s) \<Rightarrow> do {
          ((_, err), s) \<leftarrow> SlurmCmd_run B sl (sprintf ''scancel %d'' [itoa jobId]) (Some so) se s;
          Some (err, s)
        })"

definition SlurmCmd_sacct ::
    "'w lib \<Rightarrow> SlurmCmd \<Rightarrow> int \<Rightarrow> Logger \<Rightarrow> Logger option \<Rightarrow> 'w mstate \<Rightarrow> ((error + JobStatus) \<times> 'w mstate) option" where
  "SlurmCmd_sacct B sl jobId so se s = do {
     ((response, err), s) \<leftarrow> SlurmCmd_run B sl
        (sprintf ''sacct -p -n -j %d -o start,end,exitcode,start,state,comment'' [itoa jobId]) (Some so) se s;
     case err of
       Some e \<Rightarrow> Some (Inl (sprintf ''Retrieve job info fails %s '' [e]), s)
     | None \<Rightarrow> do { r \<leftarrow> parseAcctStatus response; Some (r, s) }
   }"

definition SlurmCmd_scontrol ::
    "'w lib \<Rightarrow> SlurmCmd \<Rightarrow> int \<Rightarrow> Logger \<Rightarrow> Logger option \<Rightarrow> 'w mstate \<Rightarrow> ((error + JobStatus) \<times> 'w mstate) option" where
  "SlurmCmd_scontrol B sl jobId so se s = do {
     ((response, err), s) \<leftarrow> SlurmCmd_run B sl (sprintf ''scontrol show jobid -dd  %d'' [itoa jobId]) (Some so) se s;
     Some (case err of
        Some e \<Rightarrow> (Inl (sprintf ''Retrieve job info fails %s '' [e]), s)
      | None \<Rightarrow> (Inr (parseControlStatus response), s))
   }"

definition SlurmCmd_Sstatus ::
    "'w lib \<Rightarrow> SlurmCmd \<Rightarrow> int \<Rightarrow> 'w mstate \<Rightarrow> ((error + JobStatus) \<times> 'w mstate) option" where
  "SlurmCmd_Sstatus B sl jobId s =
     (case CreateContainerLoggers (sc_logPath sl) False 100 s of
        (Inl e, s) \<Rightarrow> Some (Inl (sprintf ''failed to start container logger: %s'' [e]), s)
      | (Inr (so, se), s) \<Rightarrow> do {
          (r, s) \<leftarrow> SlurmCmd_scontrol B sl jobId so se s;
          case r of
            Inl e \<Rightarrow> SlurmCmd_sacct B sl jobId so se s
          | Inr js \<Rightarrow> Some (Inr js, s)
        })"

text \<open>
  \<open>PullImageScript\<close> reads \<open>CLUSTER_CONFIG\<close> as the name of a local file.  The script is
  opened before anything else, and \<open>Split(out, "FileSize:")[1]\<close> panics on an output
  without the size.
\<close>

definition pull_script_lines :: "string \<Rightarrow> string \<Rightarrow> string list" where
  "pull_script_lines command imagePath =
     [sprintf ''mkdir -p %s'' [Dir imagePath], command,
      ''stat --print='' @ [CHR 0x27] @ ''FileSize:%s'' @ [CHR 0x27] @ '' '' @ imagePath]"

definition pull_size :: "string \<Rightarrow> 64 word option" where
  "pull_size out = do {
     x \<leftarrow> index (Split out ''FileSize:'') 1;
     Some (if snd (Atoi x) then word_of_int (fst (Atoi x)) else 0)
   }"

definition run_pull_script ::
    "'w lib \<Rightarrow> SlurmCmd \<Rightarrow> string \<Rightarrow> string \<Rightarrow> 'w mstate \<Rightarrow> ((64 word \<times> error option) \<times> 'w mstate) option" where
  "run_pull_script B sl filePath scriptPath s = do {
     (err, s) \<leftarrow> SlurmCmd_CopyTo B sl filePath scriptPath s;
     (case err of
        Some e \<Rightarrow> Some ((0, Some (sprintf ''Error copying run file to Slurm cluster. %s '' [e])), s)
      | None \<Rightarrow> do {
          ((out, err), s) \<leftarrow> SlurmCmd_ExecCmd B sl scriptPath s;
          (case err of
             Some e \<Rightarrow> Some ((0, Some e), s)
           | None \<Rightarrow> do { n \<leftarrow> pull_size out; Some ((n, None), s) })
        })
   }"

definition SlurmCmd_PullImageScript ::
    "'w lib \<Rightarrow> SlurmCmd \<Rightarrow> string \<Rightarrow> string \<Rightarrow> string \<Rightarrow> string gomap \<Rightarrow> 'w mstate \<Rightarrow>
     ((64 word \<times> error option) \<times> 'w mstate) option" where
  "SlurmCmd_PullImageScript B sl command imagePath scriptPath env s =
     (let (filePath, s) = tmp_file B ''pullimage'' s
      in case os_OpenCreate False filePath (files s) of
           (Some e, f) \<Rightarrow> Some ((0, Some e), s\<lparr>files := f\<rparr>)
         | (None, f) \<Rightarrow>
             (case (case mget env ''CLUSTER_CONFIG'' of
                      None \<Rightarrow> (None, f)
                    | Some c \<Rightarrow> (case os_ReadFile c f of
                        Inl e \<Rightarrow> (Some e, f) | Inr fConfig \<Rightarrow> os_Append filePath fConfig f)) of
                (Some e, f) \<Rightarrow> Some ((0, Some e), s\<lparr>files := f\<rparr>)
              | (None, f) \<Rightarrow> (case os_Append filePath (writeLines [] (pull_script_lines command imagePath)) f of
                  (Some e, f) \<Rightarrow> Some ((0, Some e), s\<lparr>files := f\<rparr>)
                | (None, f) \<Rightarrow> run_pull_script B sl filePath scriptPath (s\<lparr>files := f\<rparr>))))"

section \<open>Frames\<close>

text \<open>The client never touches the stores.\<close>

lemma transp_same_stores: "transp same_stores"
  by (rule transpI) (rule same_stores_trans)

lemmas store_bind = keeps_bind [OF transp_same_stores]
lemmas store_pair = keeps_pair [OF transp_same_stores]
lemmas store_step = keeps_step [OF transp_same_stores]

lemma run_keeps: "keeps same_stores s (SlurmCmd_run B sl cmd so se s)"
  unfolding SlurmCmd_run_def
  by (intro store_bind keepsI) (auto dest: SSH_Run_frame)

lemma with_loggers:
  assumes "\<And>so se t. keeps same_stores t (g so se t)"
    and "\<And>e t. keeps same_stores t (f e t)"
  shows "keeps same_stores s (case CreateContainerLoggers p b n s of
      (Inl e, t) \<Rightarrow> f e t | (Inr (so, se), t) \<Rightarrow> g so se t)"
proof -
  obtain r t where c: "CreateContainerLoggers p b n s = (r, t)" by (metis prod.exhaust)
  have "same_stores s t" using Loggers_frame [OF c] .
  with assms show ?thesis unfolding c by (cases r) (auto intro: store_step)
qed

lemma ExecCmd_keeps: "keeps same_stores s (SlurmCmd_ExecCmd B sl cmd s)"
  unfolding SlurmCmd_ExecCmd_def
  by (intro with_loggers store_bind run_keeps) (auto split: option.splits)

lemma GetStderr_keeps: "keeps same_stores s (SlurmCmd_GetStderr B sl p s)"
  unfolding SlurmCmd_GetStderr_def
  by (intro with_loggers store_bind run_keeps) (auto split: option.splits)

lemma GetStdout_keeps: "keeps same_stores s (SlurmCmd_GetStdout B sl p s)"
  unfolding SlurmCmd_GetStdout_def by (rule ExecCmd_keeps)

lemma CopyTo_keeps: "keeps same_stores s (SlurmCmd_CopyTo B sl p q s)"
  unfolding SlurmCmd_CopyTo_def
  by (intro store_bind keepsI) (auto dest: SSH_CopyTo_frame)

lemma tmp_file_frame: "tmp_file B n s = (p, t) \<Longrightarrow> same_stores s t \<and> files t = files s"
  by (auto simp: tmp_file_def split: prod.splits)

lemma append_script_frame: "append_script p b s = (r, t) \<Longrightarrow> same_stores s t"
  by (auto simp: append_script_def split: prod.splits option.splits)

lemma build_frames:
  "buildPreRunScript B c s = (r, t) \<Longrightarrow> same_stores s t"
  "buildRunScript B j s = (r, t) \<Longrightarrow> same_stores s t"
  "buildSbatch B j s = (r, t) \<Longrightarrow> same_stores s t"
  by (auto simp: buildPreRunScript_def buildRunScript_def buildSbatch_def Let_def split: prod.splits if_splits
      dest!: tmp_file_frame append_script_frame intro: same_stores_trans)

lemma copy_script_keeps: "same_stores s (snd r) \<Longrightarrow> keeps same_stores s (copy_script B sl w f d r)"
  unfolding copy_script_def
  by (cases r; cases "fst r") (auto intro!: store_bind store_step [OF _ CopyTo_keeps] simp: same_stores_refl)

lemma snd_frame: "(\<And>r t. x = (r, t) \<Longrightarrow> same_stores s t) \<Longrightarrow> same_stores s (snd x)"
  by (cases x) auto

lemma batchScript_keeps: "keeps same_stores s (SlurmCmd_batchScript B sl config s)"
  unfolding SlurmCmd_batchScript_def
  by (intro store_bind keeps_intros copy_script_keeps snd_frame)
    (auto intro: build_frames split: prod.splits intro!: store_bind copy_script_keeps snd_frame)

lemma Sbatch_keeps: "keeps same_stores s (SlurmCmd_Sbatch B sl config s)"
  unfolding SlurmCmd_Sbatch_def
  by (intro store_bind batchScript_keeps)
    (auto intro!: with_loggers store_bind run_keeps split: option.splits)

lemma Scancel_keeps: "keeps same_stores s (SlurmCmd_Scancel B sl j s)"
  unfolding SlurmCmd_Scancel_def
  by (intro with_loggers store_bind run_keeps) (auto split: option.splits)

lemma scontrol_keeps: "keeps same_stores s (SlurmCmd_scontrol B sl j so se s)"
  unfolding SlurmCmd_scontrol_def
  by (intro store_bind run_keeps) (auto split: option.splits)

lemma sacct_keeps: "keeps same_stores s (SlurmCmd_sacct B sl j so se s)"
  unfolding SlurmCmd_sacct_def
  by (intro store_bind run_keeps) (auto split: option.splits intro!: keeps_bind_pure)

lemma Sstatus_keeps: "keeps same_stores s (SlurmCmd_Sstatus B sl j s)"
  unfolding SlurmCmd_Sstatus_def
  by (intro with_loggers store_bind scontrol_keeps) (auto split: sum.splits intro: sacct_keeps)

lemma run_pull_keeps: "keeps same_stores s (run_pull_script B sl p q s)"
  unfolding run_pull_script_def
  by (intro store_bind CopyTo_keeps)
    (auto split: option.splits intro!: store_bind ExecCmd_keeps keeps_bind_pure, (erule keepsD [OF ExecCmd_keeps])+)

lemma PullImageScript_keeps: "keeps same_stores s (SlurmCmd_PullImageScript B sl c p q env s)"
  unfolding SlurmCmd_PullImageScript_def Let_def
  by (rule store_pair)
    (auto dest: tmp_file_frame split: prod.split option.split sum.split intro: store_step [OF _ run_pull_keeps])

section \<open>Scripts and parsers\<close>

lemma writeLines_concat: "writeLines b vs = b @ concat (map (\<lambda>v. v @ '' '' @ nl) vs)"
  by (induction vs arbitrary: b) (simp_all add: writeNewLine_def sprintf.simps)

lemma append_script_content:
  assumes "append_script p b s = (Inr q, t)"
  shows "q = p \<and> file_content (files t) p =
    Some ((case file_content (files s) p of None \<Rightarrow> [] | Some c \<Rightarrow> c) @ b)"
proof -
  obtain f1 where o: "os_OpenCreate False p (files s) = (None, f1)"
    using assms by (auto simp: append_script_def split: prod.splits option.splits)
  moreover obtain f2 where a: "os_Append p b f1 = (None, f2)" "t = s\<lparr>files := f2\<rparr>" "q = p"
    using assms o by (auto simp: append_script_def split: prod.splits option.splits)
  ultimately show ?thesis using OpenCreate_Append [of False p "files s" f1 b f2] by simp
qed

text \<open>The words Slurm prints on a submission.\<close>

lemma parseJobId_prefix:
  assumes "\<not> Contains x ''Submitted batch job ''"
  shows "parseJobId (''Submitted batch job '' @ x) = Inr (TrimSpace x)"
  unfolding parseJobId_def Let_def using assms
  by (subst (1 2) Split_prefix) (simp_all add: Split_absent)

lemma parseAcct_row:
  assumes "CHR ''|'' \<notin> set a \<and> CHR ''|'' \<notin> set b \<and> CHR ''|'' \<notin> set c \<and> CHR ''|'' \<notin> set d
      \<and> CHR ''|'' \<notin> set e"
  shows "Split (a @ ''|'' @ b @ ''|'' @ c @ ''|'' @ d @ ''|'' @ e @ ''|'' @ r) ''|''
    = [a, b, c, d, e] @ Split r ''|''"
  using assms by (simp add: Split_char_step)

end
