(* ===== verification/Builder.thy ===== *)
theory Builder
  imports Slurm_Cmd
begin

text \<open>
  \<open>pkg/cri/adapters/slurm/builder\<close>: the two image builders of the Slurm adapter.  The one
  of \<open>builder_cluster.go\<close> pulls on the cluster, the one of \<open>builder_cri.go\<close> pulls on
  the node and copies.  Both write the path and the size of the container's image and
  nothing else of the stores: that is the contract of the locale \<open>image_builder\<close>.
\<close>

definition ImageScript :: string where "ImageScript = ''image.sh''"

record 'w ImageBuilder =
  ib_PullImage :: "ContainerMetadata \<Rightarrow> 'w mstate \<Rightarrow> (error option \<times> 'w mstate) option"
  ib_PullImageInCluster :: "ContainerMetadata \<Rightarrow> 'w mstate \<Rightarrow> (error option \<times> 'w mstate) option"
  ib_GetImagePath :: "ContainerMetadata \<Rightarrow> 'w mstate \<Rightarrow> string option"

text \<open>Assigning to a field of the container's image.\<close>

definition update_image :: "ptr option \<Rightarrow> (ImageMetadata \<Rightarrow> ImageMetadata) \<Rightarrow> 'w mstate \<Rightarrow> 'w mstate option" where
  "update_image q f s =
     (case q of None \<Rightarrow> None
      | Some p \<Rightarrow> do { im \<leftarrow> cells (imgs s) p; Some (s\<lparr>imgs := assign p (f im) (imgs s)\<rparr>) })"

definition set_LocalPath :: "ptr option \<Rightarrow> string \<Rightarrow> 'w mstate \<Rightarrow> 'w mstate option" where
  "set_LocalPath q x s = update_image q (\<lambda>im. im\<lparr>i_LocalPath := x\<rparr>) s"

definition set_Size :: "ptr option \<Rightarrow> 64 word \<Rightarrow> 'w mstate \<Rightarrow> 'w mstate option" where
  "set_Size q x s = update_image q (\<lambda>im. im\<lparr>i_Size := x\<rparr>) s"

section \<open>builder.go\<close>

definition parseImageFileName :: "string \<Rightarrow> string" where
  "parseImageFileName imageName = foldl (\<lambda>n c. ReplaceAll n c ''.'') imageName ['':'', ''/'']"

definition getMountImagePath :: "ContainerMetadata \<Rightarrow> string \<Rightarrow> 'w mstate \<Rightarrow> string option" where
  "getMountImagePath cm imageRemoteMount s = do {
     im \<leftarrow> deref (c_Image cm) (imgs s);
     let imageName = parseImageFileName (i_RemotePath im);
     let folder = (if imageRemoteMount \<noteq> [] then i_LocalPath im
        else sprintf ''%s/.images'' [mstr (c_Extra cm) ''VolumePath'']);
     Some (if HasSuffix folder imageName then folder else sprintf ''%s/%s'' [folder, imageName])
   }"

definition cleanLocalFileName :: "ContainerMetadata \<Rightarrow> 'w mstate \<Rightarrow> string option" where
  "cleanLocalFileName cm s = do {
     im \<leftarrow> deref (c_Image cm) (imgs s);
     Some (Split (i_RemotePath im) '':'' ! 0)
   }"

definition getLocalImagePath :: "ContainerMetadata \<Rightarrow> 'w mstate \<Rightarrow> string option" where
  "getLocalImagePath cm s = do {
     n \<leftarrow> cleanLocalFileName cm s;
     Some (sprintf ''%s/%s'' [mstr (c_Extra cm) ''VolumePath'', n])
   }"

definition PullLocalImage :: "ContainerMetadata \<Rightarrow> 'w mstate \<Rightarrow> (error option \<times> 'w mstate) option" where
  "PullLocalImage cm s = do {
     im \<leftarrow> deref (c_Image cm) (imgs s);
     source \<leftarrow> getLocalImagePath cm s;
     let (err, f) = copyLocalFile (i_LocalPath im) source (files s);
     Some (err, s\<lparr>files := f\<rparr>)
   }"

section \<open>builder\_cluster.go\<close>

record ImageBuilderInCluster =
  bc_MountPoint :: string
  bc_RemoteMount :: string

definition GetRMImagePath :: "ContainerMetadata \<Rightarrow> string \<Rightarrow> string \<Rightarrow> 'w mstate \<Rightarrow> string option" where
  "GetRMImagePath cm mountPoint imageRemoteMount s = do {
     im \<leftarrow> deref (c_Image cm) (imgs s);
     let imageName = parseImageFileName (i_RemotePath im);
     let folder = (if imageRemoteMount \<noteq> [] then mountPoint
        else sprintf ''%s/%s'' [mountPoint, Base (mstr (c_Extra cm) ''VolumePath'')]);
     Some (sprintf ''$HOME/%s/.images/%s'' [folder, imageName])
   }"

definition getRMImageScript :: "ContainerMetadata \<Rightarrow> string" where
  "getRMImageScript cm = sprintf ''%s/%s'' [mstr (c_Extra cm) ''RMPath'', ImageScript]"

definition InCluster_PullImage :: "ImageBuilderInCluster \<Rightarrow> ContainerMetadata \<Rightarrow> 'w mstate \<Rightarrow> (error option \<times> 'w mstate) option" where
  "InCluster_PullImage bld cm s = do {
     s \<leftarrow> set_Size (c_Image cm) 1 s;
     s \<leftarrow> (if bc_RemoteMount bld \<noteq> [] then set_LocalPath (c_Image cm) (bc_RemoteMount bld) s else Some s);
     Some (None, s)
   }"

definition InCluster_GetImagePath :: "ImageBuilderInCluster \<Rightarrow> ContainerMetadata \<Rightarrow> 'w mstate \<Rightarrow> string option" where
  "InCluster_GetImagePath bld cm s = GetRMImagePath cm (bc_MountPoint bld) (bc_RemoteMount bld) s"

definition InCluster_PullImageInCluster ::
    "'w lib \<Rightarrow> ImageBuilderInCluster \<Rightarrow> ContainerMetadata \<Rightarrow> 'w mstate \<Rightarrow> (error option \<times> 'w mstate) option" where
  "InCluster_PullImageInCluster B bld cm s = do {
     p \<leftarrow> getMountImagePath cm (bc_MountPoint bld) s;
     s \<leftarrow> set_LocalPath (c_Image cm) p s;
     im \<leftarrow> deref (c_Image cm) (imgs s);
     if i_RepoType im = LocalImageRepo then PullLocalImage cm s
     else do {
       authString \<leftarrow> ParseImageAuth cm s;
       imagePath \<leftarrow> InCluster_GetImagePath bld cm s;
       let command = sprintf ''%s singularity pull %s %s'' [authString, imagePath, i_RemotePath im];
       (case CreateCMD cm of
          Inl e \<Rightarrow> Some (Some e, s)
        | Inr sl \<Rightarrow> do {
            ((sz, err), s) \<leftarrow> SlurmCmd_PullImageScript B sl command imagePath (getRMImageScript cm) (c_Environment cm) s;
            s \<leftarrow> set_Size (c_Image cm) sz s;
            Some (err, s)
          })
     }
   }"

definition NewImageBuilderInCluster :: "'w lib \<Rightarrow> string \<Rightarrow> string \<Rightarrow> 'w ImageBuilder" where
  "NewImageBuilderInCluster B mountPoint remoteMount =
     (let bld = \<lparr>bc_MountPoint = mountPoint, bc_RemoteMount = remoteMount\<rparr>
      in \<lparr>ib_PullImage = InCluster_PullImage bld, ib_PullImageInCluster = InCluster_PullImageInCluster B bld,
          ib_GetImagePath = InCluster_GetImagePath bld\<rparr>)"

section \<open>builder\_cri.go\<close>

record ImageBuilderInCRI =
  br_client :: singularity_cli
  br_RemoteMount :: string

definition InCRI_GetImagePath :: "ImageBuilderInCRI \<Rightarrow> ContainerMetadata \<Rightarrow> 'w mstate \<Rightarrow> string option" where
  "InCRI_GetImagePath bld cm s = do {
     im \<leftarrow> deref (c_Image cm) (imgs s);
     let imageName = parseImageFileName (i_RemotePath im);
     let folder = (if br_RemoteMount bld \<noteq> [] then br_RemoteMount bld else i_LocalPath im);
     Some (if HasSuffix folder imageName then folder else sprintf ''%s/%s'' [folder, imageName])
   }"

definition InCRI_PullImage ::
    "'w lib \<Rightarrow> ImageBuilderInCRI \<Rightarrow> ContainerMetadata \<Rightarrow> 'w mstate \<Rightarrow> (error option \<times> 'w mstate) option" where
  "InCRI_PullImage B bld cm s = do {
     im \<leftarrow> deref (c_Image cm) (imgs s);
     if i_RepoType im = LocalImageRepo then do {
       p \<leftarrow> getMountImagePath cm (br_RemoteMount bld) s;
       s \<leftarrow> set_LocalPath (c_Image cm) p s;
       Some (None, s)
     }
     else do {
       authString \<leftarrow> ParseImageAuth cm s;
       p \<leftarrow> InCRI_GetImagePath bld cm s;
       s \<leftarrow> set_LocalPath (c_Image cm) p s;
       (case EnsurePathExist (Dir p) (files s) of
          (Some e, f) \<Rightarrow> Some (Some e, s\<lparr>files := f\<rparr>)
        | (None, f) \<Rightarrow> do {
            (err, s) \<leftarrow> SingularityPullImage (lib_proc B) (br_client bld) p (i_RemotePath im) authString (s\<lparr>files := f\<rparr>);
            (case err of
               Some e \<Rightarrow> Some (Some e, s)
             | None \<Rightarrow> (case FileSize p (files s) of
                 Inl e \<Rightarrow> Some (Some e, s)
               | Inr sz \<Rightarrow> do { s \<leftarrow> set_Size (c_Image cm) (word_of_int sz) s; Some (None, s) }))
          })
     }
   }"

definition InCRI_PullImageInCluster ::
    "ImageBuilderInCRI \<Rightarrow> ContainerMetadata \<Rightarrow> 'w mstate \<Rightarrow> (error option \<times> 'w mstate) option" where
  "InCRI_PullImageInCluster bld cm s = do {
     im \<leftarrow> deref (c_Image cm) (imgs s);
     if i_RepoType im = LocalImageRepo then PullLocalImage cm s
     else if br_RemoteMount bld = [] then do {
       volumePath \<leftarrow> getMountImagePath cm (br_RemoteMount bld) s;
       (case EnsurePathExist (Dir volumePath) (files s) of
          (Some e, f) \<Rightarrow> Some (Some e, s\<lparr>files := f\<rparr>)
        | (None, f) \<Rightarrow> (let (err, f) = copyLocalFile volumePath (i_LocalPath im) f in Some (err, s\<lparr>files := f\<rparr>)))
     }
     else Some (None, s)
   }"

definition InCRI_builder :: "'w lib \<Rightarrow> ImageBuilderInCRI \<Rightarrow> 'w ImageBuilder" where
  "InCRI_builder B bld = \<lparr>ib_PullImage = InCRI_PullImage B bld,
     ib_PullImageInCluster = InCRI_PullImageInCluster bld, ib_GetImagePath = InCRI_GetImagePath bld\<rparr>"

definition NewImageBuilderInCRI :: "'w lib \<Rightarrow> (string \<Rightarrow> error + string) \<Rightarrow> string \<Rightarrow> fs \<Rightarrow> error + 'w ImageBuilder" where
  "NewImageBuilderInCRI B LookPath remoteMount f =
     (case NewSingularityCLI LookPath [] f of
        Inl e \<Rightarrow> Inl e
      | Inr c \<Rightarrow> Inr (InCRI_builder B \<lparr>br_client = c, br_RemoteMount = remoteMount\<rparr>))"

section \<open>The contract of a builder\<close>

text \<open>Two versions of an image differ in path and size only.\<close>

definition same_image :: "ImageMetadata \<Rightarrow> ImageMetadata \<Rightarrow> bool" where
  "same_image a b \<longleftrightarrow> b = a\<lparr>i_LocalPath := i_LocalPath b, i_Size := i_Size b\<rparr>"

definition image_frame :: "'w mstate \<Rightarrow> 'w mstate \<Rightarrow> bool" where
  "image_frame s t \<longleftrightarrow> sbxs t = sbxs s \<and> ctrs t = ctrs s
     \<and> SandboxPool t = SandboxPool s \<and> ContainerPool t = ContainerPool s \<and> ImagePool t = ImagePool s
     \<and> sandbox_persist t = sandbox_persist s \<and> container_persist t = container_persist s
     \<and> image_persist t = image_persist s \<and> basePath t = basePath s
     \<and> next_free (imgs t) = next_free (imgs s)
     \<and> (\<forall>p. rel_option same_image (cells (imgs s) p) (cells (imgs t) p))"

lemma same_image_refl [simp]: "same_image a a"
  by (simp add: same_image_def)

lemma same_image_trans: "same_image a b \<Longrightarrow> same_image b c \<Longrightarrow> same_image a c"
  unfolding same_image_def by (metis ImageMetadata.update_convs(3,7) ImageMetadata.surjective)

lemma same_image_ID: "same_image a b \<Longrightarrow> i_ID b = i_ID a"
  unfolding same_image_def by (metis ImageMetadata.select_convs(1) ImageMetadata.surjective ImageMetadata.update_convs(3,7))

lemma same_image_updates [simp]: "same_image im (im\<lparr>i_LocalPath := x\<rparr>)" "same_image im (im\<lparr>i_Size := y\<rparr>)"
  by (simp_all add: same_image_def)

lemma same_stores_image_frame: "same_stores s t \<Longrightarrow> image_frame s t"
  by (simp add: same_stores_def image_frame_def option.rel_refl)

lemma image_frame_refl [simp]: "image_frame s s"
  by (rule same_stores_image_frame) simp

lemma image_frame_world [simp]: "image_frame s (s\<lparr>world := w\<rparr>)" "image_frame s (s\<lparr>files := f\<rparr>)"
  "image_frame s (s\<lparr>files := f, world := w\<rparr>)"
  by (simp_all add: same_stores_image_frame)

lemma rel_option_trans:
  "(\<And>x y z. R x y \<Longrightarrow> R y z \<Longrightarrow> R x z) \<Longrightarrow> rel_option R a b \<Longrightarrow> rel_option R b c \<Longrightarrow> rel_option R a c"
  by (cases a; cases b; cases c) auto

lemma image_frame_trans: "image_frame s t \<Longrightarrow> image_frame t u \<Longrightarrow> image_frame s u"
  unfolding image_frame_def using rel_option_trans [of same_image] same_image_trans by metis

lemma transp_image_frame: "transp image_frame"
  by (rule transpI) (rule image_frame_trans)

lemmas image_bind = keeps_bind [OF transp_image_frame]
lemmas image_step = keeps_step [OF transp_image_frame]

lemma image_of_store: "keeps same_stores s m \<Longrightarrow> keeps image_frame s m"
  by (auto simp: keeps_def intro: same_stores_image_frame)

lemma image_frame_wf: "image_frame s t \<Longrightarrow> state_wf s \<Longrightarrow> state_wf t"
proof -
  assume f: "image_frame s t" and wf: "state_wf s"
  have c: "rel_option same_image (cells (imgs s) p) (cells (imgs t) p)" for p
    using f by (simp add: image_frame_def)
  have "pool_wf i_ID (imgs t) (ImagePool t)"
    unfolding pool_wf_def heap_wf_def
  proof (intro conjI allI impI)
    show "mwf (ImagePool t)" using f wf by (simp add: image_frame_def state_wf_def pool_wf_def)
  next
    fix a assume "next_free (imgs t) \<le> a"
    then have "cells (imgs s) a = None"
      using f wf by (simp add: image_frame_def state_wf_def pool_wf_def heap_wf_def)
    with c [of a] show "cells (imgs t) a = None" by simp
  next
    fix k p assume "(k, p) \<in> set (ImagePool t)"
    then have "(k, p) \<in> set (ImagePool s)" using f by (simp add: image_frame_def)
    then obtain im where "cells (imgs s) p = Some im" "i_ID im = k"
      using wf unfolding state_wf_def pool_wf_def by blast
    with c [of p] show "\<exists>ob. cells (imgs t) p = Some ob \<and> i_ID ob = k"
      by (cases "cells (imgs t) p") (auto dest: same_image_ID)
  qed
  with f wf show ?thesis by (simp add: state_wf_def image_frame_def)
qed

lemma update_image_frame:
  assumes "update_image q f s = Some t" and "\<And>im. same_image im (f im)"
  shows "image_frame s t"
  using assms by (auto simp: update_image_def image_frame_def bind_eq_Some_conv option.rel_refl split: option.splits)

lemma set_frames: "set_LocalPath q x s = Some t \<Longrightarrow> image_frame s t" "set_Size q y s = Some t \<Longrightarrow> image_frame s t"
  unfolding set_LocalPath_def set_Size_def by (erule update_image_frame, simp)+

lemma set_total:
  "deref q (imgs s) = Some im \<Longrightarrow> \<exists>t. set_LocalPath q x s = Some t \<and> deref q (imgs t) = Some (im\<lparr>i_LocalPath := x\<rparr>)"
  "deref q (imgs s) = Some im \<Longrightarrow> \<exists>t. set_Size q y s = Some t \<and> deref q (imgs t) = Some (im\<lparr>i_Size := y\<rparr>)"
  by (cases q; simp add: set_LocalPath_def set_Size_def update_image_def)+

locale image_builder =
  fixes bld :: "'w ImageBuilder"
  assumes pull_frame: "keeps image_frame s (ib_PullImage bld cm s)"
    and pull_cluster_frame: "keeps image_frame s (ib_PullImageInCluster bld cm s)"
    and path_needs_image: "ib_GetImagePath bld cm s = Some p \<Longrightarrow> deref (c_Image cm) (imgs s) \<noteq> None"
    and pull_returns: "deref (c_Image cm) (imgs s) \<noteq> None \<Longrightarrow> \<exists>r. ib_PullImage bld cm s = Some r"
begin

lemma pull_wf: "ib_PullImage bld cm s = Some (e, t) \<Longrightarrow> state_wf s \<Longrightarrow> state_wf t"
  using keepsD [OF pull_frame] image_frame_wf by blast

lemma pull_cluster_wf: "ib_PullImageInCluster bld cm s = Some (e, t) \<Longrightarrow> state_wf s \<Longrightarrow> state_wf t"
  using keepsD [OF pull_cluster_frame] image_frame_wf by blast

end

lemma image_set_bind:
  "(\<And>t. set_LocalPath q x s = Some t \<Longrightarrow> keeps image_frame t (f t)) \<Longrightarrow>
   keeps image_frame s (Option.bind (set_LocalPath q x s) f)"
  "(\<And>t. set_Size q y s = Some t \<Longrightarrow> keeps image_frame t (f t)) \<Longrightarrow>
   keeps image_frame s (Option.bind (set_Size q y s) f)"
  by (cases "set_LocalPath q x s"; cases "set_Size q y s";
      auto intro: image_step set_frames)+

lemma PullLocalImage_keeps: "keeps image_frame s (PullLocalImage cm s)"
  unfolding PullLocalImage_def
  by (intro keeps_bind_pure) (auto split: prod.splits intro: same_stores_image_frame)

lemma InCluster_PullImage_keeps: "keeps image_frame s (InCluster_PullImage bld cm s)"
  unfolding InCluster_PullImage_def
  by (intro image_set_bind) (auto intro!: image_set_bind)

lemma InCluster_PullImageInCluster_keeps: "keeps image_frame s (InCluster_PullImageInCluster B bld cm s)"
  unfolding InCluster_PullImageInCluster_def
  by (rule keeps_bind_pure, rule image_set_bind, rule keeps_bind_pure)
    (auto split: sum.split intro!: keeps_bind_pure image_set_bind PullLocalImage_keeps
      image_bind [OF image_of_store [OF PullImageScript_keeps]])

lemma InCRI_PullImage_keeps: "keeps image_frame s (InCRI_PullImage B bld cm s)"
proof -
  have tail: "keeps image_frame t (case err of
               Some e \<Rightarrow> Some (Some e, t)
             | None \<Rightarrow> (case FileSize p (files t) of
                 Inl e \<Rightarrow> Some (Some e, t)
               | Inr sz \<Rightarrow> do { s \<leftarrow> set_Size (c_Image cm) (word_of_int sz) t; Some (None, s) }))" for p err and t :: "'a mstate"
    by (auto split: option.split sum.split intro!: image_set_bind)
  have pull: "keeps image_frame t (SingularityPullImage X c p r a (t\<lparr>files := f\<rparr>))" for X c p r a f and t :: "'a mstate"
    using SingularityPullImage_total [of X c p r a "t\<lparr>files := f\<rparr>"] by (auto intro: same_stores_image_frame)
  show ?thesis
    unfolding InCRI_PullImage_def
    by (rule keeps_bind_pure)
      (auto split: prod.split option.split intro!: keeps_bind_pure image_set_bind image_bind [OF pull] tail
        intro: same_stores_image_frame)
qed

lemma InCRI_PullImageInCluster_keeps: "keeps image_frame s (InCRI_PullImageInCluster bld cm s)"
  unfolding InCRI_PullImageInCluster_def
  by (rule keeps_bind_pure)
    (auto split: prod.split option.split intro!: keeps_bind_pure PullLocalImage_keeps intro: same_stores_image_frame)

text \<open>A pull of an image that is there returns.\<close>

lemma set_returns:
  "cells (imgs s) q = Some im \<Longrightarrow> set_LocalPath (Some q) x s = Some (s\<lparr>imgs := assign q (im\<lparr>i_LocalPath := x\<rparr>) (imgs s)\<rparr>)"
  "cells (imgs s) q = Some im \<Longrightarrow> set_Size (Some q) n s = Some (s\<lparr>imgs := assign q (im\<lparr>i_Size := n\<rparr>) (imgs s)\<rparr>)"
  by (simp_all add: set_LocalPath_def set_Size_def update_image_def)

lemma InCluster_PullImage_returns:
  assumes "c_Image cm = Some q" and "cells (imgs s) q = Some im"
  shows "\<exists>r. InCluster_PullImage bld cm s = Some r"
  using assms by (simp add: InCluster_PullImage_def set_returns)

lemma InCRI_PullImage_returns:
  assumes "c_Image cm = Some q" and "cells (imgs s) q = Some im"
  shows "\<exists>r. InCRI_PullImage B bld cm s = Some r"
proof (cases "i_RepoType im = LocalImageRepo")
  case True
  then show ?thesis using assms by (simp add: InCRI_PullImage_def getMountImagePath_def set_returns Let_def)
next
  case False
  obtain auth where a: "ParseImageAuth cm s = Some auth" using assms by (simp add: ParseImageAuth_def)
  obtain p where p: "InCRI_GetImagePath bld cm s = Some p" using assms by (simp add: InCRI_GetImagePath_def Let_def)
  let ?s = "s\<lparr>imgs := assign q (im\<lparr>i_LocalPath := p\<rparr>) (imgs s)\<rparr>"
  obtain e f where d: "EnsurePathExist (Dir p) (files s) = (e, f)" by (metis prod.exhaust)
  obtain e' f' w where r: "SingularityPullImage (lib_proc B) (br_client bld) p (i_RemotePath im) auth (?s\<lparr>files := f\<rparr>)
      = Some (e', ?s\<lparr>files := f', world := w\<rparr>)"
    using SingularityPullImage_total [of "lib_proc B" "br_client bld" p "i_RemotePath im" auth "?s\<lparr>files := f\<rparr>"] by auto
  show ?thesis
  proof (cases e)
    case None
    have "set_Size (Some q) n (?s\<lparr>files := f', world := w\<rparr>) \<noteq> None" for n by (simp add: set_returns)
    with None show ?thesis using assms False a p d r
      by (cases e'; cases "FileSize p f'") (auto simp: InCRI_PullImage_def set_returns)
  qed (use assms False a p d in \<open>simp add: InCRI_PullImage_def set_returns\<close>)
qed

lemma image_there: "deref q h \<noteq> None \<Longrightarrow> \<exists>p im. q = Some p \<and> cells h p = Some im"
  by (cases q) auto

interpretation in_cluster: image_builder "NewImageBuilderInCluster B m r" for B m r
proof unfold_locales
  show "keeps image_frame s (ib_PullImage (NewImageBuilderInCluster B m r) cm s)" for s cm
    by (simp add: NewImageBuilderInCluster_def Let_def InCluster_PullImage_keeps)
  show "keeps image_frame s (ib_PullImageInCluster (NewImageBuilderInCluster B m r) cm s)" for s cm
    by (simp add: NewImageBuilderInCluster_def Let_def InCluster_PullImageInCluster_keeps)
  show "ib_GetImagePath (NewImageBuilderInCluster B m r) cm s = Some p \<Longrightarrow> deref (c_Image cm) (imgs s) \<noteq> None" for cm s p
    by (auto simp: NewImageBuilderInCluster_def Let_def InCluster_GetImagePath_def GetRMImagePath_def bind_eq_Some_conv)
  show "deref (c_Image cm) (imgs s) \<noteq> None \<Longrightarrow> \<exists>x. ib_PullImage (NewImageBuilderInCluster B m r) cm s = Some x" for cm s
    by (drule image_there) (auto simp: NewImageBuilderInCluster_def Let_def dest!: InCluster_PullImage_returns)
qed

interpretation in_cri: image_builder "InCRI_builder B bld" for B bld
proof unfold_locales
  show "keeps image_frame s (ib_PullImage (InCRI_builder B bld) cm s)" for s cm
    by (simp add: InCRI_builder_def InCRI_PullImage_keeps)
  show "keeps image_frame s (ib_PullImageInCluster (InCRI_builder B bld) cm s)" for s cm
    by (simp add: InCRI_builder_def InCRI_PullImageInCluster_keeps)
  show "ib_GetImagePath (InCRI_builder B bld) cm s = Some p \<Longrightarrow> deref (c_Image cm) (imgs s) \<noteq> None" for cm s p
    by (auto simp: InCRI_builder_def InCRI_GetImagePath_def bind_eq_Some_conv)
  show "deref (c_Image cm) (imgs s) \<noteq> None \<Longrightarrow> \<exists>x. ib_PullImage (InCRI_builder B bld) cm s = Some x" for cm s
    by (drule image_there) (auto simp: InCRI_builder_def dest!: InCRI_PullImage_returns)
qed

section \<open>Image file names\<close>

lemma parseImageFileName_map:
  "parseImageFileName n = map (\<lambda>x. if x = CHR '':'' \<or> x = CHR ''/'' then CHR ''.'' else x) n"
  by (auto simp: parseImageFileName_def ReplaceAll_char)

lemma parseImageFileName_no_slash: "CHR ''/'' \<notin> set (parseImageFileName n)"
  by (auto simp: parseImageFileName_map)

text \<open>The file a pull reads as the cluster's configuration must exist on the node.\<close>

lemma PullImageScript_config:
  assumes "mget env ''CLUSTER_CONFIG'' = Some c"
    and "\<And>st f. os_OpenCreate False (GenerateTmpFile st ''/tmp'' ''pullimage'' ''sh'') (files s) = (None, f) \<Longrightarrow> file_content f c = None"
  shows "\<exists>e t. SlurmCmd_PullImageScript B sl command p q env s = Some ((0, Some e), t)"
proof -
  obtain st w where st: "time_Stamp (lib_go B) (world s) = (st, w)" by (metis prod.exhaust)
  obtain e f where o: "os_OpenCreate False (GenerateTmpFile st ''/tmp'' ''pullimage'' ''sh'') (files s) = (e, f)"
    by (metis prod.exhaust)
  show ?thesis
  proof (cases e)
    case None
    with assms(2) o have "file_content f c = None" by blast
    then have "\<exists>x. os_ReadFile c f = Inl x"
      by (auto simp: os_ReadFile_def file_content_def split: option.splits entry.splits)
    with assms(1) None st o show ?thesis
      by (auto simp: SlurmCmd_PullImageScript_def tmp_file_def)
  next
    case (Some x)
    with st o show ?thesis by (simp add: SlurmCmd_PullImageScript_def tmp_file_def)
  qed
qed

end
