(* ===== verification/File_Store.thy ===== *)
theory File_Store
  imports Network
begin

text \<open>
  \<open>pkg/cri/store/file_store.go\<close>: the persistence files of the three stores over the
  third-party key-value store.  The wrappers only add logging to the driver's operations;
  the loaders turn the stored values back into objects and pools.
\<close>

record 'w skvlib =
  skv_Open_containers :: "string \<Rightarrow> 'w \<Rightarrow> (stored_container, 'w) KVStore option"
  skv_Open_sandboxes :: "string \<Rightarrow> 'w \<Rightarrow> (SandboxMetadata, 'w) KVStore option"
  skv_Open_images :: "string \<Rightarrow> 'w \<Rightarrow> (ImageMetadata, 'w) KVStore option"

definition CONTAINERSTORE :: string where "CONTAINERSTORE = ''cache-cri-containers.dat''"
definition SANDBOXSTORE :: string where "SANDBOXSTORE = ''cache-cri-sandboxes.dat''"
definition IMAGESTORE :: string where "IMAGESTORE = ''cache-cri-images.dat''"

definition NewContainerPersist :: "'w skvlib \<Rightarrow> string \<Rightarrow> 'w mstate \<Rightarrow> error + (stored_container, 'w) KVStore" where
  "NewContainerPersist K resourceCachePath s =
     (let path = resourceCachePath @ ''/'' @ CONTAINERSTORE
      in case skv_Open_containers K path (world s) of
           None \<Rightarrow> Inl (sprintf ''Error openning file %s.'' [path]) | Some d \<Rightarrow> Inr d)"

definition NewSandboxPersist :: "'w skvlib \<Rightarrow> string \<Rightarrow> 'w mstate \<Rightarrow> error + (SandboxMetadata, 'w) KVStore" where
  "NewSandboxPersist K resourceCachePath s =
     (let path = resourceCachePath @ ''/'' @ SANDBOXSTORE
      in case skv_Open_sandboxes K path (world s) of
           None \<Rightarrow> Inl (sprintf ''Error openning file %s.'' [path]) | Some d \<Rightarrow> Inr d)"

definition NewImagePersist :: "'w skvlib \<Rightarrow> string \<Rightarrow> 'w mstate \<Rightarrow> error + (ImageMetadata, 'w) KVStore" where
  "NewImagePersist K resourceCachePath s =
     (let path = resourceCachePath @ ''/'' @ IMAGESTORE
      in case skv_Open_images K path (world s) of
           None \<Rightarrow> Inl (sprintf ''Error openning file %s.'' [path]) | Some d \<Rightarrow> Inr d)"

section \<open>Containers\<close>

text \<open>The value \<open>Put\<close> encodes for the container at an address.\<close>

definition encode_container :: "'w mstate \<Rightarrow> ContainerMetadata \<Rightarrow> stored_container" where
  "encode_container s cm = (cm, deref (c_Image cm) (imgs s))"

definition ContainerPersist_Put ::
    "(stored_container, 'w) KVStore \<Rightarrow> string \<Rightarrow> ContainerMetadata \<Rightarrow> 'w mstate \<Rightarrow> error option \<times> 'w mstate" where
  "ContainerPersist_Put kv k cm s =
     (let (err, w) = kv_Put kv k (encode_container s cm) (world s) in (err, s\<lparr>world := w\<rparr>))"

definition ContainerPersist_Delete ::
    "(stored_container, 'w) KVStore \<Rightarrow> string \<Rightarrow> 'w mstate \<Rightarrow> error option \<times> 'w mstate" where
  "ContainerPersist_Delete kv k s =
     (let (err, w) = kv_Delete kv k (world s) in (err, s\<lparr>world := w\<rparr>))"

text \<open>Decoding allocates the container and, when it has one, its own copy of the image.\<close>

definition decode_container :: "stored_container \<Rightarrow> 'w mstate \<Rightarrow> ptr \<times> 'w mstate" where
  "decode_container v s =
     (case v of
        (cm, None) \<Rightarrow> (let (p, h) = alloc (cm\<lparr>c_Image := None\<rparr>) (ctrs s) in (p, s\<lparr>ctrs := h\<rparr>))
      | (cm, Some im) \<Rightarrow>
          (let (q, hi) = alloc im (imgs s);
               (p, h) = alloc (cm\<lparr>c_Image := Some q\<rparr>) (ctrs s)
           in (p, s\<lparr>imgs := hi, ctrs := h\<rparr>)))"

fun load_containers :: "(string \<times> stored_container) list \<Rightarrow> ptr gomap \<Rightarrow> 'w mstate \<Rightarrow> ptr gomap \<times> 'w mstate" where
  "load_containers [] out s = (out, s)"
| "load_containers ((k, v) # kvs) out s =
     (let (p, s) = decode_container v s in load_containers kvs (mset_key k p out) s)"

definition ContainerPersist_LoadAll :: "(stored_container, 'w) KVStore \<Rightarrow> 'w mstate \<Rightarrow> ptr gomap \<times> 'w mstate" where
  "ContainerPersist_LoadAll kv s = load_containers (fst (kv_List kv (world s))) [] s"

text \<open>
  \<open>Get\<close> decodes onto the container at an address, and onto its image where it has one; a container
  without an image gets a new one when the record carries an image.
\<close>

definition ContainerPersist_Get ::
    "(stored_container, 'w) KVStore \<Rightarrow> string \<Rightarrow> ptr \<Rightarrow> 'w mstate \<Rightarrow> (error option \<times> 'w mstate) option" where
  "ContainerPersist_Get kv k p s = do {
     cm \<leftarrow> cells (ctrs s) p;
     let (err, cm', image') = kv_Get kv k (encode_container s cm) (world s);
     Some (case (image', c_Image cm) of
        (None, _) \<Rightarrow> (err, s\<lparr>ctrs := assign p (cm'\<lparr>c_Image := None\<rparr>) (ctrs s)\<rparr>)
      | (Some im, Some q) \<Rightarrow>
          (err, s\<lparr>imgs := assign q im (imgs s), ctrs := assign p (cm'\<lparr>c_Image := Some q\<rparr>) (ctrs s)\<rparr>)
      | (Some im, None) \<Rightarrow> (let (q, h) = alloc im (imgs s)
          in (err, s\<lparr>imgs := h, ctrs := assign p (cm'\<lparr>c_Image := Some q\<rparr>) (ctrs s)\<rparr>)))
   }"

definition ContainerPersist_Close :: "(stored_container, 'w) KVStore \<Rightarrow> 'w mstate \<Rightarrow> error option \<times> 'w mstate" where
  "ContainerPersist_Close kv s = (let (err, w) = kv_Close kv (world s) in (err, s\<lparr>world := w\<rparr>))"

section \<open>Sandboxes\<close>

definition SandboxPersist_Put ::
    "(SandboxMetadata, 'w) KVStore \<Rightarrow> string \<Rightarrow> SandboxMetadata \<Rightarrow> 'w mstate \<Rightarrow> error option \<times> 'w mstate" where
  "SandboxPersist_Put kv k sm s =
     (let (err, w) = kv_Put kv k sm (world s) in (err, s\<lparr>world := w\<rparr>))"

definition SandboxPersist_Delete ::
    "(SandboxMetadata, 'w) KVStore \<Rightarrow> string \<Rightarrow> 'w mstate \<Rightarrow> error option \<times> 'w mstate" where
  "SandboxPersist_Delete kv k s =
     (let (err, w) = kv_Delete kv k (world s) in (err, s\<lparr>world := w\<rparr>))"

text \<open>
  Only a ready sandbox that recorded a namespace path is kept (its namespace is opened
  again); every other record is deleted from the file.
\<close>

fun load_sandboxes :: "'w nslib \<Rightarrow> (SandboxMetadata, 'w) KVStore \<Rightarrow> (string \<times> SandboxMetadata) list \<Rightarrow>
    ptr gomap \<Rightarrow> 'w mstate \<Rightarrow> (ptr gomap \<times> 'w mstate) option" where
  "load_sandboxes N kv [] out s = Some (out, s)"
| "load_sandboxes N kv ((k, v) # kvs) out s =
     (if s_NetNSPath v \<noteq> [] \<and> s_State v = SANDBOX_READY then
        (case CNINetwork_OpenNetNamespace N (s_NetNSPath v) s of
           ((n, Some e), s) \<Rightarrow> load_sandboxes N kv kvs out s
         | ((n, None), s) \<Rightarrow> do {
             path \<leftarrow> NetNS_GetPath n;
             let v = v\<lparr>s_NetNSPath := path\<rparr>;
             let s = snd (SandboxPersist_Put kv k v s);
             let (p, h) = alloc v (sbxs s);
             load_sandboxes N kv kvs (mset_key k p out) (s\<lparr>sbxs := h\<rparr>)
           })
      else load_sandboxes N kv kvs out (snd (SandboxPersist_Delete kv k s)))"

definition SandboxPersist_LoadAll ::
    "'w nslib \<Rightarrow> (SandboxMetadata, 'w) KVStore \<Rightarrow> 'w mstate \<Rightarrow> (ptr gomap \<times> 'w mstate) option" where
  "SandboxPersist_LoadAll N kv s = load_sandboxes N kv (fst (kv_List kv (world s))) [] s"

definition SandboxPersist_Get ::
    "(SandboxMetadata, 'w) KVStore \<Rightarrow> string \<Rightarrow> ptr \<Rightarrow> 'w mstate \<Rightarrow> (error option \<times> 'w mstate) option" where
  "SandboxPersist_Get kv k p s = do {
     sm \<leftarrow> cells (sbxs s) p;
     let (err, sm') = kv_Get kv k sm (world s);
     Some (err, s\<lparr>sbxs := assign p sm' (sbxs s)\<rparr>)
   }"

definition SandboxPersist_Close :: "(SandboxMetadata, 'w) KVStore \<Rightarrow> 'w mstate \<Rightarrow> error option \<times> 'w mstate" where
  "SandboxPersist_Close kv s = (let (err, w) = kv_Close kv (world s) in (err, s\<lparr>world := w\<rparr>))"

section \<open>Images\<close>

definition ImagePersist_Put ::
    "(ImageMetadata, 'w) KVStore \<Rightarrow> string \<Rightarrow> ImageMetadata \<Rightarrow> 'w mstate \<Rightarrow> error option \<times> 'w mstate" where
  "ImagePersist_Put kv k im s =
     (let (err, w) = kv_Put kv k im (world s) in (err, s\<lparr>world := w\<rparr>))"

definition ImagePersist_Delete ::
    "(ImageMetadata, 'w) KVStore \<Rightarrow> string \<Rightarrow> 'w mstate \<Rightarrow> error option \<times> 'w mstate" where
  "ImagePersist_Delete kv k s =
     (let (err, w) = kv_Delete kv k (world s) in (err, s\<lparr>world := w\<rparr>))"

fun load_images :: "(string \<times> ImageMetadata) list \<Rightarrow> ptr gomap \<Rightarrow> 'w mstate \<Rightarrow> ptr gomap \<times> 'w mstate" where
  "load_images [] out s = (out, s)"
| "load_images ((k, v) # kvs) out s =
     (let (p, h) = alloc v (imgs s) in load_images kvs (mset_key k p out) (s\<lparr>imgs := h\<rparr>))"

definition ImagePersist_LoadAll :: "(ImageMetadata, 'w) KVStore \<Rightarrow> 'w mstate \<Rightarrow> ptr gomap \<times> 'w mstate" where
  "ImagePersist_LoadAll kv s = load_images (fst (kv_List kv (world s))) [] s"

definition ImagePersist_Get ::
    "(ImageMetadata, 'w) KVStore \<Rightarrow> string \<Rightarrow> ptr \<Rightarrow> 'w mstate \<Rightarrow> (error option \<times> 'w mstate) option" where
  "ImagePersist_Get kv k p s = do {
     im \<leftarrow> cells (imgs s) p;
     let (err, im') = kv_Get kv k im (world s);
     Some (err, s\<lparr>imgs := assign p im' (imgs s)\<rparr>)
   }"

definition ImagePersist_Close :: "(ImageMetadata, 'w) KVStore \<Rightarrow> 'w mstate \<Rightarrow> error option \<times> 'w mstate" where
  "ImagePersist_Close kv s = (let (err, w) = kv_Close kv (world s) in (err, s\<lparr>world := w\<rparr>))"

section \<open>Lemmas\<close>

text \<open>
  The contract of the key-value store: a successful \<open>Put\<close> or \<open>Delete\<close> changes the
  contents at that key only, and \<open>List\<close> enumerates the contents.
\<close>

definition skv_behaves :: "('v, 'w) KVStore \<Rightarrow> ('w \<Rightarrow> string \<Rightarrow> 'v option) \<Rightarrow> bool" where
  "skv_behaves kv db \<longleftrightarrow>
     (\<forall>k v w e w'. kv_Put kv k v w = (e, w') \<longrightarrow> db w' = (if e = None then (db w)(k \<mapsto> v) else db w)) \<and>
     (\<forall>k w e w'. kv_Delete kv k w = (e, w') \<longrightarrow> db w' = (if e = None then (db w)(k := None) else db w)) \<and>
     (\<forall>w. mwf (fst (kv_List kv w)) \<and> mget (fst (kv_List kv w)) = db w)"

lemma skv_putD:
  assumes "skv_behaves kv db" and "kv_Put kv k v w = (None, w')"
  shows "db w' = (db w)(k \<mapsto> v)"
  using assms(1) [unfolded skv_behaves_def, THEN conjunct1, rule_format, OF assms(2)] by simp

text \<open>\<open>Get\<close> onto an object whose fields are all zero gives the record stored under the key.\<close>

definition skv_gets :: "('v, 'w) KVStore \<Rightarrow> ('w \<Rightarrow> string \<Rightarrow> 'v option) \<Rightarrow> 'v \<Rightarrow> bool" where
  "skv_gets kv db zero \<longleftrightarrow>
     (\<forall>k w. kv_Get kv k zero w = (case db w k of Some v \<Rightarrow> (None, v) | None \<Rightarrow> (fst (kv_Get kv k zero w), zero)))"

lemma skv_getsD: "skv_gets kv db zero \<Longrightarrow> db w k = Some v \<Longrightarrow> kv_Get kv k zero w = (None, v)"
  unfolding skv_gets_def by (metis option.simps(5))

lemma persist_frames [frame_simps]:
  "same_stores s (snd (ContainerPersist_Put ckv k cm s))"
  "same_stores s (snd (ContainerPersist_Delete ckv k s))"
  "same_stores s (snd (SandboxPersist_Put skv k sm s))"
  "same_stores s (snd (SandboxPersist_Delete skv k s))"
  "same_stores s (snd (ImagePersist_Put ikv k im s))"
  "same_stores s (snd (ImagePersist_Delete ikv k s))"
  by (simp_all add: ContainerPersist_Put_def ContainerPersist_Delete_def SandboxPersist_Put_def
      SandboxPersist_Delete_def ImagePersist_Put_def ImagePersist_Delete_def split: prod.splits)

text \<open>The loaded pools are well formed when every record is filed under its own ID.\<close>

lemma load_images_wf:
  assumes "pool_wf i_ID (imgs s) out" and "\<forall>(k, v)\<in>set kvs. i_ID v = k"
    and "load_images kvs out s = (m, s')"
  shows "pool_wf i_ID (imgs s') m"
  using assms
proof (induction kvs arbitrary: out s)
  case (Cons kv kvs)
  obtain k v where kv: "kv = (k, v)" by (cases kv)
  obtain p h where al: "alloc v (imgs s) = (p, h)" by (metis prod.exhaust)
  have "pool_wf i_ID h out" using Cons.prems(1) pool_wf_alloc [of i_ID "imgs s" out v] al by simp
  moreover have "cells h p = Some v" using cells_alloc [OF al] by simp
  moreover have "i_ID v = k" using Cons.prems(2) kv by simp
  ultimately have "pool_wf i_ID h (mset_key k p out)" using pool_wf_put [of i_ID h out p v] by simp
  then show ?case using Cons.prems(2,3) kv al by (intro Cons.IH [of "s\<lparr>imgs := h\<rparr>" "mset_key k p out"]) auto
qed simp

text \<open>
  What loading makes of a record: a ready sandbox with a namespace path is in the pool, with a path
  that may be another; any other one is not, and its record is deleted unless the file refuses.
\<close>

definition namespaces_apart :: "'w nslib \<Rightarrow> ('w \<Rightarrow> string \<Rightarrow> 'v option) \<Rightarrow> bool" where
  "namespaces_apart N db \<longleftrightarrow>
     (\<forall>p w. db (snd (cnins_GetNS N p w)) = db w) \<and> (\<forall>w. db (snd (cnins_NewNS N w)) = db w)"

definition record_loaded ::
    "(SandboxMetadata, 'w) KVStore \<Rightarrow> SandboxMetadata option \<Rightarrow> ptr option \<Rightarrow> SandboxMetadata heap \<Rightarrow> SandboxMetadata \<Rightarrow> bool" where
  "record_loaded kv stored p h sm \<longleftrightarrow>
     (if s_NetNSPath sm \<noteq> [] \<and> s_State sm = SANDBOX_READY then
        (\<exists>path. (case p of None \<Rightarrow> False | Some q \<Rightarrow> cells h q = Some (sm\<lparr>s_NetNSPath := path\<rparr>))
           \<and> (stored = Some sm \<or> stored = Some (sm\<lparr>s_NetNSPath := path\<rparr>)))
      else p = None \<and> (stored = None \<or> stored = Some sm \<and> (\<exists>k w. fst (kv_Delete kv k w) \<noteq> None)))"

lemma skv_delete_cases:
  assumes "skv_behaves kv db" and "kv_Delete kv k w = (e, v)"
  shows "db v = (if e = None then (db w)(k := None) else db w)"
  using assms unfolding skv_behaves_def by blast

lemma skv_put_cases:
  assumes "skv_behaves kv db" and "kv_Put kv k x w = (e, v)"
  shows "db v = (if e = None then (db w)(k \<mapsto> x) else db w)"
  using assms unfolding skv_behaves_def by blast

lemma open_namespace_world:
  assumes "namespaces_apart N db" and "CNINetwork_OpenNetNamespace N path s = ((n, e), t)"
  shows "e = None" and "db (world t) = db (world s)" and "sbxs t = sbxs s"
proof -
  have get: "db v = db w" if "cnins_GetNS N p w = (r, v)" for p w r v
    using assms(1) that unfolding namespaces_apart_def by (metis snd_conv)
  have new: "db v = db w" if "cnins_NewNS N w = (r, v)" for w r v
    using assms(1) that unfolding namespaces_apart_def by (metis snd_conv)
  show "e = None" "db (world t) = db (world s)" "sbxs t = sbxs s"
    using assms(2) by (auto simp: CNINetwork_OpenNetNamespace_def NetNS_CreateNetNS_def NetNS_newNetNS_def NetNS_openNetNS_def
        split: if_splits prod.splits sum.splits dest!: get new)
qed

lemma load_sandboxes_step:
  assumes "skv_behaves kv db" and "namespaces_apart N db" and "heap_wf (sbxs s)"
    and load: "load_sandboxes N kv ((k, v) # kvs) out s = Some (m, t)" and db: "db (world s) k = Some v" and "mget out k = None"
  obtains out' u where "load_sandboxes N kv kvs out' u = Some (m, t)" "heap_wf (sbxs u)"
    "\<And>p x. cells (sbxs s) p = Some x \<Longrightarrow> cells (sbxs u) p = Some x"
    "\<And>j. j \<noteq> k \<Longrightarrow> mget out' j = mget out j \<and> db (world u) j = db (world s) j"
    "record_loaded kv (db (world u) k) (mget out' k) (sbxs u) v"
proof (cases "s_NetNSPath v \<noteq> [] \<and> s_State v = SANDBOX_READY")
  case True
  obtain n e s1 where o: "CNINetwork_OpenNetNamespace N (s_NetNSPath v) s = ((n, e), s1)" by (metis prod.exhaust)
  note s1 = open_namespace_world [OF assms(2) o]
  obtain path where path: "NetNS_GetPath n = Some path" using load True o s1(1) by (cases "NetNS_GetPath n") auto
  let ?v = "v\<lparr>s_NetNSPath := path\<rparr>"
  obtain e' w where put: "kv_Put kv k ?v (world s1) = (e', w)" by (metis prod.exhaust)
  obtain p h where al: "alloc ?v (sbxs s) = (p, h)" by (metis prod.exhaust)
  show ?thesis
  proof (rule that)
    show "load_sandboxes N kv kvs (mset_key k p out) (s1\<lparr>world := w, sbxs := h\<rparr>) = Some (m, t)"
      using load True o s1 path put al by (simp add: SandboxPersist_Put_def Let_def)
    show "heap_wf (sbxs (s1\<lparr>world := w, sbxs := h\<rparr>))" using heap_wf_alloc [OF assms(3), of ?v] al by simp
    show "cells (sbxs (s1\<lparr>world := w, sbxs := h\<rparr>)) q = Some x" if "cells (sbxs s) q = Some x" for q x
      using that cells_alloc [OF al] assms(3) by (auto simp: heap_wf_def)
    show "mget (mset_key k p out) j = mget out j \<and> db (world (s1\<lparr>world := w, sbxs := h\<rparr>)) j = db (world s) j" if "j \<noteq> k" for j
      using that skv_put_cases [OF assms(1) put] s1(2) by (simp add: mget_update)
    show "record_loaded kv (db (world (s1\<lparr>world := w, sbxs := h\<rparr>)) k) (mget (mset_key k p out) k) (sbxs (s1\<lparr>world := w, sbxs := h\<rparr>)) v"
      using True cells_alloc [OF al] skv_put_cases [OF assms(1) put] s1(2) db by (auto simp: record_loaded_def mget_update)
  qed
next
  case False
  obtain e w where del: "kv_Delete kv k (world s) = (e, w)" by (metis prod.exhaust)
  show ?thesis
  proof (rule that)
    show "load_sandboxes N kv kvs out (s\<lparr>world := w\<rparr>) = Some (m, t)"
      using load False del by (simp add: SandboxPersist_Delete_def)
    have "\<exists>k w. fst (kv_Delete kv k w) \<noteq> None" if "e \<noteq> None" using del that by (metis fst_conv)
    with False skv_delete_cases [OF assms(1) del] db assms(6)
    show "record_loaded kv (db (world (s\<lparr>world := w\<rparr>)) k) (mget out k) (sbxs (s\<lparr>world := w\<rparr>)) v"
      unfolding record_loaded_def if_not_P [OF False] by (cases e) simp_all
    show "mget out j = mget out j \<and> db (world (s\<lparr>world := w\<rparr>)) j = db (world s) j" if "j \<noteq> k" for j
      using that skv_delete_cases [OF assms(1) del] by simp
  qed (use assms(3) in simp_all)
qed

lemma record_loaded_mono:
  assumes "q = p \<and> d = stored" and "record_loaded kv stored p h sm"
    and "\<And>a x. cells h a = Some x \<Longrightarrow> cells h' a = Some x"
  shows "record_loaded kv d q h' sm"
proof (cases p)
  case None
  with assms(1,2) show ?thesis by (simp add: record_loaded_def split: if_splits)
next
  case (Some a)
  with assms show ?thesis by (auto simp: record_loaded_def split: if_splits)
qed

lemma load_sandboxes_records:
  assumes "skv_behaves kv db" and "namespaces_apart N db" and "heap_wf (sbxs s)" and "mwf kvs"
    and "load_sandboxes N kv kvs out s = Some (m, t)"
    and "\<And>k v. mget kvs k = Some v \<Longrightarrow> db (world s) k = Some v \<and> mget out k = None"
  shows "(\<forall>p x. cells (sbxs s) p = Some x \<longrightarrow> cells (sbxs t) p = Some x)
     \<and> (\<forall>k. case mget kvs k of None \<Rightarrow> mget m k = mget out k \<and> db (world t) k = db (world s) k
          | Some v \<Rightarrow> record_loaded kv (db (world t) k) (mget m k) (sbxs t) v)"
  using assms(3-)
proof (induction kvs arbitrary: out s)
  case (Cons a kvs)
  obtain k v where a: "a = (k, v)" by (cases a)
  have rest: "mget kvs k = None" using Cons.prems(2) a by (auto simp: mwf_def map_of_eq_None_iff)
  have k: "db (world s) k = Some v" "mget out k = None" using Cons.prems(4) [of k v] a by simp_all
  obtain out' u where u: "load_sandboxes N kv kvs out' u = Some (m, t)" "heap_wf (sbxs u)"
    "\<And>p x. cells (sbxs s) p = Some x \<Longrightarrow> cells (sbxs u) p = Some x"
    "\<And>j. j \<noteq> k \<Longrightarrow> mget out' j = mget out j \<and> db (world u) j = db (world s) j"
    "record_loaded kv (db (world u) k) (mget out' k) (sbxs u) v"
    using load_sandboxes_step [OF assms(1,2) Cons.prems(1) Cons.prems(3) [unfolded a] k] by blast
  have later: "db (world u) j = Some x \<and> mget out' j = None" if "mget kvs j = Some x" for j x
  proof -
    have "j \<noteq> k" using rest that by auto
    with Cons.prems(4) [of j x] u(4) [OF this] that a show ?thesis by simp
  qed
  have "mwf kvs" using Cons.prems(2) a by (simp add: mwf_def)
  note IH = Cons.IH [OF u(2) this u(1) later]
  have kept: "cells (sbxs t) p = Some x" if "cells (sbxs u) p = Some x" for p x using IH that by blast
  have "mget m k = mget out' k \<and> db (world t) k = db (world u) k" using spec [OF conjunct2 [OF IH], of k] rest by simp
  then have "record_loaded kv (db (world t) k) (mget m k) (sbxs t) v"
    using u(5) kept by (rule record_loaded_mono)
  moreover have "case mget kvs j of None \<Rightarrow> mget m j = mget out j \<and> db (world t) j = db (world s) j
      | Some x \<Rightarrow> record_loaded kv (db (world t) j) (mget m j) (sbxs t) x" if "j \<noteq> k" for j
    using spec [OF conjunct2 [OF IH], of j] u(4) [OF that] by (auto split: option.split)
  ultimately show ?case using IH u(3) a by auto
qed simp

text \<open>The loader panics only at a kept record whose namespace can neither be opened nor made anew.\<close>

lemma load_sandboxes_panics:
  "load_sandboxes N kv kvs out s = None \<Longrightarrow> \<exists>k v w u e f. (k, v) \<in> set kvs \<and> s_NetNSPath v \<noteq> [] \<and> s_State v = SANDBOX_READY
     \<and> fst (cnins_GetNS N (s_NetNSPath v) w) = Inl e \<and> fst (cnins_NewNS N u) = Inl f"
proof (induction kvs arbitrary: out s)
  case (Cons a kvs)
  obtain k v where a: "a = (k, v)" by (cases a)
  show ?case
  proof (cases "s_NetNSPath v \<noteq> [] \<and> s_State v = SANDBOX_READY
      \<and> NetNS_GetPath (fst (fst (CNINetwork_OpenNetNamespace N (s_NetNSPath v) s))) = None")
    case True
    then have "\<exists>e f w u. fst (cnins_GetNS N (s_NetNSPath v) w) = Inl e \<and> fst (cnins_NewNS N u) = Inl f"
      by (auto simp: CNINetwork_OpenNetNamespace_def NetNS_CreateNetNS_def NetNS_newNetNS_def NetNS_openNetNS_def
          NetNS_GetPath_def split: prod.splits sum.splits) (metis fst_conv)+
    with True a show ?thesis by auto
  next
    case False
    then have "\<exists>out s. load_sandboxes N kv kvs out s = None"
      using Cons.prems a by (auto simp: Let_def split: if_splits prod.splits option.splits)
    with Cons.IH show ?thesis by (metis list.set_intros(2))
  qed
qed simp

end
