(* ===== verification/Sandbox_Store.thy ===== *)
theory Sandbox_Store
  imports File_Store
begin

text \<open>
  \<open>pkg/cri/store/sandbox.go\<close>: the pool of pod sandboxes and its conversions to CRI
  messages.  The store's mutex makes each operation atomic; the model has one step per
  operation.
\<close>

section \<open>Operations\<close>

definition NewSandboxStorage :: "'w skvlib \<Rightarrow> 'w nslib \<Rightarrow> string \<Rightarrow> bool \<Rightarrow> 'w mstate \<Rightarrow> (error option \<times> 'w mstate) option" where
  "NewSandboxStorage K N resourceCachePath enablePersistence s =
     (if enablePersistence then
        (case NewSandboxPersist K resourceCachePath s of
           Inl e \<Rightarrow> Some (Some (sprintf ''Error when opening Sandbox %s'' [e]), s)
         | Inr p \<Rightarrow> do {
             (pool, s) \<leftarrow> SandboxPersist_LoadAll N p s;
             Some (None, s\<lparr>sandbox_persist := Some p, SandboxPool := pool\<rparr>)
           })
      else Some (None, s\<lparr>sandbox_persist := None, SandboxPool := []\<rparr>))"

definition SandboxStorage_persist_Put :: "SandboxMetadata \<Rightarrow> 'w mstate \<Rightarrow> 'w mstate" where
  "SandboxStorage_persist_Put sm s =
     (case sandbox_persist s of None \<Rightarrow> s | Some kv \<Rightarrow> snd (SandboxPersist_Put kv (s_ID sm) sm s))"

text \<open>An existing entry only makes \<open>Add\<close> build an error that it discards.\<close>

definition SandboxStorage_Add :: "ptr \<Rightarrow> 'w mstate \<Rightarrow> 'w mstate option" where
  "SandboxStorage_Add p s = do {
     sm \<leftarrow> cells (sbxs s) p;
     let s = s\<lparr>SandboxPool := mset_key (s_ID sm) p (SandboxPool s)\<rparr>;
     Some (SandboxStorage_persist_Put sm s)
   }"

definition SandboxStorage_Update :: "ptr \<Rightarrow> 'w mstate \<Rightarrow> 'w mstate option" where
  "SandboxStorage_Update p s = do {
     sm \<leftarrow> cells (sbxs s) p;
     let s = s\<lparr>SandboxPool := mset_key (s_ID sm) p (SandboxPool s)\<rparr>;
     Some (SandboxStorage_persist_Put sm s)
   }"

definition SandboxStorage_Remove :: "string \<Rightarrow> 'w mstate \<Rightarrow> 'w mstate" where
  "SandboxStorage_Remove k s =
     (let s = s\<lparr>SandboxPool := mdel k (SandboxPool s)\<rparr>
      in case sandbox_persist s of None \<Rightarrow> s | Some kv \<Rightarrow> snd (SandboxPersist_Delete kv k s))"

text \<open>
  The loop of \<open>RemoveContainer\<close> ranges over the slice it shortens in place.  Its state
  is the backing array and the slice's current length; \<open>range\<close> reads the array at every
  index of the original length, and \<open>append(s[:i], s[i+1:]...)\<close> panics when
  \<open>i + 1\<close> is past the current length.
\<close>

fun remove_loop :: "string \<Rightarrow> nat list \<Rightarrow> string list \<times> nat \<Rightarrow> (string list \<times> nat) option" where
  "remove_loop cid [] (b, n) = Some (b, n)"
| "remove_loop cid (i # is) (b, n) =
     (if b ! i = cid then
        (if n < i + 1 then None
         else remove_loop cid is (take i b @ drop (i + 1) (take n b) @ drop (n - 1) b, n - 1))
      else remove_loop cid is (b, n))"

definition remove_container_id :: "string \<Rightarrow> string list \<Rightarrow> string list option" where
  "remove_container_id cid cs = do {
     (b, n) \<leftarrow> remove_loop cid [0..<length cs] (cs, length cs);
     Some (take n b)
   }"

definition SandboxStorage_RemoveContainer :: "string \<Rightarrow> string \<Rightarrow> 'w mstate \<Rightarrow> 'w mstate option" where
  "SandboxStorage_RemoveContainer k containerId s =
     (case mget (SandboxPool s) k of
        None \<Rightarrow> Some s
      | Some p \<Rightarrow> do {
          sm \<leftarrow> cells (sbxs s) p;
          let s = s\<lparr>SandboxPool := mset_key (s_ID sm) p (SandboxPool s)\<rparr>;
          cs \<leftarrow> remove_container_id containerId (s_Containers sm);
          let sm = sm\<lparr>s_Containers := cs\<rparr>;
          let s = s\<lparr>sbxs := assign p sm (sbxs s)\<rparr>;
          let s = s\<lparr>SandboxPool := mset_key (s_ID sm) p (SandboxPool s)\<rparr>;
          Some (SandboxStorage_persist_Put sm s)
        })"

definition SandboxStorage_Get :: "string \<Rightarrow> 'w mstate \<Rightarrow> ptr option \<times> error option" where
  "SandboxStorage_Get k s =
     (case mget (SandboxPool s) k of None \<Rightarrow> (None, Some ''Pod not found'') | Some p \<Rightarrow> (Some p, None))"

definition SandboxStorage_List :: "'w mstate \<Rightarrow> ptr gomap" where
  "SandboxStorage_List s = SandboxPool s"

text \<open>\<open>getPodID\<close> panics on a configuration without metadata.\<close>

definition getPodID :: "'w golib \<Rightarrow> PodSandboxConfig \<Rightarrow> 'w mstate \<Rightarrow> (string \<times> 'w mstate) option" where
  "getPodID L config s = do {
     md \<leftarrow> pc_Metadata config;
     Some (if 0 < length (pm_Uid md) then (pm_Uid md, s) else new_uuid L s)
   }"

definition SandboxStorage_CheckIfExist ::
    "'w golib \<Rightarrow> PodSandboxConfig \<Rightarrow> 'w mstate \<Rightarrow> ((ptr option \<times> error option) \<times> 'w mstate) option" where
  "SandboxStorage_CheckIfExist L config s = do {
     (k, s) \<leftarrow> getPodID L config s;
     Some (SandboxStorage_Get k s, s)
   }"

definition SandboxStorage_CreateSandboxMetadata ::
    "'w golib \<Rightarrow> PodSandboxState \<Rightarrow> PodSandboxConfig \<Rightarrow> string \<Rightarrow> 'w mstate \<Rightarrow> (ptr \<times> 'w mstate) option" where
  "SandboxStorage_CreateSandboxMetadata L state config runtimeHandler s = do {
     (k, s) \<leftarrow> getPodID L config s;
     let (createdAt, s) = now L s;
     let cgroup = (case pc_Linux config of None \<Rightarrow> [] | Some l \<Rightarrow> lx_CgroupParent l);
     let sm = zero_sandbox\<lparr>s_ID := k, s_State := state, s_Config := config, s_CreatedAt := createdAt,
        s_CgroupsParent := cgroup, s_RuntimeHandler := runtimeHandler\<rparr>;
     let (p, h) = alloc sm (sbxs s);
     s \<leftarrow> SandboxStorage_Add p (s\<lparr>sbxs := h\<rparr>);
     Some (p, s)
   }"

section \<open>Conversions and listing\<close>

record PodSandbox =
  ps_Id :: string
  ps_Metadata :: "PodSandboxMetadata option"
  ps_State :: PodSandboxState
  ps_CreatedAt :: int
  ps_Labels :: "string gomap"
  ps_Annotations :: "string gomap"

record PodSandboxStatus =
  pss_Id :: string
  pss_Metadata :: "PodSandboxMetadata option"
  pss_State :: PodSandboxState
  pss_CreatedAt :: int
  pss_Ip :: string
  pss_Network :: "NamespaceMode option"
  pss_Labels :: "string gomap"
  pss_Annotations :: "string gomap"

record PodSandboxFilter =
  pf_Id :: string
  pf_State :: "int option"
  pf_LabelSelector :: "string gomap"

definition ParseToK8sSandbox :: "SandboxMetadata \<Rightarrow> PodSandbox" where
  "ParseToK8sSandbox sm = \<lparr>ps_Id = s_ID sm, ps_Metadata = pc_Metadata (s_Config sm), ps_State = s_State sm,
     ps_CreatedAt = s_CreatedAt sm, ps_Labels = pc_Labels (s_Config sm),
     ps_Annotations = pc_Annotations (s_Config sm)\<rparr>"

definition ParseToK8sSandboxStatus :: "SandboxMetadata \<Rightarrow> string \<Rightarrow> PodSandboxStatus" where
  "ParseToK8sSandboxStatus sm ip = \<lparr>pss_Id = s_ID sm, pss_Metadata = pc_Metadata (s_Config sm),
     pss_State = s_State sm, pss_CreatedAt = s_CreatedAt sm, pss_Ip = ip,
     pss_Network = map_option lx_Network (pc_Linux (s_Config sm)),
     pss_Labels = pc_Labels (s_Config sm), pss_Annotations = pc_Annotations (s_Config sm)\<rparr>"

text \<open>The tests of one iteration of \<open>ListK8s\<close>, in the source's order.\<close>

definition sandbox_listed :: "string \<Rightarrow> string \<Rightarrow> int \<Rightarrow> string \<Rightarrow> SandboxMetadata \<Rightarrow> bool" where
  "sandbox_listed filterPodID filterPodUID filterState localCRI sm =
     (if filterPodID \<noteq> [] \<and> s_ID sm \<noteq> filterPodID then False
      else if filterPodUID \<noteq> [] \<and> s_ID sm \<noteq> filterPodUID then False
      else if filterState < 100 \<and> filterState \<noteq> sandbox_state_num (s_State sm) then False
      else if s_RuntimeHandler sm \<noteq> localCRI then False
      else True)"

fun list_sandboxes :: "(SandboxMetadata \<Rightarrow> bool) \<Rightarrow> SandboxMetadata heap \<Rightarrow> ptr gomap \<Rightarrow> PodSandbox list option" where
  "list_sandboxes P h [] = Some []"
| "list_sandboxes P h ((k, p) # m) = do {
     sm \<leftarrow> cells h p;
     rest \<leftarrow> list_sandboxes P h m;
     Some (if P sm then ParseToK8sSandbox sm # rest else rest)
   }"

definition SandboxStorage_ListK8s :: "PodSandboxFilter option \<Rightarrow> string \<Rightarrow> 'w mstate \<Rightarrow> PodSandbox list option" where
  "SandboxStorage_ListK8s filt localCRI s =
     (let (filterPodID, filterPodUID, filterState) =
        (case filt of
           None \<Rightarrow> ([], [], 100)
         | Some f \<Rightarrow> (pf_Id f, mstr (pf_LabelSelector f) ''io.kubernetes.pod.uid'',
             case pf_State f of None \<Rightarrow> 100 | Some x \<Rightarrow> x))
      in list_sandboxes (sandbox_listed filterPodID filterPodUID filterState localCRI) (sbxs s) (SandboxPool s))"

section \<open>The store interface\<close>

lemma sandbox_put_frame:
  "sbxs (SandboxStorage_persist_Put sm s) = sbxs s"
  "SandboxPool (SandboxStorage_persist_Put sm s) = SandboxPool s"
  by (auto simp: SandboxStorage_persist_Put_def SandboxPersist_Put_def split: option.splits prod.splits)

interpretation sandbox_store: lookup_store SandboxPool sbxs s_ID SandboxStorage_Update
  SandboxStorage_Remove SandboxStorage_Get
proof unfold_locales
  fix s s' :: "'a mstate" and p ob k
  show "cells (sbxs s) p = Some ob \<Longrightarrow> \<exists>s'. SandboxStorage_Update p s = Some s'"
    by (simp add: SandboxStorage_Update_def)
  show "SandboxStorage_Update p s = Some s' \<Longrightarrow> cells (sbxs s) p = Some ob \<Longrightarrow>
      SandboxPool s' = mset_key (s_ID ob) p (SandboxPool s)"
    by (auto simp: SandboxStorage_Update_def sandbox_put_frame)
  show "SandboxStorage_Update p s = Some s' \<Longrightarrow> sbxs s' = sbxs s"
    by (auto simp: SandboxStorage_Update_def sandbox_put_frame bind_eq_Some_conv)
  show "cells (sbxs s) p = None \<Longrightarrow> SandboxStorage_Update p s = None"
    by (simp add: SandboxStorage_Update_def)
  show "SandboxPool (SandboxStorage_Remove k s) = mdel k (SandboxPool s)"
    "sbxs (SandboxStorage_Remove k s) = sbxs s"
    by (auto simp: SandboxStorage_Remove_def SandboxPersist_Delete_def Let_def split: option.splits prod.splits)
  show "mget (SandboxPool s) k = Some p \<Longrightarrow> SandboxStorage_Get k s = (Some p, None)"
    "mget (SandboxPool s) k = None \<Longrightarrow> \<exists>e. SandboxStorage_Get k s = (None, Some e)"
    by (simp_all add: SandboxStorage_Get_def)
qed

lemma SandboxStorage_Add_Update: "SandboxStorage_Add p s = SandboxStorage_Update p s"
  by (simp add: SandboxStorage_Add_def SandboxStorage_Update_def)

section \<open>The removal loop\<close>

lemma remove_loop_append:
  "remove_loop cid (is @ js) st = Option.bind (remove_loop cid is st) (remove_loop cid js)"
  by (induction cid "is" st rule: remove_loop.induct) auto

lemma remove_loop_miss: "\<forall>i\<in>set is. b ! i \<noteq> cid \<Longrightarrow> remove_loop cid is (b, n) = Some (b, n)"
  by (induction "is") auto

lemma remove_container_id_distinct:
  assumes "distinct cs"
  shows "remove_container_id cid cs = Some (removeAll cid cs)"
proof (cases "cid \<in> set cs")
  case False
  then have "remove_loop cid [0..<length cs] (cs, length cs) = Some (cs, length cs)"
    by (intro remove_loop_miss) auto
  with False show ?thesis by (simp add: remove_container_id_def)
next
  case True
  then obtain us vs where cs: "cs = us @ cid # vs" by (auto simp: in_set_conv_decomp)
  with assms have notin: "cid \<notin> set us" "cid \<notin> set vs" by auto
  let ?u = "length us" and ?n = "length cs"
  let ?b = "us @ vs @ drop (?n - 1) cs"
  have split: "[0..<?n] = [0..<?u] @ ?u # [Suc ?u..<?n]"
  proof -
    have "[0..<?n] = [0..<?u] @ [?u..<?n]"
      using upt_add_eq_append [of 0 ?u "Suc (length vs)"] by (simp add: cs del: upt_Suc)
    also have "[?u..<?n] = ?u # [Suc ?u..<?n]" by (rule upt_conv_Cons) (simp add: cs)
    finally show ?thesis .
  qed
  have first: "remove_loop cid [0..<?u] (cs, ?n) = Some (cs, ?n)"
    by (rule remove_loop_miss) (use notin cs in \<open>auto simp: nth_append\<close>)
  have rest: "remove_loop cid [Suc ?u..<?n] (?b, ?n - 1) = Some (?b, ?n - 1)"
  proof (rule remove_loop_miss, rule ballI)
    fix i assume "i \<in> set [Suc ?u..<?n]"
    then have i: "?u < i" "i < ?n" by auto
    then have ne: "vs \<noteq> []" using cs by (cases vs) auto
    have len: "?n - 1 = length (us @ cid # butlast vs)" using ne by (simp add: cs)
    have "cs = (us @ cid # butlast vs) @ [last vs]" using ne by (simp add: cs)
    then have "drop (?n - 1) cs = [last vs]" unfolding len by (metis append_eq_conv_conj)
    then have "?b ! i = (vs @ [last vs]) ! (i - ?u)" using i by (simp add: nth_append)
    also have "\<dots> \<in> set vs" using i cs ne by (auto simp: nth_append)
    finally show "?b ! i \<noteq> cid" using notin by auto
  qed
  have "remove_loop cid [0..<?n] (cs, ?n) = remove_loop cid (?u # [Suc ?u..<?n]) (cs, ?n)"
    unfolding split remove_loop_append first by simp
  also have "\<dots> = remove_loop cid [Suc ?u..<?n] (?b, ?n - 1)"
    by (simp add: cs)
  finally have "remove_loop cid [0..<?n] (cs, ?n) = Some (?b, ?n - 1)" using rest by simp
  then show ?thesis using cs notin by (simp add: remove_container_id_def)
qed

text \<open>
  The loop in general: it panics exactly at an ID that is listed last and before.  Behind the slice the
  array holds the last element as often as something was cut.
\<close>

lemma remove_cut:
  assumes "i < n" and "n \<le> length b"
  shows "length (take i b @ drop (i + 1) (take n b) @ drop (n - 1) b) = length b"
    and "n - 1 \<le> j \<Longrightarrow> j < length b \<Longrightarrow> (take i b @ drop (i + 1) (take n b) @ drop (n - 1) b) ! j = b ! j"
    and "i + 1 < n \<Longrightarrow> (take i b @ drop (i + 1) (take n b) @ drop (n - 1) b) ! (n - 2) = b ! (n - 1)"
proof -
  have front: "length (take i b) = i" "length (drop (i + 1) (take n b)) = n - (i + 1)" using assms by auto
  show "length (take i b @ drop (i + 1) (take n b) @ drop (n - 1) b) = length b" using assms front by simp
  show "(take i b @ drop (i + 1) (take n b) @ drop (n - 1) b) ! j = b ! j" if "n - 1 \<le> j" "j < length b"
  proof -
    have "(take i b @ drop (i + 1) (take n b)) @ drop (n - 1) b = take i b @ drop (i + 1) (take n b) @ drop (n - 1) b" by simp
    moreover have "length (take i b @ drop (i + 1) (take n b)) = n - 1" using front assms by simp
    ultimately have "(take i b @ drop (i + 1) (take n b) @ drop (n - 1) b) ! j = drop (n - 1) b ! (j - (n - 1))"
      using that(1) by (metis nth_append not_le)
    with that show ?thesis by simp
  qed
  show "(take i b @ drop (i + 1) (take n b) @ drop (n - 1) b) ! (n - 2) = b ! (n - 1)" if "i + 1 < n"
  proof -
    have "Suc (n - 2) = n - 1" using that by arith
    with assms that front show ?thesis by (simp add: nth_append)
  qed
qed

lemma remove_loop_runs:
  assumes "\<forall>i\<in>set is. i < length b" and "n \<le> length b" and "\<forall>j. n - 1 \<le> j \<and> j < length b \<longrightarrow> b ! j \<noteq> cid"
  shows "remove_loop cid is (b, n) \<noteq> None"
  using assms
proof (induction "is" arbitrary: b n)
  case (Cons i "is")
  show ?case
  proof (cases "b ! i = cid")
    case True
    with Cons.prems have "i < n - 1" by (metis list.set_intros(1) not_le)
    then have i: "i < n" "i + 1 < n" by simp_all
    let ?b = "take i b @ drop (i + 1) (take n b) @ drop (n - 1) b"
    note cut = remove_cut [OF i(1) Cons.prems(2)]
    have "?b ! j \<noteq> cid" if "n - 1 - 1 \<le> j" "j < length ?b" for j
    proof (cases "j = n - 2")
      case True
      with cut(3) [OF i(2)] Cons.prems(2,3) i show ?thesis by auto
    next
      case False
      with that(1) i have "n - 1 \<le> j" by arith
      moreover have "j < length b" using that(2) unfolding cut(1) .
      ultimately show ?thesis using cut(2) Cons.prems(3) by simp
    qed
    with Cons.IH [of ?b "n - 1"] Cons.prems(1,2) cut(1) have "remove_loop cid is (?b, n - 1) \<noteq> None" by simp
    with True i show ?thesis by simp
  next
    case False
    with Cons show ?thesis by simp
  qed
qed simp

lemma remove_loop_panics:
  assumes "n < length b" and "b ! (length b - 1) = cid" and "length b - 1 \<in> set is" and "\<forall>i\<in>set is. i < length b"
  shows "remove_loop cid is (b, n) = None"
  using assms
proof (induction "is" arbitrary: b n)
  case (Cons i "is")
  show ?case
  proof (cases "b ! i = cid \<and> i < n")
    case True
    let ?b = "take i b @ drop (i + 1) (take n b) @ drop (n - 1) b"
    note cut = remove_cut [of i n b]
    have "length ?b = length b" using True Cons.prems(1) cut(1) by simp
    moreover have "?b ! (length b - 1) = cid" using True Cons.prems(1,2) cut(2) by simp
    moreover have "length b - 1 \<in> set is" using True Cons.prems(1,3) by auto
    ultimately have "remove_loop cid is (?b, n - 1) = None" using Cons.IH [of "n - 1" ?b] Cons.prems(1,4) by simp
    with True show ?thesis by simp
  next
    case False
    with Cons show ?thesis by auto
  qed
qed simp

definition listed_again :: "string \<Rightarrow> string list \<Rightarrow> bool" where
  "listed_again cid cs \<longleftrightarrow> cs \<noteq> [] \<and> last cs = cid \<and> cid \<in> set (butlast cs)"

lemma remove_container_id_panics: "remove_container_id cid cs = None \<longleftrightarrow> listed_again cid cs"
proof (cases "cs \<noteq> [] \<and> last cs = cid")
  case False
  have "cs ! j \<noteq> cid" if "length cs - 1 \<le> j" "j < length cs" for j
  proof -
    have "j = length cs - 1" "cs \<noteq> []" using that by auto
    with False show ?thesis by (simp add: last_conv_nth)
  qed
  then have "remove_loop cid [0..<length cs] (cs, length cs) \<noteq> None" by (intro remove_loop_runs) auto
  with False show ?thesis by (auto simp: remove_container_id_def listed_again_def)
next
  case True
  then obtain ys where cs: "cs = ys @ [cid]" by (metis append_butlast_last_id)
  show ?thesis
  proof (cases "cid \<in> set ys")
    case False
    have "remove_loop cid [0..<length ys] (cs, length cs) = Some (cs, length cs)"
      by (rule remove_loop_miss) (use False cs in \<open>auto simp: nth_append\<close>)
    then have "remove_loop cid [0..<length cs] (cs, length cs) = remove_loop cid [length ys] (cs, length cs)"
      using remove_loop_append [of cid "[0..<length ys]" "[length ys]" "(cs, length cs)"] by (simp add: cs)
    with False show ?thesis by (simp add: remove_container_id_def listed_again_def cs)
  next
    case True
    then obtain us vs where ys: "ys = us @ cid # vs" "cid \<notin> set us" by (meson split_list_first)
    let ?u = "length us" and ?n = "length cs"
    let ?b = "take ?u cs @ drop (?u + 1) (take ?n cs) @ drop (?n - 1) cs"
    have len: "?u < ?n" "Suc ?u < ?n" by (simp_all add: cs ys)
    have miss: "remove_loop cid [0..<?u] (cs, ?n) = Some (cs, ?n)"
      by (rule remove_loop_miss) (use ys cs in \<open>auto simp: nth_append\<close>)
    have "[0..<?n] = [0..<?u] @ ?u # [Suc ?u..<?n]"
      using upt_add_eq_append [of 0 ?u "?n - ?u"] upt_conv_Cons [OF len(1)] len by simp
    then have "remove_loop cid [0..<?n] (cs, ?n) = remove_loop cid (?u # [Suc ?u..<?n]) (cs, ?n)"
      by (simp only: remove_loop_append miss Option.bind.bind_lunit)
    also have "\<dots> = remove_loop cid [Suc ?u..<?n] (?b, ?n - 1)" using len by (simp add: cs ys nth_append)
    also have "\<dots> = None"
    proof (rule remove_loop_panics)
      note cut = remove_cut [OF len(1) order_refl]
      show "?n - 1 < length ?b" "\<forall>i\<in>set [Suc ?u..<?n]. i < length ?b" using len cut(1) by auto
      show "length ?b - 1 \<in> set [Suc ?u..<?n]" using len cut(1) by auto
      have "cs ! (?n - 1) = cid" by (simp add: cs nth_append)
      then show "?b ! (length ?b - 1) = cid" using cut(1,2) len by simp
    qed
    finally show ?thesis using True by (simp add: remove_container_id_def listed_again_def cs)
  qed
qed

section \<open>Listing\<close>

lemma list_sandboxes_map:
  assumes "\<forall>(k, p)\<in>set m. cells h p \<noteq> None"
  shows "list_sandboxes P h m =
    Some (map ParseToK8sSandbox (filter P (map (\<lambda>(k, p). the (cells h p)) m)))"
  using assms by (induction m) (auto split: if_splits)

lemma list_sandboxes_wf:
  assumes "pool_wf s_ID h m"
  shows "list_sandboxes P h m =
    Some (map ParseToK8sSandbox (filter P (map (\<lambda>(k, p). the (cells h p)) m)))"
  by (rule list_sandboxes_map) (use assms in \<open>fastforce simp: pool_wf_def\<close>)

text \<open>A listing holds each pod of the pool that passes the tests, once.\<close>

definition listed_for :: "PodSandboxFilter option \<Rightarrow> string \<Rightarrow> SandboxMetadata \<Rightarrow> bool" where
  "listed_for filt localCRI = (case filt of
       None \<Rightarrow> sandbox_listed [] [] 100 localCRI
     | Some f \<Rightarrow> sandbox_listed (pf_Id f) (mstr (pf_LabelSelector f) ''io.kubernetes.pod.uid'')
         (case pf_State f of None \<Rightarrow> 100 | Some x \<Rightarrow> x) localCRI)"

lemma sandboxes_ListK8s:
  assumes "pool_wf s_ID (sbxs s) (SandboxPool s)"
  obtains l where "SandboxStorage_ListK8s filt h s = Some l" "distinct (map ps_Id l)"
    "\<And>x. x \<in> set l \<longleftrightarrow> (\<exists>k p sm. mget (SandboxPool s) k = Some p \<and> cells (sbxs s) p = Some sm
       \<and> x = ParseToK8sSandbox sm \<and> listed_for filt h sm)"
proof
  let ?get = "\<lambda>(k, p). the (cells (sbxs s) p)"
  let ?l = "map ParseToK8sSandbox (filter (listed_for filt h) (map ?get (SandboxPool s)))"
  have wf: "mwf (SandboxPool s)" and live: "\<And>k p. (k, p) \<in> set (SandboxPool s) \<Longrightarrow> \<exists>sm. cells (sbxs s) p = Some sm \<and> s_ID sm = k"
    using assms unfolding pool_wf_def by fastforce+
  show "SandboxStorage_ListK8s filt h s = Some ?l"
    by (cases filt) (simp_all add: SandboxStorage_ListK8s_def listed_for_def list_sandboxes_wf [OF assms])
  have "map (s_ID \<circ> ?get) (SandboxPool s) = map fst (SandboxPool s)" using live by fastforce
  then have "distinct (map s_ID (map ?get (SandboxPool s)))" using wf unfolding map_map mwf_def by (rule ssubst)
  then have "distinct (map s_ID (filter (listed_for filt h) (map ?get (SandboxPool s))))" by (rule distinct_map_filter)
  moreover have "ps_Id \<circ> ParseToK8sSandbox = s_ID" by (rule ext) (simp add: ParseToK8sSandbox_def)
  ultimately show "distinct (map ps_Id ?l)" by (simp only: map_map)
  have pairs: "(k, p) \<in> set (SandboxPool s) \<longleftrightarrow> mget (SandboxPool s) k = Some p" for k p
    using in_set_mget [OF wf] mget_in_set by fast
  show "x \<in> set ?l \<longleftrightarrow> (\<exists>k p sm. mget (SandboxPool s) k = Some p \<and> cells (sbxs s) p = Some sm
      \<and> x = ParseToK8sSandbox sm \<and> listed_for filt h sm)" for x
  proof
    assume "x \<in> set ?l"
    then obtain k p where "(k, p) \<in> set (SandboxPool s)" "x = ParseToK8sSandbox (the (cells (sbxs s) p))"
      "listed_for filt h (the (cells (sbxs s) p))" by auto
    with live show "\<exists>k p sm. mget (SandboxPool s) k = Some p \<and> cells (sbxs s) p = Some sm
      \<and> x = ParseToK8sSandbox sm \<and> listed_for filt h sm" unfolding pairs by fastforce
  next
    assume "\<exists>k p sm. mget (SandboxPool s) k = Some p \<and> cells (sbxs s) p = Some sm
      \<and> x = ParseToK8sSandbox sm \<and> listed_for filt h sm"
    then show "x \<in> set ?l" unfolding pairs [symmetric] by force
  qed
qed

end
