(* ===== verification/Container_Store.thy ===== *)
theory Container_Store
  imports File_Store
begin

text \<open>
  \<open>pkg/cri/store/container.go\<close>: the pool of containers, its listings, and the
  conversions to CRI messages, which read the image through the container's pointer and
  so panic for a container without one.
\<close>

section \<open>Operations\<close>

definition NewContainerStorage :: "'w skvlib \<Rightarrow> string \<Rightarrow> bool \<Rightarrow> 'w mstate \<Rightarrow> error option \<times> 'w mstate" where
  "NewContainerStorage K resourceCache enablePersistence s =
     (if enablePersistence then
        (case NewContainerPersist K resourceCache s of
           Inl e \<Rightarrow> (Some (sprintf ''Error when opening %s'' [e]), s)
         | Inr p \<Rightarrow> (let (pool, s) = ContainerPersist_LoadAll p s
             in (None, s\<lparr>container_persist := Some p, ContainerPool := pool\<rparr>)))
      else (None, s\<lparr>container_persist := None, ContainerPool := []\<rparr>))"

fun list_pointers :: "(ContainerMetadata \<Rightarrow> bool) \<Rightarrow> ContainerMetadata heap \<Rightarrow> ptr gomap \<Rightarrow> ptr list option" where
  "list_pointers P h [] = Some []"
| "list_pointers P h ((k, p) # m) = do {
     cm \<leftarrow> cells h p;
     rest \<leftarrow> list_pointers P h m;
     Some (if P cm then p # rest else rest)
   }"

definition ContainerStorage_List :: "string \<Rightarrow> string \<Rightarrow> 'w mstate \<Rightarrow> ptr list option" where
  "ContainerStorage_List cid filterPodSandboxId s =
     list_pointers (\<lambda>cm. if filterPodSandboxId \<noteq> [] \<and> s_ID (c_PodSandbox cm) \<noteq> filterPodSandboxId then False
        else if cid \<noteq> [] \<and> cid \<noteq> c_ID cm then False else True) (ctrs s) (ContainerPool s)"

definition ContainerStorage_persist_Put :: "ContainerMetadata \<Rightarrow> 'w mstate \<Rightarrow> 'w mstate" where
  "ContainerStorage_persist_Put cm s =
     (case container_persist s of None \<Rightarrow> s | Some kv \<Rightarrow> snd (ContainerPersist_Put kv (c_ID cm) cm s))"

text \<open>An existing entry only makes \<open>Add\<close> print a line.\<close>

definition ContainerStorage_Add :: "ptr \<Rightarrow> 'w mstate \<Rightarrow> 'w mstate option" where
  "ContainerStorage_Add p s = do {
     cm \<leftarrow> cells (ctrs s) p;
     let s = s\<lparr>ContainerPool := mset_key (c_ID cm) p (ContainerPool s)\<rparr>;
     Some (ContainerStorage_persist_Put cm s)
   }"

definition ContainerStorage_Update :: "ptr \<Rightarrow> 'w mstate \<Rightarrow> 'w mstate option" where
  "ContainerStorage_Update p s = do {
     cm \<leftarrow> cells (ctrs s) p;
     let s = s\<lparr>ContainerPool := mset_key (c_ID cm) p (ContainerPool s)\<rparr>;
     Some (ContainerStorage_persist_Put cm s)
   }"

definition ContainerStorage_Remove :: "string \<Rightarrow> 'w mstate \<Rightarrow> 'w mstate" where
  "ContainerStorage_Remove k s =
     (let s = s\<lparr>ContainerPool := mdel k (ContainerPool s)\<rparr>
      in case container_persist s of None \<Rightarrow> s | Some kv \<Rightarrow> snd (ContainerPersist_Delete kv k s))"

definition ContainerStorage_Get :: "string \<Rightarrow> 'w mstate \<Rightarrow> ptr option \<times> error option" where
  "ContainerStorage_Get k s =
     (case mget (ContainerPool s) k of None \<Rightarrow> (None, Some ''Container not found'') | Some p \<Rightarrow> (Some p, None))"

definition GenerateContainerLogPath :: "string \<Rightarrow> string \<Rightarrow> string" where
  "GenerateContainerLogPath logPath k = sprintf ''%s/%s.log'' [logPath, k]"

text \<open>
  The sandbox is dereferenced for its log path before the nil test, so a nil sandbox
  panics.  The container holds a copy of the sandbox and shares the image.
\<close>

definition ContainerStorage_CreateContainerMetadata ::
    "'w golib \<Rightarrow> string \<Rightarrow> ptr option \<Rightarrow> ContainerState \<Rightarrow> int \<Rightarrow> ptr option \<Rightarrow> string list \<Rightarrow> string list \<Rightarrow> bool \<Rightarrow>
     ContainerConfig \<Rightarrow> string gomap \<Rightarrow> int \<Rightarrow> string option \<Rightarrow> 'w mstate \<Rightarrow> (ptr \<times> 'w mstate) option" where
  "ContainerStorage_CreateContainerMetadata L name podSandbox state createdAt img command args isService
      config envVars port ident s = do {
     let (k, s) = (case ident of Some i \<Rightarrow> (i, s) | None \<Rightarrow> new_uuid L s);
     sandbox \<leftarrow> deref podSandbox (sbxs s);
     let containerLogPath = GenerateContainerLogPath (s_LogPath sandbox) k;
     let cm = zero_container\<lparr>c_ID := k, c_Name := name, c_State := state, c_Args := args,
        c_Config := config, c_CreatedAt := createdAt, c_LogFile := containerLogPath,
        c_IsService := isService, c_Command := command, c_Environment := envVars, c_Port := port,
        c_Extra := [], c_PodSandbox := sandbox, c_Image := img\<rparr>;
     let (p, h) = alloc cm (ctrs s);
     s \<leftarrow> ContainerStorage_Add p (s\<lparr>ctrs := h\<rparr>);
     Some (p, s)
   }"

section \<open>Conversions and listing\<close>

record K8sContainer =
  kc_Id :: string
  kc_State :: ContainerState
  kc_PodSandboxId :: string
  kc_Image :: string
  kc_ImageRef :: string
  kc_Metadata :: "string option"
  kc_CreatedAt :: int
  kc_Labels :: "string gomap"
  kc_Annotations :: "string gomap"

record K8sContainerStatus =
  ks_Id :: string
  ks_State :: ContainerState
  ks_Image :: "string option"
  ks_ImageRef :: string
  ks_Metadata :: "string option"
  ks_StartedAt :: int
  ks_FinishedAt :: int
  ks_CreatedAt :: int
  ks_LogPath :: string
  ks_Labels :: "string gomap"
  ks_Annotations :: "string gomap"
  ks_ExitCode :: int
  ks_Reason :: string

definition ParseToK8sContainer :: "ImageMetadata heap \<Rightarrow> ContainerMetadata \<Rightarrow> K8sContainer option" where
  "ParseToK8sContainer hi cm = do {
     im \<leftarrow> deref (c_Image cm) hi;
     Some \<lparr>kc_Id = c_ID cm, kc_State = c_State cm, kc_PodSandboxId = s_ID (c_PodSandbox cm),
       kc_Image = i_LocalPath im, kc_ImageRef = i_LocalPath im, kc_Metadata = cc_Metadata (c_Config cm),
       kc_CreatedAt = c_CreatedAt cm, kc_Labels = cc_Labels (c_Config cm),
       kc_Annotations = cc_Annotations (c_Config cm)\<rparr>
   }"

definition GetK8sContainerStatus :: "ImageMetadata heap \<Rightarrow> ContainerMetadata \<Rightarrow> K8sContainerStatus option" where
  "GetK8sContainerStatus hi cm = do {
     im \<leftarrow> deref (c_Image cm) hi;
     Some \<lparr>ks_Id = c_ID cm, ks_State = c_State cm, ks_Image = cc_Image (c_Config cm),
       ks_ImageRef = i_LocalPath im, ks_Metadata = cc_Metadata (c_Config cm),
       ks_StartedAt = c_StartedAt cm, ks_FinishedAt = c_FinishedAt cm, ks_CreatedAt = c_CreatedAt cm,
       ks_LogPath = c_LogFile cm, ks_Labels = cc_Labels (c_Config cm),
       ks_Annotations = cc_Annotations (c_Config cm), ks_ExitCode = int32 (c_ExitCode cm),
       ks_Reason = c_Reason cm\<rparr>
   }"

definition container_listed :: "string \<Rightarrow> string \<Rightarrow> string \<Rightarrow> int \<Rightarrow> string \<Rightarrow> ContainerMetadata \<Rightarrow> bool" where
  "container_listed cid filterPodID filterPodUID filterStateLocal localCRI cm =
     (if filterPodID \<noteq> [] \<and> s_ID (c_PodSandbox cm) \<noteq> filterPodID then False
      else if filterPodUID \<noteq> [] \<and> s_ID (c_PodSandbox cm) \<noteq> filterPodUID then False
      else if filterStateLocal < 100 \<and> filterStateLocal \<noteq> container_state_num (c_State cm) then False
      else if cid \<noteq> [] \<and> cid \<noteq> c_ID cm then False
      else if s_RuntimeHandler (c_PodSandbox cm) \<noteq> localCRI then False
      else True)"

fun list_containers :: "(ContainerMetadata \<Rightarrow> bool) \<Rightarrow> ContainerMetadata heap \<Rightarrow> ImageMetadata heap \<Rightarrow>
    ptr gomap \<Rightarrow> K8sContainer list option" where
  "list_containers P h hi [] = Some []"
| "list_containers P h hi ((k, p) # m) = do {
     cm \<leftarrow> cells h p;
     if P cm then do {
       c \<leftarrow> ParseToK8sContainer hi cm;
       rest \<leftarrow> list_containers P h hi m;
       Some (c # rest)
     } else list_containers P h hi m
   }"

definition ContainerStorage_ListK8s ::
    "string \<Rightarrow> string \<Rightarrow> string gomap \<Rightarrow> int option \<Rightarrow> string \<Rightarrow> 'w mstate \<Rightarrow> K8sContainer list option" where
  "ContainerStorage_ListK8s cid filterPodSandboxId filterLabelSelector filterState localCRI s =
     (let filterStateLocal = (case filterState of None \<Rightarrow> 100 | Some x \<Rightarrow> x);
          filterPodUID = mstr filterLabelSelector ''io.kubernetes.pod.uid''
      in list_containers (container_listed cid filterPodSandboxId filterPodUID filterStateLocal localCRI)
           (ctrs s) (imgs s) (ContainerPool s))"

section \<open>The store interface\<close>

lemma container_put_frame:
  "ctrs (ContainerStorage_persist_Put cm s) = ctrs s"
  "ContainerPool (ContainerStorage_persist_Put cm s) = ContainerPool s"
  by (auto simp: ContainerStorage_persist_Put_def ContainerPersist_Put_def split: option.splits prod.splits)

interpretation container_store: lookup_store ContainerPool ctrs c_ID ContainerStorage_Update
  ContainerStorage_Remove ContainerStorage_Get
proof unfold_locales
  fix s s' :: "'a mstate" and p ob k
  show "cells (ctrs s) p = Some ob \<Longrightarrow> \<exists>s'. ContainerStorage_Update p s = Some s'"
    by (simp add: ContainerStorage_Update_def)
  show "ContainerStorage_Update p s = Some s' \<Longrightarrow> cells (ctrs s) p = Some ob \<Longrightarrow>
      ContainerPool s' = mset_key (c_ID ob) p (ContainerPool s)"
    by (auto simp: ContainerStorage_Update_def container_put_frame)
  show "ContainerStorage_Update p s = Some s' \<Longrightarrow> ctrs s' = ctrs s"
    by (auto simp: ContainerStorage_Update_def container_put_frame bind_eq_Some_conv)
  show "cells (ctrs s) p = None \<Longrightarrow> ContainerStorage_Update p s = None"
    by (simp add: ContainerStorage_Update_def)
  show "ContainerPool (ContainerStorage_Remove k s) = mdel k (ContainerPool s)"
    "ctrs (ContainerStorage_Remove k s) = ctrs s"
    by (auto simp: ContainerStorage_Remove_def ContainerPersist_Delete_def Let_def split: option.splits prod.splits)
  show "mget (ContainerPool s) k = Some p \<Longrightarrow> ContainerStorage_Get k s = (Some p, None)"
    "mget (ContainerPool s) k = None \<Longrightarrow> \<exists>e. ContainerStorage_Get k s = (None, Some e)"
    by (simp_all add: ContainerStorage_Get_def)
qed

lemma ContainerStorage_Add_Update: "ContainerStorage_Add p s = ContainerStorage_Update p s"
  by (simp add: ContainerStorage_Add_def ContainerStorage_Update_def)

section \<open>Listing\<close>

text \<open>The image pointers of the containers a listing converts.\<close>

definition images_held :: "ContainerMetadata heap \<Rightarrow> ImageMetadata heap \<Rightarrow> ptr gomap \<Rightarrow> (ContainerMetadata \<Rightarrow> bool) \<Rightarrow> bool" where
  "images_held h hi m P \<longleftrightarrow> (\<forall>(k, p)\<in>set m. \<forall>cm. cells h p = Some cm \<longrightarrow> P cm \<longrightarrow> deref (c_Image cm) hi \<noteq> None)"

lemma list_containers_total:
  assumes "\<forall>(k, p)\<in>set m. cells h p \<noteq> None" and "images_held h hi m P"
  shows "\<exists>cs. list_containers P h hi m = Some cs
    \<and> map kc_Id cs = map c_ID (filter P (map (\<lambda>(k, p). the (cells h p)) m))"
  using assms
proof (induction m)
  case Nil
  then show ?case by simp
next
  case (Cons kp m)
  obtain k p where kp: "kp = (k, p)" by (cases kp)
  obtain cm where cm: "cells h p = Some cm" using Cons.prems(1) kp by auto
  obtain cs where cs: "list_containers P h hi m = Some cs"
    "map kc_Id cs = map c_ID (filter P (map (\<lambda>(k, p). the (cells h p)) m))"
    using Cons unfolding images_held_def by auto
  show ?case
  proof (cases "P cm")
    case True
    then obtain im where "deref (c_Image cm) hi = Some im"
      using Cons.prems(2) kp cm unfolding images_held_def by auto
    with True cs kp cm show ?thesis by (simp add: ParseToK8sContainer_def)
  next
    case False
    with cs kp cm show ?thesis by simp
  qed
qed

lemma list_containers_panic:
  assumes "(k, p) \<in> set m" and "cells h p = Some cm" and "P cm" and "deref (c_Image cm) hi = None"
  shows "list_containers P h hi m = None"
  using assms
proof (induction m)
  case (Cons kp m)
  obtain j q where kp: "kp = (j, q)" by (cases kp)
  show ?case
  proof (cases "kp = (k, p)")
    case True
    with Cons.prems show ?thesis by (simp add: ParseToK8sContainer_def)
  next
    case False
    with Cons have "list_containers P h hi m = None" by simp
    with kp show ?thesis by (cases "cells h q") (auto split: option.splits)
  qed
qed simp

end
