(* ===== verification/Image_Store.thy ===== *)
theory Image_Store
  imports File_Store
begin

text \<open>
  \<open>pkg/cri/store/image.go\<close>: the image pool, its searches, and the parsing of image
  references into repository type and URL.
\<close>

definition CRISingularityHubRepository :: string where "CRISingularityHubRepository = ''singularity-repository.''"
definition CRIDockerRepository :: string where "CRIDockerRepository = ''docker-repository.''"
definition CRISLocalRepository :: string where "CRISLocalRepository = ''local-image.''"
definition CRISLocalDefinitionFile :: string where "CRISLocalDefinitionFile = ''local-def-file.''"

section \<open>Operations\<close>

definition NewImageStorage :: "'w skvlib \<Rightarrow> string \<Rightarrow> bool \<Rightarrow> 'w mstate \<Rightarrow> error option \<times> 'w mstate" where
  "NewImageStorage K resourceCachePath enablePersistence s =
     (if enablePersistence then
        (case NewImagePersist K resourceCachePath s of
           Inl e \<Rightarrow> (Some (sprintf ''Error when opening Image Cache: %s'' [e]), s)
         | Inr p \<Rightarrow> (let (pool, s) = ImagePersist_LoadAll p s
             in (None, s\<lparr>basePath := resourceCachePath, image_persist := Some p, ImagePool := pool\<rparr>)))
      else (None, s\<lparr>basePath := [], image_persist := None, ImagePool := []\<rparr>))"

definition ImageStorage_List :: "'w mstate \<Rightarrow> ptr gomap" where
  "ImageStorage_List s = ImagePool s"

definition ImageStorage_GetBasePath :: "'w mstate \<Rightarrow> string" where
  "ImageStorage_GetBasePath s = basePath s"

definition ImageStorage_persist_Put :: "ImageMetadata \<Rightarrow> 'w mstate \<Rightarrow> 'w mstate" where
  "ImageStorage_persist_Put im s =
     (case image_persist s of None \<Rightarrow> s | Some kv \<Rightarrow> snd (ImagePersist_Put kv (i_ID im) im s))"

definition ImageStorage_Add :: "ptr \<Rightarrow> 'w mstate \<Rightarrow> (error option \<times> 'w mstate) option" where
  "ImageStorage_Add p s = do {
     im \<leftarrow> cells (imgs s) p;
     if mget (ImagePool s) (i_ID im) \<noteq> None then
       Some (Some (sprintf ''Image %s already exits'' [i_ID im]), s)
     else do {
       let s = s\<lparr>ImagePool := mset_key (i_ID im) p (ImagePool s)\<rparr>;
       Some (None, ImageStorage_persist_Put im s)
     }
   }"

definition ImageStorage_Update :: "ptr \<Rightarrow> 'w mstate \<Rightarrow> 'w mstate option" where
  "ImageStorage_Update p s = do {
     im \<leftarrow> cells (imgs s) p;
     let s = s\<lparr>ImagePool := mset_key (i_ID im) p (ImagePool s)\<rparr>;
     Some (ImageStorage_persist_Put im s)
   }"

definition ImageStorage_remove :: "string \<Rightarrow> 'w mstate \<Rightarrow> 'w mstate" where
  "ImageStorage_remove k s =
     (let s = s\<lparr>ImagePool := mdel k (ImagePool s)\<rparr>
      in case image_persist s of None \<Rightarrow> s | Some kv \<Rightarrow> snd (ImagePersist_Delete kv k s))"

definition ImageStorage_Remove :: "string \<Rightarrow> 'w mstate \<Rightarrow> 'w mstate" where
  "ImageStorage_Remove k s = ImageStorage_remove k s"

text \<open>The searches return the first match of a \<open>range\<close> over the pool.\<close>

fun find_image :: "(string \<Rightarrow> ImageMetadata \<Rightarrow> bool) \<Rightarrow> ImageMetadata heap \<Rightarrow> ptr gomap \<Rightarrow> ptr option option" where
  "find_image P h [] = Some None"
| "find_image P h ((k, p) # m) = do {
     im \<leftarrow> cells h p;
     if P k im then Some (Some p) else find_image P h m
   }"

definition image_result :: "ptr option \<Rightarrow> ptr option \<times> error option" where
  "image_result r = (case r of None \<Rightarrow> (None, Some ''Image does not exists'') | Some p \<Rightarrow> (Some p, None))"

text \<open>\<open>Get\<close> accepts a short ID: any part of an image's ID.\<close>

definition ImageStorage_Get :: "string \<Rightarrow> 'w mstate \<Rightarrow> (ptr option \<times> error option) option" where
  "ImageStorage_Get ID s = do {
     r \<leftarrow> find_image (\<lambda>imageId im. Contains imageId ID) (imgs s) (ImagePool s);
     Some (image_result r)
   }"

fun tagInImage :: "string list \<Rightarrow> string \<Rightarrow> bool" where
  "tagInImage [] tag = False"
| "tagInImage (t # ts) tag = (if t = tag then True else tagInImage ts tag)"

fun digestInImage :: "string list \<Rightarrow> string \<Rightarrow> bool" where
  "digestInImage [] digest = False"
| "digestInImage (d # ds) digest = (if d = digest then True else digestInImage ds digest)"

definition image_matches :: "string \<Rightarrow> string \<Rightarrow> ImageMetadata \<Rightarrow> bool" where
  "image_matches ID imageId im \<longleftrightarrow>
     Contains (i_ImageName im) ID \<or> Contains imageId ID \<or> tagInImage (i_RepoTags im) ID
     \<or> digestInImage (i_RepoDigest im) ID"

definition ImageStorage_GetByID :: "string \<Rightarrow> 'w mstate \<Rightarrow> (ptr option \<times> error option) option" where
  "ImageStorage_GetByID ID s = do {
     r \<leftarrow> find_image (image_matches ID) (imgs s) (ImagePool s);
     Some (image_result r)
   }"

definition ImageStorage_GetByPath :: "string \<Rightarrow> 'w mstate \<Rightarrow> (ptr option \<times> error option) option" where
  "ImageStorage_GetByPath path s = do {
     r \<leftarrow> find_image (\<lambda>_ im. i_LocalPath im = path \<or> i_RemotePath im = path) (imgs s) (ImagePool s);
     Some (image_result r)
   }"

record PullImageRequest =
  pr_Image :: "string option"
  pr_Auth :: "AuthConfig option"

text \<open>The error of \<open>Add\<close> is dropped; the metadata is returned in any case.\<close>

definition ImageStorage_CreateImageMetadata ::
    "'w golib \<Rightarrow> PullImageRequest \<Rightarrow> 'w mstate \<Rightarrow> ((ptr \<times> error option) \<times> 'w mstate) option" where
  "ImageStorage_CreateImageMetadata L req s = do {
     let (uuidString, s) = new_uuid L s;
     let auth = (case pr_Auth req of None \<Rightarrow> zero_auth | Some a \<Rightarrow> a);
     remote \<leftarrow> pr_Image req;
     let im = zero_image\<lparr>i_RemotePath := remote, i_ID := uuidString, i_Auth := auth,
        i_LocalPath := basePath s @ ''/.images''\<rparr>;
     let (p, h) = alloc im (imgs s);
     (_, s) \<leftarrow> ImageStorage_Add p (s\<lparr>imgs := h\<rparr>);
     Some ((p, None), s)
   }"

record K8sImage =
  ki_Id :: string
  ki_Size :: "64 word"
  ki_RepoDigests :: "string list"
  ki_RepoTags :: "string list"

definition ParseToK8sImage :: "ImageMetadata \<Rightarrow> K8sImage" where
  "ParseToK8sImage im = \<lparr>ki_Id = i_RemotePath im, ki_Size = i_Size im,
     ki_RepoDigests = i_RepoDigest im, ki_RepoTags = i_RepoTags im\<rparr>"

text \<open>
  One pass over the pool: an image that passes the filter is listed when its file exists
  and dropped from the pool (by its own ID, which in a well-formed pool is the key being visited) when it
  does not.  \<open>None\<close> as filter stands
  for a filter without an image or with an empty one.
\<close>

fun list_images :: "string option \<Rightarrow> ptr gomap \<Rightarrow> 'w mstate \<Rightarrow> (K8sImage list \<times> 'w mstate) option" where
  "list_images filt [] s = Some ([], s)"
| "list_images filt ((k, p) # m) s = do {
     im \<leftarrow> cells (imgs s) p;
     let wanted = (case filt of None \<Rightarrow> True | Some f \<Rightarrow> i_RemotePath im = f \<or> digestInImage (i_RepoDigest im) f);
     if wanted then
       if \<not> CheckFileExist (i_LocalPath im) (files s) then list_images filt m (ImageStorage_remove (i_ID im) s)
       else do {
         (rest, s) \<leftarrow> list_images filt m s;
         Some (ParseToK8sImage im # rest, s)
       }
     else list_images filt m s
   }"

definition ImageStorage_ListK8s :: "string option \<Rightarrow> 'w mstate \<Rightarrow> (K8sImage list \<times> 'w mstate) option" where
  "ImageStorage_ListK8s filt s =
     list_images (case filt of None \<Rightarrow> None | Some f \<Rightarrow> if 0 < length f then Some f else None) (ImagePool s) s"

section \<open>Image references\<close>

definition image_kind :: "string \<Rightarrow> (string \<times> string \<times> RepoType) option" where
  "image_kind remotePath =
     (if HasPrefix remotePath CRISingularityHubRepository then
        Some (CRISingularityHubRepository, ''shub://'', SingularityRepositoryImageRepo)
      else if HasPrefix remotePath CRIDockerRepository then
        Some (CRIDockerRepository, ''docker://'', DockerRepositoryImageRepo)
      else if HasPrefix remotePath CRISLocalRepository then
        Some (CRISLocalRepository, [], LocalImageRepo)
      else if HasPrefix remotePath CRISLocalDefinitionFile then
        Some (CRISLocalDefinitionFile, [], LocalDefinitionFile)
      else None)"

definition ParseImage :: "ImageMetadata \<Rightarrow> error option \<times> ImageMetadata" where
  "ParseImage img =
     (case image_kind (i_RemotePath img) of
        None \<Rightarrow> (Some (''Image repository is not supported '' @ i_RemotePath img), img)
      | Some (typeImage, urlImage, repoType) \<Rightarrow>
          (let imageSplited = Split (i_RemotePath img) typeImage;
               realImagePath = imageSplited ! (length imageSplited - 1);
               img = img\<lparr>i_RepoType := repoType\<rparr>;
               img = img\<lparr>i_RepoDigest := [i_RemotePath img]\<rparr>;
               splitImage = Split realImagePath ''/'';
               nameWithVersion = splitImage ! (length splitImage - 1);
               img = img\<lparr>i_ImageName := Split nameWithVersion '':'' ! 0\<rparr>;
               img = img\<lparr>i_RemotePath := urlImage @ realImagePath\<rparr>;
               img = img\<lparr>i_RepoTags := [i_RemotePath img]\<rparr>
           in (None, img)))"

section \<open>The store interface\<close>

lemma image_put_frame:
  "imgs (ImageStorage_persist_Put im s) = imgs s"
  "ImagePool (ImageStorage_persist_Put im s) = ImagePool s"
  by (auto simp: ImageStorage_persist_Put_def ImagePersist_Put_def split: option.splits prod.splits)

lemma image_remove_frame:
  "imgs (ImageStorage_remove k s) = imgs s"
  "files (ImageStorage_remove k s) = files s"
  "ImagePool (ImageStorage_remove k s) = mdel k (ImagePool s)"
  by (auto simp: ImageStorage_remove_def ImagePersist_Delete_def Let_def split: option.splits prod.splits)

interpretation image_store: keyed_store ImagePool imgs i_ID ImageStorage_Update ImageStorage_Remove
proof unfold_locales
  fix s s' :: "'a mstate" and p ob k
  show "cells (imgs s) p = Some ob \<Longrightarrow> \<exists>s'. ImageStorage_Update p s = Some s'"
    by (simp add: ImageStorage_Update_def)
  show "ImageStorage_Update p s = Some s' \<Longrightarrow> cells (imgs s) p = Some ob \<Longrightarrow>
      ImagePool s' = mset_key (i_ID ob) p (ImagePool s)"
    by (auto simp: ImageStorage_Update_def image_put_frame)
  show "ImageStorage_Update p s = Some s' \<Longrightarrow> imgs s' = imgs s"
    by (auto simp: ImageStorage_Update_def image_put_frame bind_eq_Some_conv)
  show "cells (imgs s) p = None \<Longrightarrow> ImageStorage_Update p s = None"
    by (simp add: ImageStorage_Update_def)
  show "ImagePool (ImageStorage_Remove k s) = mdel k (ImagePool s)"
    "imgs (ImageStorage_Remove k s) = imgs s"
    by (simp_all add: ImageStorage_Remove_def image_remove_frame)
qed

section \<open>Searches\<close>

lemma tagInImage_iff [simp]: "tagInImage ts t \<longleftrightarrow> t \<in> set ts"
  by (induction ts) auto

lemma digestInImage_iff [simp]: "digestInImage ds d \<longleftrightarrow> d \<in> set ds"
  by (induction ds) auto

lemma find_image_Some:
  "find_image P h m = Some (Some p) \<Longrightarrow> \<exists>k im. (k, p) \<in> set m \<and> cells h p = Some im \<and> P k im"
proof (induction m)
  case (Cons kq m)
  obtain k q where kq: "kq = (k, q)" by (cases kq)
  then show ?case using Cons by (fastforce simp: bind_eq_Some_conv split: if_splits)
qed simp

lemma find_image_None:
  "find_image P h m = Some None \<Longrightarrow> (k, p) \<in> set m \<Longrightarrow> cells h p = Some im \<Longrightarrow> \<not> P k im"
  by (induction m) (auto simp: bind_eq_Some_conv split: if_splits)

lemma find_image_wf: "pool_wf i_ID h m \<Longrightarrow> \<exists>r. find_image P h m = Some r"
proof -
  have "\<forall>(k, p)\<in>set m. cells h p \<noteq> None \<Longrightarrow> \<exists>r. find_image P h m = Some r"
    by (induction m) (auto split: if_splits)
  then show "pool_wf i_ID h m \<Longrightarrow> \<exists>r. find_image P h m = Some r"
    unfolding pool_wf_def by fastforce
qed

lemma find_image_complete:
  assumes "pool_wf i_ID h m" and "(k, p) \<in> set m" and "cells h p = Some im" and "P k im"
  shows "\<exists>q k' im'. find_image P h m = Some (Some q) \<and> (k', q) \<in> set m \<and> cells h q = Some im' \<and> P k' im'"
proof -
  obtain r where r: "find_image P h m = Some r" using find_image_wf [OF assms(1)] by blast
  then have "r \<noteq> None" using find_image_None [of P h m k p im] assms(2-4) by auto
  then obtain q where q: "r = Some q" by blast
  with r find_image_Some [of P h m q] show ?thesis by blast
qed

section \<open>Parsing references\<close>

lemma split_last_prefix:
  assumes "sep \<noteq> []" and "\<not> Contains s sep"
  shows "Split (sep @ s) sep ! (length (Split (sep @ s) sep) - 1) = s"
  using assms by (simp add: Split_prefix Split_absent)

text \<open>The four prefixes begin with different letters or words: none is a prefix of another.\<close>

lemma image_kind_prefix:
  "image_kind (CRISingularityHubRepository @ x) = Some (CRISingularityHubRepository, ''shub://'', SingularityRepositoryImageRepo)"
  "image_kind (CRIDockerRepository @ x) = Some (CRIDockerRepository, ''docker://'', DockerRepositoryImageRepo)"
  "image_kind (CRISLocalRepository @ x) = Some (CRISLocalRepository, [], LocalImageRepo)"
  "image_kind (CRISLocalDefinitionFile @ x) = Some (CRISLocalDefinitionFile, [], LocalDefinitionFile)"
  by (simp_all add: image_kind_def HasPrefix_def CRISingularityHubRepository_def
      CRIDockerRepository_def CRISLocalRepository_def CRISLocalDefinitionFile_def)

lemma image_kind_cases:
  assumes "image_kind r = Some (t, u, ty)"
  shows "HasPrefix r t \<and> t \<noteq> [] \<and> ty \<noteq> UnknownImageRepo"
  using assms by (auto simp: image_kind_def CRISingularityHubRepository_def
      CRIDockerRepository_def CRISLocalRepository_def CRISLocalDefinitionFile_def split: if_splits)

lemma ParseImage_ID: "i_ID (snd (ParseImage im)) = i_ID im"
  by (auto simp: ParseImage_def Let_def split: option.splits prod.splits)

lemma ParseImage_local: "i_LocalPath (snd (ParseImage im)) = i_LocalPath im"
  by (auto simp: ParseImage_def Let_def split: option.splits prod.splits)

lemma ParseImage_ok:
  "ParseImage im = (None, im') \<Longrightarrow> i_RepoDigest im' = [i_RemotePath im] \<and> i_RepoTags im' = [i_RemotePath im']"
  by (auto simp: ParseImage_def Let_def split: option.splits prod.splits)

lemma ParseImage_err: "ParseImage im = (Some e, im') \<Longrightarrow> im' = im \<and> image_kind (i_RemotePath im) = None"
  by (auto simp: ParseImage_def Let_def split: option.splits prod.splits)

end
