(* ===== verification/Adapter.thy ===== *)
theory Adapter
  imports Builder Sandbox_Store Container_Store Image_Store
begin

text \<open>
  \<open>pkg/cri/adapters/adapter.go\<close>: the interface between the runtime and its adapters, as a
  record of operations on the shared state, and the contract that the runtime's proofs use.
  The contract is the locale \<open>adapter\<close>; the fake adapter of \<open>runtime/fakes.go\<close> and
  the Slurm adapter are its interpretations.
\<close>

definition VolumeContainer :: string where "VolumeContainer = ''/multicri''"

record VersionResponse =
  vr_Version :: string
  vr_RuntimeName :: string
  vr_RuntimeVersion :: string
  vr_RuntimeApiVersion :: string

record ExecSyncResponse =
  es_Stdout :: string
  es_Stderr :: string
  es_ExitCode :: int

text \<open>The only field of the file system usage that is set from state: the mount point.\<close>

record ImageFsInfoResponse =
  fi_Mountpoints :: "(int \<times> string) list"

text \<open>
  A method that takes a pointer takes its address; exec and attach responses carry a URL
  that no source reads.
\<close>

record 'w AdapterInterface =
  ad_RunPodSandbox :: "ptr \<Rightarrow> 'w mstate \<Rightarrow> (error option \<times> 'w mstate) option"
  ad_StopPodSandbox :: "ptr \<Rightarrow> 'w mstate \<Rightarrow> (error option \<times> 'w mstate) option"
  ad_RemovePodSandbox :: "ptr \<Rightarrow> 'w mstate \<Rightarrow> (error option \<times> 'w mstate) option"
  ad_PodSandboxStatus :: "ptr \<Rightarrow> 'w mstate \<Rightarrow> (error option \<times> 'w mstate) option"
  ad_Version :: "VersionResponse option \<times> error option"
  ad_CreateContainer :: "ptr \<Rightarrow> 'w mstate \<Rightarrow> (error option \<times> 'w mstate) option"
  ad_StartContainer :: "ptr \<Rightarrow> 'w mstate \<Rightarrow> (error option \<times> 'w mstate) option"
  ad_StopContainer :: "ptr \<Rightarrow> 'w mstate \<Rightarrow> (error option \<times> 'w mstate) option"
  ad_ContainerStatus :: "ptr \<Rightarrow> 'w mstate \<Rightarrow> (error option \<times> 'w mstate) option"
  ad_ReopenContainerLog :: "ptr \<Rightarrow> 'w mstate \<Rightarrow> (error option \<times> 'w mstate) option"
  ad_UpdateContainerResources :: "ptr \<Rightarrow> 'w mstate \<Rightarrow> (error option \<times> 'w mstate) option"
  ad_PullImage :: "ptr \<Rightarrow> 'w mstate \<Rightarrow> (error option \<times> 'w mstate) option"
  ad_ListImages :: "K8sImage list \<Rightarrow> 'w mstate \<Rightarrow> (error option \<times> 'w mstate) option"
  ad_ImageStatus :: "ptr \<Rightarrow> 'w mstate \<Rightarrow> (error option \<times> 'w mstate) option"
  ad_ImageFsInfo :: "'w mstate \<Rightarrow> ((ImageFsInfoResponse option \<times> error option) \<times> 'w mstate) option"
  ad_RemoveImage :: "ptr \<Rightarrow> 'w mstate \<Rightarrow> (error option \<times> 'w mstate) option"
  ad_ExecSync :: "ptr \<Rightarrow> string list \<Rightarrow> ExecSyncResponse option \<times> error option"
  ad_Exec :: "ptr \<Rightarrow> string option \<times> error option"
  ad_Attach :: "ptr \<Rightarrow> string option \<times> error option"

section \<open>What an adapter may change\<close>

text \<open>
  Two versions of a container differ only in the fields that describe its run: state, times,
  exit code, reason, job number and the extra settings.
\<close>

definition same_container :: "ContainerMetadata \<Rightarrow> ContainerMetadata \<Rightarrow> bool" where
  "same_container a b \<longleftrightarrow> c_ID b = c_ID a \<and> c_Name b = c_Name a \<and> c_PodSandbox b = c_PodSandbox a
     \<and> c_Config b = c_Config a \<and> c_Image b = c_Image a \<and> c_Command b = c_Command a \<and> c_Args b = c_Args a
     \<and> c_CreatedAt b = c_CreatedAt a \<and> c_Environment b = c_Environment a \<and> c_LogFile b = c_LogFile a"

definition adapter_frame :: "'w mstate \<Rightarrow> 'w mstate \<Rightarrow> bool" where
  "adapter_frame s t \<longleftrightarrow> sbxs t = sbxs s
     \<and> SandboxPool t = SandboxPool s \<and> ContainerPool t = ContainerPool s \<and> ImagePool t = ImagePool s
     \<and> sandbox_persist t = sandbox_persist s \<and> container_persist t = container_persist s
     \<and> image_persist t = image_persist s \<and> basePath t = basePath s
     \<and> next_free (imgs t) = next_free (imgs s) \<and> next_free (ctrs t) = next_free (ctrs s)
     \<and> (\<forall>p. rel_option same_image (cells (imgs s) p) (cells (imgs t) p))
     \<and> (\<forall>p. rel_option same_container (cells (ctrs s) p) (cells (ctrs t) p))"

text \<open>The stronger frame of every operation but the container status: states stay too.\<close>

definition steady :: "'w mstate \<Rightarrow> 'w mstate \<Rightarrow> bool" where
  "steady s t \<longleftrightarrow> adapter_frame s t \<and> (\<forall>p. map_option c_State (cells (ctrs t) p) = map_option c_State (cells (ctrs s) p))"

lemma same_container_refl [simp]: "same_container a a"
  by (simp add: same_container_def)

lemma same_container_trans: "same_container a b \<Longrightarrow> same_container b c \<Longrightarrow> same_container a c"
  by (simp add: same_container_def)

lemma adapter_frame_refl [simp]: "adapter_frame s s"
  by (simp add: adapter_frame_def option.rel_refl)

lemma adapter_frame_trans: "adapter_frame s t \<Longrightarrow> adapter_frame t u \<Longrightarrow> adapter_frame s u"
  unfolding adapter_frame_def
  using rel_option_trans [of same_image] same_image_trans rel_option_trans [of same_container] same_container_trans
  by metis

lemma steady_refl [simp]: "steady s s"
  by (simp add: steady_def)

lemma steady_trans: "steady s t \<Longrightarrow> steady t u \<Longrightarrow> steady s u"
  unfolding steady_def using adapter_frame_trans by metis

lemma transp_steady: "transp steady"
  by (rule transpI) (rule steady_trans)

lemma transp_adapter_frame: "transp adapter_frame"
  by (rule transpI) (rule adapter_frame_trans)

lemma image_frame_steady: "image_frame s t \<Longrightarrow> steady s t"
  by (simp add: image_frame_def steady_def adapter_frame_def option.rel_refl)

lemma same_stores_steady: "same_stores s t \<Longrightarrow> steady s t"
  by (rule image_frame_steady [OF same_stores_image_frame])

lemma steady_adapter_frame: "steady s t \<Longrightarrow> adapter_frame s t"
  by (simp add: steady_def)

lemma steady_world [simp]: "steady s (s\<lparr>world := w\<rparr>)" "steady s (s\<lparr>files := f\<rparr>)"
  by (simp_all add: same_stores_steady)

lemma keeps_steady_store: "keeps same_stores s m \<Longrightarrow> keeps steady s m"
  by (auto simp: keeps_def intro: same_stores_steady)

lemma keeps_steady_image: "keeps image_frame s m \<Longrightarrow> keeps steady s m"
  by (auto simp: keeps_def intro: image_frame_steady)

lemma keeps_frame_steady: "keeps steady s m \<Longrightarrow> keeps adapter_frame s m"
  by (auto simp: keeps_def intro: steady_adapter_frame)

lemmas steady_bind = keeps_bind [OF transp_steady]
lemmas steady_step = keeps_step [OF transp_steady]
lemmas frame_bind = keeps_bind [OF transp_adapter_frame]
lemmas frame_step = keeps_step [OF transp_adapter_frame]

lemma pool_wf_rel:
  assumes "pool_wf idof h m" and "next_free h' = next_free h"
    and "\<And>p. rel_option R (cells h p) (cells h' p)" and "\<And>a b. R a b \<Longrightarrow> idof b = idof a"
  shows "pool_wf idof h' m"
  unfolding pool_wf_def heap_wf_def
proof (intro conjI allI impI)
  show "mwf m" using assms(1) by (simp add: pool_wf_def)
next
  fix a assume "next_free h' \<le> a"
  then have "cells h a = None" using assms(1,2) by (simp add: pool_wf_def heap_wf_def)
  with assms(3) [of a] show "cells h' a = None" by simp
next
  fix k p assume "(k, p) \<in> set m"
  then obtain ob where "cells h p = Some ob" "idof ob = k" using assms(1) unfolding pool_wf_def by blast
  with assms(3) [of p] show "\<exists>ob. cells h' p = Some ob \<and> idof ob = k"
    by (cases "cells h' p") (auto dest: assms(4))
qed

lemma adapter_frame_wf: "adapter_frame s t \<Longrightarrow> state_wf s \<Longrightarrow> state_wf t"
proof -
  assume f: "adapter_frame s t" and wf: "state_wf s"
  have "pool_wf i_ID (imgs t) (ImagePool s)"
    by (rule pool_wf_rel [of _ "imgs s" _ _ same_image])
      (use f wf in \<open>auto simp: adapter_frame_def state_wf_def dest: same_image_ID\<close>)
  moreover have "pool_wf c_ID (ctrs t) (ContainerPool s)"
    by (rule pool_wf_rel [of _ "ctrs s" _ _ same_container])
      (use f wf in \<open>auto simp: adapter_frame_def state_wf_def same_container_def\<close>)
  ultimately show ?thesis using f wf by (simp add: adapter_frame_def state_wf_def)
qed

lemma adapter_frame_container:
  assumes "adapter_frame s t" and "cells (ctrs s) p = Some cm"
  obtains cm' where "cells (ctrs t) p = Some cm'" "same_container cm cm'"
proof -
  have "rel_option same_container (Some cm) (cells (ctrs t) p)"
    using assms unfolding adapter_frame_def by metis
  then show ?thesis using that by (cases "cells (ctrs t) p") auto
qed

lemma adapter_frame_image:
  assumes "adapter_frame s t" and "cells (imgs s) p = Some im"
  obtains im' where "cells (imgs t) p = Some im'" "same_image im im'"
proof -
  have "rel_option same_image (Some im) (cells (imgs t) p)"
    using assms unfolding adapter_frame_def by metis
  then show ?thesis using that by (cases "cells (imgs t) p") auto
qed

lemma steady_state:
  "steady s t \<Longrightarrow> cells (ctrs s) p = Some cm \<Longrightarrow> cells (ctrs t) p = Some cm' \<Longrightarrow> c_State cm' = c_State cm"
  unfolding steady_def by (metis option.map(2) option.inject)

text \<open>Assigning to a container.\<close>

definition update_container :: "ptr \<Rightarrow> (ContainerMetadata \<Rightarrow> ContainerMetadata) \<Rightarrow> 'w mstate \<Rightarrow> 'w mstate option" where
  "update_container p f s = do { cm \<leftarrow> cells (ctrs s) p; Some (s\<lparr>ctrs := assign p (f cm) (ctrs s)\<rparr>) }"

lemma update_container_frame:
  assumes "update_container p f s = Some t" and "\<And>cm. same_container cm (f cm)"
  shows "adapter_frame s t"
  using assms by (auto simp: update_container_def adapter_frame_def bind_eq_Some_conv option.rel_refl)

lemma update_container_steady:
  assumes "update_container p f s = Some t" and "\<And>cm. same_container cm (f cm)"
    and "\<And>cm. c_State (f cm) = c_State cm"
  shows "steady s t"
proof -
  have "adapter_frame s t" by (rule update_container_frame [OF assms(1,2)])
  with assms(1,3) show ?thesis by (auto simp: steady_def update_container_def bind_eq_Some_conv)
qed

section \<open>The contract\<close>

locale adapter =
  fixes A :: "'w AdapterInterface"
  assumes run_sandbox: "keeps steady s (ad_RunPodSandbox A p s)"
    and stop_sandbox: "keeps steady s (ad_StopPodSandbox A p s)"
    and remove_sandbox: "keeps steady s (ad_RemovePodSandbox A p s)"
    and status_sandbox: "keeps steady s (ad_PodSandboxStatus A p s)"
    and create_container: "keeps steady s (ad_CreateContainer A p s)"
    and start_container: "keeps steady s (ad_StartContainer A p s)"
    and stop_container: "keeps steady s (ad_StopContainer A p s)"
    and reopen_log: "keeps steady s (ad_ReopenContainerLog A p s)"
    and update_resources: "keeps steady s (ad_UpdateContainerResources A p s)"
    and pull_image: "keeps steady s (ad_PullImage A q s)"
    and list_images: "keeps steady s (ad_ListImages A is s)"
    and image_status: "keeps steady s (ad_ImageStatus A q s)"
    and image_fs_info: "keeps steady s (ad_ImageFsInfo A s)"
    and remove_image: "keeps steady s (ad_RemoveImage A q s)"
    and container_status: "keeps adapter_frame s (ad_ContainerStatus A p s)"
    and container_status_other: "ad_ContainerStatus A p s = Some (e, t) \<Longrightarrow> q \<noteq> p \<Longrightarrow>
      cells (ctrs t) q = cells (ctrs s) q"
begin

lemma start_wf: "ad_StartContainer A p s = Some (e, t) \<Longrightarrow> state_wf s \<Longrightarrow> state_wf t"
  using keepsD [OF start_container] steady_adapter_frame adapter_frame_wf by blast

lemma status_wf: "ad_ContainerStatus A p s = Some (e, t) \<Longrightarrow> state_wf s \<Longrightarrow> state_wf t"
  using keepsD [OF container_status] adapter_frame_wf by blast

end

section \<open>The fake adapter\<close>

text \<open>\<open>fakes.go\<close>: every operation succeeds, except that stopping can be made to fail.\<close>

definition ok_op :: "ptr \<Rightarrow> 'w mstate \<Rightarrow> (error option \<times> 'w mstate) option" where
  "ok_op p s = Some (None, s)"

definition FakeAdapter_StopContainer :: "bool \<Rightarrow> ptr \<Rightarrow> 'w mstate \<Rightarrow> (error option \<times> 'w mstate) option" where
  "FakeAdapter_StopContainer fails p s = Some (if fails then Some ''Adapter fails'' else None, s)"

definition FakeAdapter_PullImage :: "ptr \<Rightarrow> 'w mstate \<Rightarrow> (error option \<times> 'w mstate) option" where
  "FakeAdapter_PullImage q s = do { s \<leftarrow> set_LocalPath (Some q) ''/tmp'' s; Some (None, s) }"

definition FAKEVERSION :: string where "FAKEVERSION = ''0.1''"

definition FakeAdapter :: "bool \<Rightarrow> 'w AdapterInterface" where
  "FakeAdapter fails =
     \<lparr>ad_RunPodSandbox = ok_op, ad_StopPodSandbox = ok_op, ad_RemovePodSandbox = ok_op,
      ad_PodSandboxStatus = ok_op,
      ad_Version = (Some \<lparr>vr_Version = FAKEVERSION, vr_RuntimeName = [], vr_RuntimeVersion = [],
         vr_RuntimeApiVersion = []\<rparr>, None),
      ad_CreateContainer = ok_op, ad_StartContainer = ok_op,
      ad_StopContainer = FakeAdapter_StopContainer fails,
      ad_ContainerStatus = ok_op, ad_ReopenContainerLog = ok_op, ad_UpdateContainerResources = ok_op,
      ad_PullImage = FakeAdapter_PullImage, ad_ListImages = (\<lambda>is s. Some (None, s)),
      ad_ImageStatus = ok_op,
      ad_ImageFsInfo = (\<lambda>s. Some ((None, Some ''ImageFsInfo still not implemented''), s)),
      ad_RemoveImage = ok_op,
      ad_ExecSync = (\<lambda>p c. (Some \<lparr>es_Stdout = [], es_Stderr = [], es_ExitCode = 1\<rparr>, None)),
      ad_Exec = (\<lambda>p. (Some [], None)), ad_Attach = (\<lambda>p. (None, None))\<rparr>"

lemma FakeAdapter_simps [simp]:
  "ad_RunPodSandbox (FakeAdapter b) = ok_op" "ad_StopPodSandbox (FakeAdapter b) = ok_op"
  "ad_RemovePodSandbox (FakeAdapter b) = ok_op" "ad_PodSandboxStatus (FakeAdapter b) = ok_op"
  "ad_CreateContainer (FakeAdapter b) = ok_op" "ad_StartContainer (FakeAdapter b) = ok_op"
  "ad_StopContainer (FakeAdapter b) = FakeAdapter_StopContainer b"
  "ad_ContainerStatus (FakeAdapter b) = ok_op" "ad_ReopenContainerLog (FakeAdapter b) = ok_op"
  "ad_UpdateContainerResources (FakeAdapter b) = ok_op" "ad_PullImage (FakeAdapter b) = FakeAdapter_PullImage"
  "ad_ImageStatus (FakeAdapter b) = ok_op" "ad_RemoveImage (FakeAdapter b) = ok_op"
  "ad_ListImages (FakeAdapter b) = (\<lambda>is s. Some (None, s))"
  "ad_ImageFsInfo (FakeAdapter b) = (\<lambda>s. Some ((None, Some ''ImageFsInfo still not implemented''), s))"
  by (simp_all add: FakeAdapter_def)

interpretation fake_adapter: adapter "FakeAdapter b" for b
  by unfold_locales
    (auto simp: ok_op_def FakeAdapter_StopContainer_def FakeAdapter_PullImage_def
      intro!: keeps_steady_image image_set_bind)

end
