(* ===== verification/Slurm_Adapter.thy ===== *)
theory Slurm_Adapter
  imports Adapter
begin

text \<open>
  \<open>pkg/cri/adapters/slurm\<close> (\<open>adapter.go\<close>, \<open>container.go\<close>, \<open>exec.go\<close>,
  \<open>image.go\<close>, \<open>sandbox.go\<close>): containers as Slurm jobs.
\<close>

definition SLURMADAPTERVERSION :: string where "SLURMADAPTERVERSION = ''0.1.0''"
definition SLURMNAME :: string where "SLURMNAME = ''Adapter Slurm''"
definition MOUNTHPATH :: string where "MOUNTHPATH = ''multi-cri''"
definition StdoutFile :: string where "StdoutFile = ''stdout.out''"
definition SterrFile :: string where "SterrFile = ''sterr.out''"
definition RunScript :: string where "RunScript = ''run.sh''"

record 'w SlurmAdapter =
  sa_MountPath :: string
  sa_Builder :: "'w ImageBuilder"
  sa_ImageRemoteMount :: string

text \<open>A panic of \<open>GetBoolEnv\<close> on a malformed value is \<open>None\<close>.\<close>

definition NewSlurmAdapter ::
    "'w lib \<Rightarrow> (string \<Rightarrow> string) \<Rightarrow> (string \<Rightarrow> error + string) \<Rightarrow> fs \<Rightarrow> (error + 'w SlurmAdapter) option" where
  "NewSlurmAdapter B env LookPath f = do {
     imageRemoteMountPath \<leftarrow> GetEnv env ''CRI_SLURM_IMAGE_REMOTE_MOUNT'' (Some []);
     mountP \<leftarrow> GetEnv env ''CRI_SLURM_MOUNT_PATH'' (Some MOUNTHPATH);
     inCluster \<leftarrow> GetBoolEnv env ''CRI_SLURM_BUILD_IN_CLUSTER'' (Some False);
     Some (case (if inCluster then Inr (NewImageBuilderInCluster B mountP imageRemoteMountPath)
                 else NewImageBuilderInCRI B LookPath imageRemoteMountPath f) of
        Inl e \<Rightarrow> Inl e
      | Inr build \<Rightarrow> Inr \<lparr>sa_MountPath = mountP, sa_Builder = build, sa_ImageRemoteMount = imageRemoteMountPath\<rparr>)
   }"

definition SlurmAdapter_Version :: "VersionResponse option \<times> error option" where
  "SlurmAdapter_Version = (Some \<lparr>vr_Version = SLURMADAPTERVERSION, vr_RuntimeName = SLURMNAME,
     vr_RuntimeVersion = SLURMADAPTERVERSION, vr_RuntimeApiVersion = SLURMADAPTERVERSION\<rparr>, None)"

definition getRMScriptPath :: "string \<Rightarrow> string" where
  "getRMScriptPath RMContainerPath = sprintf ''%s/%s'' [RMContainerPath, RunScript]"

definition getRMStderrPath :: "string \<Rightarrow> string" where
  "getRMStderrPath RMContainerPath = sprintf ''%s/%s'' [RMContainerPath, SterrFile]"

definition getRMStdoutPath :: "string \<Rightarrow> string" where
  "getRMStdoutPath RMContainerPath = sprintf ''%s/%s'' [RMContainerPath, StdoutFile]"

section \<open>Creating a container\<close>

text \<open>When the log cannot be opened the writers are nil and writing to them panics.\<close>

definition logString :: "'w lib \<Rightarrow> string \<Rightarrow> string \<Rightarrow> 'w mstate \<Rightarrow> 'w mstate option" where
  "logString B logPath message s =
     (case CreateContainerLoggers logPath False 0 s of
        (Inl e, s) \<Rightarrow> None
      | (Inr (so, se), s) \<Rightarrow> Some (Logger_Write (lib_ci B) so message s))"

definition ensureRMPathExists :: "'w lib \<Rightarrow> ContainerMetadata \<Rightarrow> 'w mstate \<Rightarrow> (error option \<times> 'w mstate) option" where
  "ensureRMPathExists B cm s =
     (case CreateCMD cm of
        Inl e \<Rightarrow> Some (Some e, s)
      | Inr cli \<Rightarrow> do {
          ((_, err), s) \<leftarrow> SlurmCmd_ExecCmd B cli (sprintf ''mkdir -p %s'' [mstr (c_Extra cm) ''RMPath'']) s;
          Some (err, s)
        })"

definition set_extra :: "string \<Rightarrow> string \<Rightarrow> ContainerMetadata \<Rightarrow> ContainerMetadata" where
  "set_extra k v cm = cm\<lparr>c_Extra := mset_key k v (c_Extra cm)\<rparr>"

definition mount_map :: "Mount list \<Rightarrow> string gomap" where
  "mount_map ms = foldl (\<lambda>m x. mset_key (mt_ContainerPath x) (mt_HostPath x) m) [] ms"

definition mounted_message :: "string \<Rightarrow> string \<Rightarrow> string \<Rightarrow> string" where
  "mounted_message volName podID cID =
     sprintf (''---'' @ nl @ ''Container mounted in '' @ dquote @ ''%s'' @ dquote @ '' Volume.'' @ nl
       @ ''Results stored in directory:  '' @ dquote @ ''%s/%s'' @ dquote @ '' '' @ nl @ ''---'') [volName, podID, cID]"

definition Slurm_CreateContainer :: "'w lib \<Rightarrow> 'w SlurmAdapter \<Rightarrow> ptr \<Rightarrow> 'w mstate \<Rightarrow> (error option \<times> 'w mstate) option" where
  "Slurm_CreateContainer B sa p s = do {
     cm \<leftarrow> cells (ctrs s) p;
     let mounts = mount_map (cc_Mounts (c_Config cm));
     (mountPoint, s) \<leftarrow> (case mget mounts VolumeContainer of
        None \<Rightarrow> Some (sa_MountPath sa, s)
      | Some val \<Rightarrow> do {
          s \<leftarrow> update_container p (set_extra ''VolumePath'' val) s;
          s \<leftarrow> update_container p (set_extra ''LocalPath''
             (sprintf ''%s/%s/%s'' [val, s_ID (c_PodSandbox cm), c_ID cm])) s;
          let volName = Base val;
          s \<leftarrow> logString B (c_LogFile cm) (mounted_message volName (s_ID (c_PodSandbox cm)) (c_ID cm)) s;
          Some (sprintf ''%s/%s'' [sa_MountPath sa, volName], s)
        });
     s \<leftarrow> update_container p (set_extra ''RMVolumePath'' mountPoint) s;
     s \<leftarrow> update_container p (set_extra ''RMPath''
        (sprintf ''%s/%s/%s'' [mountPoint, s_ID (c_PodSandbox cm), c_ID cm])) s;
     cm \<leftarrow> cells (ctrs s) p;
     (_, s) \<leftarrow> ensureRMPathExists B cm s;
     ib_PullImageInCluster (sa_Builder sa) cm s
   }"

section \<open>Starting and stopping\<close>

definition buildStartCommand :: "'w SlurmAdapter \<Rightarrow> ContainerMetadata \<Rightarrow> 'w mstate \<Rightarrow> JobConfig option" where
  "buildStartCommand sa c s = do {
     let RMScriptPath = getRMScriptPath (mstr (c_Extra c) ''RMPath'');
     let command = (if mget (c_Environment c) ''MPI_VERSION'' \<noteq> None then
          (case mget (c_Environment c) ''MPI_FLAGS'' of
             Some flags \<Rightarrow> sprintf ''%s %s '' [''mpirun'', flags] | None \<Rightarrow> ''mpirun'')
        else []);
     p \<leftarrow> GetRMImagePath c (sa_MountPath sa) (sa_ImageRemoteMount sa) s;
     let command = sprintf ''%ssingularity exec %s'' [command, p];
     let command = foldl (\<lambda>cmd a. sprintf ''%s %s'' [cmd, EscapeSpeciaCharacters a]) command (c_Command c);
     Some \<lparr>jc_Headers = [], jc_CustomHeaders = [], jc_Command = command,
        jc_Path = mstr (c_Extra c) ''RMPath'', jc_Script = RMScriptPath,
        jc_Prerun = mstr (c_Environment c) ''CLUSTER_CONFIG'', jc_ENV = []\<rparr>
   }"

definition env_passes :: "string \<Rightarrow> bool" where
  "env_passes k =
     (if HasPrefix k ''KUBERNETES_'' then False
      else if HasPrefix k ''CLUSTER_'' then False
      else if HasPrefix k ''JOB_'' then False
      else if EqualFold k ''MPI_FLAGS'' then False
      else True)"

definition filterEnvironmentVariables :: "ContainerMetadata \<Rightarrow> string gomap" where
  "filterEnvironmentVariables c =
     foldl (\<lambda>jobEnv (k, v). if env_passes k then mset_key k v jobEnv else jobEnv) [] (c_Environment c)"

definition opt_header :: "string gomap \<Rightarrow> string \<Rightarrow> (string \<Rightarrow> JobConfigField) \<Rightarrow> JobConfigField list" where
  "opt_header env k f = (case mget env k of None \<Rightarrow> [] | Some c \<Rightarrow> [f c])"

definition setupBatchHeaders :: "ContainerMetadata \<Rightarrow> JobConfig \<Rightarrow> JobConfig" where
  "setupBatchHeaders cm jobConf =
     (let env = c_Environment cm;
          field = (\<lambda>f v. \<lparr>jf_Flag = f, jf_Value = v\<rparr>);
          headers = jc_Headers jobConf @ [field ''-J'' (c_Name cm), field ''-o'' StdoutFile, field ''-e'' SterrFile]
            @ opt_header env ''JOB_QUEUE'' (field ''-p'')
            @ opt_header env ''JOB_GPU'' (\<lambda>c. field (sprintf ''--gres=%s'' [c]) [])
            @ opt_header env ''JOB_NUM_NODES'' (field ''-N'')
            @ opt_header env ''JOB_NUM_CORES_NODE'' (field ''-c'')
            @ opt_header env ''JOB_NUM_CORES'' (field ''-n'')
            @ opt_header env ''JOB_NUM_TASKS_NODE'' (\<lambda>c. field (sprintf ''--ntasks-per-node=%s'' [c]) [])
      in jobConf\<lparr>jc_Headers := headers,
           jc_CustomHeaders := (case mget env ''JOB_CUSTOM_CONFIG'' of None \<Rightarrow> jc_CustomHeaders jobConf | Some c \<Rightarrow> c)\<rparr>)"

definition Slurm_StartContainer :: "'w lib \<Rightarrow> 'w SlurmAdapter \<Rightarrow> ptr \<Rightarrow> 'w mstate \<Rightarrow> (error option \<times> 'w mstate) option" where
  "Slurm_StartContainer B sa p s = do {
     cm \<leftarrow> cells (ctrs s) p;
     (case CreateCMD cm of
        Inl e \<Rightarrow> Some (Some e, s)
      | Inr sl \<Rightarrow> do {
          jobConf \<leftarrow> buildStartCommand sa cm s;
          let jobConf = jobConf\<lparr>jc_ENV := filterEnvironmentVariables cm\<rparr>;
          let jobConf = setupBatchHeaders cm jobConf;
          (r, s) \<leftarrow> SlurmCmd_Sbatch B sl jobConf s;
          (case r of
             Inl e \<Rightarrow> Some (Some e, s)
           | Inr jobId \<Rightarrow> do {
               let (pid, ok) = (if jobId \<noteq> [] then Atoi jobId else (0, True));
               s \<leftarrow> update_container p (\<lambda>cm. cm\<lparr>c_Pid := pid\<rparr>) s;
               Some (if ok then None else Some (Atoi_error jobId), s)
             })
        })
   }"

definition Slurm_StopContainer :: "'w lib \<Rightarrow> ptr \<Rightarrow> 'w mstate \<Rightarrow> (error option \<times> 'w mstate) option" where
  "Slurm_StopContainer B p s = do {
     cm \<leftarrow> cells (ctrs s) p;
     (case CreateCMD cm of
        Inl e \<Rightarrow> Some (Some e, s)
      | Inr sl \<Rightarrow> SlurmCmd_Scancel B sl (int32 (c_Pid cm)) s)
   }"

section \<open>The status of a job\<close>

text \<open>The fourth test repeats the third, so its branch is never taken.\<close>

definition apply_status :: "JobStatus \<Rightarrow> ContainerMetadata \<Rightarrow> ContainerMetadata" where
  "apply_status status cm =
     (if js_JobState status = ''RUNNING'' then cm\<lparr>c_State := CONTAINER_RUNNING\<rparr>
      else if js_JobState status = ''COMPLETED'' \<or> js_JobState status = ''COMPLETING'' then
        cm\<lparr>c_State := CONTAINER_EXITED, c_ExitCode := js_ExitCode status, c_Reason := ''completed'',
           c_FinishedAt := js_EndTime status\<rparr>
      else if js_JobState status = ''CANCELLED'' \<or> js_JobState status = ''TIMEOUT'' then
        cm\<lparr>c_State := CONTAINER_EXITED, c_ExitCode := 1, c_Reason := ''OOMKilled'',
           c_FinishedAt := js_EndTime status\<rparr>
      else if js_JobState status = ''FAILED'' \<or> js_JobState status = ''NODE_FAIL'' then
        (let cm = cm\<lparr>c_State := CONTAINER_EXITED\<rparr>;
             cm = (if js_ExitCode status = 0 then cm\<lparr>c_ExitCode := 1\<rparr> else cm)
         in cm\<lparr>c_Reason := js_JobState status\<rparr>)
      else if js_JobState status = ''FAILED'' \<or> js_JobState status = ''NODE_FAIL'' then
        (let cm = cm\<lparr>c_State := CONTAINER_EXITED\<rparr>;
             cm = (if js_ExitCode status = 0 then cm\<lparr>c_ExitCode := 1\<rparr>
                   else cm\<lparr>c_ExitCode := js_ExitCode status\<rparr>);
             cm = cm\<lparr>c_Reason := js_JobState status\<rparr>
         in cm\<lparr>c_Reason := ''ContainerCannotRun'', c_FinishedAt := js_StarTime status\<rparr>)
      else cm\<lparr>c_State := CONTAINER_CREATED\<rparr>)"

definition Slurm_ContainerStatus :: "'w lib \<Rightarrow> ptr \<Rightarrow> 'w mstate \<Rightarrow> (error option \<times> 'w mstate) option" where
  "Slurm_ContainerStatus B p s = do {
     cm \<leftarrow> cells (ctrs s) p;
     (case CreateCMD cm of
        Inl e \<Rightarrow> Some (Some e, s)
      | Inr sl \<Rightarrow>
          if c_Pid cm \<noteq> 0 then do {
            (r, s) \<leftarrow> SlurmCmd_Sstatus B sl (int32 (c_Pid cm)) s;
            (case r of
               Inl e \<Rightarrow> Some (Some e, s)
             | Inr status \<Rightarrow> do {
                 s \<leftarrow> update_container p (apply_status status) s;
                 cm \<leftarrow> cells (ctrs s) p;
                 if c_State cm = CONTAINER_EXITED then do {
                   (_, s) \<leftarrow> SlurmCmd_GetStderr B sl (getRMStderrPath (mstr (c_Extra cm) ''RMPath'')) s;
                   (_, s) \<leftarrow> SlurmCmd_GetStdout B sl (getRMStdoutPath (mstr (c_Extra cm) ''RMPath'')) s;
                   Some (None, s)
                 } else Some (None, s)
               })
          } else Some (None, s))
   }"

definition Slurm_ReopenContainerLog :: "ptr \<Rightarrow> 'w mstate \<Rightarrow> (error option \<times> 'w mstate) option" where
  "Slurm_ReopenContainerLog p s = Some (Some ''SLURMCRU: ReopenContainerLog not implemented'', s)"

definition Slurm_UpdateContainerResources :: "ptr \<Rightarrow> 'w mstate \<Rightarrow> (error option \<times> 'w mstate) option" where
  "Slurm_UpdateContainerResources p s = Some (Some ''SLURMCRU: UpdateContainerResources not implemented'', s)"

section \<open>Images\<close>

text \<open>The image is wrapped in a container that has no other field set.\<close>

definition Slurm_PullImage :: "'w SlurmAdapter \<Rightarrow> ptr \<Rightarrow> 'w mstate \<Rightarrow> (error option \<times> 'w mstate) option" where
  "Slurm_PullImage sa q s = do {
     im \<leftarrow> cells (imgs s) q;
     if i_RepoType im = UnknownImageRepo then
       Some (Some (sprintf ''Image repository type not supported by multi-cri %s '' [i_RemotePath im]), s)
     else ib_PullImage (sa_Builder sa) (zero_container\<lparr>c_Image := Some q\<rparr>) s
   }"

definition Slurm_ImageFsInfo ::
    "'w lib \<Rightarrow> 'w SlurmAdapter \<Rightarrow> 'w mstate \<Rightarrow> ((ImageFsInfoResponse option \<times> error option) \<times> 'w mstate) option" where
  "Slurm_ImageFsInfo B sa s =
     (let (t, s) = now (lib_go B) s in Some ((Some \<lparr>fi_Mountpoints = [(t, sa_MountPath sa)]\<rparr>, None), s))"

text \<open>The operations that do nothing, and those of \<open>exec.go\<close> that are not there.\<close>

definition Slurm_ListImages :: "K8sImage list \<Rightarrow> 'w mstate \<Rightarrow> (error option \<times> 'w mstate) option" where
  "Slurm_ListImages images s = Some (None, s)"

definition Slurm_ImageStatus :: "ptr \<Rightarrow> 'w mstate \<Rightarrow> (error option \<times> 'w mstate) option" where
  "Slurm_ImageStatus img s = Some (None, s)"

definition Slurm_RemoveImage :: "ptr \<Rightarrow> 'w mstate \<Rightarrow> (error option \<times> 'w mstate) option" where
  "Slurm_RemoveImage img s = Some (None, s)"

definition Slurm_RunPodSandbox :: "ptr \<Rightarrow> 'w mstate \<Rightarrow> (error option \<times> 'w mstate) option" where
  "Slurm_RunPodSandbox sandbox s = Some (None, s)"

definition Slurm_StopPodSandbox :: "ptr \<Rightarrow> 'w mstate \<Rightarrow> (error option \<times> 'w mstate) option" where
  "Slurm_StopPodSandbox sandbox s = Some (None, s)"

definition Slurm_RemovePodSandbox :: "ptr \<Rightarrow> 'w mstate \<Rightarrow> (error option \<times> 'w mstate) option" where
  "Slurm_RemovePodSandbox sandbox s = Some (None, s)"

definition Slurm_PodSandboxStatus :: "ptr \<Rightarrow> 'w mstate \<Rightarrow> (error option \<times> 'w mstate) option" where
  "Slurm_PodSandboxStatus sandbox s = Some (None, s)"

definition Slurm_ExecSync :: "ptr \<Rightarrow> string list \<Rightarrow> ExecSyncResponse option \<times> error option" where
  "Slurm_ExecSync cm command = (None, Some ''ExecSync not implemented for Slurm Adapter'')"

definition Slurm_Exec :: "ptr \<Rightarrow> string option \<times> error option" where
  "Slurm_Exec cm = (None, Some ''Exec not implemented for Slurm Adapter'')"

definition Slurm_Attach :: "ptr \<Rightarrow> string option \<times> error option" where
  "Slurm_Attach cm = (None, Some ''Attach not implemented for Slurm Adapter'')"

lemmas slurm_ok_ops = Slurm_RunPodSandbox_def Slurm_StopPodSandbox_def Slurm_RemovePodSandbox_def
  Slurm_PodSandboxStatus_def Slurm_ListImages_def Slurm_ImageStatus_def Slurm_RemoveImage_def

definition SlurmAdapter_interface :: "'w lib \<Rightarrow> 'w SlurmAdapter \<Rightarrow> 'w AdapterInterface" where
  "SlurmAdapter_interface B sa =
     \<lparr>ad_RunPodSandbox = Slurm_RunPodSandbox, ad_StopPodSandbox = Slurm_StopPodSandbox,
      ad_RemovePodSandbox = Slurm_RemovePodSandbox,
      ad_PodSandboxStatus = Slurm_PodSandboxStatus, ad_Version = SlurmAdapter_Version,
      ad_CreateContainer = Slurm_CreateContainer B sa, ad_StartContainer = Slurm_StartContainer B sa,
      ad_StopContainer = Slurm_StopContainer B, ad_ContainerStatus = Slurm_ContainerStatus B,
      ad_ReopenContainerLog = Slurm_ReopenContainerLog,
      ad_UpdateContainerResources = Slurm_UpdateContainerResources,
      ad_PullImage = Slurm_PullImage sa, ad_ListImages = Slurm_ListImages,
      ad_ImageStatus = Slurm_ImageStatus, ad_ImageFsInfo = Slurm_ImageFsInfo B sa,
      ad_RemoveImage = Slurm_RemoveImage,
      ad_ExecSync = Slurm_ExecSync, ad_Exec = Slurm_Exec, ad_Attach = Slurm_Attach\<rparr>"

text \<open>\<open>loadAdapter\<close> of \<open>runtime/service.go\<close>.\<close>

definition loadAdapter ::
    "'w lib \<Rightarrow> (string \<Rightarrow> string) \<Rightarrow> (string \<Rightarrow> error + string) \<Rightarrow> fs \<Rightarrow> string \<Rightarrow> (error + 'w AdapterInterface) option" where
  "loadAdapter B env LookPath f adapterName =
     (if adapterName = ''fake'' then Some (Inr (FakeAdapter False))
      else if adapterName = ''slurm'' then do {
        r \<leftarrow> NewSlurmAdapter B env LookPath f;
        Some (case r of Inl e \<Rightarrow> Inl e | Inr sa \<Rightarrow> Inr (SlurmAdapter_interface B sa))
      }
      else Some (Inl ''Adapter not found''))"

section \<open>The contract\<close>

lemma set_extra_same: "same_container cm (set_extra k v cm)" "c_State (set_extra k v cm) = c_State cm"
  by (simp_all add: set_extra_def same_container_def)

lemma steady_update:
  assumes "\<And>cm. same_container cm (f cm)" and "\<And>cm. c_State (f cm) = c_State cm"
    and "\<And>t. update_container p f s = Some t \<Longrightarrow> keeps steady t (g t)"
  shows "keeps steady s (Option.bind (update_container p f s) g)"
proof (cases "update_container p f s")
  case (Some t)
  with update_container_steady [OF Some assms(1,2)] assms(3) show ?thesis by (auto intro: steady_step)
qed simp

lemma logString_frame: "logString B l m s = Some t \<Longrightarrow> same_stores s t"
proof -
  assume a: "logString B l m s = Some t"
  obtain r u where c: "CreateContainerLoggers l False 0 s = (r, u)" by (metis prod.exhaust)
  with a obtain so se where r: "r = Inr (so, se)"
    by (cases r) (auto simp: logString_def split: prod.splits)
  then have "t = Logger_Write (lib_ci B) so m u" using a c by (simp add: logString_def)
  then show ?thesis
    using same_stores_trans [OF Loggers_frame [OF c]] Logger_Write_frame by blast
qed

lemma ensureRMPathExists_keeps: "keeps same_stores s (ensureRMPathExists B cm s)"
  unfolding ensureRMPathExists_def
  by (intro keeps_intros store_bind ExecCmd_keeps) (auto split: prod.splits)

lemma apply_status_same: "same_container cm (apply_status st cm)"
  by (simp add: apply_status_def same_container_def Let_def)

lemma Slurm_StopContainer_keeps: "keeps same_stores s (Slurm_StopContainer B p s)"
  unfolding Slurm_StopContainer_def
  by (intro keeps_bind_pure keeps_intros Scancel_keeps) simp

lemma Slurm_StartContainer_keeps: "keeps steady s (Slurm_StartContainer B sa p s)"
  unfolding Slurm_StartContainer_def Let_def
  apply (rule keeps_bind_pure)
  apply (rule keeps_intros)
   apply simp
  apply (rule keeps_bind_pure)
  apply (rule steady_bind)
   apply (rule keeps_steady_store [OF Sbatch_keeps])
  apply (auto split: sum.split prod.split intro!: steady_update simp: same_container_def)
  done

text \<open>The status of one container leaves the others alone.\<close>

definition only_container :: "ptr \<Rightarrow> 'w mstate \<Rightarrow> 'w mstate \<Rightarrow> bool" where
  "only_container p s t \<longleftrightarrow> adapter_frame s t \<and> (\<forall>q. q \<noteq> p \<longrightarrow> cells (ctrs t) q = cells (ctrs s) q)"

lemma transp_only: "transp (only_container p)"
  by (rule transpI) (auto simp: only_container_def intro: adapter_frame_trans)

lemma only_of_store: "same_stores s t \<Longrightarrow> only_container p s t"
  by (simp add: only_container_def same_stores_def steady_adapter_frame [OF same_stores_steady])

lemma keeps_only: "keeps same_stores s m \<Longrightarrow> keeps (only_container p) s m"
  by (auto simp: keeps_def intro: only_of_store)

lemma only_update:
  assumes "\<And>cm. same_container cm (f cm)"
    and "\<And>t. update_container p f s = Some t \<Longrightarrow> keeps (only_container p) t (g t)"
  shows "keeps (only_container p) s (Option.bind (update_container p f s) g)"
proof (cases "update_container p f s")
  case (Some t)
  then have "only_container p s t"
    using update_container_frame [OF Some assms(1)]
    by (auto simp: only_container_def update_container_def bind_eq_Some_conv)
  with Some assms(2) show ?thesis by (auto intro: keeps_step [OF transp_only])
qed simp

lemma only_refl [simp]: "only_container p s s"
  by (simp add: only_container_def)

lemma Slurm_ContainerStatus_keeps: "keeps (only_container p) s (Slurm_ContainerStatus B p s)"
proof -
  have logs: "keeps (only_container p) t (if c_State cm = CONTAINER_EXITED then do {
                   (_, s) \<leftarrow> SlurmCmd_GetStderr B sl (getRMStderrPath (mstr (c_Extra cm) ''RMPath'')) t;
                   (_, s) \<leftarrow> SlurmCmd_GetStdout B sl (getRMStdoutPath (mstr (c_Extra cm) ''RMPath'')) s;
                   Some (None, s)
                 } else Some (None, t))" for sl cm and t :: "'a mstate"
    by (rule keeps_cases(3))
      (auto intro!: keeps_only store_bind GetStderr_keeps GetStdout_keeps split: prod.split)
  show ?thesis
    unfolding Slurm_ContainerStatus_def
    apply (rule keeps_bind_pure)
    apply (rule keeps_cases(1))
     apply simp
    apply (rule keeps_cases(3))
     apply (rule keeps_bind [OF transp_only])
      apply (rule keeps_only [OF Sstatus_keeps])
     apply (simp only: prod.case)
     apply (rule keeps_cases(1))
      apply simp
     apply (rule only_update, rule apply_status_same)
     apply (rule keeps_bind_pure)
     apply (rule logs)
    apply simp
    done
qed

locale slurm_adapter = image_builder "sa_Builder sa" for sa :: "'w SlurmAdapter" +
  fixes B :: "'w lib"
begin

lemma Slurm_CreateContainer_keeps: "keeps steady s (Slurm_CreateContainer B sa p s)"
proof -
  have log: "keeps steady t (do { s \<leftarrow> logString B l m t; Some (x, s) })" for l m x and t :: "'w mstate"
    by (cases "logString B l m t") (auto dest: logString_frame intro: same_stores_steady)
  have mount: "keeps steady t (case mget mounts VolumeContainer of
        None \<Rightarrow> Some (sa_MountPath sa, t)
      | Some val \<Rightarrow> do {
          s \<leftarrow> update_container p (set_extra ''VolumePath'' val) t;
          s \<leftarrow> update_container p (set_extra ''LocalPath''
             (sprintf ''%s/%s/%s'' [val, s_ID (c_PodSandbox cm), c_ID cm])) s;
          s \<leftarrow> logString B (c_LogFile cm) (mounted_message (Base val) (s_ID (c_PodSandbox cm)) (c_ID cm)) s;
          Some (sprintf ''%s/%s'' [sa_MountPath sa, Base val], s)
        })" for mounts cm and t :: "'w mstate"
    by (rule keeps_cases(2)) (auto intro!: steady_update log simp: set_extra_same)
  show ?thesis
    unfolding Slurm_CreateContainer_def Let_def
    apply (rule keeps_bind_pure)
    apply (rule steady_bind)
     apply (rule mount)
    apply (simp only: prod.case)
    apply (rule steady_update, rule set_extra_same, rule set_extra_same)
    apply (rule steady_update, rule set_extra_same, rule set_extra_same)
    apply (rule keeps_bind_pure)
    apply (rule steady_bind)
     apply (rule keeps_steady_store [OF ensureRMPathExists_keeps])
    apply (simp add: keeps_steady_image [OF pull_cluster_frame])
    done
qed

end

lemma SlurmAdapter_simps [simp]:
  "ad_RunPodSandbox (SlurmAdapter_interface B sa) = ok_op" "ad_StopPodSandbox (SlurmAdapter_interface B sa) = ok_op"
  "ad_RemovePodSandbox (SlurmAdapter_interface B sa) = ok_op" "ad_PodSandboxStatus (SlurmAdapter_interface B sa) = ok_op"
  "ad_CreateContainer (SlurmAdapter_interface B sa) = Slurm_CreateContainer B sa"
  "ad_StartContainer (SlurmAdapter_interface B sa) = Slurm_StartContainer B sa"
  "ad_StopContainer (SlurmAdapter_interface B sa) = Slurm_StopContainer B"
  "ad_ContainerStatus (SlurmAdapter_interface B sa) = Slurm_ContainerStatus B"
  "ad_ReopenContainerLog (SlurmAdapter_interface B sa) = Slurm_ReopenContainerLog"
  "ad_UpdateContainerResources (SlurmAdapter_interface B sa) = Slurm_UpdateContainerResources"
  "ad_PullImage (SlurmAdapter_interface B sa) = Slurm_PullImage sa"
  "ad_ImageStatus (SlurmAdapter_interface B sa) = ok_op" "ad_RemoveImage (SlurmAdapter_interface B sa) = ok_op"
  "ad_ListImages (SlurmAdapter_interface B sa) = (\<lambda>is s. Some (None, s))"
  "ad_ImageFsInfo (SlurmAdapter_interface B sa) = Slurm_ImageFsInfo B sa"
  by (simp_all add: SlurmAdapter_interface_def fun_eq_iff slurm_ok_ops ok_op_def)

sublocale slurm_adapter \<subseteq> adapter "SlurmAdapter_interface B sa"
proof unfold_locales
  fix s t :: "'w mstate" and p q e
  show "keeps steady s (ad_PullImage (SlurmAdapter_interface B sa) q s)"
    by (auto simp: Slurm_PullImage_def intro!: keeps_bind_pure keeps_steady_image pull_frame)
  show "keeps steady s (ad_ImageFsInfo (SlurmAdapter_interface B sa) s)"
    by (auto simp: Slurm_ImageFsInfo_def now_def split: prod.split)
  show "keeps adapter_frame s (ad_ContainerStatus (SlurmAdapter_interface B sa) p s)"
    using Slurm_ContainerStatus_keeps [of p s B] by (auto simp: keeps_def only_container_def)
  show "ad_ContainerStatus (SlurmAdapter_interface B sa) p s = Some (e, t) \<Longrightarrow> q \<noteq> p \<Longrightarrow>
      cells (ctrs t) q = cells (ctrs s) q"
    using Slurm_ContainerStatus_keeps [of p s B] by (auto simp: keeps_def only_container_def)
qed (simp_all add: ok_op_def Slurm_ReopenContainerLog_def Slurm_UpdateContainerResources_def
  Slurm_CreateContainer_keeps Slurm_StartContainer_keeps keeps_steady_store [OF Slurm_StopContainer_keeps])

context slurm_adapter
begin

lemma is_adapter: "adapter (SlurmAdapter_interface B sa)"
  by (rule adapter_axioms)

end

interpretation slurm_cluster: slurm_adapter
  "\<lparr>sa_MountPath = m, sa_Builder = NewImageBuilderInCluster B m r, sa_ImageRemoteMount = r\<rparr>" B for m r B
  by (rule slurm_adapter.intro) (simp add: in_cluster.image_builder_axioms)

interpretation slurm_cri: slurm_adapter
  "\<lparr>sa_MountPath = m, sa_Builder = InCRI_builder B bld, sa_ImageRemoteMount = r\<rparr>" B for m bld r B
  by (rule slurm_adapter.intro) (simp add: in_cri.image_builder_axioms)

text \<open>Every adapter the service can be started with meets the contract.\<close>

lemma loaded_slurm:
  assumes "loadAdapter B env LookPath f ''slurm'' = Some (Inr A)"
  shows "\<exists>sa. slurm_adapter sa \<and> A = SlurmAdapter_interface B sa"
proof -
  obtain x where x: "NewSlurmAdapter B env LookPath f = Some x"
    using assms by (auto simp: loadAdapter_def bind_eq_Some_conv)
  with assms obtain sa where sa: "NewSlurmAdapter B env LookPath f = Some (Inr sa)" "A = SlurmAdapter_interface B sa"
    by (cases x) (simp_all add: loadAdapter_def)
  then have "(\<exists>m r. sa = \<lparr>sa_MountPath = m, sa_Builder = NewImageBuilderInCluster B m r, sa_ImageRemoteMount = r\<rparr>)
      \<or> (\<exists>m bld r. sa = \<lparr>sa_MountPath = m, sa_Builder = InCRI_builder B bld, sa_ImageRemoteMount = r\<rparr>)"
    by (auto simp: NewSlurmAdapter_def NewImageBuilderInCRI_def bind_eq_Some_conv split: if_splits sum.splits)
  then have "slurm_adapter sa" using slurm_cluster.slurm_adapter_axioms slurm_cri.slurm_adapter_axioms by auto
  with sa(2) show ?thesis by blast
qed

lemma loaded_adapter:
  assumes "loadAdapter B env LookPath f nm = Some (Inr A)"
  shows "adapter A"
proof (cases "nm = ''fake''")
  case True
  with assms have "A = FakeAdapter False" by (simp add: loadAdapter_def)
  then show ?thesis by (simp add: fake_adapter.adapter_axioms)
next
  case False
  with assms have "nm = ''slurm''" by (auto simp: loadAdapter_def split: if_splits)
  with loaded_slurm assms obtain sa where "slurm_adapter sa" "A = SlurmAdapter_interface B sa" by blast
  then show ?thesis by (simp add: slurm_adapter.is_adapter)
qed

end
