(* ===== verification/Remote_CRI.thy ===== *)
theory Remote_CRI
  imports Adapter
begin

text \<open>
  \<open>pkg/cri/runtime/remote\<close>: the configured remote runtimes and the routing of requests to
  them by runtime handler (sandboxes and containers) or image prefix.  The gRPC clients are
  parameters acting on the outside world; a generated client returns either an error or a
  response.  Requests and responses hold the fields the sources use.
\<close>

definition MulticriRuntimeHandler :: string where "MulticriRuntimeHandler = ''multicri''"

section \<open>Messages\<close>

record RunPodSandboxRequest =
  rq_Config :: "PodSandboxConfig option"
  rq_RuntimeHandler :: string

record CreateContainerRequest =
  cr_PodSandboxId :: string
  cr_Config :: "ContainerConfig option"
  cr_SandboxConfig :: "PodSandboxConfig option"

record ContainerFilter =
  cf_Id :: string
  cf_State :: "int option"
  cf_PodSandboxId :: string
  cf_LabelSelector :: "string gomap"

record ContainerStats =
  st_Id :: string
  st_Metadata :: "string option"
  st_Labels :: "string gomap"
  st_Annotations :: "string gomap"

section \<open>Clients\<close>

record 'w RemoteCRIObject =
  rc_RunPodSandbox :: "RunPodSandboxRequest \<Rightarrow> 'w \<Rightarrow> (error + string) \<times> 'w"
  rc_StopPodSandbox :: "string \<Rightarrow> 'w \<Rightarrow> (error + unit) \<times> 'w"
  rc_RemovePodSandbox :: "string \<Rightarrow> 'w \<Rightarrow> (error + unit) \<times> 'w"
  rc_PodSandboxStatus :: "string \<Rightarrow> 'w \<Rightarrow> (error + PodSandboxStatus) \<times> 'w"
  rc_ListPodSandbox :: "PodSandboxFilter option \<Rightarrow> 'w \<Rightarrow> (error + PodSandbox list) \<times> 'w"
  rc_PortForward :: "string \<Rightarrow> 'w \<Rightarrow> (error + string) \<times> 'w"
  rc_CreateContainer :: "CreateContainerRequest \<Rightarrow> 'w \<Rightarrow> (error + string) \<times> 'w"
  rc_StartContainer :: "string \<Rightarrow> 'w \<Rightarrow> (error + unit) \<times> 'w"
  rc_StopContainer :: "string \<Rightarrow> 'w \<Rightarrow> (error + unit) \<times> 'w"
  rc_RemoveContainer :: "string \<Rightarrow> 'w \<Rightarrow> (error + unit) \<times> 'w"
  rc_ContainerStatus :: "string \<Rightarrow> 'w \<Rightarrow> (error + K8sContainerStatus) \<times> 'w"
  rc_ContainerStats :: "string \<Rightarrow> 'w \<Rightarrow> (error + ContainerStats) \<times> 'w"
  rc_UpdateContainerResources :: "string \<Rightarrow> 'w \<Rightarrow> (error + unit) \<times> 'w"
  rc_ReopenContainerLog :: "string \<Rightarrow> 'w \<Rightarrow> (error + unit) \<times> 'w"
  rc_ListContainers :: "ContainerFilter option \<Rightarrow> 'w \<Rightarrow> (error + K8sContainer list) \<times> 'w"
  rc_ListContainerStats :: "ContainerFilter option \<Rightarrow> 'w \<Rightarrow> (error + ContainerStats list) \<times> 'w"
  rc_Attach :: "string \<Rightarrow> 'w \<Rightarrow> (error + string) \<times> 'w"
  rc_Exec :: "string \<Rightarrow> 'w \<Rightarrow> (error + string) \<times> 'w"
  rc_ExecSync :: "string \<Rightarrow> string list \<Rightarrow> 'w \<Rightarrow> (error + ExecSyncResponse) \<times> 'w"
  rc_PullImage :: "PullImageRequest \<Rightarrow> 'w \<Rightarrow> (error + string) \<times> 'w"
  rc_ImageStatus :: "string \<Rightarrow> 'w \<Rightarrow> (error + K8sImage option) \<times> 'w"
  rc_ListImages :: "string option \<Rightarrow> 'w \<Rightarrow> (error + K8sImage list) \<times> 'w"
  rc_RemoveImage :: "string \<Rightarrow> 'w \<Rightarrow> (error + unit) \<times> 'w"
  rc_ImageFsInfo :: "'w \<Rightarrow> (error + ImageFsInfoResponse) \<times> 'w"

type_synonym 'w remotes = "'w RemoteCRIObject gomap"

text \<open>
  The response and error of a call as the handlers see them: nil and nil when no remote
  runtime is responsible.
\<close>

type_synonym 'a reply = "'a option \<times> error option"

definition remote_call :: "('w \<Rightarrow> (error + 'a) \<times> 'w) \<Rightarrow> 'w mstate \<Rightarrow> 'a reply \<times> 'w mstate" where
  "remote_call f s =
     (case f (world s) of (Inl e, w) \<Rightarrow> ((None, Some e), s\<lparr>world := w\<rparr>)
      | (Inr x, w) \<Rightarrow> ((Some x, None), s\<lparr>world := w\<rparr>))"

section \<open>Configuration\<close>

text \<open>
  Dialling an endpoint: \<open>util.GetAddressAndDialer\<close>, \<open>grpc.Dial\<close> (a connection is a
  number), and the generated constructor of a client from its two connections.
\<close>

record 'w grpclib =
  gr_GetAddressAndDialer :: "string \<Rightarrow> error + string"
  gr_Dial :: "string \<Rightarrow> 'w \<Rightarrow> (error + nat) \<times> 'w"
  gr_Client :: "nat \<Rightarrow> nat \<Rightarrow> 'w RemoteCRIObject"

definition newRemoteRuntimeClient :: "'w grpclib \<Rightarrow> string \<Rightarrow> 'w mstate \<Rightarrow> (error + nat) \<times> 'w mstate" where
  "newRemoteRuntimeClient G endpoint s =
     (case gr_GetAddressAndDialer G endpoint of
        Inl e \<Rightarrow> (Inl e, s)
      | Inr addr \<Rightarrow> (let (r, w) = gr_Dial G addr (world s) in (r, s\<lparr>world := w\<rparr>)))"

definition newRemoteImageClient :: "'w grpclib \<Rightarrow> string \<Rightarrow> 'w mstate \<Rightarrow> (error + nat) \<times> 'w mstate" where
  "newRemoteImageClient G endpoint s =
     (case gr_GetAddressAndDialer G endpoint of
        Inl e \<Rightarrow> (Inl e, s)
      | Inr addr \<Rightarrow> (let (r, w) = gr_Dial G addr (world s) in (r, s\<lparr>world := w\<rparr>)))"

definition getRemoteCRI ::
    "'w grpclib \<Rightarrow> string \<Rightarrow> string \<Rightarrow> 'w mstate \<Rightarrow> (error + 'w RemoteCRIObject) \<times> 'w mstate" where
  "getRemoteCRI G remoteRuntimeEndpoint remoteImageEndpoint s =
     (case newRemoteRuntimeClient G remoteRuntimeEndpoint s of
        (Inl e, s) \<Rightarrow> (Inl e, s)
      | (Inr rs, s) \<Rightarrow> (case newRemoteImageClient G remoteImageEndpoint s of
          (Inl e, s) \<Rightarrow> (Inl e, s)
        | (Inr is, s) \<Rightarrow> (Inr (gr_Client G rs is), s)))"

fun load_plugins :: "'w grpclib \<Rightarrow> string list \<Rightarrow> 'w remotes \<Rightarrow> 'w mstate \<Rightarrow> (error + 'w remotes) \<times> 'w mstate" where
  "load_plugins G [] out s = (Inr out, s)"
| "load_plugins G (plugin # ps) out s =
     (let pluginSplit = Split plugin '':''
      in if length pluginSplit \<noteq> 2 then
           (Inl (sprintf ''Bad format for remote runtime. %s '' [plugin]), s)
         else (case getRemoteCRI G (pluginSplit ! 1) (pluginSplit ! 1) s of
             (Inl e, s) \<Rightarrow> (Inl e, s)
           | (Inr cri, s) \<Rightarrow> load_plugins G ps (mset_key (pluginSplit ! 0) cri out) s))"

definition LoadRemoteRuntimeConfiguration ::
    "'w grpclib \<Rightarrow> string \<Rightarrow> 'w mstate \<Rightarrow> (error + 'w remotes) \<times> 'w mstate" where
  "LoadRemoteRuntimeConfiguration G config s =
     (if config \<noteq> [] then load_plugins G (Split config '','') [] s else (Inr [], s))"

section \<open>Routing by handler\<close>

definition GetRemoteRuntime :: "'w remotes \<Rightarrow> string \<Rightarrow> error + 'w RemoteCRIObject option" where
  "GetRemoteRuntime r runtimeHandlerName =
     (if runtimeHandlerName = MulticriRuntimeHandler \<or> length r = 0 then Inr None
      else let name = (if runtimeHandlerName = [] then ''default'' else runtimeHandlerName)
           in case mget r name of
                Some remoteRuntime \<Rightarrow> Inr (Some remoteRuntime)
              | None \<Rightarrow> Inl (sprintf ''RemoteRuntime %s not found'' [name]))"

definition MulticriRuntimeName :: "'w remotes \<Rightarrow> string" where
  "MulticriRuntimeName r = (if mget r ''default'' \<noteq> None then MulticriRuntimeHandler else [])"

text \<open>The common body of the methods that are routed by handler.\<close>

definition route ::
    "'w remotes \<Rightarrow> string \<Rightarrow> ('w RemoteCRIObject \<Rightarrow> 'w \<Rightarrow> (error + 'a) \<times> 'w) \<Rightarrow> 'w mstate \<Rightarrow> 'a reply \<times> 'w mstate" where
  "route r runtimeHandler f s =
     (case GetRemoteRuntime r runtimeHandler of
        Inl e \<Rightarrow> ((None, Some e), s)
      | Inr (Some remoteRuntime) \<Rightarrow> remote_call (f remoteRuntime) s
      | Inr None \<Rightarrow> ((None, None), s))"

definition Remote_RunPodSandbox :: "'w remotes \<Rightarrow> RunPodSandboxRequest \<Rightarrow> 'w mstate \<Rightarrow> string reply \<times> 'w mstate" where
  "Remote_RunPodSandbox r req s = route r (rq_RuntimeHandler req) (\<lambda>c. rc_RunPodSandbox c req) s"

definition Remote_StopPodSandbox :: "'w remotes \<Rightarrow> string \<Rightarrow> string \<Rightarrow> 'w mstate \<Rightarrow> unit reply \<times> 'w mstate" where
  "Remote_StopPodSandbox r h req s = route r h (\<lambda>c. rc_StopPodSandbox c req) s"

definition Remote_RemovePodSandbox :: "'w remotes \<Rightarrow> string \<Rightarrow> string \<Rightarrow> 'w mstate \<Rightarrow> unit reply \<times> 'w mstate" where
  "Remote_RemovePodSandbox r h req s = route r h (\<lambda>c. rc_RemovePodSandbox c req) s"

definition Remote_PodSandboxStatus ::
    "'w remotes \<Rightarrow> string \<Rightarrow> string \<Rightarrow> 'w mstate \<Rightarrow> PodSandboxStatus reply \<times> 'w mstate" where
  "Remote_PodSandboxStatus r h req s = route r h (\<lambda>c. rc_PodSandboxStatus c req) s"

definition Remote_PortForward :: "'w remotes \<Rightarrow> string \<Rightarrow> string \<Rightarrow> 'w mstate \<Rightarrow> string reply \<times> 'w mstate" where
  "Remote_PortForward r h req s = route r h (\<lambda>c. rc_PortForward c req) s"

definition Remote_ReopenContainerLog :: "'w remotes \<Rightarrow> string \<Rightarrow> string \<Rightarrow> 'w mstate \<Rightarrow> unit reply \<times> 'w mstate" where
  "Remote_ReopenContainerLog r h req s = route r h (\<lambda>c. rc_ReopenContainerLog c req) s"

definition Remote_CreateContainer ::
    "'w remotes \<Rightarrow> string \<Rightarrow> CreateContainerRequest \<Rightarrow> 'w mstate \<Rightarrow> string reply \<times> 'w mstate" where
  "Remote_CreateContainer r h req s = route r h (\<lambda>c. rc_CreateContainer c req) s"

definition Remote_StartContainer :: "'w remotes \<Rightarrow> string \<Rightarrow> string \<Rightarrow> 'w mstate \<Rightarrow> unit reply \<times> 'w mstate" where
  "Remote_StartContainer r h req s = route r h (\<lambda>c. rc_StartContainer c req) s"

definition Remote_StopContainer :: "'w remotes \<Rightarrow> string \<Rightarrow> string \<Rightarrow> 'w mstate \<Rightarrow> unit reply \<times> 'w mstate" where
  "Remote_StopContainer r h req s = route r h (\<lambda>c. rc_StopContainer c req) s"

definition Remote_RemoveContainer :: "'w remotes \<Rightarrow> string \<Rightarrow> string \<Rightarrow> 'w mstate \<Rightarrow> unit reply \<times> 'w mstate" where
  "Remote_RemoveContainer r h req s = route r h (\<lambda>c. rc_RemoveContainer c req) s"

definition Remote_ContainerStatus ::
    "'w remotes \<Rightarrow> string \<Rightarrow> string \<Rightarrow> 'w mstate \<Rightarrow> K8sContainerStatus reply \<times> 'w mstate" where
  "Remote_ContainerStatus r h req s = route r h (\<lambda>c. rc_ContainerStatus c req) s"

definition Remote_ContainerStats ::
    "'w remotes \<Rightarrow> string \<Rightarrow> string \<Rightarrow> 'w mstate \<Rightarrow> ContainerStats reply \<times> 'w mstate" where
  "Remote_ContainerStats r h req s = route r h (\<lambda>c. rc_ContainerStats c req) s"

definition Remote_UpdateContainerResources ::
    "'w remotes \<Rightarrow> string \<Rightarrow> string \<Rightarrow> 'w mstate \<Rightarrow> unit reply \<times> 'w mstate" where
  "Remote_UpdateContainerResources r h req s = route r h (\<lambda>c. rc_UpdateContainerResources c req) s"

section \<open>Lists\<close>

text \<open>The loops over all remote runtimes: the first error ends them.\<close>

fun collect :: "('w RemoteCRIObject \<Rightarrow> 'w \<Rightarrow> (error + 'a list) \<times> 'w) \<Rightarrow> 'w remotes \<Rightarrow> 'a list \<Rightarrow> 'w mstate \<Rightarrow>
    (error + 'a list) \<times> 'w mstate" where
  "collect f [] out s = (Inr out, s)"
| "collect f ((k, c) # r) out s =
     (case f c (world s) of
        (Inl e, w) \<Rightarrow> (Inl e, s\<lparr>world := w\<rparr>)
      | (Inr xs, w) \<Rightarrow> collect f r (out @ xs) (s\<lparr>world := w\<rparr>))"

definition Remote_ListPodSandbox ::
    "'w remotes \<Rightarrow> PodSandboxFilter option \<Rightarrow> 'w mstate \<Rightarrow> (error + PodSandbox list) \<times> 'w mstate" where
  "Remote_ListPodSandbox r filt s = collect (\<lambda>c. rc_ListPodSandbox c filt) r [] s"

definition Remote_ListContainers ::
    "'w remotes \<Rightarrow> ContainerFilter option \<Rightarrow> 'w mstate \<Rightarrow> (error + K8sContainer list) \<times> 'w mstate" where
  "Remote_ListContainers r filt s = collect (\<lambda>c. rc_ListContainers c filt) r [] s"

definition Remote_ListContainerStats ::
    "'w remotes \<Rightarrow> ContainerFilter option \<Rightarrow> 'w mstate \<Rightarrow> (error + ContainerStats list) \<times> 'w mstate" where
  "Remote_ListContainerStats r filt s = collect (\<lambda>c. rc_ListContainerStats c filt) r [] s"

definition Remote_ListImages ::
    "'w remotes \<Rightarrow> string option \<Rightarrow> 'w mstate \<Rightarrow> (error + K8sImage list) \<times> 'w mstate" where
  "Remote_ListImages r filt s = collect (\<lambda>c. rc_ListImages c filt) r [] s"

section \<open>Routing by image\<close>

text \<open>
  The handler's own prefix includes the slash; the prefix of a remote runtime is its bare
  name, and the first one in iteration order that fits is taken.
\<close>

fun prefix_manager :: "'w remotes \<Rightarrow> string \<Rightarrow> ('w RemoteCRIObject \<times> string) option" where
  "prefix_manager [] img = None"
| "prefix_manager ((k, v) # r) img = (if HasPrefix img k then Some (v, TrimPrefix img k) else prefix_manager r img)"

definition getImageManager :: "'w remotes \<Rightarrow> string \<Rightarrow> 'w RemoteCRIObject option \<times> string" where
  "getImageManager r img =
     (let imageMulticri = MulticriRuntimeHandler @ ''/''
      in if HasPrefix img imageMulticri then (None, TrimPrefix img imageMulticri)
         else case prefix_manager r img of
           Some (v, rest) \<Rightarrow> (Some v, rest)
         | None \<Rightarrow> (case mget r ''default'' of Some remoteRuntime \<Rightarrow> (Some remoteRuntime, img) | None \<Rightarrow> (None, img)))"

text \<open>
  These methods write the remaining name back into the request, which the local handler goes
  on to use; a request without an image panics.
\<close>

definition Remote_PullImage ::
    "'w remotes \<Rightarrow> PullImageRequest \<Rightarrow> 'w mstate \<Rightarrow> ((string reply \<times> PullImageRequest) \<times> 'w mstate) option" where
  "Remote_PullImage r req s = do {
     img \<leftarrow> pr_Image req;
     let (remoteRuntime, img) = getImageManager r img;
     let req = req\<lparr>pr_Image := Some img\<rparr>;
     Some (case remoteRuntime of
        None \<Rightarrow> (((None, None), req), s)
      | Some c \<Rightarrow> (let (reply, s) = remote_call (rc_PullImage c req) s in ((reply, req), s)))
   }"

definition Remote_ImageStatus ::
    "'w remotes \<Rightarrow> string option \<Rightarrow> 'w mstate \<Rightarrow> ((K8sImage option reply \<times> string) \<times> 'w mstate) option" where
  "Remote_ImageStatus r req s = do {
     img \<leftarrow> req;
     let (remoteRuntime, img) = getImageManager r img;
     Some (case remoteRuntime of
        None \<Rightarrow> (((None, None), img), s)
      | Some c \<Rightarrow> (let (reply, s) = remote_call (rc_ImageStatus c img) s in ((reply, img), s)))
   }"

definition Remote_RemoveImage ::
    "'w remotes \<Rightarrow> string option \<Rightarrow> 'w mstate \<Rightarrow> ((unit reply \<times> string) \<times> 'w mstate) option" where
  "Remote_RemoveImage r req s = do {
     img \<leftarrow> req;
     let (remoteRuntime, img) = getImageManager r img;
     Some (case remoteRuntime of
        None \<Rightarrow> (((None, None), img), s)
      | Some c \<Rightarrow> (let (reply, s) = remote_call (rc_RemoveImage c img) s in ((reply, img), s)))
   }"

section \<open>Lemmas\<close>

lemma remote_call_frame: "remote_call f s = (r, t) \<Longrightarrow> same_stores s t \<and> files t = files s"
  by (auto simp: remote_call_def split: prod.splits sum.splits)

lemma remote_call_reply: "remote_call f s = ((x, e), t) \<Longrightarrow> (x = None) = (e \<noteq> None)"
  by (auto simp: remote_call_def split: prod.splits sum.splits)

lemma route_frame: "route r h f s = (x, t) \<Longrightarrow> same_stores s t \<and> files t = files s"
  by (auto simp: route_def split: sum.splits option.splits dest: remote_call_frame)

text \<open>
  Three outcomes: a response, an error, or neither, the last exactly when the request is
  the local runtime's.
\<close>

lemma route_cases:
  assumes "route r h f s = ((x, e), t)"
  obtains (local) "GetRemoteRuntime r h = Inr None" "x = None" "e = None" "t = s"
  | (failed) y where "e = Some y" "x = None" "GetRemoteRuntime r h \<noteq> Inr None"
  | (answered) v where "x = Some v" "e = None" "GetRemoteRuntime r h \<noteq> Inr None"
proof (cases "GetRemoteRuntime r h")
  case (Inl y)
  with assms have "e = Some y" "x = None" by (auto simp: route_def)
  with Inl failed [of y] show ?thesis by simp
next
  case (Inr c)
  show ?thesis
  proof (cases c)
    case None
    with Inr assms local show ?thesis by (simp add: route_def)
  next
    case (Some c)
    with Inr assms have "remote_call (f c) s = ((x, e), t)" by (simp add: route_def)
    from remote_call_reply [OF this] Inr Some failed answered show ?thesis
      by (cases x; cases e) auto
  qed
qed

lemma local_handler:
  "GetRemoteRuntime r h = Inr None \<longleftrightarrow> h = MulticriRuntimeHandler \<or> r = []"
  by (auto simp: GetRemoteRuntime_def Let_def split: option.splits)

text \<open>The same, with what each case leaves of the stores.\<close>

lemma routed:
  assumes "route r h f s = ((x, e), t)"
  obtains (local) "GetRemoteRuntime r h = Inr None" "x = None" "e = None" "t = s"
  | (failed) y where "x = None" "e = Some y" "same_stores s t"
  | (answered) y c where "GetRemoteRuntime r h = Inr (Some c)" "x = Some y" "e = None" "same_stores s t"
  using assms
proof (cases rule: route_cases)
  case (answered v)
  then obtain c where "GetRemoteRuntime r h = Inr (Some c)"
    using assms by (auto simp: route_def split: sum.splits option.splits)
  with answered route_frame [OF assms] that show ?thesis by blast
qed (use route_frame [OF assms] that in blast)+

lemma route_none: "GetRemoteRuntime r h = Inr None \<Longrightarrow> route r h f s = ((None, None), s)"
  by (simp add: route_def)

lemma route_local: "h = MulticriRuntimeHandler \<or> r = [] \<Longrightarrow> route r h f s = ((None, None), s)"
  using local_handler [of r h] by (simp add: route_def)

lemma collect_frame: "collect f r out s = (x, t) \<Longrightarrow> same_stores s t \<and> files t = files s"
proof (induction f r out s rule: collect.induct)
  case (2 f k c r out s)
  obtain y w where y: "f c (world s) = (y, w)" by (metis prod.exhaust)
  show ?case
  proof (cases y)
    case (Inl e)
    with 2 y show ?thesis by auto
  next
    case (Inr xs)
    with "2.prems" y have "collect f r (out @ xs) (s\<lparr>world := w\<rparr>) = (x, t)" by simp
    from "2.IH" [OF y [symmetric] Inr this] show ?thesis
      using same_stores_trans [OF same_stores_world(1)] by fastforce
  qed
qed auto

lemma collect_append:
  "collect f r out s = (Inr xs, t) \<Longrightarrow> \<exists>ys. xs = out @ ys"
  by (induction f r out s rule: collect.induct) (fastforce split: prod.splits sum.splits)+

end
