(* ===== verification/Runtime.thy ===== *)
theory Runtime
  imports Remote_CRI
begin

text \<open>
  The service object of \<open>pkg/cri/runtime/service.go\<close> with the interfaces it is built from,
  and the helpers of \<open>pkg/cri/runtime/helpers.go\<close>.  The operating system and network
  namespace interfaces have a real and a fake implementation each (\<open>fakes.go\<close>); the CNI
  plugin and the streaming server are parameters.
\<close>

section \<open>The operating system interface\<close>

datatype OS = RealOS | FakeOS

definition OS_MkdirAll :: "OS \<Rightarrow> string \<Rightarrow> fs \<Rightarrow> error option \<times> fs" where
  "OS_MkdirAll os p f = (case os of RealOS \<Rightarrow> RealOS_MkdirAll p f | FakeOS \<Rightarrow> (None, f))"

definition OS_RemoveAll :: "OS \<Rightarrow> string \<Rightarrow> fs \<Rightarrow> error option \<times> fs" where
  "OS_RemoveAll os p f = (case os of RealOS \<Rightarrow> RealOS_RemoveAll p f | FakeOS \<Rightarrow> (None, f))"

definition OS_Stat :: "OS \<Rightarrow> string \<Rightarrow> fs \<Rightarrow> stat_result" where
  "OS_Stat os p f = (case os of RealOS \<Rightarrow> RealOS_Stat p f | FakeOS \<Rightarrow> StatOK)"

definition OS_IsNotExist :: "OS \<Rightarrow> stat_result \<Rightarrow> bool" where
  "OS_IsNotExist os r = (case os of RealOS \<Rightarrow> RealOS_IsNotExist r | FakeOS \<Rightarrow> True)"

definition OS_CopyFile :: "OS \<Rightarrow> string \<Rightarrow> string \<Rightarrow> fs \<Rightarrow> error option \<times> fs" where
  "OS_CopyFile os src dest f = (case os of RealOS \<Rightarrow> RealOS_CopyFile src dest f | FakeOS \<Rightarrow> (None, f))"

definition OS_WriteFile :: "OS \<Rightarrow> string \<Rightarrow> string \<Rightarrow> fs \<Rightarrow> error option \<times> fs" where
  "OS_WriteFile os p d f = (case os of RealOS \<Rightarrow> RealOS_WriteFile p d f | FakeOS \<Rightarrow> (None, f))"

definition OS_OpenFifo :: "'w mountlib \<Rightarrow> OS \<Rightarrow> path \<Rightarrow> int \<Rightarrow> int \<Rightarrow> 'w \<Rightarrow> (nat option \<times> error option) \<times> 'w" where
  "OS_OpenFifo M os fn flag perm w =
     (case os of RealOS \<Rightarrow> RealOS_OpenFifo M fn flag perm w | FakeOS \<Rightarrow> ((None, None), w))"

definition OS_Mount :: "'w mountlib \<Rightarrow> OS \<Rightarrow> path \<Rightarrow> path \<Rightarrow> string \<Rightarrow> 64 word \<Rightarrow> string \<Rightarrow> 'w \<Rightarrow> error option \<times> 'w" where
  "OS_Mount M os source target fstype flags d w =
     (case os of RealOS \<Rightarrow> RealOS_Mount M source target fstype flags d w | FakeOS \<Rightarrow> (None, w))"

definition OS_Unmount :: "'w mountlib \<Rightarrow> OS \<Rightarrow> path \<Rightarrow> int \<Rightarrow> 'w \<Rightarrow> error option \<times> 'w" where
  "OS_Unmount M os target flags w =
     (case os of RealOS \<Rightarrow> RealOS_Unmount M target flags w | FakeOS \<Rightarrow> (None, w))"

section \<open>The network interfaces\<close>

datatype NetworkManager = CNINetworkManager | FakeNetworkManager

datatype Namespace = CNINamespace NetNS | FakeNamespace

definition NewNetworkCNIManager :: NetworkManager where
  "NewNetworkCNIManager = CNINetworkManager"

declare NewNetworkCNIManager_def [simp]

definition OpenNetNamespace ::
    "NetworkManager \<Rightarrow> 'w nslib \<Rightarrow> string \<Rightarrow> 'w mstate \<Rightarrow> (Namespace \<times> error option) \<times> 'w mstate" where
  "OpenNetNamespace m N path s =
     (case m of
        CNINetworkManager \<Rightarrow> (case CNINetwork_OpenNetNamespace N path s of ((n, e), s) \<Rightarrow> ((CNINamespace n, e), s))
      | FakeNetworkManager \<Rightarrow> ((FakeNamespace, None), s))"

definition Namespace_CreateNetNS ::
    "'w nslib \<Rightarrow> path \<Rightarrow> Namespace \<Rightarrow> 'w mstate \<Rightarrow> error option \<times> Namespace \<times> 'w mstate" where
  "Namespace_CreateNetNS N path n s =
     (case n of
        CNINamespace n \<Rightarrow> (case NetNS_CreateNetNS N path n s of (e, n, s) \<Rightarrow> (e, CNINamespace n, s))
      | FakeNamespace \<Rightarrow> (None, FakeNamespace, s))"

definition Namespace_GetPath :: "Namespace \<Rightarrow> string option" where
  "Namespace_GetPath n = (case n of CNINamespace n \<Rightarrow> NetNS_GetPath n | FakeNamespace \<Rightarrow> Some [])"

definition Namespace_Remove :: "'w nslib \<Rightarrow> Namespace \<Rightarrow> 'w mstate \<Rightarrow> (error option \<times> 'w mstate) option" where
  "Namespace_Remove N n s =
     (case n of
        CNINamespace n \<Rightarrow> do { (e, n, s) \<leftarrow> NetNS_Remove N n s; Some (e, s) }
      | FakeNamespace \<Rightarrow> Some (None, s))"

record CNIPortMapping =
  cp_HostPort :: int
  cp_ContainerPort :: int
  cp_Protocol :: string
  cp_HostIP :: string

record PodNetwork =
  pn_Name :: string
  pn_Namespace :: string
  pn_ID :: string
  pn_NetNS :: string
  pn_PortMappings :: "CNIPortMapping list"

record 'w CNIPlugin =
  cni_SetUpPod :: "PodNetwork \<Rightarrow> 'w \<Rightarrow> error option \<times> 'w"
  cni_TearDownPod :: "PodNetwork \<Rightarrow> 'w \<Rightarrow> error option \<times> 'w"
  cni_GetPodNetworkStatus :: "PodNetwork \<Rightarrow> 'w \<Rightarrow> (string \<times> error option) \<times> 'w"
  cni_Status :: "'w \<Rightarrow> error option"

definition NewFackeCNIPlugin :: "'w CNIPlugin" where
  "NewFackeCNIPlugin = \<lparr>cni_SetUpPod = (\<lambda>n w. (None, w)), cni_TearDownPod = (\<lambda>n w. (None, w)),
     cni_GetPodNetworkStatus = (\<lambda>n w. ((''OK'', None), w)), cni_Status = (\<lambda>w. None)\<rparr>"

section \<open>The service\<close>

record 'w multicriService =
  sv_adapter :: "'w AdapterInterface"
  sv_serverAddress :: string
  sv_sandboxImage :: string
  sv_cgroupPath :: string
  sv_netPlugin :: "'w CNIPlugin option"
  sv_networkNamespace :: NetworkManager
  sv_os :: OS
  sv_remoteCRI :: "'w remotes"
  sv_go :: "'w golib"
  sv_ns :: "'w nslib"
  sv_GetPortForward :: "string \<Rightarrow> 'w \<Rightarrow> (error + string) \<times> 'w"

section \<open>helpers.go\<close>

definition toCNIPortMappings :: "PortMapping list \<Rightarrow> CNIPortMapping list" where
  "toCNIPortMappings criPortMappings =
     concat (map (\<lambda>m. if pmap_HostPort m \<le> 0 then []
       else [\<lparr>cp_HostPort = pmap_HostPort m, cp_ContainerPort = pmap_ContainerPort m,
              cp_Protocol = ToLower (pmap_Protocol m), cp_HostIP = pmap_HostIp m\<rparr>]) criPortMappings)"

definition maxDNSSearches :: nat where "maxDNSSearches = 6"
definition netNsRootDir :: string where "netNsRootDir = ''/etc/netns''"
definition sandboxesDir :: string where "sandboxesDir = ''sandboxes''"

definition parseDNSOptions :: "string list \<Rightarrow> string list \<Rightarrow> string list \<Rightarrow> error + string" where
  "parseDNSOptions servers searches options =
     (if maxDNSSearches < length searches then Inl ''DNSOption.Searches has more than 6 domains''
      else let resolvContent = [];
               resolvContent = (if 0 < length searches
                 then resolvContent @ sprintf (''search %s'' @ nl) [Join searches '' ''] else resolvContent);
               resolvContent = (if 0 < length servers
                 then resolvContent @ sprintf (''nameserver %s'' @ nl) [Join servers (nl @ ''nameserver '')] else resolvContent);
               resolvContent = (if 0 < length options
                 then resolvContent @ sprintf (''options %s'' @ nl) [Join options '' ''] else resolvContent)
           in Inr resolvContent)"

definition getNetNsDir :: "string \<Rightarrow> string" where
  "getNetNsDir netNsPath =
     (let pathSplit = Split netNsPath ''/'' in path_Join [netNsRootDir, pathSplit ! (length pathSplit - 1)])"

definition getSandboxRootDir :: "string \<Rightarrow> string \<Rightarrow> string" where
  "getSandboxRootDir rootDir k = path_Join [sandboxesDir, k]"

definition getSandboxHosts :: "string \<Rightarrow> string" where
  "getSandboxHosts sandboxRootDir = path_Join [sandboxRootDir, ''hosts'']"

definition getResolvPath :: "string \<Rightarrow> string" where
  "getResolvPath sandboxRoot = path_Join [sandboxRoot, ''resolv.conf'']"

definition getSandboxDevShm :: "string \<Rightarrow> string" where
  "getSandboxDevShm sandboxRootDir = path_Join [sandboxRootDir, ''shm'']"

section \<open>Lemmas\<close>

lemma OpenNetNamespace_same: "OpenNetNamespace m N p s = ((n, e), t) \<Longrightarrow> same_stores s t \<and> e = None"
  by (auto simp: OpenNetNamespace_def split: NetworkManager.splits prod.splits dest: OpenNetNamespace_frame)

lemma Namespace_Remove_keeps: "keeps same_stores s (Namespace_Remove N n s)"
  unfolding Namespace_Remove_def
  by (rule keepsI) (auto simp: bind_eq_Some_conv split: Namespace.splits dest: Remove_frame)

lemma netns_dir_empty: "getNetNsDir [] = netNsRootDir"
  by (simp add: getNetNsDir_def netNsRootDir_def path_Join_def Clean_def Split_def Let_def)

lemma dns_too_many: "6 < length searches \<Longrightarrow> \<exists>e. parseDNSOptions servers searches options = Inl e"
  by (simp add: parseDNSOptions_def maxDNSSearches_def)

lemma nameservers:
  "servers \<noteq> [] \<Longrightarrow> ''nameserver '' @ Join servers (nl @ ''nameserver '') @ nl
     = concat (map (\<lambda>x. ''nameserver '' @ x @ nl) servers)"
proof (induction servers)
  case (Cons x xs)
  then show ?case by (cases xs) (simp_all add: Join_Cons)
qed simp

lemma parseDNSOptions_lines:
  assumes "length searches \<le> 6"
  shows "parseDNSOptions servers searches options = Inr (
     (if searches = [] then [] else ''search '' @ Join searches '' '' @ nl)
     @ concat (map (\<lambda>x. ''nameserver '' @ x @ nl) servers)
     @ (if options = [] then [] else ''options '' @ Join options '' '' @ nl))"
proof -
  have "servers \<noteq> [] \<Longrightarrow> sprintf (''nameserver %s'' @ nl) [Join servers (nl @ ''nameserver '')]
      = concat (map (\<lambda>x. ''nameserver '' @ x @ nl) servers)"
    using nameservers [of servers] by (simp add: sprintf.simps)
  then show ?thesis
    using assms by (simp add: parseDNSOptions_def maxDNSSearches_def Let_def sprintf.simps)
qed

end
