(* ===== verification/Invariant.thy ===== *)
theory Invariant
  imports Runtime
begin

text \<open>
  The invariant of the service's state and the relation by which every request moves it.

  \<open>Inv\<close> says that the pools are well formed, that no sandbox records a network namespace,
  and that a container of the pool without an image belongs to a remote runtime.
  \<open>evolves\<close> says that a step keeps the invariant and that a container that has exited stays
  exited.  The lemmas below do it for the building blocks of the handlers.
\<close>

definition no_netns :: "'w mstate \<Rightarrow> bool" where
  "no_netns s \<longleftrightarrow> (\<forall>p sm. cells (sbxs s) p = Some sm \<longrightarrow> s_NetNSPath sm = [])"

definition image_held :: "'w remotes \<Rightarrow> ImageMetadata heap \<Rightarrow> ContainerMetadata \<Rightarrow> bool" where
  "image_held r hi cm \<longleftrightarrow>
     (if c_Image cm = None then \<exists>c. GetRemoteRuntime r (s_RuntimeHandler (c_PodSandbox cm)) = Inr (Some c)
      else deref (c_Image cm) hi \<noteq> None)"

definition images_ok :: "'w remotes \<Rightarrow> 'w mstate \<Rightarrow> bool" where
  "images_ok r s \<longleftrightarrow> (\<forall>k p cm. (k, p) \<in> set (ContainerPool s) \<longrightarrow> cells (ctrs s) p = Some cm \<longrightarrow> image_held r (imgs s) cm)"

definition Inv :: "'w multicriService \<Rightarrow> 'w mstate \<Rightarrow> bool" where
  "Inv V s \<longleftrightarrow> state_wf s \<and> no_netns s \<and> images_ok (sv_remoteCRI V) s"

definition exited :: "'w mstate \<Rightarrow> ptr \<Rightarrow> bool" where
  "exited s p \<longleftrightarrow> (\<exists>cm. cells (ctrs s) p = Some cm \<and> c_State cm = CONTAINER_EXITED)"

definition evolves :: "'w multicriService \<Rightarrow> 'w mstate \<Rightarrow> 'w mstate \<Rightarrow> bool" where
  "evolves V s t \<longleftrightarrow> (Inv V s \<longrightarrow> Inv V t \<and> (\<forall>p. exited s p \<longrightarrow> exited t p))"

lemma evolves_refl [simp]: "evolves V s s"
  by (simp add: evolves_def)

lemma evolves_trans: "evolves V s t \<Longrightarrow> evolves V t u \<Longrightarrow> evolves V s u"
  by (simp add: evolves_def)

lemma transp_evolves: "transp (evolves V)"
  by (rule transpI) (rule evolves_trans)

lemmas ev_bind = keeps_bind [OF transp_evolves]
lemmas ev_step = keeps_step [OF transp_evolves]

lemma ev_state:
  "(\<And>t. m = Some t \<Longrightarrow> evolves V s t) \<Longrightarrow> (\<And>t. m = Some t \<Longrightarrow> keeps (evolves V) t (f t)) \<Longrightarrow>
   keeps (evolves V) s (Option.bind m f)"
  by (cases m) (auto intro: ev_step)

section \<open>Frames\<close>

lemma image_held_mono:
  "(\<And>p. cells hi p \<noteq> None \<Longrightarrow> cells hi' p \<noteq> None) \<Longrightarrow> image_held r hi cm \<Longrightarrow> image_held r hi' cm"
  by (cases "c_Image cm") (auto simp: image_held_def)

lemma same_stores_evolves: "same_stores s t \<Longrightarrow> evolves V s t"
  using same_stores_wf [of s t]
  by (simp add: evolves_def Inv_def no_netns_def images_ok_def exited_def same_stores_def)

lemma evolves_world [simp]: "evolves V s (s\<lparr>world := w\<rparr>)" "evolves V s (s\<lparr>files := f\<rparr>)"
  by (simp_all add: same_stores_evolves)

lemma adapter_frame_images:
  assumes f: "adapter_frame s t" and ok: "images_ok r s"
  shows "images_ok r t"
  unfolding images_ok_def
proof (intro allI impI)
  fix k p cm' assume m: "(k, p) \<in> set (ContainerPool t)" and c': "cells (ctrs t) p = Some cm'"
  have "rel_option same_container (cells (ctrs s) p) (cells (ctrs t) p)"
    using f unfolding adapter_frame_def by blast
  then obtain cm where c: "cells (ctrs s) p = Some cm" "same_container cm cm'"
    using c' by (cases "cells (ctrs s) p") auto
  have "(k, p) \<in> set (ContainerPool s)" using f m by (simp add: adapter_frame_def)
  then have held: "image_held r (imgs s) cm" using ok c(1) unfolding images_ok_def by blast
  have dom: "cells (imgs t) q \<noteq> None" if "cells (imgs s) q \<noteq> None" for q
  proof -
    have "rel_option same_image (cells (imgs s) q) (cells (imgs t) q)"
      using f unfolding adapter_frame_def by blast
    with that show ?thesis by (cases "cells (imgs t) q") auto
  qed
  have "image_held r (imgs t) cm" by (rule image_held_mono [OF dom held])
  then show "image_held r (imgs t) cm'" using c(2) by (simp add: image_held_def same_container_def)
qed

lemma adapter_frame_Inv: "adapter_frame s t \<Longrightarrow> Inv V s \<Longrightarrow> Inv V t"
  unfolding Inv_def
  by (auto intro: adapter_frame_wf adapter_frame_images simp: no_netns_def adapter_frame_def)

lemma steady_exited:
  assumes "steady s t"
  shows "exited t p \<longleftrightarrow> exited s p"
proof -
  have "map_option c_State (cells (ctrs t) p) = map_option c_State (cells (ctrs s) p)"
    using assms by (simp add: steady_def)
  then show ?thesis
    by (cases "cells (ctrs s) p"; cases "cells (ctrs t) p") (auto simp: exited_def)
qed

lemma steady_evolves: "steady s t \<Longrightarrow> evolves V s t"
  by (simp add: evolves_def adapter_frame_Inv [OF steady_adapter_frame] steady_exited)

lemma ev_steady: "keeps steady s m \<Longrightarrow> keeps (evolves V) s m"
  by (auto simp: keeps_def intro: steady_evolves)

lemma ev_store: "keeps same_stores s m \<Longrightarrow> keeps (evolves V) s m"
  by (auto simp: keeps_def intro: same_stores_evolves)

section \<open>Sandbox store\<close>

lemma persist_sandbox_same: "same_stores s (SandboxStorage_persist_Put sm s)"
  by (auto simp: SandboxStorage_persist_Put_def frame_simps split: option.split)

lemma ev_assign_sandbox:
  assumes "cells (sbxs s) p = Some sm" and "s_ID sm' = s_ID sm" and "s_NetNSPath sm' = s_NetNSPath sm"
  shows "evolves V s (s\<lparr>sbxs := assign p sm' (sbxs s)\<rparr>)"
  using assms pool_wf_assign [of s_ID "sbxs s" "SandboxPool s" p sm sm']
  by (auto simp: evolves_def Inv_def state_wf_def no_netns_def images_ok_def exited_def)

lemma ev_sandbox_Update:
  assumes "SandboxStorage_Update p s = Some t"
  shows "evolves V s t"
proof -
  obtain sm where sm: "cells (sbxs s) p = Some sm" using sandbox_store.put_object [OF assms] by blast
  let ?u = "s\<lparr>SandboxPool := mset_key (s_ID sm) p (SandboxPool s)\<rparr>"
  have t: "t = SandboxStorage_persist_Put sm ?u" using assms sm by (simp add: SandboxStorage_Update_def)
  have "evolves V s ?u"
    using sm pool_wf_put [of s_ID "sbxs s" "SandboxPool s" p sm]
    by (auto simp: evolves_def Inv_def state_wf_def no_netns_def images_ok_def exited_def)
  moreover have "evolves V ?u t" unfolding t by (rule same_stores_evolves [OF persist_sandbox_same])
  ultimately show ?thesis by (rule evolves_trans)
qed

lemma ev_sandbox_Remove: "evolves V s (SandboxStorage_Remove k s)"
proof -
  let ?u = "s\<lparr>SandboxPool := mdel k (SandboxPool s)\<rparr>"
  have "evolves V s ?u"
    by (auto simp: evolves_def Inv_def state_wf_def no_netns_def images_ok_def exited_def intro: pool_wf_del)
  moreover have "evolves V ?u (SandboxStorage_Remove k s)"
    by (auto simp: SandboxStorage_Remove_def Let_def frame_simps intro!: same_stores_evolves split: option.split)
  ultimately show ?thesis by (rule evolves_trans)
qed

lemma new_uuid_same: "new_uuid L s = (k, t) \<Longrightarrow> same_stores s t"
  by (auto simp: new_uuid_def split: prod.splits)

lemma now_same: "now L s = (k, t) \<Longrightarrow> same_stores s t"
  by (auto simp: now_def split: prod.splits)

lemma getPodID_same: "getPodID L config s = Some (k, t) \<Longrightarrow> same_stores s t"
  by (auto simp: getPodID_def bind_eq_Some_conv new_uuid_same split: if_splits)

lemma ev_alloc_sandbox:
  assumes "alloc sm (sbxs s) = (p, h)" and "s_NetNSPath sm = []"
  shows "evolves V s (s\<lparr>sbxs := h\<rparr>)"
  using assms pool_wf_alloc [of s_ID "sbxs s" "SandboxPool s" sm] cells_alloc [OF assms(1)]
  by (auto simp: evolves_def Inv_def state_wf_def no_netns_def images_ok_def exited_def)

text \<open>What a new sandbox is: a fresh object, filed under its ID, without a namespace.\<close>

lemma CreateSandboxMetadata_effect:
  assumes "SandboxStorage_CreateSandboxMetadata L st config h s = Some (p, t)"
  obtains sm u where "same_stores s u" "p = next_free (sbxs s)" "cells (sbxs t) = (cells (sbxs s))(p := Some sm)"
    "SandboxPool t = mset_key (s_ID sm) p (SandboxPool s)" "s_NetNSPath sm = []" "s_State sm = st"
    "s_Config sm = config" "s_RuntimeHandler sm = h" "s_IP sm = []" "s_Containers sm = []"
    "alloc sm (sbxs u) = (p, sbxs t)" "SandboxStorage_Update p (u\<lparr>sbxs := sbxs t\<rparr>) = Some t"
    "\<forall>md. pc_Metadata config = Some md \<and> pm_Uid md \<noteq> [] \<longrightarrow> s_ID sm = pm_Uid md"
proof -
  obtain k s1 where k: "getPodID L config s = Some (k, s1)"
    using assms by (auto simp: SandboxStorage_CreateSandboxMetadata_def bind_eq_Some_conv)
  obtain c s2 where c: "now L s1 = (c, s2)" by (metis prod.exhaust)
  let ?sm = "zero_sandbox\<lparr>s_ID := k, s_State := st, s_Config := config, s_CreatedAt := c,
      s_CgroupsParent := (case pc_Linux config of None \<Rightarrow> [] | Some l \<Rightarrow> lx_CgroupParent l), s_RuntimeHandler := h\<rparr>"
  obtain q hp where a: "alloc ?sm (sbxs s2) = (q, hp)" by (metis prod.exhaust)
  have add: "SandboxStorage_Update q (s2\<lparr>sbxs := hp\<rparr>) = Some t" and q: "q = p"
    using assms k c a by (auto simp: SandboxStorage_CreateSandboxMetadata_def bind_eq_Some_conv SandboxStorage_Add_Update)
  have same: "same_stores s s2"
    using same_stores_trans [OF getPodID_same [OF k] now_same [OF c]] .
  note al = cells_alloc [OF a]
  have heap: "sbxs t = hp" using sandbox_store.put_heap [OF add] by simp
  have pool: "SandboxPool t = mset_key k p (SandboxPool s)"
    using sandbox_store.put_pool [OF add, of ?sm] al q same by (simp add: same_stores_def)
  have uid: "\<forall>md. pc_Metadata config = Some md \<and> pm_Uid md \<noteq> [] \<longrightarrow> s_ID ?sm = pm_Uid md"
    using k by (auto simp: getPodID_def)
  show ?thesis
    by (rule that [of s2 ?sm, OF _ _ _ _ _ _ _ _ _ _ _ _ uid])
      (use same al heap pool q a add in \<open>simp_all add: same_stores_def zero_sandbox_def\<close>)
qed

lemma ev_create_sandbox:
  "SandboxStorage_CreateSandboxMetadata L st config h s = Some (p, t) \<Longrightarrow> evolves V s t"
  by (erule CreateSandboxMetadata_effect)
    (metis evolves_trans same_stores_evolves ev_alloc_sandbox ev_sandbox_Update)

section \<open>Container store\<close>

lemma persist_container_same: "same_stores s (ContainerStorage_persist_Put cm s)"
  by (auto simp: ContainerStorage_persist_Put_def frame_simps split: option.split)

text \<open>Filing a container that has an image, or a remote runtime.\<close>

lemma ev_container_Update:
  assumes "ContainerStorage_Update p s = Some t" and "cells (ctrs s) p = Some cm"
    and "image_held (sv_remoteCRI V) (imgs s) cm"
  shows "evolves V s t"
proof -
  let ?u = "s\<lparr>ContainerPool := mset_key (c_ID cm) p (ContainerPool s)\<rparr>"
  have t: "t = ContainerStorage_persist_Put cm ?u" using assms by (simp add: ContainerStorage_Update_def)
  have "images_ok (sv_remoteCRI V) s \<Longrightarrow> images_ok (sv_remoteCRI V) ?u"
    using assms(2,3) set_update_subset [of "c_ID cm" p "ContainerPool s"] unfolding images_ok_def by fastforce
  then have "evolves V s ?u"
    using assms(2) pool_wf_put [of c_ID "ctrs s" "ContainerPool s" p cm]
    by (auto simp: evolves_def Inv_def state_wf_def no_netns_def exited_def)
  moreover have "evolves V ?u t" unfolding t by (rule same_stores_evolves [OF persist_container_same])
  ultimately show ?thesis by (rule evolves_trans)
qed

lemma ev_alloc_container:
  assumes "alloc cm (ctrs s) = (p, h)"
  shows "evolves V s (s\<lparr>ctrs := h\<rparr>)"
proof (unfold evolves_def, intro impI)
  assume inv: "Inv V s"
  have wf: "pool_wf c_ID (ctrs s) (ContainerPool s)" using inv by (simp add: Inv_def state_wf_def)
  have p: "p = next_free (ctrs s)" and h: "cells h = (cells (ctrs s))(p := Some cm)"
    using cells_alloc [OF assms] by simp_all
  have fresh: "cells (ctrs s) p = None" using wf p by (simp add: pool_wf_def heap_wf_def)
  have "pool_wf c_ID h (ContainerPool s)" using pool_wf_alloc [OF wf, of cm] assms by simp
  moreover have "images_ok (sv_remoteCRI V) (s\<lparr>ctrs := h\<rparr>)"
    unfolding images_ok_def
  proof (intro allI impI)
    fix k q c assume m: "(k, q) \<in> set (ContainerPool (s\<lparr>ctrs := h\<rparr>))" and c: "cells (ctrs (s\<lparr>ctrs := h\<rparr>)) q = Some c"
    then have "cells (ctrs s) q \<noteq> None" using wf unfolding pool_wf_def by fastforce
    then have "q \<noteq> p" using fresh by blast
    with m c h inv show "image_held (sv_remoteCRI V) (imgs (s\<lparr>ctrs := h\<rparr>)) c"
      by (auto simp: Inv_def images_ok_def)
  qed
  moreover have "exited s q \<Longrightarrow> exited (s\<lparr>ctrs := h\<rparr>) q" for q
    using fresh h by (auto simp: exited_def)
  ultimately show "Inv V (s\<lparr>ctrs := h\<rparr>) \<and> (\<forall>q. exited s q \<longrightarrow> exited (s\<lparr>ctrs := h\<rparr>) q)"
    using inv by (simp add: Inv_def state_wf_def no_netns_def)
qed

text \<open>Changing a container's run data, but not back from exited.\<close>

lemma ev_update_container:
  assumes u: "update_container p f s = Some t" and same: "\<And>cm. same_container cm (f cm)"
    and ex: "\<And>cm. cells (ctrs s) p = Some cm \<Longrightarrow> c_State cm = CONTAINER_EXITED \<Longrightarrow> c_State (f cm) = CONTAINER_EXITED"
  shows "evolves V s t"
proof -
  have "exited s q \<Longrightarrow> exited t q" for q
    using u ex by (auto simp: exited_def update_container_def bind_eq_Some_conv)
  with adapter_frame_Inv [OF update_container_frame [OF u same]] show ?thesis by (simp add: evolves_def)
qed

lemma persist_image_same: "same_stores s (ImageStorage_persist_Put im s)"
  by (auto simp: ImageStorage_persist_Put_def frame_simps split: option.split)

lemma image_Update_others:
  assumes "ImageStorage_Update q s = Some t"
  shows "ContainerPool t = ContainerPool s \<and> ctrs t = ctrs s \<and> SandboxPool t = SandboxPool s \<and> sbxs t = sbxs s"
proof -
  obtain im where "t = ImageStorage_persist_Put im (s\<lparr>ImagePool := mset_key (i_ID im) q (ImagePool s)\<rparr>)"
    using assms by (auto simp: ImageStorage_Update_def bind_eq_Some_conv)
  then show ?thesis
    using persist_image_same [of "s\<lparr>ImagePool := mset_key (i_ID im) q (ImagePool s)\<rparr>" im]
    by (simp add: same_stores_def)
qed

lemma ev_image_Update:
  assumes "ImageStorage_Update p s = Some t"
  shows "evolves V s t"
proof -
  obtain im where im: "cells (imgs s) p = Some im" using image_store.put_object [OF assms] by blast
  let ?u = "s\<lparr>ImagePool := mset_key (i_ID im) p (ImagePool s)\<rparr>"
  have t: "t = ImageStorage_persist_Put im ?u" using assms im by (simp add: ImageStorage_Update_def)
  have "evolves V s ?u"
    using im pool_wf_put [of i_ID "imgs s" "ImagePool s" p im]
    by (auto simp: evolves_def Inv_def state_wf_def no_netns_def images_ok_def exited_def)
  moreover have "evolves V ?u t" unfolding t by (rule same_stores_evolves [OF persist_image_same])
  ultimately show ?thesis by (rule evolves_trans)
qed

text \<open>What a new container is, and that it may be filed when its image is accounted for.\<close>

lemma CreateContainerMetadata_effect:
  assumes "ContainerStorage_CreateContainerMetadata L name (Some sp) st at img cmd args svc config env prt ident s = Some (p, t)"
  obtains cm u sandbox where "same_stores s u" "p = next_free (ctrs s)" "cells (sbxs s) sp = Some sandbox"
    "alloc cm (ctrs u) = (p, ctrs t)" "ContainerStorage_Update p (u\<lparr>ctrs := ctrs t\<rparr>) = Some t"
    "cells (ctrs t) = (cells (ctrs s))(p := Some cm)" "ContainerPool t = mset_key (c_ID cm) p (ContainerPool s)"
    "sbxs t = sbxs s" "imgs t = imgs s"
    "c_Image cm = img" "c_PodSandbox cm = sandbox" "c_State cm = st" "ident = Some i \<longrightarrow> c_ID cm = i"
proof -
  obtain k s1 where k: "(case ident of Some i \<Rightarrow> (i, s) | None \<Rightarrow> new_uuid L s) = (k, s1)" by (metis prod.exhaust)
  then have same: "same_stores s s1" by (auto dest: new_uuid_same split: option.splits)
  obtain sandbox where sb: "cells (sbxs s1) sp = Some sandbox"
    using assms k by (auto simp: ContainerStorage_CreateContainerMetadata_def bind_eq_Some_conv)
  let ?cm = "zero_container\<lparr>c_ID := k, c_Name := name, c_State := st, c_Args := args,
        c_Config := config, c_CreatedAt := at, c_LogFile := GenerateContainerLogPath (s_LogPath sandbox) k,
        c_IsService := svc, c_Command := cmd, c_Environment := env, c_Port := prt,
        c_Extra := [], c_PodSandbox := sandbox, c_Image := img\<rparr>"
  obtain q h where a: "alloc ?cm (ctrs s1) = (q, h)" by (metis prod.exhaust)
  have add: "ContainerStorage_Update q (s1\<lparr>ctrs := h\<rparr>) = Some t" and q: "q = p"
    using assms k sb a
    by (auto simp: ContainerStorage_CreateContainerMetadata_def bind_eq_Some_conv Let_def ContainerStorage_Add_Update)
  note al = cells_alloc [OF a]
  have heap: "ctrs t = h" using container_store.put_heap [OF add] by simp
  have pool: "ContainerPool t = mset_key k p (ContainerPool s)"
    using container_store.put_pool [OF add, of ?cm] al q same by (simp add: same_stores_def)
  have rest: "same_stores (s1\<lparr>ctrs := h, ContainerPool := mset_key k p (ContainerPool s)\<rparr>) t"
    using add al q same persist_container_same [of "s1\<lparr>ctrs := h, ContainerPool := mset_key k p (ContainerPool s)\<rparr>" ?cm]
    by (simp add: ContainerStorage_Update_def same_stores_def [of s])
  have eqs: "ctrs s1 = ctrs s" "sbxs s1 = sbxs s" "imgs s1 = imgs s" using same by (simp_all add: same_stores_def)
  have "p = next_free (ctrs s)" "cells (sbxs s) sp = Some sandbox" "alloc ?cm (ctrs s1) = (p, ctrs t)"
    "ContainerStorage_Update p (s1\<lparr>ctrs := ctrs t\<rparr>) = Some t" "cells (ctrs t) = (cells (ctrs s))(p := Some ?cm)"
    using al q eqs a add heap sb by simp_all
  moreover have "ContainerPool t = mset_key (c_ID ?cm) p (ContainerPool s)" using pool by simp
  moreover have "sbxs t = sbxs s" "imgs t = imgs s" using rest eqs by (simp_all add: same_stores_def)
  moreover have "ident = Some i \<longrightarrow> c_ID ?cm = i" using k by (cases ident) auto
  ultimately show ?thesis using same that [of s1 sandbox ?cm] by simp
qed

lemma ev_create_container:
  assumes c: "ContainerStorage_CreateContainerMetadata L name (Some sp) st at img cmd args svc config env prt ident s = Some (p, t)"
    and held: "\<And>sandbox. cells (sbxs s) sp = Some sandbox \<Longrightarrow>
      (if img = None then \<exists>c. GetRemoteRuntime (sv_remoteCRI V) (s_RuntimeHandler sandbox) = Inr (Some c)
       else deref img (imgs s) \<noteq> None)"
  shows "evolves V s t"
proof (rule CreateContainerMetadata_effect [OF c])
  fix cm u sandbox
  assume u: "same_stores s u" "cells (sbxs s) sp = Some sandbox" "alloc cm (ctrs u) = (p, ctrs t)"
    "ContainerStorage_Update p (u\<lparr>ctrs := ctrs t\<rparr>) = Some t" "c_Image cm = img" "c_PodSandbox cm = sandbox"
  have "evolves V u (u\<lparr>ctrs := ctrs t\<rparr>)" by (rule ev_alloc_container [OF u(3)])
  moreover have "evolves V (u\<lparr>ctrs := ctrs t\<rparr>) t"
  proof (rule ev_container_Update [OF u(4)])
    show "cells (ctrs (u\<lparr>ctrs := ctrs t\<rparr>)) p = Some cm" using cells_alloc [OF u(3)] by simp
    show "image_held (sv_remoteCRI V) (imgs (u\<lparr>ctrs := ctrs t\<rparr>)) cm"
      using held [OF u(2)] u(1,5,6) by (simp add: image_held_def same_stores_def split: if_splits)
  qed
  ultimately show ?thesis by (rule evolves_trans [OF evolves_trans [OF same_stores_evolves [OF u(1)]]])
qed

text \<open>Filing in one store leaves the others alone.\<close>

lemma container_Update_pods:
  assumes "ContainerStorage_Update p s = Some t"
  shows "sbxs t = sbxs s \<and> SandboxPool t = SandboxPool s"
proof -
  obtain v where "t = ContainerStorage_persist_Put v (s\<lparr>ContainerPool := mset_key (c_ID v) p (ContainerPool s)\<rparr>)"
    using assms by (auto simp: ContainerStorage_Update_def bind_eq_Some_conv)
  then show ?thesis
    using persist_container_same [of "s\<lparr>ContainerPool := mset_key (c_ID v) p (ContainerPool s)\<rparr>" v] by (simp add: same_stores_def)
qed

lemma sandbox_Update_containers:
  assumes "SandboxStorage_Update p s = Some t"
  shows "ctrs t = ctrs s \<and> ContainerPool t = ContainerPool s"
proof -
  obtain v where "t = SandboxStorage_persist_Put v (s\<lparr>SandboxPool := mset_key (s_ID v) p (SandboxPool s)\<rparr>)"
    using assms by (auto simp: SandboxStorage_Update_def bind_eq_Some_conv)
  then show ?thesis
    using persist_sandbox_same [of "s\<lparr>SandboxPool := mset_key (s_ID v) p (SandboxPool s)\<rparr>" v] by (simp add: same_stores_def)
qed

lemma create_metadata_pods:
  assumes "ContainerStorage_CreateContainerMetadata L name (Some sp) st at img cmd args svc config env prt ident s = Some (p, t)"
  shows "SandboxPool t = SandboxPool s"
proof (rule CreateContainerMetadata_effect [OF assms])
  fix cm u assume "same_stores s u" "ContainerStorage_Update p (u\<lparr>ctrs := ctrs t\<rparr>) = Some t"
  then show ?thesis using container_Update_pods by (fastforce simp: same_stores_def)
qed

lemma Inv_held:
  "Inv V s \<Longrightarrow> mget (ContainerPool s) k = Some p \<Longrightarrow> cells (ctrs s) p = Some cm \<Longrightarrow>
   image_held (sv_remoteCRI V) (imgs s) cm"
  unfolding Inv_def images_ok_def using mget_in_set by fastforce

lemma Inv_container:
  "Inv V s \<Longrightarrow> mget (ContainerPool s) k = Some p \<Longrightarrow> \<exists>cm. cells (ctrs s) p = Some cm \<and> c_ID cm = k"
  unfolding Inv_def state_wf_def by (blast dest: pool_wfD)

lemma Inv_sandbox:
  "Inv V s \<Longrightarrow> mget (SandboxPool s) k = Some p \<Longrightarrow>
   \<exists>sm. cells (sbxs s) p = Some sm \<and> s_ID sm = k \<and> s_NetNSPath sm = []"
  unfolding Inv_def state_wf_def no_netns_def by (blast dest: pool_wfD)

lemma ev_inv: "(Inv V s \<Longrightarrow> keeps (evolves V) s m) \<Longrightarrow> keeps (evolves V) s m"
  by (auto simp: keeps_def evolves_def)

lemma route_evolves: "route r h f s = (x, t) \<Longrightarrow> evolves V s t"
  by (rule same_stores_evolves) (simp add: route_frame)

lemma ev_sandbox_bind:
  "(\<And>t. SandboxStorage_Update p s = Some t \<Longrightarrow> keeps (evolves V) t (f t)) \<Longrightarrow>
   keeps (evolves V) s (Option.bind (SandboxStorage_Update p s) f)"
  by (rule ev_state [OF ev_sandbox_Update])

lemma ev_image_bind:
  "(\<And>t. ImageStorage_Update p s = Some t \<Longrightarrow> keeps (evolves V) t (f t)) \<Longrightarrow>
   keeps (evolves V) s (Option.bind (ImageStorage_Update p s) f)"
  by (rule ev_state [OF ev_image_Update])

lemma ev_put_sandbox:
  assumes "SandboxStorage_Update p (s\<lparr>sbxs := assign p sm' (sbxs s)\<rparr>) = Some t" and "cells (sbxs s) p = Some sm"
    and "s_ID sm' = s_ID sm" and "s_NetNSPath sm' = s_NetNSPath sm"
  shows "evolves V s t"
  by (rule evolves_trans [OF ev_assign_sandbox [OF assms(2-4)] ev_sandbox_Update [OF assms(1)]])

lemma ev_update_bind:
  assumes "\<And>cm. same_container cm (f cm)"
    and "\<And>cm. cells (ctrs s) p = Some cm \<Longrightarrow> c_State cm = CONTAINER_EXITED \<Longrightarrow> c_State (f cm) = CONTAINER_EXITED"
    and "\<And>t. update_container p f s = Some t \<Longrightarrow> keeps (evolves V) t (g t)"
  shows "keeps (evolves V) s (update_container p f s \<bind> g)"
  by (rule ev_state [OF ev_update_container [OF _ assms(1,2)] assms(3)])

text \<open>The rules that follow the text of a handler, the most specific first.\<close>

lemmas ev_rules = keeps_reply [OF transp_evolves] keeps_do [OF transp_evolves] keeps_let [OF transp_evolves] keeps_pair [OF transp_evolves]
  keeps_pure keeps_cases ev_sandbox_bind ev_image_bind

text \<open>Filing a container again: it is in the pool already, under its own ID.\<close>

definition filed :: "'w mstate \<Rightarrow> ptr \<Rightarrow> bool" where
  "filed s p \<longleftrightarrow> (\<exists>k. (k, p) \<in> set (ContainerPool s))"

lemma ev_refile:
  assumes "filed s p" and "\<And>t. ContainerStorage_Update p s = Some t \<Longrightarrow> keeps (evolves V) t (f t)"
  shows "keeps (evolves V) s (Option.bind (ContainerStorage_Update p s) f)"
proof (rule ev_inv, rule ev_state)
  fix t assume inv: "Inv V s" and u: "ContainerStorage_Update p s = Some t"
  obtain cm where cm: "cells (ctrs s) p = Some cm" using container_store.put_object [OF u] by blast
  have "image_held (sv_remoteCRI V) (imgs s) cm"
    using inv assms(1) cm unfolding Inv_def images_ok_def filed_def by blast
  then show "evolves V s t" by (rule ev_container_Update [OF u cm])
next
  fix t assume "ContainerStorage_Update p s = Some t"
  then show "keeps (evolves V) t (f t)" by (rule assms(2))
qed

lemma filed_mget: "mget (ContainerPool s) k = Some p \<Longrightarrow> filed s p"
  unfolding filed_def by (blast dest: mget_in_set)

lemma filed_created:
  assumes "ContainerStorage_CreateContainerMetadata L name (Some sp) st at img cmd args svc config env prt ident s = Some (p, t)"
  shows "filed t p"
proof (rule CreateContainerMetadata_effect [OF assms])
  fix cm assume "ContainerPool t = mset_key (c_ID cm) p (ContainerPool s)"
  then have "mget (ContainerPool t) (c_ID cm) = Some p" by (simp add: mget_update)
  then show ?thesis by (rule filed_mget)
qed

lemma filed_same: "same_stores s t \<Longrightarrow> filed s p \<Longrightarrow> filed t p"
  by (simp add: filed_def same_stores_def)

lemma filed_frame: "adapter_frame s t \<Longrightarrow> filed s p \<Longrightarrow> filed t p"
  by (simp add: filed_def adapter_frame_def)

lemma filed_get: "ContainerStorage_Get k s = (cp, e) \<Longrightarrow> cp = Some p \<Longrightarrow> filed s p"
  by (auto simp: ContainerStorage_Get_def intro: filed_mget split: option.splits)

lemma filed_later:
  "route r h g s = (x, t) \<Longrightarrow> filed s p \<Longrightarrow> filed t p"
  "now L s = (k, t) \<Longrightarrow> filed s p \<Longrightarrow> filed t p"
  "update_container q f s = Some t \<Longrightarrow> filed s p \<Longrightarrow> filed t p"
  "ImageStorage_Update q s = Some t \<Longrightarrow> filed s p \<Longrightarrow> filed t p"
  using filed_same [of s t p] route_frame [of r h g s x t] now_same [of L s k t]
  by (auto simp: filed_def update_container_def bind_eq_Some_conv image_Update_others)

lemma not_exited_later:
  "route r h g s = (x, t) \<Longrightarrow> \<not> exited s p \<Longrightarrow> \<not> exited t p"
  "now L s = (k, t) \<Longrightarrow> \<not> exited s p \<Longrightarrow> \<not> exited t p"
  using route_frame [of r h g s x t] now_same [of L s k t] by (auto simp: exited_def same_stores_def)

lemma now_evolves: "now L s = (t, u) \<Longrightarrow> evolves V s u"
  by (rule same_stores_evolves [OF now_same])

section \<open>The runtime over an adapter\<close>

text \<open>
  Everything proved about the handlers is proved for a service whose adapter meets the
  contract.  The two adapters the program has give two interpretations.
\<close>

locale runtime = adapter "sv_adapter V" for V :: "'w multicriService"
begin

lemma filed_after_call:
  "ad_CreateContainer (sv_adapter V) q s = Some (e, t) \<Longrightarrow> filed s p \<Longrightarrow> filed t p"
  "ad_StartContainer (sv_adapter V) q s = Some (e, t) \<Longrightarrow> filed s p \<Longrightarrow> filed t p"
  "ad_StopContainer (sv_adapter V) q s = Some (e, t) \<Longrightarrow> filed s p \<Longrightarrow> filed t p"
  "ad_ContainerStatus (sv_adapter V) q s = Some (e, t) \<Longrightarrow> filed s p \<Longrightarrow> filed t p"
  by (rule filed_frame, erule keepsD [rotated], simp_all add: keeps_frame_steady create_container start_container stop_container container_status)+

lemma not_exited_started: "ad_StartContainer (sv_adapter V) q s = Some (e, t) \<Longrightarrow> \<not> exited s p \<Longrightarrow> \<not> exited t p"
  using steady_exited [OF keepsD [OF start_container]] by blast

lemmas filed_rules = filed_get filed_later filed_after_call

lemma ad_status_evolves:
  assumes "ad_ContainerStatus (sv_adapter V) p s = Some (e, t)" and "\<not> exited s p"
  shows "evolves V s t"
proof -
  have f: "adapter_frame s t" by (rule keepsD [OF container_status assms(1)])
  have "exited t q" if "exited s q" for q
  proof -
    have "q \<noteq> p" using that assms(2) by blast
    with container_status_other [OF assms(1)] that show ?thesis by (simp add: exited_def)
  qed
  with adapter_frame_Inv [OF f] show ?thesis by (simp add: evolves_def)
qed

end

interpretation fake_runtime: runtime "V\<lparr>sv_adapter := FakeAdapter b\<rparr>" for V b
  by (rule runtime.intro) (simp add: fake_adapter.adapter_axioms)

end
