(* ===== verification/Runtime_Sandbox.thy ===== *)
theory Runtime_Sandbox
  imports Invariant
begin

text \<open>
  \<open>pkg/cri/runtime/sandbox.go\<close>: the handlers of the pod sandboxes and the set-up of their
  network.  A handler returns its response and error, or panics.
\<close>

definition etcHosts :: string where "etcHosts = ''/etc/hosts''"
definition resolvConfPath :: string where "resolvConfPath = ''/etc/resolv.conf''"

section \<open>Pod network\<close>

definition setupNetSandboxFiles :: "'w multicriService \<Rightarrow> string \<Rightarrow> PodSandboxConfig \<Rightarrow> 'w mstate \<Rightarrow> error option \<times> 'w mstate" where
  "setupNetSandboxFiles V netDir config s =
     (let sandboxEtcHosts = getSandboxHosts netDir
      in case OS_CopyFile (sv_os V) etcHosts sandboxEtcHosts (files s) of
           (Some e, f) \<Rightarrow> (Some (sprintf ''failed to generate sandbox hosts file %q: %v'' [quote sandboxEtcHosts, e]),
              s\<lparr>files := f\<rparr>)
         | (None, f) \<Rightarrow>
             (case (case pc_DnsConfig config of
                      None \<Rightarrow> Inr []
                    | Some d \<Rightarrow> parseDNSOptions (dns_Servers d) (dns_Searches d) (dns_Options d)) of
                Inl e \<Rightarrow> (Some (sprintf ''failed to parse sandbox DNSConfig %v: %v'' [''config'', e]), s\<lparr>files := f\<rparr>)
              | Inr resolvContent \<Rightarrow>
                  (let resolvPath = getResolvPath netDir
                   in if resolvContent = [] then
                        (case OS_CopyFile (sv_os V) resolvConfPath resolvPath f of
                           (Some e, f) \<Rightarrow> (Some (sprintf ''failed to copy host's resolv.conf to %q: %v''
                              [quote resolvPath, e]), s\<lparr>files := f\<rparr>)
                         | (None, f) \<Rightarrow> (None, s\<lparr>files := f\<rparr>))
                      else
                        (case OS_WriteFile (sv_os V) resolvPath resolvContent f of
                           (Some e, f) \<Rightarrow> (Some (sprintf ''failed to write resolv content to %q: %v''
                              [quote resolvPath, e]), s\<lparr>files := f\<rparr>)
                         | (None, f) \<Rightarrow> (None, s\<lparr>files := f\<rparr>)))))"

text \<open>The last part of \<open>setupPodNetwork\<close> with its deferred removal of the directory.\<close>

definition setup_dns :: "'w multicriService \<Rightarrow> SandboxMetadata \<Rightarrow> 'w mstate \<Rightarrow> error option \<times> 'w mstate" where
  "setup_dns V sandbox s =
     (let sandboxNetNsDir = getNetNsDir (s_NetNSPath sandbox)
      in case OS_MkdirAll (sv_os V) sandboxNetNsDir (files s) of
           (Some e, f) \<Rightarrow> (Some (sprintf ''failed to create sandbox root directory %q: %v'' [quote sandboxNetNsDir, e]),
              s\<lparr>files := f\<rparr>)
         | (None, f) \<Rightarrow> (case setupNetSandboxFiles V sandboxNetNsDir (s_Config sandbox) (s\<lparr>files := f\<rparr>) of
             (Some e, s) \<Rightarrow> (Some (sprintf ''failed to setup sandbox files: %v'' [e]),
                s\<lparr>files := snd (OS_RemoveAll (sv_os V) sandboxNetNsDir (files s))\<rparr>)
           | (None, s) \<Rightarrow> (None, s)))"

definition pod_network :: "SandboxMetadata \<Rightarrow> PodNetwork" where
  "pod_network sandbox = \<lparr>pn_Name = get_pod_name (s_Config sandbox),
     pn_Namespace = get_pod_namespace (s_Config sandbox), pn_ID = s_ID sandbox,
     pn_NetNS = s_NetNSPath sandbox, pn_PortMappings = toCNIPortMappings (pc_PortMappings (s_Config sandbox))\<rparr>"

text \<open>
  On a failure the deferred functions run in reverse order: the directory, the network of
  the pod, the namespace.  The path of the namespace goes to a local variable only.
\<close>

definition setupPodNetwork :: "'w multicriService \<Rightarrow> ptr \<Rightarrow> 'w mstate \<Rightarrow> (error option \<times> 'w mstate) option" where
  "setupPodNetwork V p s = do {
     sandbox \<leftarrow> cells (sbxs s) p;
     if get_pod_network (s_Config sandbox) = NamespaceMode_POD then do {
       let ((netNS, err), s) = OpenNetNamespace (sv_networkNamespace V) (sv_ns V) [] s;
       (case err of
          Some e \<Rightarrow> Some (Some (sprintf ''failed to create network namespace for sandbox: %v'' [e]), s)
        | None \<Rightarrow> do {
            NetNSPath \<leftarrow> Namespace_GetPath netNS;
            netPlugin \<leftarrow> sv_netPlugin V;
            let podNetwork = pod_network sandbox;
            (case onw (cni_SetUpPod netPlugin podNetwork) s of
               (Some e, s) \<Rightarrow> do {
                 (_, s) \<leftarrow> Namespace_Remove (sv_ns V) netNS s;
                 Some (Some (sprintf ''failed to setup network for sandbox %q: %v'' [quote (s_ID sandbox), e]), s)
               }
             | (None, s) \<Rightarrow>
                 (case onw (cni_GetPodNetworkStatus netPlugin podNetwork) s of
                    ((ip, err), s) \<Rightarrow> do {
                      let sandbox = sandbox\<lparr>s_IP := ip\<rparr>;
                      let s = s\<lparr>sbxs := assign p sandbox (sbxs s)\<rparr>;
                      (case err of
                         Some e \<Rightarrow> do {
                           (_, s) \<leftarrow> Namespace_Remove (sv_ns V) netNS s;
                           Some (Some (sprintf ''failed to get IP for sandbox %q: %v'' [quote (s_ID sandbox), e]), s)
                         }
                       | None \<Rightarrow>
                           (case setup_dns V sandbox s of
                              (Some e, s) \<Rightarrow> do {
                                let (_, s) = onw (cni_TearDownPod netPlugin podNetwork) s;
                                (_, s) \<leftarrow> Namespace_Remove (sv_ns V) netNS s;
                                Some (Some e, s)
                              }
                            | (None, s) \<Rightarrow> Some (None, s)))
                    }))
          })
     }
     else Some (setup_dns V sandbox s)
   }"

definition tearDownNetwork :: "'w multicriService \<Rightarrow> SandboxMetadata \<Rightarrow> 'w mstate \<Rightarrow> (error option \<times> 'w mstate) option" where
  "tearDownNetwork V sandbox s = do {
     let st = OS_Stat (sv_os V) (s_NetNSPath sandbox) (files s);
     (err, s) \<leftarrow> (if st \<noteq> StatOK then
          Some (if \<not> OS_IsNotExist (sv_os V) st then
              Some (sprintf ''failed to stat network namespace path %s :%v'' [s_NetNSPath sandbox, ''stat error''])
            else None, s)
        else do {
          netPlugin \<leftarrow> sv_netPlugin V;
          let (err, s) = onw (cni_TearDownPod netPlugin (pod_network sandbox)) s;
          Some (map_option (\<lambda>e. sprintf ''failed to destroy network for sandbox %q: %v'' [quote (s_ID sandbox), e]) err, s)
        });
     if err \<noteq> None then Some (err, s) else do {
       let ((netNS, err), s) = OpenNetNamespace (sv_networkNamespace V) (sv_ns V) (s_NetNSPath sandbox) s;
       if err = None then do {
         (err, s) \<leftarrow> Namespace_Remove (sv_ns V) netNS s;
         (case err of
            Some e \<Rightarrow> Some (Some (sprintf ''failed to remove network namespace for sandbox %q:  %v''
              [quote (s_ID sandbox), e]), s)
          | None \<Rightarrow> (case OS_RemoveAll (sv_os V) (getNetNsDir (s_NetNSPath sandbox)) (files s) of
              (Some e, f) \<Rightarrow> Some (Some (sprintf ''failed to remove network namespace dir for sandbox %q:  %v''
                [quote (s_ID sandbox), e]), s\<lparr>files := f\<rparr>)
            | (None, f) \<Rightarrow> Some (None, s\<lparr>files := f\<rparr>)))
       }
       else Some (None, s)
     }
   }"

section \<open>Handlers\<close>

text \<open>
  \<open>RunPodSandbox\<close>: a remote response replaces the pod's UID, which becomes the sandbox's
  ID.  The local part removes the sandbox from the store when it fails.
\<close>

definition set_uid :: "string \<Rightarrow> PodSandboxConfig \<Rightarrow> PodSandboxConfig option" where
  "set_uid uid config = do { md \<leftarrow> pc_Metadata config; Some (config\<lparr>pc_Metadata := Some (md\<lparr>pm_Uid := uid\<rparr>)\<rparr>) }"

definition run_local_sandbox ::
    "'w multicriService \<Rightarrow> PodSandboxConfig \<Rightarrow> ptr \<Rightarrow> 'w mstate \<Rightarrow> (error option \<times> 'w mstate) option" where
  "run_local_sandbox V config p s = do {
     (err, s) \<leftarrow> (if sv_netPlugin V \<noteq> None then setupPodNetwork V p s else Some (None, s));
     if err \<noteq> None then Some (err, s) else do {
       sandbox \<leftarrow> cells (sbxs s) p;
       let errPath = GenerateLogDir (pc_LogDirectory config) (s_ID sandbox);
       let s = s\<lparr>files := snd (CreatePathDirectory errPath (files s))\<rparr>;
       let s = s\<lparr>sbxs := assign p (sandbox\<lparr>s_LogPath := errPath\<rparr>) (sbxs s)\<rparr>;
       ad_RunPodSandbox (sv_adapter V) p s
     }
   }"

definition RunPodSandbox ::
    "'w multicriService \<Rightarrow> RunPodSandboxRequest \<Rightarrow> 'w mstate \<Rightarrow> (string reply \<times> 'w mstate) option" where
  "RunPodSandbox V req s =
     (case Remote_RunPodSandbox (sv_remoteCRI V) req s of
        ((_, Some e), s) \<Rightarrow> Some ((None, Some e), s)
      | ((response, None), s) \<Rightarrow> do {
          config \<leftarrow> rq_Config req;
          config \<leftarrow> (case response of Some k \<Rightarrow> set_uid k config | None \<Rightarrow> Some config);
          (p, s) \<leftarrow> SandboxStorage_CreateSandboxMetadata (sv_go V) SANDBOX_NOTREADY config (rq_RuntimeHandler req) s;
          (case response of
             Some k \<Rightarrow> do { s \<leftarrow> SandboxStorage_Update p s; Some ((Some k, None), s) }
           | None \<Rightarrow> do {
               (err, s) \<leftarrow> run_local_sandbox V config p s;
               sandbox \<leftarrow> cells (sbxs s) p;
               (case err of
                  Some e \<Rightarrow> Some ((None, Some e), SandboxStorage_Remove (s_ID sandbox) s)
                | None \<Rightarrow> do {
                    s \<leftarrow> SandboxStorage_Update p s;
                    Some ((Some (s_ID sandbox), None), s)
                  })
             })
        })"

text \<open>The handler of a missing sandbox is the empty one.\<close>

definition handler_of :: "ptr option \<Rightarrow> 'w mstate \<Rightarrow> string option" where
  "handler_of sp s = (case sp of None \<Rightarrow> Some [] | Some p \<Rightarrow> map_option s_RuntimeHandler (cells (sbxs s) p))"

definition StopPodSandbox :: "'w multicriService \<Rightarrow> string \<Rightarrow> 'w mstate \<Rightarrow> (unit reply \<times> 'w mstate) option" where
  "StopPodSandbox V podId s = do {
     let (sp, errGet) = SandboxStorage_Get podId s;
     h \<leftarrow> handler_of sp s;
     (case Remote_StopPodSandbox (sv_remoteCRI V) h podId s of
        ((_, Some e), s) \<Rightarrow> Some ((None, Some e), s)
      | ((response, None), s) \<Rightarrow> do {
          (err, s) \<leftarrow> (if response = None then
              (case sp of
                 None \<Rightarrow> Some (Some ''Sandbox not found when stopping it'', s)
               | Some p \<Rightarrow> do {
                   sandbox \<leftarrow> cells (sbxs s) p;
                   (err, s) \<leftarrow> (if s_NetNSPath sandbox \<noteq> [] then tearDownNetwork V sandbox s else Some (None, s));
                   if err \<noteq> None then Some (err, s) else ad_StopPodSandbox (sv_adapter V) p s
                 })
            else Some (None, s));
          (case err of
             Some e \<Rightarrow> Some ((None, Some e), s)
           | None \<Rightarrow> do {
               s \<leftarrow> (case sp of
                  None \<Rightarrow> Some s
                | Some p \<Rightarrow> do {
                    sandbox \<leftarrow> cells (sbxs s) p;
                    let s = s\<lparr>sbxs := assign p (sandbox\<lparr>s_State := SANDBOX_NOTREADY, s_IP := []\<rparr>) (sbxs s)\<rparr>;
                    SandboxStorage_Update p s
                  });
               Some ((Some (), None), s)
             })
        })
   }"

definition RemovePodSandbox :: "'w multicriService \<Rightarrow> string \<Rightarrow> 'w mstate \<Rightarrow> (unit reply \<times> 'w mstate) option" where
  "RemovePodSandbox V podId s = do {
     let (sp, errGet) = SandboxStorage_Get podId s;
     h \<leftarrow> handler_of sp s;
     (case Remote_RemovePodSandbox (sv_remoteCRI V) h podId s of
        ((_, Some e), s) \<Rightarrow> Some ((None, Some e), s)
      | ((response, None), s) \<Rightarrow> do {
          (err, s) \<leftarrow> (if response = None then
              (case sp of
                 None \<Rightarrow> Some (Some ''Sandbox not found when removing it'', s)
               | Some p \<Rightarrow> do {
                   sandbox \<leftarrow> cells (sbxs s) p;
                   if s_State sandbox = SANDBOX_READY then
                     Some (Some (sprintf ''Sandbox %q is running. First stop it '' [quote podId]), s)
                   else ad_RemovePodSandbox (sv_adapter V) p s
                 })
            else Some (None, s));
          (case err of
             Some e \<Rightarrow> Some ((None, Some e), s)
           | None \<Rightarrow> do {
               k \<leftarrow> (case sp of None \<Rightarrow> Some [] | Some p \<Rightarrow> map_option s_ID (cells (sbxs s) p));
               Some ((Some (), None), SandboxStorage_Remove k s)
             })
        })
   }"

text \<open>The status is a pointer in the response: nil in the response of an unknown sandbox.\<close>

definition PodSandboxStatus_handler ::
    "'w multicriService \<Rightarrow> string \<Rightarrow> 'w mstate \<Rightarrow> (PodSandboxStatus option reply \<times> 'w mstate) option" where
  "PodSandboxStatus_handler V podId s =
     (case SandboxStorage_Get podId s of
        (_, Some e) \<Rightarrow> Some ((Some None, Some (sprintf ''Sandbox not found when getting its status %s'' [e])), s)
      | (sp, None) \<Rightarrow> do {
          p \<leftarrow> sp;
          sandbox \<leftarrow> cells (sbxs s) p;
          (case Remote_PodSandboxStatus (sv_remoteCRI V) (s_RuntimeHandler sandbox) podId s of
             ((_, Some e), s) \<Rightarrow> Some ((None, Some e), s)
           | ((Some st, None), s) \<Rightarrow> Some ((Some (Some st), None), s)
           | ((None, None), s) \<Rightarrow> do {
               let ip = s_IP sandbox;
               let (ip, sandbox) =
                 (if ip \<noteq> [] then (ip, sandbox\<lparr>s_State := SANDBOX_READY\<rparr>)
                  else if sv_netPlugin V = None then (''127.0.0.1'', sandbox\<lparr>s_State := SANDBOX_READY\<rparr>)
                  else (ip, sandbox));
               let s = s\<lparr>sbxs := assign p sandbox (sbxs s)\<rparr>;
               (err, s) \<leftarrow> ad_PodSandboxStatus (sv_adapter V) p s;
               (case err of
                  Some e \<Rightarrow> Some ((None, Some e), s)
                | None \<Rightarrow> do {
                    sandbox \<leftarrow> cells (sbxs s) p;
                    Some ((Some (Some (ParseToK8sSandboxStatus sandbox ip)), None), s)
                  })
             })
        })"

definition ListPodSandbox ::
    "'w multicriService \<Rightarrow> PodSandboxFilter option \<Rightarrow> 'w mstate \<Rightarrow> (PodSandbox list reply \<times> 'w mstate) option" where
  "ListPodSandbox V filt s = do {
     localResult \<leftarrow> SandboxStorage_ListK8s filt (MulticriRuntimeName (sv_remoteCRI V)) s;
     Some (case Remote_ListPodSandbox (sv_remoteCRI V) filt s of
        (Inl e, s) \<Rightarrow> ((None, Some e), s)
      | (Inr remotePods, s) \<Rightarrow> ((Some (localResult @ remotePods), None), s))
   }"

definition PortForward :: "'w multicriService \<Rightarrow> string \<Rightarrow> 'w mstate \<Rightarrow> (string reply \<times> 'w mstate) option" where
  "PortForward V podId s = do {
     let (sp, errGet) = SandboxStorage_Get podId s;
     runtimeClass \<leftarrow> handler_of sp s;
     Some (case Remote_PortForward (sv_remoteCRI V) runtimeClass podId s of
        ((_, Some e), s) \<Rightarrow> ((None, Some e), s)
      | ((Some r, None), s) \<Rightarrow> ((Some r, None), s)
      | ((None, None), s) \<Rightarrow>
          if errGet \<noteq> None then ((None, Some ''Sandbox not found when portforwarding it''), s)
          else remote_call (sv_GetPortForward V podId) s)
   }"

section \<open>Frames\<close>

lemma setupNetSandboxFiles_same: "setupNetSandboxFiles V d c s = (e, t) \<Longrightarrow> same_stores s t"
  by (auto simp: setupNetSandboxFiles_def Let_def split: prod.splits option.splits sum.splits if_splits)

lemma setup_dns_same: "setup_dns V sm s = (e, t) \<Longrightarrow> same_stores s t"
proof -
  assume a: "setup_dns V sm s = (e, t)"
  let ?d = "getNetNsDir (s_NetNSPath sm)"
  obtain e1 f where m: "OS_MkdirAll (sv_os V) ?d (files s) = (e1, f)" by (metis prod.exhaust)
  obtain e2 u where n: "setupNetSandboxFiles V ?d (s_Config sm) (s\<lparr>files := f\<rparr>) = (e2, u)" by (metis prod.exhaust)
  have u: "same_stores s u"
    using same_stores_trans [OF same_stores_world(2) setupNetSandboxFiles_same [OF n]] .
  show ?thesis
  proof (cases e1)
    case (Some x)
    with a m have "t = s\<lparr>files := f\<rparr>" by (auto simp: setup_dns_def)
    then show ?thesis by simp
  next
    case None
    show ?thesis
    proof (cases e2)
      case (Some x)
      with a m n None have t: "t = u\<lparr>files := snd (OS_RemoveAll (sv_os V) ?d (files u))\<rparr>"
        by (simp add: setup_dns_def)
      show ?thesis unfolding t by (rule same_stores_trans [OF u same_stores_world(2)])
    next
      case None2: None
      with a m n None have "t = u" by (simp add: setup_dns_def)
      with u show ?thesis by simp
    qed
  qed
qed

lemma same_sbxs: "same_stores s t \<Longrightarrow> sbxs t = sbxs s"
  by (simp add: same_stores_def)

lemma remove_ns_keeps:
  "keeps same_stores s (do { (_, t) \<leftarrow> Namespace_Remove N n s; Some (x, t) })"
  by (rule store_bind [OF Namespace_Remove_keeps]) simp

text \<open>Setting up the network of a pod changes its address and nothing else of the stores.\<close>

definition addressed :: "ptr \<Rightarrow> SandboxMetadata \<Rightarrow> 'w mstate \<Rightarrow> 'w mstate \<Rightarrow> bool" where
  "addressed p sm s t \<longleftrightarrow> (\<exists>ip. same_stores (s\<lparr>sbxs := assign p (sm\<lparr>s_IP := ip\<rparr>) (sbxs s)\<rparr>) t)"

lemma assign_same: "cells h p = Some v \<Longrightarrow> assign p v h = h"
  by (simp add: assign_def fun_upd_idem)

lemma addressed_same: "cells (sbxs s) p = Some sm \<Longrightarrow> same_stores s t \<Longrightarrow> addressed p sm s t"
  unfolding addressed_def by (rule exI [of _ "s_IP sm"]) (simp add: assign_same)

lemma addressed_step:
  assumes "same_stores s u" and "same_stores (u\<lparr>sbxs := assign p (sm\<lparr>s_IP := ip\<rparr>) (sbxs u)\<rparr>) t"
  shows "addressed p sm s t"
  using assms unfolding addressed_def same_stores_def by auto

lemma setupPodNetwork_effect:
  assumes run: "setupPodNetwork V p s = Some (r, t)" and sb: "cells (sbxs s) p = Some sandbox"
  shows "addressed p sandbox s t"
proof (cases "get_pod_network (s_Config sandbox) = NamespaceMode_POD")
  case False
  with run sb have "setup_dns V sandbox s = (r, t)" by (simp add: setupPodNetwork_def)
  then show ?thesis by (rule addressed_same [OF sb setup_dns_same])
next
  case True
  obtain ns e s1 where o: "OpenNetNamespace (sv_networkNamespace V) (sv_ns V) [] s = ((ns, e), s1)"
    by (metis prod.exhaust)
  note o1 = OpenNetNamespace_same [OF o]
  obtain path pl where pl: "Namespace_GetPath ns = Some path" "sv_netPlugin V = Some pl"
    using run sb True o o1 by (auto simp: setupPodNetwork_def bind_eq_Some_conv)
  let ?pn = "pod_network sandbox"
  obtain e2 s2 where u: "onw (cni_SetUpPod pl ?pn) s1 = (e2, s2)" by (metis prod.exhaust)
  obtain ip e3 s3 where st: "onw (cni_GetPodNetworkStatus pl ?pn) s2 = ((ip, e3), s3)" by (metis prod.exhaust)
  have s2: "same_stores s s2" using same_stores_trans o1 onw_frame [OF u] by blast
  have s3: "same_stores s s3" using same_stores_trans [OF s2] onw_frame [OF st] by blast
  let ?sm = "sandbox\<lparr>s_IP := ip\<rparr>"
  let ?s4 = "s3\<lparr>sbxs := assign p ?sm (sbxs s3)\<rparr>"
  show ?thesis
  proof (cases e2)
    case (Some x)
    then have "Option.bind (Namespace_Remove (sv_ns V) ns s2) (\<lambda>(_, t). Some (Some (sprintf
        ''failed to setup network for sandbox %q: %v'' [quote (s_ID sandbox), x]), t)) = Some (r, t)"
      using run sb True o o1 pl u by (simp add: setupPodNetwork_def)
    from same_stores_trans [OF s2 keepsD [OF remove_ns_keeps this]] show ?thesis by (rule addressed_same [OF sb])
  next
    case None
    have "same_stores ?s4 t"
    proof (cases e3)
      case (Some x)
      then have "Option.bind (Namespace_Remove (sv_ns V) ns ?s4) (\<lambda>(_, t). Some (Some (sprintf
          ''failed to get IP for sandbox %q: %v'' [quote (s_ID sandbox), x]), t)) = Some (r, t)"
        using run sb True o o1 pl u None st by (simp add: setupPodNetwork_def)
      then show ?thesis by (rule keepsD [OF remove_ns_keeps])
    next
      case None2: None
      obtain e4 s5 where d: "setup_dns V ?sm ?s4 = (e4, s5)" by (metis prod.exhaust)
      note s5 = setup_dns_same [OF d]
      obtain x s6 where td: "onw (cni_TearDownPod pl ?pn) s5 = (x, s6)" by (metis prod.exhaust)
      have s6: "same_stores ?s4 s6" using same_stores_trans [OF s5] onw_frame [OF td] by blast
      have "(case e4 of Some e \<Rightarrow> do { (_, s) \<leftarrow> Namespace_Remove (sv_ns V) ns s6; Some (Some e, s) }
          | None \<Rightarrow> Some (None, s5)) = Some (r, t)"
        using run sb True o o1 pl u None st None2 d td by (simp add: setupPodNetwork_def Let_def split: option.splits)
      then show ?thesis
        using s5 same_stores_trans [OF s6 keepsD [OF remove_ns_keeps]] by (cases e4) auto
    qed
    then show ?thesis by (rule addressed_step [OF s3])
  qed
qed

lemma setupPodNetwork_nil: "setupPodNetwork V p s = Some (r, t) \<Longrightarrow> \<exists>sm. cells (sbxs s) p = Some sm"
  by (auto simp: setupPodNetwork_def bind_eq_Some_conv)

lemma setupPodNetwork_evolves: "keeps (evolves V) s (setupPodNetwork V p s)"
proof (rule keepsI)
  fix r t assume run: "setupPodNetwork V p s = Some (r, t)"
  obtain sm where sm: "cells (sbxs s) p = Some sm" using setupPodNetwork_nil [OF run] by blast
  obtain ip where t: "same_stores (s\<lparr>sbxs := assign p (sm\<lparr>s_IP := ip\<rparr>) (sbxs s)\<rparr>) t"
    using setupPodNetwork_effect [OF run sm] by (auto simp: addressed_def)
  have "evolves V s (s\<lparr>sbxs := assign p (sm\<lparr>s_IP := ip\<rparr>) (sbxs s)\<rparr>)"
    by (rule ev_assign_sandbox) (use sm in simp_all)
  then show "evolves V s t" by (rule evolves_trans [OF _ same_stores_evolves [OF t]])
qed

lemma tearDownNetwork_same: "keeps same_stores s (tearDownNetwork V sandbox s)"
  unfolding tearDownNetwork_def Let_def
  by (rule keeps_do [OF transp_same_stores] keeps_pair2 [OF transp_same_stores] store_pair keeps_cases keeps_pure(2) Namespace_Remove_keeps keeps_bind_pure
    | simp add: onw_frame OpenNetNamespace_same; fail
    | simp; fail)+

lemma run_local_sandbox_effect:
  assumes A: "adapter (sv_adapter V)" and run: "run_local_sandbox V config p s = Some (err, t)"
    and sm: "cells (sbxs s) p = Some sm"
  shows "SandboxPool t = SandboxPool s
    \<and> (\<exists>ip lp. cells (sbxs t) p = Some (sm\<lparr>s_IP := ip, s_LogPath := lp\<rparr>)
        \<and> (err = None \<longrightarrow> lp = GenerateLogDir (pc_LogDirectory config) (s_ID sm)))"
proof -
  obtain e u where net: "(if sv_netPlugin V \<noteq> None then setupPodNetwork V p s else Some (None, s)) = Some (e, u)"
    and rest: "(if e \<noteq> None then Some (e, u) else do {
       sandbox \<leftarrow> cells (sbxs u) p;
       let errPath = GenerateLogDir (pc_LogDirectory config) (s_ID sandbox);
       let s = u\<lparr>files := snd (CreatePathDirectory errPath (files u))\<rparr>;
       let s = s\<lparr>sbxs := assign p (sandbox\<lparr>s_LogPath := errPath\<rparr>) (sbxs s)\<rparr>;
       ad_RunPodSandbox (sv_adapter V) p s }) = Some (err, t)"
    using run unfolding run_local_sandbox_def by (auto simp: bind_eq_Some_conv simp del: Let_def)
  have "addressed p sm s u"
    using net setupPodNetwork_effect [OF _ sm] addressed_same [OF sm, of s] by (auto split: if_splits)
  then obtain ip where u: "cells (sbxs u) p = Some (sm\<lparr>s_IP := ip\<rparr>)" "SandboxPool u = SandboxPool s"
    by (auto simp: addressed_def same_stores_def)
  show ?thesis
  proof (cases e)
    case (Some x)
    have "sm\<lparr>s_IP := ip\<rparr> = sm\<lparr>s_IP := ip, s_LogPath := s_LogPath sm\<rparr>" by simp
    with Some rest u show ?thesis by (metis option.distinct(1) option.inject prod.inject)
  next
    case None
    let ?l = "GenerateLogDir (pc_LogDirectory config) (s_ID sm)"
    let ?v = "u\<lparr>files := snd (CreatePathDirectory ?l (files u)), sbxs := assign p (sm\<lparr>s_IP := ip, s_LogPath := ?l\<rparr>) (sbxs u)\<rparr>"
    have "ad_RunPodSandbox (sv_adapter V) p ?v = Some (err, t)" using rest u None by (simp add: Let_def)
    from steady_adapter_frame [OF keepsD [OF adapter.run_sandbox [OF A] this]]
    have "sbxs t = sbxs ?v" "SandboxPool t = SandboxPool ?v" by (simp_all add: adapter_frame_def)
    with u(2) show ?thesis by auto
  qed
qed

section \<open>The handlers keep the invariant\<close>

lemma run_local_sandbox_evolves:
  assumes "adapter (sv_adapter V)"
  shows "keeps (evolves V) s (run_local_sandbox V config p s)"
  unfolding run_local_sandbox_def
proof (rule ev_bind)
  show "keeps (evolves V) s (if sv_netPlugin V \<noteq> None then setupPodNetwork V p s else Some (None, s))"
    by (simp add: setupPodNetwork_evolves)
  fix err t
  have tail: "keeps (evolves V) t (do {
       sandbox \<leftarrow> cells (sbxs t) p;
       let errPath = GenerateLogDir (pc_LogDirectory config) (s_ID sandbox);
       let s = t\<lparr>files := snd (CreatePathDirectory errPath (files t))\<rparr>;
       let s = s\<lparr>sbxs := assign p (sandbox\<lparr>s_LogPath := errPath\<rparr>) (sbxs s)\<rparr>;
       ad_RunPodSandbox (sv_adapter V) p s })"
  proof (rule keeps_bind_pure)
    fix sandbox assume sb: "cells (sbxs t) p = Some sandbox"
    let ?l = "GenerateLogDir (pc_LogDirectory config) (s_ID sandbox)"
    let ?f = "snd (CreatePathDirectory ?l (files t))"
    let ?u = "t\<lparr>files := ?f, sbxs := assign p (sandbox\<lparr>s_LogPath := ?l\<rparr>) (sbxs t)\<rparr>"
    have "evolves V (t\<lparr>files := ?f\<rparr>) ((t\<lparr>files := ?f\<rparr>)\<lparr>sbxs := assign p (sandbox\<lparr>s_LogPath := ?l\<rparr>) (sbxs (t\<lparr>files := ?f\<rparr>))\<rparr>)"
      by (rule ev_assign_sandbox) (use sb in simp_all)
    then have "evolves V t ?u" by (intro evolves_trans [OF evolves_world(2) [of V t ?f]]) simp
    from ev_step [OF this ev_steady [OF adapter.run_sandbox [OF assms]]]
    show "keeps (evolves V) t (let errPath = ?l; s = t\<lparr>files := snd (CreatePathDirectory errPath (files t))\<rparr>;
        s = s\<lparr>sbxs := assign p (sandbox\<lparr>s_LogPath := errPath\<rparr>) (sbxs s)\<rparr>
        in ad_RunPodSandbox (sv_adapter V) p s)"
      by (simp add: Let_def)
  qed
  show "keeps (evolves V) t (case (err, t) of (err, s) \<Rightarrow> if err \<noteq> None then Some (err, s) else do {
       sandbox \<leftarrow> cells (sbxs s) p;
       let errPath = GenerateLogDir (pc_LogDirectory config) (s_ID sandbox);
       let s = s\<lparr>files := snd (CreatePathDirectory errPath (files s))\<rparr>;
       let s = s\<lparr>sbxs := assign p (sandbox\<lparr>s_LogPath := errPath\<rparr>) (sbxs s)\<rparr>;
       ad_RunPodSandbox (sv_adapter V) p s })"
    using tail by simp
qed

lemma RunPodSandbox_evolves:
  assumes "adapter (sv_adapter V)"
  shows "keeps (evolves V) s (RunPodSandbox V req s)"
  unfolding RunPodSandbox_def
  by (rule ev_rules keeps_bind_pure
    | simp add: Remote_RunPodSandbox_def route_evolves run_local_sandbox_evolves [OF assms] ev_sandbox_Remove; fail
    | rule keepsI, erule ev_create_sandbox)+

lemma StopPodSandbox_evolves:
  assumes "adapter (sv_adapter V)"
  shows "keeps (evolves V) s (StopPodSandbox V podId s)"
proof -
  have off: "evolves V u t" if "(case sp of None \<Rightarrow> Some u | Some p \<Rightarrow> do {
         sandbox \<leftarrow> cells (sbxs u) p;
         let s = u\<lparr>sbxs := assign p (sandbox\<lparr>s_State := SANDBOX_NOTREADY, s_IP := []\<rparr>) (sbxs u)\<rparr>;
         SandboxStorage_Update p s }) = Some t" for sp u t
    using that by (auto simp: bind_eq_Some_conv Let_def intro!: ev_put_sandbox split: option.splits)
  show ?thesis
    unfolding StopPodSandbox_def
    by (rule keeps_pure ev_rules ev_state [OF off] keeps_bind_pure
      | simp add: Remote_StopPodSandbox_def route_evolves ev_store [OF tearDownNetwork_same]
          ev_steady [OF adapter.stop_sandbox [OF assms]]; fail
      | assumption)+
qed

lemma RemovePodSandbox_evolves:
  assumes "adapter (sv_adapter V)"
  shows "keeps (evolves V) s (RemovePodSandbox V podId s)"
  unfolding RemovePodSandbox_def
  by (rule ev_rules keeps_bind_pure
    | simp add: Remote_RemovePodSandbox_def route_evolves ev_steady [OF adapter.remove_sandbox [OF assms]] ev_sandbox_Remove; fail)+

lemma PodSandboxStatus_evolves:
  assumes "adapter (sv_adapter V)"
  shows "keeps (evolves V) s (PodSandboxStatus_handler V podId s)"
proof -
  have mark: "keeps (evolves V) u (Let (u\<lparr>sbxs := assign p sm (sbxs u)\<rparr>) f)"
    if "cells (sbxs s) p = Some sandbox" and "route r h g s = (x, u)" and "(if ip \<noteq> [] then (ip, sandbox\<lparr>s_State := SANDBOX_READY\<rparr>)
         else if net then (''127.0.0.1'', sandbox\<lparr>s_State := SANDBOX_READY\<rparr>) else (ip, sandbox)) = (ip', sm)"
      and "keeps (evolves V) (u\<lparr>sbxs := assign p sm (sbxs u)\<rparr>) (f (u\<lparr>sbxs := assign p sm (sbxs u)\<rparr>))"
    for p sandbox r h g x u ip net ip' sm f
    unfolding Let_def
    by (rule ev_step [OF ev_assign_sandbox [of _ _ sandbox] that(4)])
      (use that(1,3) route_frame [OF that(2)] in \<open>auto simp: same_stores_def split: if_splits\<close>)
  show ?thesis
    unfolding PodSandboxStatus_handler_def Remote_PodSandboxStatus_def
    by (rule mark, assumption, assumption, assumption
      | rule ev_rules keeps_name keeps_bind_pure
      | simp add: route_evolves ev_steady [OF adapter.status_sandbox [OF assms]]; fail)+
qed

lemma ListPodSandbox_same: "keeps same_stores s (ListPodSandbox V filt s)"
proof -
  obtain r t where c: "Remote_ListPodSandbox (sv_remoteCRI V) filt s = (r, t)" by (metis prod.exhaust)
  have "same_stores s t" using c by (auto simp: Remote_ListPodSandbox_def dest: collect_frame)
  then show ?thesis
    by (auto simp: ListPodSandbox_def c intro!: keeps_bind_pure split: sum.split)
qed

lemma PortForward_same: "keeps same_stores s (PortForward V podId s)"
proof -
  obtain sp eg where g: "SandboxStorage_Get podId s = (sp, eg)" by (metis prod.exhaust)
  show ?thesis
  proof (cases "handler_of sp s")
    case None
    with g show ?thesis by (simp add: PortForward_def)
  next
    case h: (Some h)
    obtain x e t where r: "Remote_PortForward (sv_remoteCRI V) h podId s = ((x, e), t)" by (metis prod.exhaust)
    have t: "same_stores s t" using r by (auto simp: Remote_PortForward_def dest: route_frame)
    obtain y u where c: "remote_call (sv_GetPortForward V podId) t = (y, u)" by (metis prod.exhaust)
    have "same_stores s u" using same_stores_trans [OF t] remote_call_frame [OF c] by blast
    with g h r c t show ?thesis
      by (auto simp: PortForward_def split: option.split)
  qed
qed

end
