(* ===== verification/Runtime_Container.thy ===== *)
theory Runtime_Container
  imports Invariant
begin

text \<open>
  \<open>pkg/cri/runtime/container.go\<close> and \<open>exec.go\<close>: the handlers of the containers.
  A container of a remote runtime is forwarded; one of the local runtime goes to the
  adapter.
\<close>

section \<open>Handlers\<close>

definition container_handler :: "ptr option \<Rightarrow> 'w mstate \<Rightarrow> string option" where
  "container_handler cp s = (case cp of None \<Rightarrow> Some []
     | Some p \<Rightarrow> map_option (\<lambda>cm. s_RuntimeHandler (c_PodSandbox cm)) (cells (ctrs s) p))"

definition ReopenContainerLog :: "'w multicriService \<Rightarrow> string \<Rightarrow> 'w mstate \<Rightarrow> (unit reply \<times> 'w mstate) option" where
  "ReopenContainerLog V containerId s =
     (case ContainerStorage_Get containerId s of
        (_, Some e) \<Rightarrow> Some ((None, Some ''Container not found''), s)
      | (cp, None) \<Rightarrow> do {
          h \<leftarrow> container_handler cp s;
          p \<leftarrow> cp;
          (case Remote_ReopenContainerLog (sv_remoteCRI V) h containerId s of
             ((Some r, err), s) \<Rightarrow> Some ((Some r, err), s)
           | ((None, _), s) \<Rightarrow> do {
               (err, s) \<leftarrow> ad_ReopenContainerLog (sv_adapter V) p s;
               Some ((Some (), err), s)
             })
        })"

definition env_map :: "(string \<times> string) list \<Rightarrow> string gomap" where
  "env_map envs = foldl (\<lambda>m (k, v). mset_key k v m) [] envs"

definition container_port :: "PodSandboxConfig \<Rightarrow> int" where
  "container_port config =
     (case pc_PortMappings config of [] \<Rightarrow> 0
      | m # _ \<Rightarrow> if 0 < pmap_ContainerPort m then pmap_ContainerPort m else 0)"

text \<open>The local part of \<open>CreateContainer\<close>: an error, or the new container.\<close>

definition create_local ::
    "'w multicriService \<Rightarrow> CreateContainerRequest \<Rightarrow> ptr \<Rightarrow> 'w mstate \<Rightarrow> ((error + ptr) \<times> 'w mstate) option" where
  "create_local V req sp s = do {
     config \<leftarrow> cr_Config req;
     name \<leftarrow> cc_Metadata config;
     img \<leftarrow> cc_Image config;
     (ip, err) \<leftarrow> ImageStorage_GetByID img s;
     if err \<noteq> None then Some (Inl ''Image not found'', s) else do {
       let (createdAt, s) = now (sv_go V) s;
       let envVars = env_map (cc_Envs config);
       sandboxConfig \<leftarrow> cr_SandboxConfig req;
       let port = container_port sandboxConfig;
       (p, s) \<leftarrow> ContainerStorage_CreateContainerMetadata (sv_go V) name (Some sp) CONTAINER_CREATED createdAt ip
          (cc_Command config) (cc_Args config) True config envVars port None s;
       (err, s) \<leftarrow> ad_CreateContainer (sv_adapter V) p s;
       (case err of
          Some e \<Rightarrow> Some (Inl e, s)
        | None \<Rightarrow> do {
            cm \<leftarrow> cells (ctrs s) p;
            q \<leftarrow> c_Image cm;
            s \<leftarrow> ImageStorage_Update q s;
            s \<leftarrow> ContainerStorage_Update p s;
            Some (Inr p, s)
          })
     }
   }"

definition create_remote ::
    "'w multicriService \<Rightarrow> CreateContainerRequest \<Rightarrow> ptr \<Rightarrow> string \<Rightarrow> 'w mstate \<Rightarrow> ((error + ptr) \<times> 'w mstate) option" where
  "create_remote V req sp k s = do {
     config \<leftarrow> cr_Config req;
     (p, s) \<leftarrow> ContainerStorage_CreateContainerMetadata (sv_go V) [] (Some sp) CONTAINER_CREATED 0 None
        (cc_Command config) (cc_Args config) True config [] 0 (Some k) s;
     Some (Inr p, s)
   }"

definition CreateContainer ::
    "'w multicriService \<Rightarrow> CreateContainerRequest \<Rightarrow> 'w mstate \<Rightarrow> (string reply \<times> 'w mstate) option" where
  "CreateContainer V req s =
     (case SandboxStorage_Get (cr_PodSandboxId req) s of
        (_, Some e) \<Rightarrow> Some ((None, Some e), s)
      | (sp, None) \<Rightarrow> do {
          sp \<leftarrow> sp;
          sandbox \<leftarrow> cells (sbxs s) sp;
          (case Remote_CreateContainer (sv_remoteCRI V) (s_RuntimeHandler sandbox) req s of
             ((_, Some e), s) \<Rightarrow> Some ((None, Some e), s)
           | ((response, None), s) \<Rightarrow> do {
               (r, s) \<leftarrow> (case response of
                  None \<Rightarrow> create_local V req sp s
                | Some k \<Rightarrow> create_remote V req sp k s);
               (case r of
                  Inl e \<Rightarrow> Some ((None, Some e), s)
                | Inr p \<Rightarrow> do {
                    container \<leftarrow> cells (ctrs s) p;
                    sandbox \<leftarrow> cells (sbxs s) sp;
                    let s = s\<lparr>sbxs := assign sp (sandbox\<lparr>s_Containers := s_Containers sandbox @ [c_ID container]\<rparr>) (sbxs s)\<rparr>;
                    s \<leftarrow> SandboxStorage_Update sp s;
                    Some ((Some (c_ID container), None), s)
                  })
             })
        })"

text \<open>
  In \<open>StartContainer\<close> only a response of the remote runtime is looked at: its error
  falls through to the local adapter.
\<close>

definition start_failed :: "int \<Rightarrow> ContainerMetadata \<Rightarrow> ContainerMetadata" where
  "start_failed t cm = cm\<lparr>c_State := CONTAINER_EXITED, c_ExitCode := 1, c_FinishedAt := t div 1000000000,
     c_Reason := ''ContainerCannotRun''\<rparr>"

definition start_ok :: "int \<Rightarrow> ContainerMetadata \<Rightarrow> ContainerMetadata" where
  "start_ok t cm = cm\<lparr>c_State := CONTAINER_RUNNING, c_StartedAt := t, c_Reason := ''Start container ok''\<rparr>"

definition StartContainer :: "'w multicriService \<Rightarrow> string \<Rightarrow> 'w mstate \<Rightarrow> (unit reply \<times> 'w mstate) option" where
  "StartContainer V containerId s =
     (case ContainerStorage_Get containerId s of
        (_, Some e) \<Rightarrow> Some ((None, Some ''Container not found when starting it''), s)
      | (cp, None) \<Rightarrow> do {
          p \<leftarrow> cp;
          cm \<leftarrow> cells (ctrs s) p;
          (case Remote_StartContainer (sv_remoteCRI V) (s_RuntimeHandler (c_PodSandbox cm)) containerId s of
             ((Some r, err), s) \<Rightarrow> Some ((Some r, err), s)
           | ((None, _), s) \<Rightarrow>
               if c_State cm = CONTAINER_RUNNING then Some ((Some (), Some ''Container already started''), s)
               else if c_State cm \<noteq> CONTAINER_CREATED then Some ((Some (), Some ''Container failed''), s)
               else do {
                 (err, s) \<leftarrow> ad_StartContainer (sv_adapter V) p s;
                 let (t, s) = now (sv_go V) s;
                 s \<leftarrow> update_container p (if err \<noteq> None then start_failed t else start_ok t) s;
                 s \<leftarrow> ContainerStorage_Update p s;
                 Some ((if err \<noteq> None then None else Some (), err), s)
               })
        })"

definition StopContainer :: "'w multicriService \<Rightarrow> string \<Rightarrow> 'w mstate \<Rightarrow> (unit reply \<times> 'w mstate) option" where
  "StopContainer V containerId s = do {
     let (cp, errGet) = ContainerStorage_Get containerId s;
     runtimeClass \<leftarrow> container_handler cp s;
     (case Remote_StopContainer (sv_remoteCRI V) runtimeClass containerId s of
        ((Some r, err), s) \<Rightarrow> Some ((Some r, err), s)
      | ((None, _), s) \<Rightarrow>
          (case errGet of
             Some e \<Rightarrow> Some ((None, Some e), s)
           | None \<Rightarrow> do {
               p \<leftarrow> cp;
               cm \<leftarrow> cells (ctrs s) p;
               if c_State cm \<noteq> CONTAINER_RUNNING then Some ((Some (), None), s)
               else do {
                 (err, s) \<leftarrow> ad_StopContainer (sv_adapter V) p s;
                 (case err of
                    Some e \<Rightarrow> Some ((None, Some e), s)
                  | None \<Rightarrow> do {
                      let (t, s) = now (sv_go V) s;
                      s \<leftarrow> update_container p (\<lambda>cm. cm\<lparr>c_State := CONTAINER_EXITED, c_FinishedAt := t\<rparr>) s;
                      s \<leftarrow> ContainerStorage_Update p s;
                      Some ((Some (), None), s)
                    })
               }
             }))
   }"

text \<open>A request without a filter panics.\<close>

definition ListContainers ::
    "'w multicriService \<Rightarrow> ContainerFilter option \<Rightarrow> 'w mstate \<Rightarrow> (K8sContainer list reply \<times> 'w mstate) option" where
  "ListContainers V filt s = do {
     f \<leftarrow> filt;
     containers \<leftarrow> ContainerStorage_ListK8s (cf_Id f) (cf_PodSandboxId f) (cf_LabelSelector f) (cf_State f)
        (MulticriRuntimeName (sv_remoteCRI V)) s;
     Some (case Remote_ListContainers (sv_remoteCRI V) filt s of
        (Inl e, s) \<Rightarrow> ((None, Some e), s)
      | (Inr remoteContainers, s) \<Rightarrow> ((Some (containers @ remoteContainers), None), s))
   }"

definition RemoveContainer :: "'w multicriService \<Rightarrow> string \<Rightarrow> 'w mstate \<Rightarrow> (unit reply \<times> 'w mstate) option" where
  "RemoveContainer V containerId s = do {
     let (cp, errGet) = ContainerStorage_Get containerId s;
     runtimeClass \<leftarrow> container_handler cp s;
     (case Remote_RemoveContainer (sv_remoteCRI V) runtimeClass containerId s of
        ((_, Some e), s) \<Rightarrow> Some ((None, Some e), s)
      | ((response, None), s) \<Rightarrow> do {
          (early, s) \<leftarrow> (if response = None then
              (case errGet of
                 Some e \<Rightarrow> Some (Some (None, Some e), s)
               | None \<Rightarrow> do {
                   p \<leftarrow> cp;
                   cm \<leftarrow> cells (ctrs s) p;
                   if c_State cm = CONTAINER_RUNNING then
                     Some (Some (Some (), Some (sprintf ''Running containers can not be deleted %s'' [containerId])), s)
                   else do {
                     (err, s) \<leftarrow> ad_ReopenContainerLog (sv_adapter V) p s;
                     Some (map_option (\<lambda>e. (None, Some e)) err, s)
                   }
                 })
            else Some (None, s));
          (case early of
             Some r \<Rightarrow> Some (r, s)
           | None \<Rightarrow> do {
               p \<leftarrow> cp;
               cm \<leftarrow> cells (ctrs s) p;
               s \<leftarrow> SandboxStorage_RemoveContainer (s_ID (c_PodSandbox cm)) containerId s;
               Some ((Some (), None), s)
             })
        })
   }"

definition manageContainerError :: "error \<Rightarrow> ContainerMetadata \<Rightarrow> ContainerMetadata" where
  "manageContainerError e cm = cm\<lparr>c_State := CONTAINER_EXITED, c_ExitCode := 1, c_Reason := e\<rparr>"

definition ContainerStatus ::
    "'w multicriService \<Rightarrow> string \<Rightarrow> 'w mstate \<Rightarrow> (K8sContainerStatus reply \<times> 'w mstate) option" where
  "ContainerStatus V containerId s = do {
     let (cp, errGet) = ContainerStorage_Get containerId s;
     runtimeClass \<leftarrow> container_handler cp s;
     (case Remote_ContainerStatus (sv_remoteCRI V) runtimeClass containerId s of
        ((_, Some e), s) \<Rightarrow> Some ((None, Some e), s)
      | ((Some r, None), s) \<Rightarrow> Some ((Some r, None), s)
      | ((None, None), s) \<Rightarrow> do {
          p \<leftarrow> cp;
          cm \<leftarrow> cells (ctrs s) p;
          s \<leftarrow> (if c_State cm \<noteq> CONTAINER_EXITED then do {
              (err, s) \<leftarrow> ad_ContainerStatus (sv_adapter V) p s;
              (case err of Some e \<Rightarrow> update_container p (manageContainerError e) s | None \<Rightarrow> Some s)
            } else Some s);
          s \<leftarrow> ContainerStorage_Update p s;
          cm \<leftarrow> cells (ctrs s) p;
          containerStatus \<leftarrow> GetK8sContainerStatus (imgs s) cm;
          Some ((Some containerStatus, None), s)
        })
   }"

definition container_stats :: "K8sContainer \<Rightarrow> ContainerStats" where
  "container_stats c = \<lparr>st_Id = kc_Id c, st_Metadata = kc_Metadata c, st_Labels = kc_Labels c,
     st_Annotations = kc_Annotations c\<rparr>"

definition ListContainerStats ::
    "'w multicriService \<Rightarrow> ContainerFilter option \<Rightarrow> 'w mstate \<Rightarrow> (ContainerStats list reply \<times> 'w mstate) option" where
  "ListContainerStats V filt s = do {
     f \<leftarrow> filt;
     if snd (SandboxStorage_Get (cf_PodSandboxId f) s) \<noteq> None then
       Some ((None, Some ''Containers not found when listing them''), s)
     else do {
       cs \<leftarrow> ContainerStorage_ListK8s (cf_Id f) (cf_PodSandboxId f) (cf_LabelSelector f) None
          (MulticriRuntimeName (sv_remoteCRI V)) s;
       Some (case Remote_ListContainerStats (sv_remoteCRI V) filt s of
          (Inl e, s) \<Rightarrow> ((None, Some e), s)
        | (Inr remoteStats, s) \<Rightarrow> ((Some (map container_stats cs @ remoteStats), None), s))
     }
   }"

text \<open>For an unknown container the handlers below work on an empty one.\<close>

definition ContainerStats_handler ::
    "'w multicriService \<Rightarrow> string \<Rightarrow> 'w mstate \<Rightarrow> (ContainerStats reply \<times> 'w mstate) option" where
  "ContainerStats_handler V containerId s = do {
     container \<leftarrow> (case ContainerStorage_Get containerId s of
        (Some p, None) \<Rightarrow> cells (ctrs s) p | _ \<Rightarrow> Some zero_container);
     (case Remote_ContainerStats (sv_remoteCRI V) (s_RuntimeHandler (c_PodSandbox container)) containerId s of
        ((_, Some e), s) \<Rightarrow> Some ((None, Some e), s)
      | ((Some r, None), s) \<Rightarrow> Some ((Some r, None), s)
      | ((None, None), s) \<Rightarrow> do {
          c \<leftarrow> ParseToK8sContainer (imgs s) container;
          Some ((Some (container_stats c), None), s)
        })
   }"

definition UpdateContainerResources :: "'w multicriService \<Rightarrow> string \<Rightarrow> 'w mstate \<Rightarrow> (unit reply \<times> 'w mstate) option" where
  "UpdateContainerResources V containerId s = do {
     let (p, s) = (case ContainerStorage_Get containerId s of
        (Some p, None) \<Rightarrow> (p, s)
      | _ \<Rightarrow> (let (p, h) = alloc zero_container (ctrs s) in (p, s\<lparr>ctrs := h\<rparr>)));
     cm \<leftarrow> cells (ctrs s) p;
     let ((response, _), s) = Remote_UpdateContainerResources (sv_remoteCRI V) (s_RuntimeHandler (c_PodSandbox cm)) containerId s;
     (err, s) \<leftarrow> ad_UpdateContainerResources (sv_adapter V) p s;
     Some ((map_option (\<lambda>_. ()) response, err), s)
   }"

section \<open>exec.go\<close>

text \<open>The common body of the three streaming handlers.\<close>

definition exec_route ::
    "'w multicriService \<Rightarrow> string \<Rightarrow> ('w RemoteCRIObject \<Rightarrow> 'w \<Rightarrow> (error + 'a) \<times> 'w) \<Rightarrow> (ptr \<Rightarrow> 'a reply) \<Rightarrow>
     'w mstate \<Rightarrow> ('a reply \<times> 'w mstate) option" where
  "exec_route V containerId remote local s =
     (case ContainerStorage_Get containerId s of
        (_, Some e) \<Rightarrow> Some ((None, Some ''Container not found when execute sync command it''), s)
      | (cp, None) \<Rightarrow> do {
          p \<leftarrow> cp;
          container \<leftarrow> cells (ctrs s) p;
          (case GetRemoteRuntime (sv_remoteCRI V) (s_RuntimeHandler (c_PodSandbox container)) of
             Inl e \<Rightarrow> Some ((None, Some e), s)
           | Inr (Some remoteRuntime) \<Rightarrow> Some (remote_call (remote remoteRuntime) s)
           | Inr None \<Rightarrow>
               if c_State container \<noteq> CONTAINER_RUNNING then Some ((None, Some ''Container is not started''), s)
               else Some (local p, s))
        })"

definition Attach :: "'w multicriService \<Rightarrow> string \<Rightarrow> 'w mstate \<Rightarrow> (string reply \<times> 'w mstate) option" where
  "Attach V containerId s =
     exec_route V containerId (\<lambda>c. rc_Attach c containerId) (ad_Attach (sv_adapter V)) s"

definition Exec :: "'w multicriService \<Rightarrow> string \<Rightarrow> 'w mstate \<Rightarrow> (string reply \<times> 'w mstate) option" where
  "Exec V containerId s = exec_route V containerId (\<lambda>c. rc_Exec c containerId) (ad_Exec (sv_adapter V)) s"

definition ExecSync ::
    "'w multicriService \<Rightarrow> string \<Rightarrow> string list \<Rightarrow> 'w mstate \<Rightarrow> (ExecSyncResponse reply \<times> 'w mstate) option" where
  "ExecSync V containerId cmd s =
     exec_route V containerId (\<lambda>c. rc_ExecSync c containerId cmd) (\<lambda>p. ad_ExecSync (sv_adapter V) p cmd) s"

section \<open>The handlers keep the invariant\<close>

lemma ContainerGet_cases:
  obtains (found) p where "ContainerStorage_Get k s = (Some p, None)" "mget (ContainerPool s) k = Some p"
  | (missing) e where "ContainerStorage_Get k s = (None, Some e)" "mget (ContainerPool s) k = None"
  by (rule container_store.get_cases [of k s]) auto

lemma GetByID_in_pool:
  assumes "Inv V s" and "ImageStorage_GetByID img s = Some (ip, None)"
  shows "\<exists>q. ip = Some q \<and> cells (imgs s) q \<noteq> None"
proof -
  obtain r where r: "find_image (image_matches img) (imgs s) (ImagePool s) = Some r" "image_result r = (ip, None)"
    using assms(2) by (auto simp: ImageStorage_GetByID_def bind_eq_Some_conv)
  then obtain q where q: "r = Some q" "ip = Some q" by (cases r) (auto simp: image_result_def)
  with find_image_Some [of "image_matches img" "imgs s" "ImagePool s" q] r(1) show ?thesis by auto
qed

lemma GetByID_result: "ImageStorage_GetByID img s = Some (ip, err) \<Longrightarrow> (ip = None) = (err \<noteq> None)"
  by (auto simp: ImageStorage_GetByID_def image_result_def bind_eq_Some_conv split: option.splits)

lemma remove_container_evolves:
  assumes "SandboxStorage_RemoveContainer k cid s = Some t"
  shows "evolves V s t"
proof (cases "mget (SandboxPool s) k")
  case None
  with assms show ?thesis by (simp add: SandboxStorage_RemoveContainer_def)
next
  case (Some p)
  then obtain sm cs where sm: "cells (sbxs s) p = Some sm" and cs: "remove_container_id cid (s_Containers sm) = Some cs"
    using assms by (auto simp: SandboxStorage_RemoveContainer_def bind_eq_Some_conv)
  let ?sm = "sm\<lparr>s_Containers := cs\<rparr>"
  let ?u = "s\<lparr>SandboxPool := mset_key (s_ID sm) p (SandboxPool s)\<rparr>"
  let ?v = "?u\<lparr>sbxs := assign p ?sm (sbxs ?u)\<rparr>"
  have u: "evolves V s ?u"
    using sm pool_wf_put [of s_ID "sbxs s" "SandboxPool s" p sm]
    by (auto simp: evolves_def Inv_def state_wf_def no_netns_def images_ok_def exited_def)
  have v: "evolves V ?u ?v" by (rule ev_assign_sandbox) (use sm in simp_all)
  have "SandboxStorage_Update p ?v = Some t"
    using assms Some sm cs by (simp add: SandboxStorage_RemoveContainer_def SandboxStorage_Update_def Let_def)
  from evolves_trans [OF evolves_trans [OF u v] ev_sandbox_Update [OF this]] show ?thesis .
qed

lemma create_local_effect:
  assumes A: "adapter (sv_adapter V)" and run: "create_local V req sp s = Some (Inr p, t)"
    and sb: "cells (sbxs s) sp = Some sandbox"
  shows "sbxs t = sbxs s \<and> SandboxPool t = SandboxPool s
    \<and> (\<exists>cm. cells (ctrs t) p = Some cm \<and> c_State cm = CONTAINER_CREATED \<and> c_PodSandbox cm = sandbox \<and> c_Image cm \<noteq> None
        \<and> (\<forall>j. mget (ContainerPool t) j = (if j = c_ID cm then Some p else mget (ContainerPool s) j)))"
proof -
  obtain config name ip createdAt s1 envs port s2 s3 cm q s4 where n: "now (sv_go V) s = (createdAt, s1)"
    and c: "ContainerStorage_CreateContainerMetadata (sv_go V) name (Some sp) CONTAINER_CREATED createdAt ip
          (cc_Command config) (cc_Args config) True config envs port None s1 = Some (p, s2)"
    and ad: "ad_CreateContainer (sv_adapter V) p s2 = Some (None, s3)"
    and cm: "cells (ctrs s3) p = Some cm" "c_Image cm = Some q"
    and up: "ImageStorage_Update q s3 = Some s4" "ContainerStorage_Update p s4 = Some t"
    using run by (auto simp: create_local_def bind_eq_Some_conv Let_def split: prod.splits if_splits option.splits)
  have s1: "same_stores s s1" by (rule now_same [OF n])
  obtain cm0 where c0: "cells (ctrs s2) p = Some cm0" "c_PodSandbox cm0 = sandbox" "c_State cm0 = CONTAINER_CREATED"
    "ContainerPool s2 = mset_key (c_ID cm0) p (ContainerPool s)" "sbxs s2 = sbxs s"
    by (rule CreateContainerMetadata_effect [OF c]) (use s1 sb in \<open>auto simp: same_stores_def\<close>)
  have pool2: "SandboxPool s2 = SandboxPool s" using create_metadata_pods [OF c] s1 by (simp add: same_stores_def)
  note st = keepsD [OF adapter.create_container [OF A] ad]
  note f = steady_adapter_frame [OF st]
  obtain cm' where "cells (ctrs s3) p = Some cm'" "same_container cm0 cm'" by (rule adapter_frame_container [OF f c0(1)])
  with cm have same: "same_container cm0 cm" by simp
  have state: "c_State cm = CONTAINER_CREATED" using steady_state [OF st c0(1) cm(1)] c0(3) by simp
  have s4: "ctrs s4 = ctrs s3" "ContainerPool s4 = ContainerPool s3" "sbxs s4 = sbxs s3" "SandboxPool s4 = SandboxPool s3"
    using image_Update_others [OF up(1)] by simp_all
  have t: "ctrs t = ctrs s4" "sbxs t = sbxs s4" "SandboxPool t = SandboxPool s4"
    using container_store.put_heap [OF up(2)] container_Update_pods [OF up(2)] by simp_all
  have s3: "ContainerPool s3 = ContainerPool s2" "sbxs s3 = sbxs s2" "SandboxPool s3 = SandboxPool s2"
    using f by (simp_all add: adapter_frame_def)
  have ids: "c_ID cm0 = c_ID cm" "c_PodSandbox cm = sandbox" using same c0(2) by (simp_all add: same_container_def)
  have "mget (ContainerPool t) j = (if j = c_ID cm then Some p else mget (ContainerPool s) j)" for j
    using container_store.put_lookup [OF up(2), of cm j] cm(1) s4(1,2) s3(1) c0(4) ids(1) by (simp add: mget_update)
  with t s4 s3 c0(5) pool2 cm state ids(2) show ?thesis by simp
qed

context runtime
begin

lemma ReopenContainerLog_evolves: "keeps (evolves V) s (ReopenContainerLog V k s)"
  unfolding ReopenContainerLog_def Remote_ReopenContainerLog_def
  by (rule ev_rules keeps_bind_pure | erule route_evolves | simp add: ev_steady [OF reopen_log]; fail)+

lemma create_local_evolves:
  "keeps (evolves V) s (create_local V req sp s)"
proof (rule ev_inv)
  assume inv: "Inv V s"
  have held: "\<exists>q. ip = Some q \<and> cells (imgs u) q \<noteq> None"
    if "ImageStorage_GetByID img s = Some x" and "x = (ip, err)" and "\<not> err \<noteq> None" and "now (sv_go V) s = (k, u)" for img x ip err k u
    using GetByID_in_pool [OF inv, of img ip] now_same [OF that(4)] that(1-3) by (simp add: same_stores_def)
  show "keeps (evolves V) s (create_local V req sp s)"
    unfolding create_local_def
    by (rule ev_rules keeps_name ev_refile keeps_bind_pure
      | erule now_evolves
      | simp add: ev_steady [OF create_container]; fail
      | rule keepsI, erule ev_create_container, fastforce dest: held
      | erule filed_rules filed_created)+
qed

lemma create_remote_evolves:
  assumes "\<And>sandbox. cells (sbxs s) sp = Some sandbox \<Longrightarrow> \<exists>c. GetRemoteRuntime (sv_remoteCRI V) (s_RuntimeHandler sandbox) = Inr (Some c)"
  shows "keeps (evolves V) s (create_remote V req sp k s)"
  unfolding create_remote_def
  by (rule keeps_bind_pure, rule ev_bind, rule keepsI, erule ev_create_container)
    (use assms in auto)

lemma CreateContainer_evolves: "keeps (evolves V) s (CreateContainer V req s)"
proof -
  have remote: "keeps (evolves V) u (create_remote V req sp k u)"
    if "cells (sbxs s) sp = Some sandbox" and "route (sv_remoteCRI V) (s_RuntimeHandler sandbox) g s = ((x, e), u)" and "x = Some k"
    for sp sandbox k u g x e
    by (rule create_remote_evolves) (use that(2) in \<open>cases rule: routed; use that(1,3) in \<open>simp add: same_stores_def\<close>\<close>)
  have link: "keeps (evolves V) u (let s = u\<lparr>sbxs := assign sp sm' (sbxs u)\<rparr> in SandboxStorage_Update sp s \<bind> (\<lambda>s. Some (r, s)))"
    if "cells (sbxs u) sp = Some sm" and "s_ID sm' = s_ID sm" and "s_NetNSPath sm' = s_NetNSPath sm"
    for sp sm sm' r and u :: "'w mstate"
    unfolding Let_def
    by (rule ev_step [OF ev_assign_sandbox [OF that(1-3)]], rule ev_sandbox_bind) simp
  show ?thesis
    unfolding CreateContainer_def Remote_CreateContainer_def
    by (rule link, assumption, simp, simp
      | rule ev_rules keeps_bind_pure
      | erule route_evolves
      | rule create_local_evolves
      | rule remote, assumption, assumption, assumption
      | simp; fail)+
qed

lemma start_body_evolves:
  assumes "filed s p" and "\<not> exited s p"
  shows "keeps (evolves V) s (do {
                 (err, s) \<leftarrow> ad_StartContainer (sv_adapter V) p s;
                 let (t, s) = now (sv_go V) s;
                 s \<leftarrow> update_container p (if err \<noteq> None then start_failed t else start_ok t) s;
                 s \<leftarrow> ContainerStorage_Update p s;
                 Some ((if err \<noteq> None then None else Some (), err), s) })"
proof -
  have live: "c_State (f cm) = CONTAINER_EXITED"
    if "cells (ctrs u) p = Some cm" and "c_State cm = CONTAINER_EXITED" and "now L t = (k, u)"
      and "ad_StartContainer (sv_adapter V) p s = Some (e, t)" for u cm L t k e f
    using not_exited_later(2) [OF that(3) not_exited_started [OF that(4) assms(2)]] that(1,2) by (simp add: exited_def)
  show ?thesis
    by (rule keeps_do [OF transp_evolves] keeps_let [OF transp_evolves] ev_update_bind ev_refile
      | erule now_evolves
      | rule live, assumption, assumption, assumption, assumption
      | simp add: ev_steady [OF start_container] start_failed_def start_ok_def same_container_def; fail
      | erule filed_rules | rule assms(1))+
qed

lemma StartContainer_evolves: "keeps (evolves V) s (StartContainer V k s)"
proof -
  have live: "\<not> exited t p" if "route r h g s = (x, t)" and "cells (ctrs s) p = Some cm" and "\<not> c_State cm \<noteq> CONTAINER_CREATED"
    for r h g x t p cm
    by (rule not_exited_later(1) [OF that(1)]) (use that(2,3) in \<open>simp add: exited_def\<close>)
  show ?thesis
    unfolding StartContainer_def Remote_StartContainer_def
    by (rule start_body_evolves
      | rule ev_rules(1,5-) keeps_bind_pure
      | erule route_evolves
      | rule live, assumption, assumption, assumption
      | simp; fail
      | erule filed_rules | assumption)+
qed

lemma stop_body_evolves:
  assumes "filed s p"
  shows "keeps (evolves V) s (do {
                 (err, s) \<leftarrow> ad_StopContainer (sv_adapter V) p s;
                 (case err of
                    Some e \<Rightarrow> Some ((None, Some e), s)
                  | None \<Rightarrow> do {
                      let (t, s) = now (sv_go V) s;
                      s \<leftarrow> update_container p (\<lambda>cm. cm\<lparr>c_State := CONTAINER_EXITED, c_FinishedAt := t\<rparr>) s;
                      s \<leftarrow> ContainerStorage_Update p s;
                      Some ((Some (), None), s)
                    }) })"
  by (rule ev_rules ev_update_bind ev_refile
    | erule now_evolves
    | simp add: ev_steady [OF stop_container] same_container_def; fail
    | erule filed_rules | rule assms)+

lemma StopContainer_evolves: "keeps (evolves V) s (StopContainer V k s)"
  unfolding StopContainer_def Remote_StopContainer_def
  by (rule stop_body_evolves
    | rule ev_rules(1,5-) keeps_bind_pure
    | erule route_evolves
    | simp; fail
    | erule filed_rules | assumption)+

lemma RemoveContainer_evolves: "keeps (evolves V) s (RemoveContainer V k s)"
  unfolding RemoveContainer_def Remote_RemoveContainer_def
  by (rule keeps_pure(1) ev_rules ev_state [OF remove_container_evolves] keeps_bind_pure
    | erule route_evolves
    | assumption
    | simp add: ev_steady [OF reopen_log]; fail)+

lemma ContainerStatus_evolves: "keeps (evolves V) s (ContainerStatus V k s)"
proof -
  have refresh: "evolves V u v" "filed u p \<Longrightarrow> filed v p"
    if r: "(if c_State cm \<noteq> CONTAINER_EXITED then do {
              (err, s) \<leftarrow> ad_ContainerStatus (sv_adapter V) p u;
              (case err of Some e \<Rightarrow> update_container p (manageContainerError e) s | None \<Rightarrow> Some s)
            } else Some u) = Some v" and cm: "cells (ctrs u) p = Some cm" for u v p cm
  proof -
    have "evolves V u v \<and> (filed u p \<longrightarrow> filed v p)"
    proof (cases "c_State cm = CONTAINER_EXITED")
      case False
      then obtain err w where w: "ad_ContainerStatus (sv_adapter V) p u = Some (err, w)"
        and v: "(case err of Some e \<Rightarrow> update_container p (manageContainerError e) w | None \<Rightarrow> Some w) = Some v"
        using r by (auto simp: bind_eq_Some_conv)
      have "evolves V u w" by (rule ad_status_evolves [OF w]) (use False cm in \<open>simp add: exited_def\<close>)
      moreover have "evolves V w v"
        using v ev_update_container [of p _ w v V] by (cases err) (auto simp: same_container_def manageContainerError_def)
      ultimately show ?thesis
        using v filed_after_call(4) [OF w, of p] filed_later(3) [of p _ w v p] by (cases err) (auto intro: evolves_trans)
    qed (use r in simp)
    then show "evolves V u v" "filed u p \<Longrightarrow> filed v p" by blast+
  qed
  show ?thesis
    unfolding ContainerStatus_def Remote_ContainerStatus_def
    by (rule ev_state [OF refresh(1)], assumption, assumption
      | rule ev_rules(1,5-) ev_refile keeps_bind_pure
      | erule route_evolves
      | simp; fail
      | erule filed_rules | erule refresh(2), assumption | assumption)+
qed

lemma UpdateContainerResources_evolves: "keeps (evolves V) s (UpdateContainerResources V k s)"
proof -
  have tail: "keeps (evolves V) u (do {
     cm \<leftarrow> cells (ctrs u) p;
     let ((response, e), s) = Remote_UpdateContainerResources (sv_remoteCRI V) (s_RuntimeHandler (c_PodSandbox cm)) k u;
     (err, s) \<leftarrow> ad_UpdateContainerResources (sv_adapter V) p s;
     Some ((map_option (\<lambda>_. ()) response, err), s) })" for u :: "'w mstate" and p
  proof (rule keeps_bind_pure)
    fix cm
    obtain x e t where r: "Remote_UpdateContainerResources (sv_remoteCRI V) (s_RuntimeHandler (c_PodSandbox cm)) k u = ((x, e), t)"
      by (metis prod.exhaust)
    have t: "evolves V u t" using r by (auto simp: Remote_UpdateContainerResources_def intro: route_evolves)
    have "keeps (evolves V) t (do {
       (err, s) \<leftarrow> ad_UpdateContainerResources (sv_adapter V) p t;
       Some ((map_option (\<lambda>_. ()) x, err), s) })"
      by (rule ev_bind [OF ev_steady [OF update_resources]]) simp
    from ev_step [OF t this] r
    show "keeps (evolves V) u (let ((response, e), s) = Remote_UpdateContainerResources (sv_remoteCRI V) (s_RuntimeHandler (c_PodSandbox cm)) k u
      in do {
       (err, s) \<leftarrow> ad_UpdateContainerResources (sv_adapter V) p s;
       Some ((map_option (\<lambda>_. ()) response, err), s) })" by simp
  qed
  obtain p h where a: "alloc zero_container (ctrs s) = (p, h)" by (metis prod.exhaust)
  show ?thesis
  proof (rule ContainerGet_cases [of k s])
    fix q assume "ContainerStorage_Get k s = (Some q, None)"
    with tail [of s q] show ?thesis by (simp add: UpdateContainerResources_def)
  next
    fix e assume "ContainerStorage_Get k s = (None, Some e)"
    with ev_step [OF ev_alloc_container [OF a] tail [of _ p]] a show ?thesis
      by (simp add: UpdateContainerResources_def)
  qed
qed

end

text \<open>The listings, statistics and streaming requests do not touch the stores.\<close>

lemma ListContainers_same: "keeps same_stores s (ListContainers V filt s)"
  unfolding ListContainers_def
  by (intro keeps_bind_pure keepsI)
    (auto simp: Remote_ListContainers_def dest!: collect_frame split: prod.splits sum.splits)

lemma ListContainerStats_same: "keeps same_stores s (ListContainerStats V filt s)"
  unfolding ListContainerStats_def
  by (intro keeps_bind_pure keeps_cases(3))
    (auto simp: keeps_def bind_eq_Some_conv Remote_ListContainerStats_def dest!: collect_frame split: prod.splits sum.splits)

lemma ContainerStats_same: "keeps same_stores s (ContainerStats_handler V k s)"
  unfolding ContainerStats_handler_def
  by (intro keeps_bind_pure)
    (auto simp: keeps_def bind_eq_Some_conv Remote_ContainerStats_def dest!: route_frame split: prod.splits option.splits)

lemma exec_route_same: "keeps same_stores s (exec_route V k remote local s)"
proof (rule ContainerGet_cases [of k s])
  fix p assume g: "ContainerStorage_Get k s = (Some p, None)"
  have "keeps same_stores s (case GetRemoteRuntime (sv_remoteCRI V) (s_RuntimeHandler (c_PodSandbox cm)) of
             Inl e \<Rightarrow> Some ((None, Some e), s)
           | Inr (Some remoteRuntime) \<Rightarrow> Some (remote_call (remote remoteRuntime) s)
           | Inr None \<Rightarrow>
               if c_State cm \<noteq> CONTAINER_RUNNING then Some ((None, Some ''Container is not started''), s)
               else Some (local p, s))" for cm
    by (auto simp: keeps_def dest: remote_call_frame split: sum.split option.split)
  then have "keeps same_stores s (cells (ctrs s) p \<bind> (\<lambda>cm. case GetRemoteRuntime (sv_remoteCRI V) (s_RuntimeHandler (c_PodSandbox cm)) of
             Inl e \<Rightarrow> Some ((None, Some e), s)
           | Inr (Some remoteRuntime) \<Rightarrow> Some (remote_call (remote remoteRuntime) s)
           | Inr None \<Rightarrow>
               if c_State cm \<noteq> CONTAINER_RUNNING then Some ((None, Some ''Container is not started''), s)
               else Some (local p, s)))"
    by (rule keeps_bind_pure)
  with g show ?thesis by (simp add: exec_route_def)
qed (simp add: exec_route_def)

end
