(* ===== verification/Runtime_Image.thy ===== *)
theory Runtime_Image
  imports Invariant
begin

text \<open>
  \<open>pkg/cri/runtime/image.go\<close>: the image requests, with \<open>ensureImageExists\<close> of
  \<open>helpers.go\<close>.  The remote part of a request may shorten the image's name; the local
  part goes on with the shortened name.
\<close>

section \<open>Handlers\<close>

definition pull_created :: "'w multicriService \<Rightarrow> ptr \<Rightarrow> 'w mstate \<Rightarrow> (string reply \<times> 'w mstate) option" where
  "pull_created V p s = do {
     im \<leftarrow> cells (imgs s) p;
     let (err, im) = ParseImage im;
     let s = s\<lparr>imgs := assign p im (imgs s)\<rparr>;
     if err \<noteq> None then Some ((None, err), s)
     else do {
       (err, s) \<leftarrow> ad_PullImage (sv_adapter V) p s;
       im \<leftarrow> cells (imgs s) p;
       if err \<noteq> None then Some ((Some [], err), ImageStorage_Remove (i_ID im) s)
       else do {
         s \<leftarrow> ImageStorage_Update p s;
         Some ((Some (i_RemotePath im), None), s)
       }
     }
   }"

definition pull_local ::
    "'w multicriService \<Rightarrow> PullImageRequest \<Rightarrow> 'w mstate \<Rightarrow> (string reply \<times> 'w mstate) option" where
  "pull_local V req s = do {
     ((p, err), s) \<leftarrow> ImageStorage_CreateImageMetadata (sv_go V) req s;
     if err \<noteq> None then Some ((None, err), s) else pull_created V p s
   }"

definition PullImage ::
    "'w multicriService \<Rightarrow> PullImageRequest \<Rightarrow> 'w mstate \<Rightarrow> (string reply \<times> 'w mstate) option" where
  "PullImage V req s = do {
     (((response, err), req), s) \<leftarrow> Remote_PullImage (sv_remoteCRI V) req s;
     if response \<noteq> None then Some ((response, err), s)
     else if err \<noteq> None then Some ((None, err), s)
     else pull_local V req s
   }"

text \<open>The error of the remote runtimes is overwritten; their list is then empty.\<close>

definition ListImages ::
    "'w multicriService \<Rightarrow> string option \<Rightarrow> 'w mstate \<Rightarrow> (K8sImage list reply \<times> 'w mstate) option" where
  "ListImages V filt s = do {
     (images, s) \<leftarrow> ImageStorage_ListK8s filt s;
     let (remoteList, s) = Remote_ListImages (sv_remoteCRI V) filt s;
     let images = images @ (case remoteList of Inl e \<Rightarrow> [] | Inr l \<Rightarrow> l);
     (err, s) \<leftarrow> ad_ListImages (sv_adapter V) images s;
     Some ((if err \<noteq> None then None else Some images, err), s)
   }"

definition image_status_local ::
    "'w multicriService \<Rightarrow> string \<Rightarrow> 'w mstate \<Rightarrow> (K8sImage option reply \<times> 'w mstate) option" where
  "image_status_local V img s = do {
     (ip, err) \<leftarrow> ImageStorage_GetByID img s;
     if err \<noteq> None then Some ((Some None, None), s)
     else do {
       p \<leftarrow> ip;
       (err, s) \<leftarrow> ad_ImageStatus (sv_adapter V) p s;
       if err \<noteq> None then Some ((None, err), s)
       else do {
         im \<leftarrow> cells (imgs s) p;
         Some ((Some (Some (ParseToK8sImage im)), None), s)
       }
     }
   }"

definition ImageStatus_handler ::
    "'w multicriService \<Rightarrow> string option \<Rightarrow> 'w mstate \<Rightarrow> (K8sImage option reply \<times> 'w mstate) option" where
  "ImageStatus_handler V req s = do {
     (((response, err), img), s) \<leftarrow> Remote_ImageStatus (sv_remoteCRI V) req s;
     if response \<noteq> None then Some ((response, err), s)
     else if err \<noteq> None then Some ((None, err), s)
     else image_status_local V img s
   }"

definition remove_image_local ::
    "'w multicriService \<Rightarrow> string \<Rightarrow> 'w mstate \<Rightarrow> (unit reply \<times> 'w mstate) option" where
  "remove_image_local V img s = do {
     (ip, err) \<leftarrow> ImageStorage_GetByID img s;
     if err \<noteq> None then Some ((None, Some ''Image not found''), s)
     else do {
       p \<leftarrow> ip;
       (err, s) \<leftarrow> ad_RemoveImage (sv_adapter V) p s;
       if err \<noteq> None then Some ((None, err), s)
       else do {
         im \<leftarrow> cells (imgs s) p;
         Some ((Some (), None), ImageStorage_Remove (i_ID im) s)
       }
     }
   }"

definition RemoveImage ::
    "'w multicriService \<Rightarrow> string option \<Rightarrow> 'w mstate \<Rightarrow> (unit reply \<times> 'w mstate) option" where
  "RemoveImage V req s = do {
     (((response, err), img), s) \<leftarrow> Remote_RemoveImage (sv_remoteCRI V) req s;
     if response \<noteq> None then Some ((response, err), s)
     else if err \<noteq> None then Some ((None, err), s)
     else remove_image_local V img s
   }"

definition ImageFsInfo ::
    "'w multicriService \<Rightarrow> 'w mstate \<Rightarrow> (ImageFsInfoResponse reply \<times> 'w mstate) option" where
  "ImageFsInfo V s =
     (case GetRemoteRuntime (sv_remoteCRI V) ''default'' of
        Inl e \<Rightarrow> Some ((None, Some e), s)
      | Inr (Some remoteRuntime) \<Rightarrow> Some (remote_call (rc_ImageFsInfo remoteRuntime) s)
      | Inr None \<Rightarrow> ad_ImageFsInfo (sv_adapter V) s)"

definition ensureImageExists ::
    "'w multicriService \<Rightarrow> string \<Rightarrow> 'w mstate \<Rightarrow> (ptr reply \<times> 'w mstate) option" where
  "ensureImageExists V ref s = do {
     (ip, err) \<leftarrow> ImageStorage_GetByPath ref s;
     (case err of
        Some e \<Rightarrow> Some ((None, Some (sprintf ''failed to resolve image %s: %s'' [quote ref, e])), s)
      | None \<Rightarrow>
          if ip \<noteq> None then Some ((ip, None), s)
          else do {
            ((resp, err), s) \<leftarrow> PullImage V \<lparr>pr_Image = Some ref, pr_Auth = None\<rparr> s;
            (case err of
               Some e \<Rightarrow> Some ((None, Some (sprintf ''failed to pull image %s: %s'' [quote ref, e])), s)
             | None \<Rightarrow> do {
                 let imageID = (case resp of None \<Rightarrow> [] | Some r \<Rightarrow> r);
                 (newImage, err) \<leftarrow> ImageStorage_Get imageID s;
                 Some (case err of
                    Some e \<Rightarrow> ((None, Some (sprintf ''failed to get image %s metadata after pulling: %s'' [quote imageID, e])), s)
                  | None \<Rightarrow> ((newImage, None), s))
               })
          })
   }"

section \<open>What the image requests keep\<close>

lemma ev_image_heap:
  assumes "pool_wf i_ID (imgs s) (ImagePool s) \<Longrightarrow> pool_wf i_ID h (ImagePool s)"
    and "\<And>p. cells (imgs s) p \<noteq> None \<Longrightarrow> cells h p \<noteq> None"
  shows "evolves (V :: 'w multicriService) s (s\<lparr>imgs := h\<rparr>)"
proof -
  have "image_held r (imgs s) cm \<Longrightarrow> image_held r h cm" for r :: "'w remotes" and cm
    by (rule image_held_mono [OF assms(2)])
  then have "images_ok r s \<Longrightarrow> images_ok r (s\<lparr>imgs := h\<rparr>)" for r :: "'w remotes"
    by (auto simp: images_ok_def)
  with assms(1) show ?thesis
    by (simp add: evolves_def Inv_def state_wf_def no_netns_def exited_def)
qed

lemma Remote_PullImage_same: "keeps same_stores s (Remote_PullImage r req s)"
proof (cases "pr_Image req")
  case (Some img)
  obtain c n where g: "getImageManager r img = (c, n)" by (metis prod.exhaust)
  show ?thesis
  proof (cases c)
    case c: (Some v)
    obtain x t where x: "remote_call (rc_PullImage v (req\<lparr>pr_Image := Some n\<rparr>)) s = (x, t)" by (metis prod.exhaust)
    with remote_call_frame [of "rc_PullImage v (req\<lparr>pr_Image := Some n\<rparr>)" s x t] Some g c
    show ?thesis by (simp add: Remote_PullImage_def Let_def)
  qed (simp add: Remote_PullImage_def Some g Let_def)
qed (simp add: Remote_PullImage_def)

lemma Remote_ImageStatus_same: "keeps same_stores s (Remote_ImageStatus r req s)"
proof (cases req)
  case (Some img)
  obtain c n where g: "getImageManager r img = (c, n)" by (metis prod.exhaust)
  show ?thesis
  proof (cases c)
    case c: (Some v)
    obtain x t where x: "remote_call (rc_ImageStatus v n) s = (x, t)" by (metis prod.exhaust)
    with remote_call_frame [of "rc_ImageStatus v n" s x t] Some g c
    show ?thesis by (simp add: Remote_ImageStatus_def)
  qed (simp add: Remote_ImageStatus_def Some g)
qed (simp add: Remote_ImageStatus_def)

lemma Remote_RemoveImage_same: "keeps same_stores s (Remote_RemoveImage r req s)"
proof (cases req)
  case (Some img)
  obtain c n where g: "getImageManager r img = (c, n)" by (metis prod.exhaust)
  show ?thesis
  proof (cases c)
    case c: (Some v)
    obtain x t where x: "remote_call (rc_RemoveImage v n) s = (x, t)" by (metis prod.exhaust)
    with remote_call_frame [of "rc_RemoveImage v n" s x t] Some g c
    show ?thesis by (simp add: Remote_RemoveImage_def)
  qed (simp add: Remote_RemoveImage_def Some g)
qed (simp add: Remote_RemoveImage_def)

lemma GetByPath_result: "ImageStorage_GetByPath ref s = Some (ip, err) \<Longrightarrow> (ip = None) = (err \<noteq> None)"
  by (auto simp: ImageStorage_GetByPath_def image_result_def bind_eq_Some_conv split: option.splits)

text \<open>So the pull in \<open>ensureImageExists\<close> is never reached.\<close>

lemma ensureImageExists_pure:
  "ensureImageExists V ref s = map_option (\<lambda>(ip, err). (case err of
      Some e \<Rightarrow> (None, Some (sprintf ''failed to resolve image %s: %s'' [quote ref, e]))
    | None \<Rightarrow> (ip, None), s)) (ImageStorage_GetByPath ref s)"
proof (cases "ImageStorage_GetByPath ref s")
  case (Some x)
  obtain ip err where x: "x = (ip, err)" by (cases x)
  with GetByPath_result [of ref s ip err] Some show ?thesis
    by (cases err) (simp_all add: ensureImageExists_def)
qed (simp add: ensureImageExists_def)

text \<open>
  The image requests touch images only.  So they keep every transitive relation that ignores
  what adapters may do, any growth of the heap of images and any well-formed change of their
  pool: the invariant is one, the frame of the other two stores another.
\<close>

locale image_requests = runtime V for V :: "'w multicriService" +
  fixes R :: "'w mstate \<Rightarrow> 'w mstate \<Rightarrow> bool"
  assumes R_trans: "transp R"
    and R_steady: "steady s t \<Longrightarrow> R s t"
    and R_heap: "(pool_wf i_ID (imgs s) (ImagePool s) \<Longrightarrow> pool_wf i_ID h (ImagePool s)) \<Longrightarrow>
      (\<And>p. cells (imgs s) p \<noteq> None \<Longrightarrow> cells h p \<noteq> None) \<Longrightarrow> R s (s\<lparr>imgs := h\<rparr>)"
    and R_pool: "(pool_wf i_ID (imgs s) (ImagePool s) \<Longrightarrow> pool_wf i_ID (imgs s) m) \<Longrightarrow> R s (s\<lparr>ImagePool := m\<rparr>)"
begin

lemmas R_step = keeps_step [OF R_trans]
lemmas R_bind = keeps_bind [OF R_trans]

lemma R_comp: "R s t \<Longrightarrow> R t u \<Longrightarrow> R s u"
  using R_trans by (blast dest: transpD)

lemma R_refl [simp]: "R s s"
  by (rule R_steady) simp

lemma R_store: "same_stores s t \<Longrightarrow> R s t"
  by (rule R_steady [OF same_stores_steady])

lemma R_keeps: "keeps steady s m \<Longrightarrow> keeps R s m"
  by (auto simp: keeps_def intro: R_steady)

lemma R_keeps_store: "keeps same_stores s m \<Longrightarrow> keeps R s m"
  by (auto simp: keeps_def intro: R_store)

lemma R_assign:
  assumes "cells (imgs s) p = Some im" and "i_ID im' = i_ID im"
  shows "R s (s\<lparr>imgs := assign p im' (imgs s)\<rparr>)"
  by (rule R_heap) (use pool_wf_assign [OF _ assms] in \<open>auto split: if_splits\<close>)

lemma R_alloc:
  assumes "alloc im (imgs s) = (p, h)"
  shows "R s (s\<lparr>imgs := h\<rparr>)"
  by (rule R_heap)
    (use assms cells_alloc [OF assms] pool_wf_alloc [of i_ID "imgs s" "ImagePool s" im] in auto)

lemma R_Update:
  assumes "ImageStorage_Update p s = Some t"
  shows "R s t"
proof -
  obtain im where im: "cells (imgs s) p = Some im" using image_store.put_object [OF assms] by blast
  let ?u = "s\<lparr>ImagePool := mset_key (i_ID im) p (ImagePool s)\<rparr>"
  have t: "t = ImageStorage_persist_Put im ?u" using assms im by (simp add: ImageStorage_Update_def)
  have "R s ?u" by (rule R_pool) (use im pool_wf_put [of i_ID "imgs s" "ImagePool s" p im] in simp)
  moreover have "R ?u t" unfolding t by (rule R_store [OF persist_image_same])
  ultimately show ?thesis by (rule R_comp)
qed

lemma R_remove: "R s (ImageStorage_remove k s)"
proof -
  let ?u = "s\<lparr>ImagePool := mdel k (ImagePool s)\<rparr>"
  have "R s ?u" by (rule R_pool) (rule pool_wf_del)
  moreover have "R ?u (ImageStorage_remove k s)"
    by (auto simp: ImageStorage_remove_def Let_def frame_simps intro!: R_store split: option.split)
  ultimately show ?thesis by (rule R_comp)
qed

lemma R_Remove: "R s (ImageStorage_Remove k s)"
  by (simp add: ImageStorage_Remove_def R_remove)

lemma R_Update_bind:
  "(\<And>t. ImageStorage_Update p s = Some t \<Longrightarrow> keeps R t (f t)) \<Longrightarrow>
   keeps R s (Option.bind (ImageStorage_Update p s) f)"
  by (cases "ImageStorage_Update p s") (auto intro: R_step R_Update)

lemma R_Add:
  assumes "ImageStorage_Add p s = Some (e, t)"
  shows "R s t"
proof -
  obtain im where im: "cells (imgs s) p = Some im"
    using assms by (auto simp: ImageStorage_Add_def bind_eq_Some_conv)
  show ?thesis
  proof (cases "mget (ImagePool s) (i_ID im)")
    case None
    then have "ImageStorage_Update p s = Some t"
      using assms im by (simp add: ImageStorage_Add_def ImageStorage_Update_def Let_def)
    then show ?thesis by (rule R_Update)
  next
    case (Some q)
    with assms im show ?thesis by (simp add: ImageStorage_Add_def)
  qed
qed

lemma R_create:
  assumes "ImageStorage_CreateImageMetadata L req s = Some ((p, e), t)"
  shows "R s t"
proof -
  obtain k s1 where k: "new_uuid L s = (k, s1)" by (metis prod.exhaust)
  obtain remote where remote: "pr_Image req = Some remote"
    using assms k by (auto simp: ImageStorage_CreateImageMetadata_def bind_eq_Some_conv)
  let ?im = "zero_image\<lparr>i_RemotePath := remote, i_ID := k,
     i_Auth := (case pr_Auth req of None \<Rightarrow> zero_auth | Some a \<Rightarrow> a), i_LocalPath := basePath s1 @ ''/.images''\<rparr>"
  obtain q h where a: "alloc ?im (imgs s1) = (q, h)" by (metis prod.exhaust)
  have "\<exists>x. ImageStorage_Add q (s1\<lparr>imgs := h\<rparr>) = Some (x, t)"
    using assms k remote a by (auto simp: ImageStorage_CreateImageMetadata_def bind_eq_Some_conv Let_def)
  then obtain x where add: "ImageStorage_Add q (s1\<lparr>imgs := h\<rparr>) = Some (x, t)" by blast
  show ?thesis by (rule R_comp [OF R_comp [OF R_store [OF new_uuid_same [OF k]] R_alloc [OF a]] R_Add [OF add]])
qed

lemma list_images_keeps: "keeps R s (list_images filt m s)"
proof (induction filt m s rule: list_images.induct)
  case (2 filt k p m s)
  show ?case
  proof (cases "cells (imgs s) p")
    case None
    then show ?thesis by simp
  next
    case (Some im)
    let ?wanted = "case filt of None \<Rightarrow> True | Some f \<Rightarrow> i_RemotePath im = f \<or> digestInImage (i_RepoDigest im) f"
    note IH = "2.IH" [OF Some refl]
    show ?thesis
    proof (cases "?wanted")
      case False
      then have "list_images filt ((k, p) # m) s = list_images filt m s" using Some by simp
      with IH(3) [OF False] show ?thesis by simp
    next
      case w: True
      show ?thesis
      proof (cases "CheckFileExist (i_LocalPath im) (files s)")
        case False
        then have "list_images filt ((k, p) # m) s = list_images filt m (ImageStorage_remove (i_ID im) s)"
          using Some w by simp
        with R_step [OF R_remove IH(1) [OF w False]] show ?thesis by simp
      next
        case True
        then have eq: "list_images filt ((k, p) # m) s = do { (rest, s) \<leftarrow> list_images filt m s; Some (ParseToK8sImage im # rest, s) }"
          using Some w by simp
        have "keeps R s (list_images filt m s)" using IH(2) [OF w] True by simp
        then have "keeps R s (do { (rest, s) \<leftarrow> list_images filt m s; Some (ParseToK8sImage im # rest, s) })"
          by (rule R_bind) simp
        with eq show ?thesis by simp
      qed
    qed
  qed
qed simp

lemma ListK8s_images_keeps: "keeps R s (ImageStorage_ListK8s filt s)"
  unfolding ImageStorage_ListK8s_def by (rule list_images_keeps)

text \<open>What remains after the remote part of an image request: its local part.\<close>

lemma image_request:
  assumes "keeps same_stores s m" and "\<And>img t. keeps R t (local img t)"
  shows "keeps R s (do {
     (((response, err), img), s) \<leftarrow> m;
     if response \<noteq> None then Some ((response, err), s)
     else if err \<noteq> None then Some ((None, err), s)
     else local img s })"
  by (rule R_bind [OF R_keeps_store [OF assms(1)]]) (simp add: assms(2) split: prod.split)


lemma pull_created_keeps: "keeps R s (pull_created V p s)"
proof (cases "cells (imgs s) p")
  case None
  then show ?thesis by (simp add: pull_created_def)
next
  case (Some im)
  obtain e im' where pi: "ParseImage im = (e, im')" by (metis prod.exhaust)
  let ?u = "s\<lparr>imgs := assign p im' (imgs s)\<rparr>"
  have st: "R s ?u"
    using Some by (rule R_assign) (use ParseImage_ID [of im] pi in simp)
  have "keeps R ?u (do {
       (err, s) \<leftarrow> ad_PullImage (sv_adapter V) p ?u;
       im \<leftarrow> cells (imgs s) p;
       if err \<noteq> None then Some ((Some [], err), ImageStorage_Remove (i_ID im) s)
       else do { s \<leftarrow> ImageStorage_Update p s; Some ((Some (i_RemotePath im), None), s) } })"
    by (rule R_bind [OF R_keeps [OF pull_image]], simp only: prod.case, rule keeps_bind_pure,
        rule keeps_cases(3), simp add: R_Remove, rule R_Update_bind, simp)
  from R_step [OF st this] st Some pi show ?thesis
    by (cases e) (simp_all add: pull_created_def)
qed

lemma pull_local_keeps: "keeps R s (pull_local V req s)"
  unfolding pull_local_def
proof (rule R_bind)
  show "keeps R s (ImageStorage_CreateImageMetadata (sv_go V) req s)"
    by (rule keepsI) (metis R_create prod.exhaust)
qed (simp add: pull_created_keeps split: prod.split)

lemma PullImage_keeps: "keeps R s (PullImage V req s)"
  unfolding PullImage_def by (rule image_request [OF Remote_PullImage_same pull_local_keeps])

lemma ListImages_keeps: "keeps R s (ListImages V filt s)"
  unfolding ListImages_def Let_def
proof (rule R_bind [OF ListK8s_images_keeps])
  fix xs t
  obtain l u where u: "Remote_ListImages (sv_remoteCRI V) filt t = (l, u)" by (metis prod.exhaust)
  have tu: "R t u"
    by (rule R_store) (use u in \<open>auto simp: Remote_ListImages_def dest: collect_frame\<close>)
  have "keeps R u (do {
      (err, s) \<leftarrow> ad_ListImages (sv_adapter V) im u;
      Some ((if err \<noteq> None then None else Some im, err), s) })" for im
    by (rule R_bind [OF R_keeps [OF list_images]]) simp
  from R_step [OF tu this] u
  show "keeps R t (case (xs, t) of (images, s) \<Rightarrow>
      case Remote_ListImages (sv_remoteCRI V) filt s of (remoteList, s) \<Rightarrow> do {
       (err, s) \<leftarrow> ad_ListImages (sv_adapter V) (images @ (case remoteList of Inl e \<Rightarrow> [] | Inr l \<Rightarrow> l)) s;
       Some ((if err \<noteq> None then None else Some (images @ (case remoteList of Inl e \<Rightarrow> [] | Inr l \<Rightarrow> l)), err), s) })"
    by simp
qed

lemma image_status_local_keeps: "keeps R s (image_status_local V img s)"
  unfolding image_status_local_def
proof (rule keeps_bind_pure)
  fix y
  have "keeps R s (do {
         (err, s) \<leftarrow> ad_ImageStatus (sv_adapter V) p s;
         if err \<noteq> None then Some ((None, err), s)
         else do { im \<leftarrow> cells (imgs s) p; Some ((Some (Some (ParseToK8sImage im)), None), s) } })" for p
    by (rule R_bind [OF R_keeps [OF image_status]])
      (simp only: prod.case, intro keeps_cases(3) keeps_bind_pure, simp_all)
  then show "keeps R s (case y of (ip, err) \<Rightarrow>
       if err \<noteq> None then Some ((Some None, None), s)
       else do {
         p \<leftarrow> ip;
         (err, s) \<leftarrow> ad_ImageStatus (sv_adapter V) p s;
         if err \<noteq> None then Some ((None, err), s)
         else do { im \<leftarrow> cells (imgs s) p; Some ((Some (Some (ParseToK8sImage im)), None), s) } })"
    by (cases y; cases "fst y") simp_all
qed

lemma ImageStatus_keeps: "keeps R s (ImageStatus_handler V req s)"
  unfolding ImageStatus_handler_def by (rule image_request [OF Remote_ImageStatus_same image_status_local_keeps])

lemma remove_image_local_keeps: "keeps R s (remove_image_local V img s)"
  unfolding remove_image_local_def
proof (rule keeps_bind_pure)
  fix y
  have "keeps R s (do {
         (err, s) \<leftarrow> ad_RemoveImage (sv_adapter V) p s;
         if err \<noteq> None then Some ((None, err), s)
         else do { im \<leftarrow> cells (imgs s) p; Some ((Some (), None), ImageStorage_Remove (i_ID im) s) } })" for p
    by (rule R_bind [OF R_keeps [OF remove_image]])
      (simp only: prod.case, intro keeps_cases(3) keeps_bind_pure, simp_all add: R_Remove)
  then show "keeps R s (case y of (ip, err) \<Rightarrow>
       if err \<noteq> None then Some ((None, Some ''Image not found''), s)
       else do {
         p \<leftarrow> ip;
         (err, s) \<leftarrow> ad_RemoveImage (sv_adapter V) p s;
         if err \<noteq> None then Some ((None, err), s)
         else do { im \<leftarrow> cells (imgs s) p; Some ((Some (), None), ImageStorage_Remove (i_ID im) s) } })"
    by (cases y; cases "fst y") simp_all
qed

lemma RemoveImage_keeps: "keeps R s (RemoveImage V req s)"
  unfolding RemoveImage_def by (rule image_request [OF Remote_RemoveImage_same remove_image_local_keeps])

lemma ImageFsInfo_keeps: "keeps R s (ImageFsInfo V s)"
proof -
  have "keeps R s (Some (remote_call f s))" for f :: "'w \<Rightarrow> (error + ImageFsInfoResponse) \<times> 'w"
    by (rule keepsI) (auto dest: remote_call_frame intro: R_store)
  then show ?thesis
    unfolding ImageFsInfo_def
    by (auto split: sum.split option.split intro: R_keeps [OF image_fs_info])
qed

end

text \<open>The two relations.\<close>

sublocale runtime \<subseteq> images_evolve: image_requests V "evolves V"
proof
  show "transp (evolves V)" by (rule transp_evolves)
  show "steady s t \<Longrightarrow> evolves V s t" for s t :: "'w mstate" by (rule steady_evolves)
  fix s :: "'w mstate" and h m
  show "evolves V s (s\<lparr>imgs := h\<rparr>)"
    if "pool_wf i_ID (imgs s) (ImagePool s) \<Longrightarrow> pool_wf i_ID h (ImagePool s)"
      "\<And>p. cells (imgs s) p \<noteq> None \<Longrightarrow> cells h p \<noteq> None"
    using that by (rule ev_image_heap)
  show "evolves V s (s\<lparr>ImagePool := m\<rparr>)" if "pool_wf i_ID (imgs s) (ImagePool s) \<Longrightarrow> pool_wf i_ID (imgs s) m"
    using that by (auto simp: evolves_def Inv_def state_wf_def no_netns_def images_ok_def exited_def)
qed

text \<open>The sandboxes, the containers' states and places, and the two pools.\<close>

definition calm :: "'w mstate \<Rightarrow> 'w mstate \<Rightarrow> bool" where
  "calm s t \<longleftrightarrow> sbxs t = sbxs s \<and> SandboxPool t = SandboxPool s \<and> ContainerPool t = ContainerPool s
     \<and> (\<forall>p. map_option (\<lambda>cm. (c_ID cm, c_State cm, c_PodSandbox cm)) (cells (ctrs t) p)
          = map_option (\<lambda>cm. (c_ID cm, c_State cm, c_PodSandbox cm)) (cells (ctrs s) p))"

lemma transp_calm: "transp calm"
  by (rule transpI) (simp add: calm_def)

lemma steady_calm:
  assumes "steady s t"
  shows "calm s t"
proof -
  have f: "adapter_frame s t" by (rule steady_adapter_frame [OF assms])
  have "map_option (\<lambda>cm. (c_ID cm, c_State cm, c_PodSandbox cm)) (cells (ctrs t) p)
      = map_option (\<lambda>cm. (c_ID cm, c_State cm, c_PodSandbox cm)) (cells (ctrs s) p)" for p
  proof -
    have "rel_option same_container (cells (ctrs s) p) (cells (ctrs t) p)" using f unfolding adapter_frame_def by blast
    moreover have "map_option c_State (cells (ctrs t) p) = map_option c_State (cells (ctrs s) p)"
      using assms by (simp add: steady_def)
    ultimately show ?thesis
      by (cases "cells (ctrs s) p"; cases "cells (ctrs t) p") (auto simp: same_container_def)
  qed
  with f show ?thesis by (simp add: calm_def adapter_frame_def)
qed

sublocale runtime \<subseteq> images_calm: image_requests V calm
  by unfold_locales (rule transp_calm, erule steady_calm, simp_all add: calm_def)

end
