(* ===== verification/Service.thy ===== *)
theory Service
  imports Slurm_Adapter Runtime_Sandbox Runtime_Container Runtime_Image
begin

text \<open>
  \<open>pkg/cmd/options.go\<close>, \<open>main.go\<close> and \<open>pkg/cri/runtime/service.go\<close>,
  \<open>runtime.go\<close>: the options, the construction of the service from them, and the small
  requests; \<open>slurm/stream.go\<close> and the fake service and requests of \<open>fakes.go\<close>.
\<close>

section \<open>options.go\<close>

definition defaultUnixSock :: string where "defaultUnixSock = ''/var/run/multi-cri.sock''"

record CRIMulticriOptions =
  op_AdapterName :: string
  op_SocketPath :: string
  op_PrintVersion :: bool
  op_CRIEndpoint :: string
  op_EnablePodNetwork :: bool
  op_NetworkPluginBinDir :: string
  op_NetworkPluginConfDir :: string
  op_StreamServerAddress :: string
  op_StreamServerPort :: string
  op_CgroupPath :: string
  op_EnableSelinux :: bool
  op_SandboxImage :: string
  op_ResourceCachePath :: string
  op_EnablePodPersistence :: bool
  op_RemoteRuntime :: string
  op_ImageRemoteMountPath :: string

definition NewCRIMulticriOptions :: CRIMulticriOptions where
  "NewCRIMulticriOptions = \<lparr>op_AdapterName = [], op_SocketPath = [], op_PrintVersion = False,
     op_CRIEndpoint = [], op_EnablePodNetwork = False, op_NetworkPluginBinDir = [],
     op_NetworkPluginConfDir = [], op_StreamServerAddress = [], op_StreamServerPort = [],
     op_CgroupPath = [], op_EnableSelinux = False, op_SandboxImage = [], op_ResourceCachePath = [],
     op_EnablePodPersistence = False, op_RemoteRuntime = [], op_ImageRemoteMountPath = []\<rparr>"

text \<open>The current user, when \<open>user.Current\<close> finds one, with its home directory.\<close>

definition getHomeDir :: "string option \<Rightarrow> string" where
  "getHomeDir usr = (case usr of Some d \<Rightarrow> d | None \<Rightarrow> ''/root'')"

text \<open>
  \<open>AddFlags\<close> writes each flag's default into its field; the fields without a flag keep
  their values.
\<close>

definition AddFlags :: "string option \<Rightarrow> CRIMulticriOptions \<Rightarrow> CRIMulticriOptions" where
  "AddFlags usr c = c\<lparr>
     op_AdapterName := ''fale'',
     op_SocketPath := defaultUnixSock,
     op_EnablePodNetwork := False,
     op_NetworkPluginBinDir := ''/opt/cni/bin'',
     op_NetworkPluginConfDir := ''/etc/cni/net.d'',
     op_StreamServerAddress := [],
     op_StreamServerPort := ''10010'',
     op_SandboxImage := ''gcr.io/google_containers/pause:3.0'',
     op_ResourceCachePath := getHomeDir usr @ ''/.multi-cri/'',
     op_EnablePodPersistence := False,
     op_RemoteRuntime := ''default:/var/run/dockershim.sock''\<rparr>"

text \<open>
  What the command line does to the options, once pflag has cut it into names and values: the
  flags that \<open>AddFlags\<close> binds, in the order they are given.  The flags that libraries register
  (those for which \<open>G\<close> holds) leave the options alone.  A name that no flag has, or a value that is not a boolean
  where one is needed, ends the program.
\<close>

definition set_flag :: "(string \<Rightarrow> bool) \<Rightarrow> string \<Rightarrow> string \<Rightarrow> CRIMulticriOptions \<Rightarrow> CRIMulticriOptions option" where
  "set_flag G name v c =
     (if name = ''adapter-name'' then Some (c\<lparr>op_AdapterName := v\<rparr>)
      else if name = ''socket-path'' then Some (c\<lparr>op_SocketPath := v\<rparr>)
      else if name = ''enable-pod-network'' then map_option (\<lambda>b. c\<lparr>op_EnablePodNetwork := b\<rparr>) (ParseBool v)
      else if name = ''network-bin-dir'' then Some (c\<lparr>op_NetworkPluginBinDir := v\<rparr>)
      else if name = ''network-conf-dir'' then Some (c\<lparr>op_NetworkPluginConfDir := v\<rparr>)
      else if name = ''stream-addr'' then Some (c\<lparr>op_StreamServerAddress := v\<rparr>)
      else if name = ''stream-port'' then Some (c\<lparr>op_StreamServerPort := v\<rparr>)
      else if name = ''sandbox-image'' then Some (c\<lparr>op_SandboxImage := v\<rparr>)
      else if name = ''resources-cache-path'' then Some (c\<lparr>op_ResourceCachePath := v\<rparr>)
      else if name = ''enable-pod-persistence'' then map_option (\<lambda>b. c\<lparr>op_EnablePodPersistence := b\<rparr>) (ParseBool v)
      else if name = ''remote-runtime-endpoints'' then Some (c\<lparr>op_RemoteRuntime := v\<rparr>)
      else if G name then Some c else None)"

fun InitFlags :: "(string \<Rightarrow> bool) \<Rightarrow> (string \<times> string) list \<Rightarrow> CRIMulticriOptions \<Rightarrow> CRIMulticriOptions option" where
  "InitFlags G [] c = Some c"
| "InitFlags G ((name, v) # args) c = do { c \<leftarrow> set_flag G name v c; InitFlags G args c }"

section \<open>Libraries\<close>

text \<open>
  The cgroups package: loading a control group (failing with \<open>ErrCgroupDeleted\<close> or another
  error), creating one, adding a process to it.
\<close>

datatype cgroup_error = ErrCgroupDeleted | CgroupError string

record 'w cgrouplib =
  cg_Load :: "string \<Rightarrow> 'w \<Rightarrow> (cgroup_error + nat) \<times> 'w"
  cg_New :: "string \<Rightarrow> 'w \<Rightarrow> (error + nat) \<times> 'w"
  cg_Add :: "nat \<Rightarrow> int \<Rightarrow> 'w \<Rightarrow> error option \<times> 'w"
  os_Getpid :: int

text \<open>All that the construction of the service takes from outside the repository.\<close>

record 'w hostlib =
  hl_lib :: "'w lib"
  hl_env :: "string \<Rightarrow> string"
  hl_LookPath :: "string \<Rightarrow> error + string"
  hl_cgroups :: "'w cgrouplib"
  hl_skv :: "'w skvlib"
  hl_ns :: "'w nslib"
  hl_grpc :: "'w grpclib"
  hl_exec :: "'w execlib"
  hl_InitCNI :: "string \<Rightarrow> string \<Rightarrow> error + 'w CNIPlugin"
  hl_ChooseBindAddress :: "error + string"
  hl_NewServer :: "string \<Rightarrow> error option"
  hl_GetPortForward :: "string \<Rightarrow> 'w \<Rightarrow> (error + string) \<times> 'w"

definition loadCgroup :: "'w cgrouplib \<Rightarrow> string \<Rightarrow> 'w \<Rightarrow> (error + nat) \<times> 'w" where
  "loadCgroup C cgroupPath w =
     (case cg_Load C cgroupPath w of
        (Inl (CgroupError e), w) \<Rightarrow> (Inl e, w)
      | (Inl ErrCgroupDeleted, w) \<Rightarrow>
          (case cg_New C cgroupPath w of
             (Inl e, w) \<Rightarrow> (Inl e, w)
           | (Inr cg, w) \<Rightarrow> (case cg_Add C cg (os_Getpid C) w of
               (Some e, w) \<Rightarrow> (Inl e, w) | (None, w) \<Rightarrow> (Inr cg, w)))
      | (Inr cg, w) \<Rightarrow> (case cg_Add C cg (os_Getpid C) w of
          (Some e, w) \<Rightarrow> (Inl e, w) | (None, w) \<Rightarrow> (Inr cg, w)))"

section \<open>service.go and runtime.go\<close>

definition JoinHostPort :: "string \<Rightarrow> string \<Rightarrow> string" where
  "JoinHostPort h p = (if CHR '':'' \<in> set h then ''['' @ h @ '']:'' @ p else h @ '':'' @ p)"

definition NewStreamServer :: "'w hostlib \<Rightarrow> string \<Rightarrow> string \<Rightarrow> error + string" where
  "NewStreamServer H addr p =
     (case (if addr = [] then
              (case hl_ChooseBindAddress H of
                 Inl e \<Rightarrow> Inl (sprintf ''failed to get stream server address: %v'' [e])
               | Inr a \<Rightarrow> Inr a)
            else Inr addr) of
        Inl e \<Rightarrow> Inl e
      | Inr addr \<Rightarrow> (let config_Addr = JoinHostPort addr p
          in case hl_NewServer H config_Addr of Some e \<Rightarrow> Inl e | None \<Rightarrow> Inr config_Addr))"

definition init_network ::
    "'w hostlib \<Rightarrow> string \<Rightarrow> string \<Rightarrow> bool \<Rightarrow> 'w mstate \<Rightarrow> (error + 'w CNIPlugin option) \<times> 'w mstate" where
  "init_network H networkPluginConfDir networkPluginBinDir enableNetworkPersistence s =
     (if enableNetworkPersistence then
        (case hl_InitCNI H networkPluginConfDir networkPluginBinDir of
           Inl e \<Rightarrow> (Inl (sprintf ''failed to initialize cni plugin: %v'' [e]), s)
         | Inr netPlugin \<Rightarrow> (case onw (EnsureCNIIPTableRules (hl_exec H) ''cni0'') s of
             (Some e, s) \<Rightarrow> (Inl (sprintf ''failed to apply iptable rules: %v'' [e]), s)
           | (None, s) \<Rightarrow> (Inr (Some netPlugin), s)))
      else (Inr None, s))"

text \<open>The three stores, in the order they are opened.\<close>

definition open_stores :: "'w hostlib \<Rightarrow> string \<Rightarrow> bool \<Rightarrow> 'w mstate \<Rightarrow> (error option \<times> 'w mstate) option" where
  "open_stores H resourceCachePath enablePodPersistence s = do {
     (err, s) \<leftarrow> NewSandboxStorage (hl_skv H) (hl_ns H) resourceCachePath enablePodPersistence s;
     if err \<noteq> None then Some (err, s) else do {
       let (err, s) = NewContainerStorage (hl_skv H) resourceCachePath enablePodPersistence s;
       if err \<noteq> None then Some (err, s)
       else Some (NewImageStorage (hl_skv H) resourceCachePath True s)
     }
   }"

text \<open>The rest of the construction, once the adapter is loaded and the cache directory made.\<close>

definition assemble ::
    "'w hostlib \<Rightarrow> 'w AdapterInterface \<Rightarrow> string \<Rightarrow> string \<Rightarrow> string \<Rightarrow> string \<Rightarrow> string \<Rightarrow> string \<Rightarrow> string \<Rightarrow>
     bool \<Rightarrow> string \<Rightarrow> 'w mstate \<Rightarrow> (error + 'w multicriService) \<times> 'w mstate" where
  "assemble H criAdapter socketPath networkPluginBinDir networkPluginConfDir streamAddress streamPort
     cgroupPath sandboxImage enableNetworkPersistence remoteCRIEndpoints s =
     (case LoadRemoteRuntimeConfiguration (hl_grpc H) remoteCRIEndpoints s of
        (Inl e, s) \<Rightarrow> (Inl e, s)
      | (Inr remoteCRI, s) \<Rightarrow>
          (case init_network H networkPluginConfDir networkPluginBinDir enableNetworkPersistence s of
             (Inl e, s) \<Rightarrow> (Inl e, s)
           | (Inr netPlugin, s) \<Rightarrow>
               (case NewStreamServer H streamAddress streamPort of
                  Inl e \<Rightarrow> (Inl (sprintf ''failed to create stream server: %v'' [e]), s)
                | Inr _ \<Rightarrow>
                    (Inr \<lparr>sv_adapter = criAdapter, sv_serverAddress = socketPath,
                       sv_sandboxImage = sandboxImage, sv_cgroupPath = cgroupPath,
                       sv_netPlugin = netPlugin, sv_networkNamespace = NewNetworkCNIManager,
                       sv_os = RealOS, sv_remoteCRI = remoteCRI, sv_go = lib_go (hl_lib H),
                       sv_ns = hl_ns H, sv_GetPortForward = hl_GetPortForward H\<rparr>, s))))"

definition NewMulticriService ::
    "'w hostlib \<Rightarrow> string \<Rightarrow> path \<Rightarrow> path \<Rightarrow> path \<Rightarrow> string \<Rightarrow> string \<Rightarrow> path \<Rightarrow> string \<Rightarrow> path \<Rightarrow> bool \<Rightarrow> bool \<Rightarrow>
     string \<Rightarrow> 'w mstate \<Rightarrow> ((error + 'w multicriService) \<times> 'w mstate) option" where
  "NewMulticriService H adapterName socketPath networkPluginBinDir networkPluginConfDir streamAddress
     streamPort cgroupPath sandboxImage resourceCachePath enablePodPersistence enableNetworkPersistence
     remoteCRIEndpoints s = do {
     r \<leftarrow> loadAdapter (hl_lib H) (hl_env H) (hl_LookPath H) (files s) adapterName;
     (case r of
        Inl e \<Rightarrow> Some (Inl e, s)
      | Inr criAdapter \<Rightarrow> do {
          let (cg, s) = (if cgroupPath \<noteq> [] then onw (loadCgroup (hl_cgroups H) cgroupPath) s else (Inr 0, s));
          (case cg of
             Inl e \<Rightarrow> Some (Inl (sprintf ''failed to load cgroup for cgroup path %v: %v'' [cgroupPath, e]), s)
           | Inr _ \<Rightarrow> do {
               let s = s\<lparr>files := snd (os_MkdirAll resourceCachePath (files s))\<rparr>;
               (err, s) \<leftarrow> open_stores H resourceCachePath enablePodPersistence s;
               (case err of
                  Some e \<Rightarrow> Some (Inl e, s)
                | None \<Rightarrow> Some (assemble H criAdapter socketPath networkPluginBinDir networkPluginConfDir
                    streamAddress streamPort cgroupPath sandboxImage enableNetworkPersistence remoteCRIEndpoints s))
             })
        })
   }"

text \<open>\<open>main\<close>: the options, in the order of the parameters.\<close>

definition main_service :: "'w hostlib \<Rightarrow> CRIMulticriOptions \<Rightarrow> 'w mstate \<Rightarrow> ((error + 'w multicriService) \<times> 'w mstate) option" where
  "main_service H c = NewMulticriService H (op_AdapterName c) (op_SocketPath c) (op_NetworkPluginBinDir c)
     (op_NetworkPluginConfDir c) (op_StreamServerAddress c) (op_StreamServerPort c) (op_CgroupPath c)
     (op_SandboxImage c) (op_ResourceCachePath c) (op_EnablePodPersistence c) (op_EnablePodNetwork c)
     (op_RemoteRuntime c)"

text \<open>
  The end of \<open>main\<close>: a bad command line or a service that cannot be built ends the program;
  otherwise the service runs.  SELinux is always disabled, since no flag sets \<open>EnableSelinux\<close>.
\<close>

datatype 'w main_result = BadFlags | FailedToCreate error | Running "'w multicriService"

definition main :: "'w hostlib \<Rightarrow> (string \<Rightarrow> bool) \<Rightarrow> string option \<Rightarrow> (string \<times> string) list \<Rightarrow> 'w mstate \<Rightarrow> ('w main_result \<times> 'w mstate) option" where
  "main H G usr args s =
     (case InitFlags G args (AddFlags usr NewCRIMulticriOptions) of
        None \<Rightarrow> Some (BadFlags, s)
      | Some c \<Rightarrow> do {
          (r, s) \<leftarrow> main_service H c s;
          Some (case r of Inl e \<Rightarrow> FailedToCreate e | Inr V \<Rightarrow> Running V, s)
        })"

definition GetContainer :: "string \<Rightarrow> string \<Rightarrow> 'w mstate \<Rightarrow> ptr reply option" where
  "GetContainer sandBoxId containerID s = do {
     out \<leftarrow> ContainerStorage_List containerID sandBoxId s;
     Some (case out of
        p # _ \<Rightarrow> (Some p, None)
      | [] \<Rightarrow> (None, Some ''Sandbox not found when getting its status''))
   }"

definition Version :: "'w multicriService \<Rightarrow> VersionResponse reply" where
  "Version V = ad_Version (sv_adapter V)"

record RuntimeCondition =
  rn_Type :: string
  rn_Status :: bool
  rn_Reason :: string
  rn_Message :: string

definition Status :: "'w multicriService \<Rightarrow> 'w mstate \<Rightarrow> RuntimeCondition list" where
  "Status V s =
     (let runtimeCondition = \<lparr>rn_Type = ''RuntimeReady'', rn_Status = True, rn_Reason = [], rn_Message = []\<rparr>;
          networkCondition = \<lparr>rn_Type = ''NetworkReady'', rn_Status = True, rn_Reason = [], rn_Message = []\<rparr>;
          networkCondition = (case sv_netPlugin V of
             None \<Rightarrow> networkCondition
           | Some netPlugin \<Rightarrow> (case cni_Status netPlugin (world s) of
               None \<Rightarrow> networkCondition
             | Some e \<Rightarrow> networkCondition\<lparr>rn_Status := False, rn_Reason := ''NetworkPluginNotReady'',
                 rn_Message := sprintf ''Network plugin returns error: %v'' [e]\<rparr>))
      in [runtimeCondition, networkCondition])"

definition UpdateRuntimeConfig :: "unit reply" where
  "UpdateRuntimeConfig = (Some (), None)"

section \<open>slurm/stream.go\<close>

definition streamRuntime_Attach :: "string \<Rightarrow> error option" where
  "streamRuntime_Attach containerID = Some ''SLURMCRI: streamRuntime Attach still not implemented''"

definition streamRuntime_Exec :: "string \<Rightarrow> string list \<Rightarrow> error option" where
  "streamRuntime_Exec containerID cmd = Some ''SLURMCRI: streamRuntime Exec still not implemented''"

definition streamRuntime_PortForward :: "string \<Rightarrow> int \<Rightarrow> error option" where
  "streamRuntime_PortForward podSandboxID p = Some ''SLURMCRI: streamRuntime PortForward still not implemented''"

section \<open>fakes.go\<close>

definition empty_state :: "'w \<Rightarrow> fs \<Rightarrow> 'w mstate" where
  "empty_state w f = \<lparr>sbxs = empty_heap, ctrs = empty_heap, imgs = empty_heap, SandboxPool = [],
     ContainerPool = [], ImagePool = [], sandbox_persist = None, container_persist = None,
     image_persist = None, basePath = [], files = f, world = w\<rparr>"

text \<open>The stores of the fake service are opened without persistence and cannot fail.\<close>

definition NewFakeCRIService ::
    "'w hostlib \<Rightarrow> bool \<Rightarrow> 'w mstate \<Rightarrow> ('w multicriService \<times> 'w mstate) option" where
  "NewFakeCRIService H adapterFails s = do {
     let (err, s) = NewImageStorage (hl_skv H) [] False s;
     if err \<noteq> None then None else do {
       let (err, s) = NewContainerStorage (hl_skv H) [] False s;
       if err \<noteq> None then None else do {
         (err, s) \<leftarrow> NewSandboxStorage (hl_skv H) (hl_ns H) [] False s;
         if err \<noteq> None then None else
           Some (\<lparr>sv_adapter = FakeAdapter adapterFails, sv_serverAddress = [], sv_sandboxImage = [],
              sv_cgroupPath = [], sv_netPlugin = Some NewFackeCNIPlugin,
              sv_networkNamespace = FakeNetworkManager, sv_os = FakeOS, sv_remoteCRI = [],
              sv_go = lib_go (hl_lib H), sv_ns = hl_ns H, sv_GetPortForward = hl_GetPortForward H\<rparr>, s)
       }
     }
   }"

definition NewCreateSandboxRequest :: "string \<Rightarrow> string \<Rightarrow> RunPodSandboxRequest" where
  "NewCreateSandboxRequest uid runtimeHandler = \<lparr>rq_Config = Some (zero_pod_config\<lparr>pc_Metadata :=
     Some \<lparr>pm_Name = [], pm_Uid = uid, pm_Namespace = []\<rparr>\<rparr>), rq_RuntimeHandler = runtimeHandler\<rparr>"

definition NewCreateContainerRequest :: "string \<Rightarrow> string \<Rightarrow> string \<Rightarrow> CreateContainerRequest" where
  "NewCreateContainerRequest podID name img = \<lparr>cr_PodSandboxId = podID,
     cr_Config = Some (zero_container_config\<lparr>cc_Metadata := Some name, cc_Image := Some img\<rparr>),
     cr_SandboxConfig = Some (zero_pod_config\<lparr>pc_LogDirectory := ''/tmp'', pc_Labels := []\<rparr>)\<rparr>"

definition NewPullImageRequest :: "string \<Rightarrow> string \<Rightarrow> string gomap \<Rightarrow> PullImageRequest" where
  "NewPullImageRequest img podId labels = \<lparr>pr_Image = Some img, pr_Auth = None\<rparr>"

section \<open>Lemmas\<close>

lemma default_adapter_unknown: "loadAdapter B env LookPath f (op_AdapterName (AddFlags usr c)) = Some (Inl ''Adapter not found'')"
  by (simp add: loadAdapter_def AddFlags_def)

text \<open>
  Flags change the fields they are bound to: the adapter only by its own flag, the control
  group and SELinux by none.
\<close>

lemma set_flag_keeps:
  assumes "set_flag G name v c = Some d"
  shows "op_EnableSelinux d = op_EnableSelinux c" "op_CgroupPath d = op_CgroupPath c"
    "name \<noteq> ''adapter-name'' \<Longrightarrow> op_AdapterName d = op_AdapterName c"
  using assms by (auto simp: set_flag_def split: if_splits)

lemma InitFlags_keeps:
  assumes "InitFlags G args c = Some d"
  shows "op_EnableSelinux d = op_EnableSelinux c \<and> op_CgroupPath d = op_CgroupPath c
    \<and> (''adapter-name'' \<notin> fst ` set args \<longrightarrow> op_AdapterName d = op_AdapterName c)"
  using assms
proof (induction args arbitrary: c)
  case (Cons a args)
  obtain name v where a: "a = (name, v)" by (cases a)
  with Cons.prems obtain b where b: "set_flag G name v c = Some b" "InitFlags G args b = Some d"
    by (auto simp: bind_eq_Some_conv)
  from Cons.IH [OF b(2)] set_flag_keeps [OF b(1)] a show ?case by auto
qed simp

text \<open>A command line that does not name an adapter does not start the service.\<close>

lemma main_without_adapter:
  assumes "''adapter-name'' \<notin> fst ` set args"
  shows "main H G usr args s = Some (BadFlags, s) \<or> main H G usr args s = Some (FailedToCreate ''Adapter not found'', s)"
proof (cases "InitFlags G args (AddFlags usr NewCRIMulticriOptions)")
  case (Some c)
  then have "op_AdapterName c = ''fale''" using InitFlags_keeps [OF Some] assms by (simp add: AddFlags_def)
  with Some show ?thesis
    by (simp add: main_def main_service_def NewMulticriService_def loadAdapter_def)
qed (simp add: main_def)

text \<open>A service that was built has an adapter that meets the contract.\<close>

lemma init_network_same: "init_network H cd bd en s = (r, t) \<Longrightarrow> same_stores s t"
  by (auto simp: init_network_def onw_def split: if_splits sum.splits prod.splits option.splits)

lemma dial_same:
  "newRemoteRuntimeClient G ep s = (r, t) \<Longrightarrow> same_stores s t"
  "newRemoteImageClient G ep s = (r, t) \<Longrightarrow> same_stores s t"
  by (auto simp: newRemoteRuntimeClient_def newRemoteImageClient_def split: sum.splits prod.splits)

lemma getRemoteCRI_same: "getRemoteCRI G a b s = (r, t) \<Longrightarrow> same_stores s t"
  by (auto simp: getRemoteCRI_def split: prod.splits sum.splits dest!: dial_same intro: same_stores_trans)

lemma load_plugins_same: "load_plugins G ps out s = (r, t) \<Longrightarrow> same_stores s t"
proof (induction ps arbitrary: out s)
  case (Cons p ps)
  obtain y u where y: "getRemoteCRI G (Split p '':'' ! 1) (Split p '':'' ! 1) s = (y, u)" by (metis prod.exhaust)
  have su: "same_stores s u" by (rule getRemoteCRI_same [OF y])
  show ?case
  proof (cases "length (Split p '':'') = 2")
    case False
    with Cons.prems show ?thesis by simp
  next
    case True
    show ?thesis
    proof (cases y)
      case (Inl e)
      with Cons.prems y True su show ?thesis by simp
    next
      case (Inr cri)
      with Cons.prems y True have "load_plugins G ps (mset_key (Split p '':'' ! 0) cri out) u = (r, t)" by simp
      from same_stores_trans [OF su Cons.IH [OF this]] show ?thesis .
    qed
  qed
qed simp

lemma LoadRemote_same: "LoadRemoteRuntimeConfiguration G c s = (r, t) \<Longrightarrow> same_stores s t"
  by (auto simp: LoadRemoteRuntimeConfiguration_def dest: load_plugins_same split: if_splits)

text \<open>
  Opening the stores without pod persistence: the two pools are empty, and the image pool
  is what the image file holds.
\<close>

lemma load_images_frame: "load_images kvs out s = (m, u) \<Longrightarrow> u = s\<lparr>imgs := imgs u\<rparr>"
proof (induction kvs arbitrary: out s)
  case (Cons kv kvs)
  obtain k v where kv: "kv = (k, v)" by (cases kv)
  obtain p h where al: "alloc v (imgs s) = (p, h)" by (metis prod.exhaust)
  from Cons kv al have "u = (s\<lparr>imgs := h\<rparr>)\<lparr>imgs := imgs u\<rparr>" by simp
  then show ?case by simp
qed simp

lemma open_stores_fresh:
  assumes "open_stores H d False s = Some (None, t)"
  obtains kv pool h where "skv_Open_images (hl_skv H) (d @ ''/'' @ IMAGESTORE) (world s) = Some kv"
    "load_images (fst (kv_List kv (world s))) [] (s\<lparr>sandbox_persist := None, SandboxPool := [],
       container_persist := None, ContainerPool := []\<rparr>) = (pool, s\<lparr>sandbox_persist := None, SandboxPool := [],
       container_persist := None, ContainerPool := [], imgs := h\<rparr>)"
    "t = s\<lparr>sandbox_persist := None, SandboxPool := [], container_persist := None, ContainerPool := [],
       imgs := h, basePath := d, image_persist := Some kv, ImagePool := pool\<rparr>"
proof -
  let ?s = "s\<lparr>sandbox_persist := None, SandboxPool := [], container_persist := None, ContainerPool := []\<rparr>"
  have n: "NewImageStorage (hl_skv H) d True ?s = (None, t)"
    using assms by (simp add: open_stores_def NewSandboxStorage_def NewContainerStorage_def)
  then obtain kv where kv: "NewImagePersist (hl_skv H) d ?s = Inr kv"
    by (cases "NewImagePersist (hl_skv H) d ?s") (auto simp: NewImageStorage_def)
  obtain pool u where l: "ImagePersist_LoadAll kv ?s = (pool, u)" by (metis prod.exhaust)
  then have u: "u = ?s\<lparr>imgs := imgs u\<rparr>" unfolding ImagePersist_LoadAll_def by (rule load_images_frame)
  have "skv_Open_images (hl_skv H) (d @ ''/'' @ IMAGESTORE) (world s) = Some kv"
    using kv by (auto simp: NewImagePersist_def Let_def split: option.splits)
  moreover have "t = u\<lparr>basePath := d, image_persist := Some kv, ImagePool := pool\<rparr>"
    using n kv l by (simp add: NewImageStorage_def)
  ultimately show ?thesis using l u that [of kv pool "imgs u"] by (simp add: ImagePersist_LoadAll_def)
qed

lemma assemble_result:
  assumes "assemble H A a b c d e f g h i s = (Inr V, t)"
  shows "sv_adapter V = A \<and> same_stores s t"
proof -
  obtain r u where r: "LoadRemoteRuntimeConfiguration (hl_grpc H) i s = (r, u)" by (metis prod.exhaust)
  with assms obtain rs where rs: "r = Inr rs" by (cases r) (auto simp: assemble_def)
  obtain n v where n: "init_network H c b h u = (n, v)" by (metis prod.exhaust)
  with assms r rs obtain pl where pl: "n = Inr pl" by (cases n) (auto simp: assemble_def)
  with assms r rs n obtain ad where "NewStreamServer H d e = Inr ad"
    by (cases "NewStreamServer H d e") (auto simp: assemble_def)
  with assms r rs n pl have "sv_adapter V = A" "t = v" by (auto simp: assemble_def)
  with same_stores_trans [OF LoadRemote_same [OF r] init_network_same [OF n]] show ?thesis by simp
qed

lemma NewMulticriService_cases:
  assumes "NewMulticriService H nm a b c d e f g cache pods net i s = Some (Inr V, t)"
  obtains A u v where "loadAdapter (hl_lib H) (hl_env H) (hl_LookPath H) (files s) nm = Some (Inr A)"
    "same_stores s u" "open_stores H cache pods u = Some (None, v)" "sv_adapter V = A" "same_stores v t"
proof -
  obtain r where r: "loadAdapter (hl_lib H) (hl_env H) (hl_LookPath H) (files s) nm = Some r"
    using assms by (auto simp: NewMulticriService_def bind_eq_Some_conv)
  with assms obtain A where A: "r = Inr A" by (cases r) (auto simp: NewMulticriService_def)
  obtain cg u where cg: "(if f \<noteq> [] then onw (loadCgroup (hl_cgroups H) f) s else (Inr 0, s)) = (cg, u)"
    by (metis prod.exhaust)
  with assms r A obtain k where k: "cg = Inr k" by (cases cg) (auto simp: NewMulticriService_def)
  let ?u = "u\<lparr>files := snd (os_MkdirAll cache (files u))\<rparr>"
  obtain err v where o: "open_stores H cache pods ?u = Some (err, v)"
    using assms r A cg k by (auto simp: NewMulticriService_def bind_eq_Some_conv)
  have none: "err = None" using assms r A cg k o by (cases err) (auto simp: NewMulticriService_def)
  then have "assemble H A a b c d e f g net i v = (Inr V, t)"
    using assms r A cg k o by (simp add: NewMulticriService_def)
  note as = assemble_result [OF this]
  have "same_stores s u" using cg by (auto simp: onw_def split: if_splits prod.splits)
  then have "same_stores s ?u" by (rule same_stores_trans) simp
  with r A o none as that show ?thesis by blast
qed

lemma new_service_adapter:
  "NewMulticriService H nm a b c d e f g cache pods net i s = Some (Inr V, t) \<Longrightarrow> adapter (sv_adapter V)"
  by (erule NewMulticriService_cases) (metis loaded_adapter)

text \<open>The image file of the cache directory keeps every image under its own ID.\<close>

definition images_keyed :: "'w hostlib \<Rightarrow> string \<Rightarrow> bool" where
  "images_keyed H cache \<longleftrightarrow> (\<forall>kv w k im.
     skv_Open_images (hl_skv H) (cache @ ''/'' @ IMAGESTORE) w = Some kv \<longrightarrow>
     (k, im) \<in> set (fst (kv_List kv w)) \<longrightarrow> i_ID im = k)"

text \<open>
  A service built on an empty state without pod persistence starts in the invariant, when the
  image file keeps every image under its own ID.
\<close>

lemma new_service_inv:
  assumes "NewMulticriService H nm a b c d e f g cache False net i (empty_state w fl) = Some (Inr V, t)"
    and keys: "images_keyed H cache"
  shows "Inv V t"
proof (rule NewMulticriService_cases [OF assms(1)])
  fix A u v
  assume su: "same_stores (empty_state w fl) u" and o: "open_stores H cache False u = Some (None, v)"
    and vt: "same_stores v t"
  have u: "sbxs u = empty_heap" "ctrs u = empty_heap" "imgs u = empty_heap"
    using su by (simp_all add: same_stores_def empty_state_def)
  show ?thesis
  proof (rule open_stores_fresh [OF o])
    fix kv pool h
    assume kv: "skv_Open_images (hl_skv H) (cache @ ''/'' @ IMAGESTORE) (world u) = Some kv"
      and l: "load_images (fst (kv_List kv (world u))) [] (u\<lparr>sandbox_persist := None, SandboxPool := [],
       container_persist := None, ContainerPool := []\<rparr>) = (pool, u\<lparr>sandbox_persist := None, SandboxPool := [],
       container_persist := None, ContainerPool := [], imgs := h\<rparr>)"
      and v: "v = u\<lparr>sandbox_persist := None, SandboxPool := [], container_persist := None, ContainerPool := [],
       imgs := h, basePath := cache, image_persist := Some kv, ImagePool := pool\<rparr>"
    have "pool_wf i_ID h pool"
      using load_images_wf [OF _ _ l] u keys kv by (auto simp: images_keyed_def)
    then have "Inv V v"
      using u by (simp add: Inv_def state_wf_def no_netns_def images_ok_def v)
    then show ?thesis using same_stores_evolves [OF vt] by (simp add: evolves_def)
  qed
qed

text \<open>Without pod persistence the service starts with no pods and no containers.\<close>

lemma new_service_pools:
  assumes "NewMulticriService H nm a b c d e f g cache False net i s = Some (Inr V, t)"
  shows "SandboxPool t = [] \<and> ContainerPool t = []"
proof (rule NewMulticriService_cases [OF assms])
  fix u v assume o: "open_stores H cache False u = Some (None, v)" and vt: "same_stores v t"
  have "SandboxPool v = [] \<and> ContainerPool v = []" by (rule open_stores_fresh [OF o]) simp
  with vt show ?thesis by (simp add: same_stores_def)
qed

lemma fake_service_inv:
  assumes "NewFakeCRIService H b (empty_state w fl) = Some (V, t)"
  shows "Inv V t \<and> runtime V"
proof -
  have "sv_adapter V = FakeAdapter b" and t: "t = empty_state w fl"
    using assms by (auto simp: NewFakeCRIService_def NewImageStorage_def NewContainerStorage_def
        NewSandboxStorage_def empty_state_def)
  then have "runtime V" by (simp add: runtime.intro fake_adapter.adapter_axioms)
  moreover have "Inv V t"
    by (simp add: t Inv_def state_wf_def no_netns_def images_ok_def empty_state_def)
  ultimately show ?thesis by simp
qed

end
