(* ===== verification/Requests.thy ===== *)
theory Requests
  imports Service
begin

text \<open>
  The service as a transition system: a step serves one CRI request, or the outside world
  moves (the cluster, other programs, the clock), or a map is iterated in another order.
  Requests are served one at a time; a request that panics has no step.
\<close>

section \<open>Requests\<close>

datatype request =
    RunPodSandboxReq RunPodSandboxRequest
  | StopPodSandboxReq string
  | RemovePodSandboxReq string
  | PodSandboxStatusReq string
  | ListPodSandboxReq "PodSandboxFilter option"
  | PortForwardReq string
  | CreateContainerReq CreateContainerRequest
  | StartContainerReq string
  | StopContainerReq string
  | RemoveContainerReq string
  | ListContainersReq "ContainerFilter option"
  | ContainerStatusReq string
  | ContainerStatsReq string
  | ListContainerStatsReq "ContainerFilter option"
  | UpdateContainerResourcesReq string
  | ReopenContainerLogReq string
  | AttachReq string
  | ExecReq string
  | ExecSyncReq string "string list"
  | PullImageReq PullImageRequest
  | ListImagesReq "string option"
  | ImageStatusReq "string option"
  | RemoveImageReq "string option"
  | ImageFsInfoReq

text \<open>
  The request constructors of \<open>fakes.go\<close>, with the fields that the handlers read; a filter is always
  there, if only an empty one.
\<close>

definition NewStopSandboxRequest :: "string \<Rightarrow> request" where
  "NewStopSandboxRequest podId = StopPodSandboxReq podId"

definition NewRemoveSandboxRequest :: "string \<Rightarrow> request" where
  "NewRemoveSandboxRequest podId = RemovePodSandboxReq podId"

definition NewStatusSandboxRequest :: "string \<Rightarrow> request" where
  "NewStatusSandboxRequest podId = PodSandboxStatusReq podId"

definition NewListSandboxRequest :: "PodSandboxFilter \<Rightarrow> request" where
  "NewListSandboxRequest filt = ListPodSandboxReq (Some filt)"

definition NewPortForwardRequest :: "string \<Rightarrow> int list \<Rightarrow> request" where
  "NewPortForwardRequest podId ports = PortForwardReq podId"

definition NewContainerStatusRequest :: "string \<Rightarrow> request" where
  "NewContainerStatusRequest containerID = ContainerStatusReq containerID"

definition NewContainerRemoveRequest :: "string \<Rightarrow> request" where
  "NewContainerRemoveRequest containerID = RemoveContainerReq containerID"

definition NewContainerStartRequest :: "string \<Rightarrow> request" where
  "NewContainerStartRequest containerID = StartContainerReq containerID"

definition NewContainerStopRequest :: "string \<Rightarrow> request" where
  "NewContainerStopRequest containerID = StopContainerReq containerID"

definition NewListContainersRequest :: "ContainerFilter \<Rightarrow> request" where
  "NewListContainersRequest filt = ListContainersReq (Some filt)"

definition NewContainerStatsRequest :: "string \<Rightarrow> request" where
  "NewContainerStatsRequest containerID = ContainerStatsReq containerID"

definition NewListContainerStatsRequest :: "ContainerFilter \<Rightarrow> request" where
  "NewListContainerStatsRequest filt = ListContainerStatsReq (Some filt)"

definition NewAttachRequest :: "string \<Rightarrow> request" where
  "NewAttachRequest containerID = AttachReq containerID"

definition NewExecRequest :: "string \<Rightarrow> string list \<Rightarrow> request" where
  "NewExecRequest containerID cmd = ExecReq containerID"

definition NewExecSyncRequest :: "string \<Rightarrow> string list \<Rightarrow> request" where
  "NewExecSyncRequest containerID cmd = ExecSyncReq containerID cmd"

definition NewListImagesRequest :: "string option \<Rightarrow> request" where
  "NewListImagesRequest filt = ListImagesReq filt"

definition NewImageStatusRequest :: "string \<Rightarrow> request" where
  "NewImageStatusRequest img = ImageStatusReq (Some img)"

definition NewImageFsInfoRequest :: request where
  "NewImageFsInfoRequest = ImageFsInfoReq"

definition NewRemoveImageRequest :: "string \<Rightarrow> request" where
  "NewRemoveImageRequest img = RemoveImageReq (Some img)"

lemmas fake_requests = NewStopSandboxRequest_def NewRemoveSandboxRequest_def NewStatusSandboxRequest_def
  NewListSandboxRequest_def NewPortForwardRequest_def NewContainerStatusRequest_def NewContainerRemoveRequest_def
  NewContainerStartRequest_def NewContainerStopRequest_def NewListContainersRequest_def NewContainerStatsRequest_def
  NewListContainerStatsRequest_def NewAttachRequest_def NewExecRequest_def NewExecSyncRequest_def
  NewListImagesRequest_def NewImageStatusRequest_def NewImageFsInfoRequest_def NewRemoveImageRequest_def

text \<open>The state a request leaves, whatever it answers.\<close>

fun handle :: "'w multicriService \<Rightarrow> request \<Rightarrow> 'w mstate \<Rightarrow> 'w mstate option" where
  "handle V (RunPodSandboxReq r) s = map_option snd (RunPodSandbox V r s)"
| "handle V (StopPodSandboxReq k) s = map_option snd (StopPodSandbox V k s)"
| "handle V (RemovePodSandboxReq k) s = map_option snd (RemovePodSandbox V k s)"
| "handle V (PodSandboxStatusReq k) s = map_option snd (PodSandboxStatus_handler V k s)"
| "handle V (ListPodSandboxReq f) s = map_option snd (ListPodSandbox V f s)"
| "handle V (PortForwardReq k) s = map_option snd (PortForward V k s)"
| "handle V (CreateContainerReq r) s = map_option snd (CreateContainer V r s)"
| "handle V (StartContainerReq k) s = map_option snd (StartContainer V k s)"
| "handle V (StopContainerReq k) s = map_option snd (StopContainer V k s)"
| "handle V (RemoveContainerReq k) s = map_option snd (RemoveContainer V k s)"
| "handle V (ListContainersReq f) s = map_option snd (ListContainers V f s)"
| "handle V (ContainerStatusReq k) s = map_option snd (ContainerStatus V k s)"
| "handle V (ContainerStatsReq k) s = map_option snd (ContainerStats_handler V k s)"
| "handle V (ListContainerStatsReq f) s = map_option snd (ListContainerStats V f s)"
| "handle V (UpdateContainerResourcesReq k) s = map_option snd (UpdateContainerResources V k s)"
| "handle V (ReopenContainerLogReq k) s = map_option snd (ReopenContainerLog V k s)"
| "handle V (AttachReq k) s = map_option snd (Attach V k s)"
| "handle V (ExecReq k) s = map_option snd (Exec V k s)"
| "handle V (ExecSyncReq k cmd) s = map_option snd (ExecSync V k cmd s)"
| "handle V (PullImageReq r) s = map_option snd (PullImage V r s)"
| "handle V (ListImagesReq f) s = map_option snd (ListImages V f s)"
| "handle V (ImageStatusReq k) s = map_option snd (ImageStatus_handler V k s)"
| "handle V (RemoveImageReq k) s = map_option snd (RemoveImage V k s)"
| "handle V ImageFsInfoReq s = map_option snd (ImageFsInfo V s)"

inductive step :: "'w multicriService \<Rightarrow> 'w mstate \<Rightarrow> 'w mstate \<Rightarrow> bool" for V :: "'w multicriService" where
  serve: "handle V r s = Some t \<Longrightarrow> step V s t"
| outside: "step V s (s\<lparr>world := w, files := f\<rparr>)"
| reorder: "mset (SandboxPool s) = mset ps \<Longrightarrow> mset (ContainerPool s) = mset qs \<Longrightarrow> mset (ImagePool s) = mset rs \<Longrightarrow>
    step V s (s\<lparr>SandboxPool := ps, ContainerPool := qs, ImagePool := rs\<rparr>)"

inductive reachable :: "'w multicriService \<Rightarrow> 'w mstate \<Rightarrow> 'w mstate \<Rightarrow> bool"
  for V :: "'w multicriService" and s0 :: "'w mstate" where
  start: "reachable V s0 s0"
| more: "reachable V s0 s \<Longrightarrow> step V s t \<Longrightarrow> reachable V s0 t"

inductive_cases stepE: "step V s t"
inductive_cases reachableE: "reachable V s0 t"

lemma reachable_trans: "reachable V s t \<Longrightarrow> reachable V r s \<Longrightarrow> reachable V r t"
  by (induction rule: reachable.induct) (auto intro: reachable.more)

lemma reachable_step: "step V s t \<Longrightarrow> reachable V s t"
  by (rule reachable.more [OF reachable.start])

text \<open>A sequence of requests, served one after the other.\<close>

fun serve_all :: "'w multicriService \<Rightarrow> request list \<Rightarrow> 'w mstate \<Rightarrow> 'w mstate option" where
  "serve_all V [] s = Some s"
| "serve_all V (r # rs) s = do { s \<leftarrow> handle V r s; serve_all V rs s }"

lemma serve_all_append: "serve_all V (rs @ qs) s = Option.bind (serve_all V rs s) (serve_all V qs)"
proof (induction rs arbitrary: s)
  case (Cons r rs)
  then show ?case by (cases "handle V r s") simp_all
qed simp

lemma serve_all_reachable: "serve_all V rs s = Some t \<Longrightarrow> reachable V s t"
proof (induction rs arbitrary: s)
  case (Cons r rs)
  then obtain u where "handle V r s = Some u" "serve_all V rs u = Some t" by (auto simp: bind_eq_Some_conv)
  with Cons.IH show ?case by (blast intro: reachable_trans reachable_step step.serve)
qed (simp add: reachable.start)

section \<open>Invariance\<close>

lemma reorder_evolves:
  assumes "mset (SandboxPool s) = mset ps" and "mset (ContainerPool s) = mset qs" and "mset (ImagePool s) = mset rs"
  shows "evolves V s (s\<lparr>SandboxPool := ps, ContainerPool := qs, ImagePool := rs\<rparr>)"
proof -
  have "set (ContainerPool s) = set qs" using assms(2) by (metis set_mset_mset)
  then show ?thesis
    by (auto simp: evolves_def Inv_def state_wf_def no_netns_def images_ok_def exited_def
        intro: pool_wf_mset [OF assms(1)] pool_wf_mset [OF assms(2)] pool_wf_mset [OF assms(3)])
qed

lemma snd_keeps: "keeps R s m \<Longrightarrow> map_option snd m = Some t \<Longrightarrow> R s t"
  by (auto simp: keeps_def)

context runtime
begin

lemmas keeps_invariant =
  RunPodSandbox_evolves [OF adapter_axioms] StopPodSandbox_evolves [OF adapter_axioms]
  RemovePodSandbox_evolves [OF adapter_axioms] PodSandboxStatus_evolves [OF adapter_axioms]
  ev_store [OF ListPodSandbox_same] ev_store [OF PortForward_same]
  CreateContainer_evolves StartContainer_evolves StopContainer_evolves RemoveContainer_evolves
  ev_store [OF ListContainers_same] ContainerStatus_evolves ev_store [OF ContainerStats_same]
  ev_store [OF ListContainerStats_same] UpdateContainerResources_evolves ReopenContainerLog_evolves
  images_evolve.PullImage_keeps images_evolve.ListImages_keeps images_evolve.ImageStatus_keeps
  images_evolve.RemoveImage_keeps images_evolve.ImageFsInfo_keeps

lemma handle_evolves: "handle V r s = Some t \<Longrightarrow> evolves V s t"
proof (cases r)
qed (simp_all only: handle.simps Attach_def Exec_def ExecSync_def,
    (erule snd_keeps [rotated], intro keeps_invariant ev_store [OF exec_route_same])+)

lemma step_evolves: "step V s t \<Longrightarrow> evolves V s t"
  by (erule stepE) (auto intro: handle_evolves reorder_evolves same_stores_evolves)

lemma reachable_evolves: "reachable V s t \<Longrightarrow> evolves V s t"
  by (induction rule: reachable.induct) (auto intro: step_evolves evolves_trans)

end

end
