(* ===== verification/Example_Host.thy ===== *)
theory Example_Host
  imports Requests
begin

text \<open>
  A concrete environment on which the properties are exercised: every library call succeeds
  and returns the simplest value, the key-value store holds nothing, the file system is
  empty.  The service \<open>ex_V\<close> is the one built with the fake adapter and without remote
  runtimes, \<open>ex_s0\<close> its first state.
\<close>

definition ex_kv :: "('v, unit) KVStore" where
  "ex_kv = \<lparr>kv_Put = (\<lambda>k v w. (None, w)), kv_Get = (\<lambda>k v w. (Some ''not found'', v)), kv_Delete = (\<lambda>k w. (None, w)),
     kv_List = (\<lambda>w. ([], None)), kv_Close = (\<lambda>w. (None, w))\<rparr>"

text \<open>A store whose world is its contents.\<close>

definition map_kv :: "('v, (string \<times> 'v) list) KVStore" where
  "map_kv = \<lparr>kv_Put = (\<lambda>k v w. (None, mset_key k v w)), kv_Get = (\<lambda>k v w. (case mget w k of None \<Rightarrow> (Some ''not found'', v) | Some u \<Rightarrow> (None, u))),
     kv_Delete = (\<lambda>k w. (None, mdel k w)), kv_List = (\<lambda>w. (AList.clearjunk w, None)), kv_Close = (\<lambda>w. (None, w))\<rparr>"

lemma map_kv_behaves: "skv_behaves map_kv mget"
  by (auto simp: skv_behaves_def map_kv_def update_conv' delete_conv' map_of_clearjunk mwf_def fun_upd_def)

definition ex_skv :: "unit skvlib" where
  "ex_skv = \<lparr>skv_Open_containers = (\<lambda>p w. Some ex_kv), skv_Open_sandboxes = (\<lambda>p w. Some ex_kv),
     skv_Open_images = (\<lambda>p w. Some ex_kv)\<rparr>"

definition ex_go :: "unit golib" where
  "ex_go = \<lparr>uuid_Generate = (\<lambda>w. (''u-1'', w)), time_Now = (\<lambda>w. (7, w)), time_Stamp = (\<lambda>w. (''20190102030405'', w))\<rparr>"

definition ex_ns :: "unit nslib" where
  "ex_ns = \<lparr>cnins_GetNS = (\<lambda>p w. (Inr p, w)), cnins_NewNS = (\<lambda>w. (Inr ''/var/run/netns/a'', w)),
     cnins_Close = (\<lambda>p w. (None, w)), unix_Unmount = (\<lambda>p w. (None, w))\<rparr>"

definition ex_fs :: fs where
  "ex_fs = \<lparr>entries = (\<lambda>_. None), refused = (\<lambda>_. False), full = (\<lambda>_. False)\<rparr>"

text \<open>A cluster that answers every command with the given text.\<close>

definition ex_ssh :: "string \<Rightarrow> unit sshlib" where
  "ex_ssh out = \<lparr>ssh_ParsePrivateKey = Inr, ssh_Dial = (\<lambda>n a m w. Some (Inr 0, w)), ssh_NewSession = (\<lambda>c w. (Inr 0, w)),
     ssh_RequestPty = (\<lambda>h w. (None, w)), ssh_Run = (\<lambda>h c w. ((out, [], None), w)), ssh_Start = (\<lambda>h c w. (None, w)),
     ssh_StdoutPipe = (\<lambda>h w. (None, w)), ssh_ReadPipe = (\<lambda>h w. ((out, None), w)), ssh_Wait = (\<lambda>h w. (None, w)),
     ssh_Close = (\<lambda>h w. w), scp_CopyPath = (\<lambda>a b h f w. (None, w))\<rparr>"

definition ex_lib :: "unit lib" where
  "ex_lib = \<lparr>lib_go = ex_go, lib_ssh = ex_ssh ''Submitted batch job 42'', lib_ci = \<lparr>cri_format = (\<lambda>st n d w. (d, w))\<rparr>,
     lib_proc = \<lparr>proc_Run = (\<lambda>c f w. (([], True), f, w))\<rparr>\<rparr>"

text \<open>A remote runtime that refuses to stop containers and has nothing to list.\<close>

definition ex_remote :: "unit RemoteCRIObject" where
  "ex_remote = \<lparr>rc_RunPodSandbox = (\<lambda>r w. (Inr ''remote-pod'', w)), rc_StopPodSandbox = (\<lambda>k w. (Inr (), w)),
     rc_RemovePodSandbox = (\<lambda>k w. (Inr (), w)), rc_PodSandboxStatus = (\<lambda>k w. (Inl ''no status'', w)),
     rc_ListPodSandbox = (\<lambda>f w. (Inr [], w)), rc_PortForward = (\<lambda>k w. (Inr ''url'', w)),
     rc_CreateContainer = (\<lambda>r w. (Inr ''remote-container'', w)), rc_StartContainer = (\<lambda>k w. (Inr (), w)),
     rc_StopContainer = (\<lambda>k w. (Inl ''timeout'', w)), rc_RemoveContainer = (\<lambda>k w. (Inr (), w)),
     rc_ContainerStatus = (\<lambda>k w. (Inl ''no status'', w)), rc_ContainerStats = (\<lambda>k w. (Inl ''no stats'', w)),
     rc_UpdateContainerResources = (\<lambda>k w. (Inr (), w)), rc_ReopenContainerLog = (\<lambda>k w. (Inr (), w)),
     rc_ListContainers = (\<lambda>f w. (Inr [], w)), rc_ListContainerStats = (\<lambda>f w. (Inr [], w)),
     rc_Attach = (\<lambda>k w. (Inr ''url'', w)), rc_Exec = (\<lambda>k w. (Inr ''url'', w)),
     rc_ExecSync = (\<lambda>k c w. (Inl ''no exec'', w)), rc_PullImage = (\<lambda>r w. (Inr ''ref'', w)),
     rc_ImageStatus = (\<lambda>k w. (Inr None, w)), rc_ListImages = (\<lambda>f w. (Inl ''unavailable'', w)),
     rc_RemoveImage = (\<lambda>k w. (Inr (), w)), rc_ImageFsInfo = (\<lambda>w. (Inl ''no info'', w))\<rparr>"

definition ex_host :: "unit hostlib" where
  "ex_host = \<lparr>hl_lib = ex_lib, hl_env = (\<lambda>_. []), hl_LookPath = (\<lambda>p. Inr p),
     hl_cgroups = \<lparr>cg_Load = (\<lambda>p w. (Inr 0, w)), cg_New = (\<lambda>p w. (Inr 0, w)), cg_Add = (\<lambda>n p w. (None, w)), os_Getpid = 1\<rparr>,
     hl_skv = ex_skv, hl_ns = ex_ns,
     hl_grpc = \<lparr>gr_GetAddressAndDialer = Inr, gr_Dial = (\<lambda>a w. (Inr 0, w)), gr_Client = (\<lambda>a b. ex_remote)\<rparr>,
     hl_exec = \<lparr>exec_Run = (\<lambda>c w. (([], True), w))\<rparr>,
     hl_InitCNI = (\<lambda>a b. Inr NewFackeCNIPlugin), hl_ChooseBindAddress = Inr ''10.0.0.1'',
     hl_NewServer = (\<lambda>a. None), hl_GetPortForward = (\<lambda>k w. (Inr ''url'', w))\<rparr>"

definition ex_V :: "unit multicriService" where
  "ex_V = \<lparr>sv_adapter = FakeAdapter False, sv_serverAddress = ''/run/m.sock'', sv_sandboxImage = ''pause'',
     sv_cgroupPath = [], sv_netPlugin = None, sv_networkNamespace = CNINetworkManager, sv_os = RealOS,
     sv_remoteCRI = [], sv_go = ex_go, sv_ns = ex_ns, sv_GetPortForward = (\<lambda>k w. (Inr ''url'', w))\<rparr>"

definition ex_cache_fs :: fs where
  "ex_cache_fs = snd (os_MkdirAll ''/cache'' ex_fs)"

definition ex_s0 :: "unit mstate" where
  "ex_s0 = (empty_state () ex_cache_fs)\<lparr>basePath := ''/cache'', image_persist := Some ex_kv\<rparr>"

lemma ex_built:
  "NewMulticriService ex_host ''fake'' ''/run/m.sock'' ''/bin'' ''/conf'' [] ''10010'' [] ''pause'' ''/cache'' False False []
     (empty_state () ex_fs) = Some (Inr ex_V, ex_s0)"
  by (simp add: NewMulticriService_def loadAdapter_def ex_host_def open_stores_def NewSandboxStorage_def
      NewContainerStorage_def NewImageStorage_def NewImagePersist_def ex_skv_def ImagePersist_LoadAll_def ex_kv_def
      assemble_def LoadRemoteRuntimeConfiguration_def init_network_def NewStreamServer_def ex_V_def ex_s0_def ex_lib_def
      empty_state_def ex_cache_fs_def)

text \<open>A life of a container: pull, run the pod, create, start, stop.\<close>

definition ex_life :: "request list" where
  "ex_life = [PullImageReq (NewPullImageRequest ''docker-repository.a/b:1'' ''pod'' []),
     RunPodSandboxReq (NewCreateSandboxRequest ''pod'' ''multicri''),
     CreateContainerReq (NewCreateContainerRequest ''pod'' ''c'' ''b''),
     StartContainerReq ''u1'', StopContainerReq ''u1'']"

lemma ex_life_ends:
  "map_option (\<lambda>t. (map_option c_State (cells (ctrs t) 0), ContainerPool t, SandboxPool t, ImagePool t)) (serve_all ex_V ex_life ex_s0)
    = Some (Some CONTAINER_EXITED, [(''u1'', 0)], [(''pod'', 0)], [(''u1'', 0)])"
  by code_simp

text \<open>
  The service of the same host with the Slurm adapter, whose files are a Singularity binary and a local
  image, and the life of a container up to its creation.
\<close>

definition ex_image_fs :: fs where
  "ex_image_fs = ex_fs\<lparr>entries := [''singularity'' \<mapsto> File [], ''/a/b'' \<mapsto> File ''image'']\<rparr>"

definition ex_slurm_adapter :: "unit SlurmAdapter" where
  "ex_slurm_adapter = \<lparr>sa_MountPath = MOUNTHPATH, sa_Builder = InCRI_builder ex_lib \<lparr>br_client = \<lparr>singularityPath = ''singularity'', globalFlags = []\<rparr>, br_RemoteMount = []\<rparr>,
     sa_ImageRemoteMount = []\<rparr>"

definition ex_slurm_V :: "unit multicriService" where
  "ex_slurm_V = ex_V\<lparr>sv_adapter := SlurmAdapter_interface ex_lib ex_slurm_adapter\<rparr>"

definition ex_slurm_s0 :: "unit mstate" where
  "ex_slurm_s0 = (empty_state () (snd (os_MkdirAll ''/cache'' ex_image_fs)))\<lparr>basePath := ''/cache'', image_persist := Some ex_kv\<rparr>"

lemma ex_slurm_built:
  "NewMulticriService ex_host ''slurm'' ''/run/m.sock'' ''/bin'' ''/conf'' [] ''10010'' [] ''pause'' ''/cache'' False False []
     (empty_state () ex_image_fs) = Some (Inr ex_slurm_V, ex_slurm_s0)"
  by (simp add: NewMulticriService_def loadAdapter_def ex_host_def open_stores_def NewSandboxStorage_def
      NewContainerStorage_def NewImageStorage_def NewImagePersist_def ex_skv_def ImagePersist_LoadAll_def ex_kv_def
      assemble_def LoadRemoteRuntimeConfiguration_def init_network_def NewStreamServer_def ex_lib_def
      empty_state_def NewSlurmAdapter_def GetEnv_def GetBoolEnv_def NewImageBuilderInCRI_def NewSingularityCLI_def
      os_Stat_def ex_image_fs_def ex_fs_def ex_slurm_V_def ex_slurm_s0_def ex_slurm_adapter_def ex_V_def)

definition ex_slurm_life :: "request list" where
  "ex_slurm_life = [PullImageReq (NewPullImageRequest ''local-image.a/b:1'' ''pod'' []),
     RunPodSandboxReq (NewCreateSandboxRequest ''pod'' ''multicri''),
     CreateContainerReq \<lparr>cr_PodSandboxId = ''pod'', cr_Config = Some (zero_container_config\<lparr>cc_Metadata := Some ''c'', cc_Image := Some ''b'',
         cc_Envs := [(''CLUSTER_HOST'', ''h''), (''CLUSTER_USERNAME'', ''u''), (''CLUSTER_PASSWORD'', ''p'')]\<rparr>),
       cr_SandboxConfig = Some zero_pod_config\<rparr>]"

lemma ex_slurm_created:
  "map_option (\<lambda>s. (ContainerPool s, map_option c_Image (cells (ctrs s) 0))) (serve_all ex_slurm_V ex_slurm_life ex_slurm_s0)
    = Some ([(''u1'', 0)], Some (Some 0))"
  by code_simp

text \<open>States with one pod, one container and one image, at address 0 of their heaps.\<close>

definition ex_pod :: "PodSandboxState \<Rightarrow> string \<Rightarrow> SandboxMetadata" where
  "ex_pod st h = zero_sandbox\<lparr>s_ID := ''pod'', s_State := st, s_RuntimeHandler := h\<rparr>"

definition ex_ctr :: "ContainerState \<Rightarrow> string \<Rightarrow> ContainerMetadata" where
  "ex_ctr st h = zero_container\<lparr>c_ID := ''c1'', c_State := st, c_PodSandbox := ex_pod SANDBOX_READY h, c_Image := Some 0\<rparr>"

definition ex_heap :: "'o \<Rightarrow> 'o heap" where
  "ex_heap v = \<lparr>cells = (\<lambda>_. None)(0 := Some v), next_free = 1\<rparr>"

definition ex_state :: "SandboxMetadata \<Rightarrow> ContainerMetadata \<Rightarrow> ImageMetadata \<Rightarrow> unit mstate" where
  "ex_state sm cm im = (empty_state () ex_fs)\<lparr>sbxs := ex_heap sm, ctrs := ex_heap cm, imgs := ex_heap im,
     SandboxPool := [(s_ID sm, 0)], ContainerPool := [(c_ID cm, 0)], ImagePool := [(i_ID im, 0)]\<rparr>"

lemma ex_V_simps [simp]:
  "sv_adapter ex_V = FakeAdapter False" "sv_netPlugin ex_V = None" "sv_remoteCRI ex_V = []" "sv_go ex_V = ex_go"
  by (simp_all add: ex_V_def)

lemma ex_adapter: "adapter (sv_adapter ex_V)"
  by (simp add: fake_adapter.adapter_axioms)

lemma no_remotes [simp]: "GetRemoteRuntime [] h = Inr None" "route [] h f s = ((None, None), s)"
  by (simp_all add: GetRemoteRuntime_def route_local)

lemma ex_local: "GetRemoteRuntime (sv_remoteCRI ex_V) h = Inr None"
  by simp

lemma ex_state_simps [simp]:
  "cells (sbxs (ex_state sm cm im)) 0 = Some sm" "cells (ctrs (ex_state sm cm im)) 0 = Some cm"
  "cells (imgs (ex_state sm cm im)) 0 = Some im"
  "SandboxPool (ex_state sm cm im) = [(s_ID sm, 0)]" "ContainerPool (ex_state sm cm im) = [(c_ID cm, 0)]"
  "ImagePool (ex_state sm cm im) = [(i_ID im, 0)]" "files (ex_state sm cm im) = ex_fs"
  by (simp_all add: ex_state_def ex_heap_def empty_state_def)

lemma ex_object_simps [simp]:
  "s_ID (ex_pod st h) = ''pod''" "s_State (ex_pod st h) = st" "s_RuntimeHandler (ex_pod st h) = h"
  "s_NetNSPath (ex_pod st h) = []"
  "c_ID (ex_ctr cs h) = ''c1''" "c_State (ex_ctr cs h) = cs" "c_PodSandbox (ex_ctr cs h) = ex_pod SANDBOX_READY h"
  "c_Image (ex_ctr cs h) = Some 0"
  by (simp_all add: ex_pod_def ex_ctr_def zero_sandbox_def)

end
