(* ===== verification/Answering.thy ===== *)
theory Answering
  imports Requests
begin

text \<open>
  Requests that are answered.  A handler that dereferences nil or indexes out of range answers
  nothing: its result is \<open>None\<close>.  This theory says which requests crash the service in which
  states (\<open>crashes\<close>) and what a request asks of the adapter (\<open>adapter_answers\<close>), and shows that in
  a state that meets the invariant a request is answered exactly when it is none of these.
\<close>

section \<open>Results that are there\<close>

definition answered :: "'a option \<Rightarrow> bool" where
  "answered m \<longleftrightarrow> m \<noteq> None"

named_theorems answers \<open>a handler answers, along its text\<close>

lemma answered_Some [answers]: "answered (Some x)"
  by (simp add: answered_def)

lemma answered_iff [simp]: "answered (Some x)" "\<not> answered None"
  by (simp_all add: answered_def)

lemma answeredE: "answered m \<Longrightarrow> (\<And>x. m = Some x \<Longrightarrow> P) \<Longrightarrow> P"
  by (auto simp: answered_def)

lemma answered_pair: "answered m \<Longrightarrow> \<exists>a b. m = Some (a, b)"
  by (cases m) auto

lemma answered_bind [answers]: "answered m \<Longrightarrow> (\<And>x. m = Some x \<Longrightarrow> answered (f x)) \<Longrightarrow> answered (Option.bind m f)"
  by (auto simp: answered_def)

lemma answered_cases [answers]:
  "(\<And>a b. x = (a, b) \<Longrightarrow> answered (f a b)) \<Longrightarrow> answered (case x of (a, b) \<Rightarrow> f a b)"
  "(ov = None \<Longrightarrow> answered m) \<Longrightarrow> (\<And>y. ov = Some y \<Longrightarrow> answered (g y)) \<Longrightarrow> answered (case_option m g ov)"
  "(\<And>e. r = Inl e \<Longrightarrow> answered (h e)) \<Longrightarrow> (\<And>y. r = Inr y \<Longrightarrow> answered (k y)) \<Longrightarrow> answered (case_sum h k r)"
  "(c \<Longrightarrow> answered m) \<Longrightarrow> (\<not> c \<Longrightarrow> answered n) \<Longrightarrow> answered (if c then m else n)"
  by (auto split: prod.splits option.splits sum.splits)

lemma answered_map [simp]: "answered (map_option f m) \<longleftrightarrow> answered m"
  by (simp add: answered_def)

text \<open>The building blocks.\<close>

lemma sandbox_put_answered [answers]: "cells (sbxs s) p \<noteq> None \<Longrightarrow> answered (SandboxStorage_Update p s)"
  using sandbox_store.put_defined by (fastforce simp: answered_def)

lemma container_put_answered [answers]: "cells (ctrs s) p \<noteq> None \<Longrightarrow> answered (ContainerStorage_Update p s)"
  using container_store.put_defined by (fastforce simp: answered_def)

lemma image_put_answered [answers]: "cells (imgs s) p \<noteq> None \<Longrightarrow> answered (ImageStorage_Update p s)"
  using image_store.put_defined by (fastforce simp: answered_def)

lemma update_container_answered [answers]: "cells (ctrs s) p \<noteq> None \<Longrightarrow> answered (update_container p f s)"
  by (auto simp: update_container_def)

lemma update_container_cells: "update_container p f s = Some t \<Longrightarrow> cells (ctrs t) p \<noteq> None \<and> imgs t = imgs s"
  by (auto simp: update_container_def bind_eq_Some_conv)

lemma create_sandbox_answered: "pc_Metadata config \<noteq> None \<Longrightarrow> answered (SandboxStorage_CreateSandboxMetadata L st config h s)"
  by (auto simp: SandboxStorage_CreateSandboxMetadata_def getPodID_def SandboxStorage_Add_Update alloc_def
      intro!: answers split: prod.split)

lemma create_container_answered:
  assumes "cells (sbxs s) sp \<noteq> None"
  shows "answered (ContainerStorage_CreateContainerMetadata L name (Some sp) st at img cmd args svc config env prt ident s)"
proof -
  obtain k t where k: "(case ident of Some i \<Rightarrow> (i, s) | None \<Rightarrow> new_uuid L s) = (k, t)" by (metis prod.exhaust)
  then have "same_stores s t" by (auto dest: new_uuid_same split: option.splits)
  then have "cells (sbxs t) sp \<noteq> None" using assms by (simp add: same_stores_def)
  then show ?thesis
    unfolding ContainerStorage_CreateContainerMetadata_def Let_def k ContainerStorage_Add_Update
    by (auto simp: alloc_def answered_def[symmetric] intro!: answers)
qed

lemma create_image_answered: "pr_Image req \<noteq> None \<Longrightarrow> answered (ImageStorage_CreateImageMetadata L req s)"
  by (auto simp: ImageStorage_CreateImageMetadata_def ImageStorage_Add_def alloc_def Let_def intro!: answers split: prod.split)

lemma create_image_live:
  "ImageStorage_CreateImageMetadata L req s = Some ((p, err), t) \<Longrightarrow> \<exists>im. cells (imgs t) p = Some im"
  by (auto simp: ImageStorage_CreateImageMetadata_def ImageStorage_Add_def alloc_def Let_def image_put_frame
      bind_eq_Some_conv split: prod.splits if_splits)

lemma find_answered: "Inv V s \<Longrightarrow> answered (find_image P (imgs s) (ImagePool s))"
  using find_image_wf [of "imgs s" "ImagePool s" P] by (auto simp: Inv_def state_wf_def)

lemma GetByID_answered: "Inv V s \<Longrightarrow> answered (ImageStorage_GetByID img s)"
  using find_answered [of V s "image_matches img"] by (auto simp: ImageStorage_GetByID_def answered_def)

section \<open>What a request asks\<close>

text \<open>A container whose image is there.\<close>

definition holds_image :: "'w mstate \<Rightarrow> ptr \<Rightarrow> bool" where
  "holds_image s p \<longleftrightarrow> (\<exists>cm. cells (ctrs s) p = Some cm \<and> deref (c_Image cm) (imgs s) \<noteq> None)"

text \<open>The adapter's part: the operation the request calls answers on every live object.\<close>

fun adapter_answers :: "'w AdapterInterface \<Rightarrow> request \<Rightarrow> bool" where
  "adapter_answers A (RunPodSandboxReq r) \<longleftrightarrow> (\<forall>p s. cells (sbxs s) p \<noteq> None \<longrightarrow> answered (ad_RunPodSandbox A p s))"
| "adapter_answers A (StopPodSandboxReq k) \<longleftrightarrow> (\<forall>p s. cells (sbxs s) p \<noteq> None \<longrightarrow> answered (ad_StopPodSandbox A p s))"
| "adapter_answers A (RemovePodSandboxReq k) \<longleftrightarrow> (\<forall>p s. cells (sbxs s) p \<noteq> None \<longrightarrow> answered (ad_RemovePodSandbox A p s))"
| "adapter_answers A (PodSandboxStatusReq k) \<longleftrightarrow> (\<forall>p s. cells (sbxs s) p \<noteq> None \<longrightarrow> answered (ad_PodSandboxStatus A p s))"
| "adapter_answers A (CreateContainerReq r) \<longleftrightarrow> (\<forall>p s. holds_image s p \<longrightarrow> answered (ad_CreateContainer A p s))"
| "adapter_answers A (StartContainerReq k) \<longleftrightarrow> (\<forall>p s. holds_image s p \<longrightarrow> answered (ad_StartContainer A p s))"
| "adapter_answers A (StopContainerReq k) \<longleftrightarrow> (\<forall>p s. cells (ctrs s) p \<noteq> None \<longrightarrow> answered (ad_StopContainer A p s))"
| "adapter_answers A (RemoveContainerReq k) \<longleftrightarrow> (\<forall>p s. cells (ctrs s) p \<noteq> None \<longrightarrow> answered (ad_ReopenContainerLog A p s))"
| "adapter_answers A (ContainerStatusReq k) \<longleftrightarrow> (\<forall>p s. holds_image s p \<longrightarrow> answered (ad_ContainerStatus A p s))"
| "adapter_answers A (UpdateContainerResourcesReq k) \<longleftrightarrow> (\<forall>p s. cells (ctrs s) p \<noteq> None \<longrightarrow> answered (ad_UpdateContainerResources A p s))"
| "adapter_answers A (ReopenContainerLogReq k) \<longleftrightarrow> (\<forall>p s. cells (ctrs s) p \<noteq> None \<longrightarrow> answered (ad_ReopenContainerLog A p s))"
| "adapter_answers A (PullImageReq r) \<longleftrightarrow> (\<forall>q s. cells (imgs s) q \<noteq> None \<longrightarrow> answered (ad_PullImage A q s))"
| "adapter_answers A (ListImagesReq f) \<longleftrightarrow> (\<forall>is s. answered (ad_ListImages A is s))"
| "adapter_answers A (ImageStatusReq r) \<longleftrightarrow> (\<forall>q s. cells (imgs s) q \<noteq> None \<longrightarrow> answered (ad_ImageStatus A q s))"
| "adapter_answers A (RemoveImageReq r) \<longleftrightarrow> (\<forall>q s. cells (imgs s) q \<noteq> None \<longrightarrow> answered (ad_RemoveImage A q s))"
| "adapter_answers A ImageFsInfoReq \<longleftrightarrow> (\<forall>s. answered (ad_ImageFsInfo A s))"
| "adapter_answers A r \<longleftrightarrow> True"

lemma fake_answers: "adapter_answers (FakeAdapter b) r"
  by (cases r) (auto simp: ok_op_def FakeAdapter_StopContainer_def FakeAdapter_PullImage_def set_LocalPath_def
      update_image_def)

section \<open>Requests that crash the service\<close>

text \<open>The reply of the remote runtimes is an error: they failed, or no runtime has the handler's name.\<close>

definition remote_fails ::
    "'w multicriService \<Rightarrow> string \<Rightarrow> ('w RemoteCRIObject \<Rightarrow> 'w \<Rightarrow> (error + 'a) \<times> 'w) \<Rightarrow> 'w mstate \<Rightarrow> bool" where
  "remote_fails V h f s \<longleftrightarrow> snd (fst (route (sv_remoteCRI V) h f s)) \<noteq> None"

text \<open>No network namespace can be made for a pod that is to have one of its own, once its record is filed.\<close>

definition network_lost :: "'w multicriService \<Rightarrow> string \<Rightarrow> PodSandboxConfig \<Rightarrow> 'w mstate \<Rightarrow> bool" where
  "network_lost V h config s \<longleftrightarrow> GetRemoteRuntime (sv_remoteCRI V) h = Inr None \<and> sv_netPlugin V \<noteq> None
     \<and> get_pod_network config = NamespaceMode_POD \<and> sv_networkNamespace V = CNINetworkManager
     \<and> (\<forall>p u. SandboxStorage_CreateSandboxMetadata (sv_go V) SANDBOX_NOTREADY config h s = Some (p, u) \<longrightarrow>
          (\<exists>e. fst (cnins_NewNS (sv_ns V) (world u)) = Inl e))"

definition image_known :: "'w mstate \<Rightarrow> string \<Rightarrow> bool" where
  "image_known s img \<longleftrightarrow> (\<exists>k p im. mget (ImagePool s) k = Some p \<and> cells (imgs s) p = Some im \<and> image_matches img k im)"

text \<open>
  The crashes, request by request: a field that is read without a test is missing, where the
  handler gets that far; a pod's namespace is lost; a container without an image, which its remote
  runtime did not start, falls through to an adapter that crashes on it; an unknown container is
  asked for where nothing answers, or its removal is confirmed by the default remote runtime; and
  the loop that cuts a container out of its pod's list runs past the end, at an ID that is listed last and
  once more before.
\<close>

fun crashes :: "'w multicriService \<Rightarrow> 'w mstate \<Rightarrow> request \<Rightarrow> bool" where
  "crashes V s (RunPodSandboxReq r) \<longleftrightarrow> \<not> remote_fails V (rq_RuntimeHandler r) (\<lambda>c. rc_RunPodSandbox c r) s
     \<and> (case rq_Config r of None \<Rightarrow> True
        | Some config \<Rightarrow> pc_Metadata config = None \<or> network_lost V (rq_RuntimeHandler r) config s)"
| "crashes V s (CreateContainerReq r) \<longleftrightarrow> (\<exists>sp sandbox. mget (SandboxPool s) (cr_PodSandboxId r) = Some sp
     \<and> cells (sbxs s) sp = Some sandbox \<and> \<not> remote_fails V (s_RuntimeHandler sandbox) (\<lambda>c. rc_CreateContainer c r) s
     \<and> (case cr_Config r of None \<Rightarrow> True
        | Some config \<Rightarrow> GetRemoteRuntime (sv_remoteCRI V) (s_RuntimeHandler sandbox) = Inr None
            \<and> (cc_Metadata config = None \<or> (case cc_Image config of None \<Rightarrow> True
               | Some img \<Rightarrow> image_known s img \<and> cr_SandboxConfig r = None))))"
| "crashes V s (StartContainerReq k) \<longleftrightarrow> (\<exists>p cm e u. mget (ContainerPool s) k = Some p \<and> cells (ctrs s) p = Some cm
     \<and> c_Image cm = None \<and> c_State cm = CONTAINER_CREATED
     \<and> route (sv_remoteCRI V) (s_RuntimeHandler (c_PodSandbox cm)) (\<lambda>c. rc_StartContainer c k) s = ((None, e), u)
     \<and> ad_StartContainer (sv_adapter V) p u = None)"
| "crashes V s (RemoveContainerReq k) \<longleftrightarrow>
     (case mget (ContainerPool s) k of
        None \<Rightarrow> (\<exists>y u. route (sv_remoteCRI V) [] (\<lambda>c. rc_RemoveContainer c k) s = ((Some y, None), u))
      | Some p \<Rightarrow> (\<exists>cm q sm. cells (ctrs s) p = Some cm
          \<and> \<not> remote_fails V (s_RuntimeHandler (c_PodSandbox cm)) (\<lambda>c. rc_RemoveContainer c k) s
          \<and> (GetRemoteRuntime (sv_remoteCRI V) (s_RuntimeHandler (c_PodSandbox cm)) = Inr None \<longrightarrow>
               c_State cm \<noteq> CONTAINER_RUNNING \<and> (\<exists>v. ad_ReopenContainerLog (sv_adapter V) p s = Some (None, v)))
          \<and> mget (SandboxPool s) (s_ID (c_PodSandbox cm)) = Some q \<and> cells (sbxs s) q = Some sm
          \<and> listed_again k (s_Containers sm)))"
| "crashes V s (ContainerStatusReq k) \<longleftrightarrow> mget (ContainerPool s) k = None \<and> sv_remoteCRI V = []"
| "crashes V s (ContainerStatsReq k) \<longleftrightarrow> mget (ContainerPool s) k = None \<and> sv_remoteCRI V = []"
| "crashes V s (ListContainersReq f) \<longleftrightarrow> f = None"
| "crashes V s (ListContainerStatsReq f) \<longleftrightarrow> f = None"
| "crashes V s (PullImageReq r) \<longleftrightarrow> pr_Image r = None"
| "crashes V s (ImageStatusReq r) \<longleftrightarrow> r = None"
| "crashes V s (RemoveImageReq r) \<longleftrightarrow> r = None"
| "crashes V s r \<longleftrightarrow> False"

lemma remote_fails_route:
  "route (sv_remoteCRI V) h f s = ((x, e), t) \<Longrightarrow> remote_fails V h f s \<longleftrightarrow> e \<noteq> None"
  by (simp add: remote_fails_def)

lemma create_sandbox_crash: "pc_Metadata config = None \<Longrightarrow> SandboxStorage_CreateSandboxMetadata L st config h s = None"
  by (simp add: SandboxStorage_CreateSandboxMetadata_def getPodID_def)

section \<open>Pods\<close>

lemma pod_cases:
  assumes "Inv V s"
  obtains (found) p sm where "SandboxStorage_Get k s = (Some p, None)" "mget (SandboxPool s) k = Some p"
      "cells (sbxs s) p = Some sm" "s_ID sm = k" "s_NetNSPath sm = []" "handler_of (Some p) s = Some (s_RuntimeHandler sm)"
  | (missing) e where "SandboxStorage_Get k s = (None, Some e)"
proof (cases "mget (SandboxPool s) k")
  case None
  then show ?thesis using missing by (simp add: SandboxStorage_Get_def)
next
  case (Some p)
  with Inv_sandbox [OF assms Some] found show ?thesis by (auto simp: SandboxStorage_Get_def handler_of_def)
qed

lemma handler_of_None [simp]: "handler_of None s = Some []"
  by (simp add: handler_of_def)

lemma steady_live:
  assumes "steady s t"
  shows "sbxs t = sbxs s" "cells (ctrs t) p \<noteq> None \<longleftrightarrow> cells (ctrs s) p \<noteq> None"
    "cells (imgs t) q \<noteq> None \<longleftrightarrow> cells (imgs s) q \<noteq> None"
proof -
  have f: "adapter_frame s t" using assms by (rule steady_adapter_frame)
  then show "sbxs t = sbxs s" by (simp add: adapter_frame_def)
  have "rel_option same_container (cells (ctrs s) p) (cells (ctrs t) p)" using f by (simp add: adapter_frame_def)
  then show "cells (ctrs t) p \<noteq> None \<longleftrightarrow> cells (ctrs s) p \<noteq> None" by (cases "cells (ctrs s) p"; cases "cells (ctrs t) p") auto
  have "rel_option same_image (cells (imgs s) q) (cells (imgs t) q)" using f by (simp add: adapter_frame_def)
  then show "cells (imgs t) q \<noteq> None \<longleftrightarrow> cells (imgs s) q \<noteq> None" by (cases "cells (imgs s) q"; cases "cells (imgs t) q") auto
qed

context runtime
begin

lemma setup_answered:
  assumes "cells (sbxs v) p = Some sm" and "sv_netPlugin V = Some pl"
  shows "answered (setupPodNetwork V p v) \<longleftrightarrow> \<not> (get_pod_network (s_Config sm) = NamespaceMode_POD
     \<and> sv_networkNamespace V = CNINetworkManager \<and> (\<exists>e. fst (cnins_NewNS (sv_ns V) (world v)) = Inl e))"
proof -
  have rem: "answered (Namespace_Remove N (CNINamespace n) t)" if "ns n = Some h" for N n h and t :: "'w mstate"
    using that by (auto simp: Namespace_Remove_def NetNS_Remove_def intro!: answers split: prod.splits option.splits)
  have fake: "answered (Namespace_Remove N FakeNamespace t)" for N and t :: "'w mstate"
    by (simp add: Namespace_Remove_def)
  obtain r w where n: "cnins_NewNS (sv_ns V) (world v) = (r, w)" by (metis prod.exhaust)
  have net: "CNINetwork_OpenNetNamespace (sv_ns V) [] v =
      (case r of Inl e \<Rightarrow> ((new_NetNS, None), v\<lparr>world := w\<rparr>) | Inr h \<Rightarrow> ((new_NetNS\<lparr>ns := Some h\<rparr>, None), v\<lparr>world := w\<rparr>))"
    using n by (cases r) (simp_all add: CNINetwork_OpenNetNamespace_def NetNS_CreateNetNS_def NetNS_newNetNS_def)
  show ?thesis
  proof (cases "sv_networkNamespace V")
    case CNINetworkManager
    show ?thesis
    proof (cases r)
      case (Inl e)
      with CNINetworkManager assms n net show ?thesis
        by (auto simp: setupPodNetwork_def OpenNetNamespace_def Namespace_GetPath_def NetNS_GetPath_def new_NetNS_def)
    next
      case (Inr h)
      with CNINetworkManager assms n net rem show ?thesis
        by (auto simp: setupPodNetwork_def OpenNetNamespace_def Namespace_GetPath_def NetNS_GetPath_def Let_def intro!: answers)
    qed
  next
    case FakeNetworkManager
    with assms fake show ?thesis
      by (auto simp: setupPodNetwork_def OpenNetNamespace_def Namespace_GetPath_def Let_def intro!: answers)
  qed
qed

lemma run_local_answered:
  assumes run: "\<And>p s. cells (sbxs s) p \<noteq> None \<Longrightarrow> answered (ad_RunPodSandbox (sv_adapter V) p s)"
    and sm: "cells (sbxs v) p = Some sm"
  shows "answered (run_local_sandbox V config p v) \<longleftrightarrow> answered (if sv_netPlugin V \<noteq> None then setupPodNetwork V p v else Some (None, v))"
    (is "_ \<longleftrightarrow> answered ?net")
proof
  assume "answered (run_local_sandbox V config p v)"
  then show "answered ?net" by (cases ?net) (auto simp: run_local_sandbox_def)
next
  assume "answered ?net"
  then obtain err w where n: "?net = Some (err, w)" using answered_pair by blast
  then have "addressed p sm v w"
    using setupPodNetwork_effect [OF _ sm] addressed_same [OF sm, of v] by (auto split: if_splits)
  then have "cells (sbxs w) p \<noteq> None" by (auto simp: addressed_def same_stores_def)
  with n run show "answered (run_local_sandbox V config p v)" by (auto simp: run_local_sandbox_def Let_def)
qed

lemma run_local_lost:
  assumes run: "\<And>p s. cells (sbxs s) p \<noteq> None \<Longrightarrow> answered (ad_RunPodSandbox (sv_adapter V) p s)"
    and c: "SandboxStorage_CreateSandboxMetadata (sv_go V) SANDBOX_NOTREADY config h s = Some (p, v)"
    and "GetRemoteRuntime (sv_remoteCRI V) h = Inr None"
  shows "answered (do {
         (err, s) \<leftarrow> run_local_sandbox V config p v;
         sandbox \<leftarrow> cells (sbxs s) p;
         (case err of
            Some e \<Rightarrow> Some ((None, Some e), SandboxStorage_Remove (s_ID sandbox) s)
          | None \<Rightarrow> do { s \<leftarrow> SandboxStorage_Update p s; Some ((Some (s_ID sandbox), None), s) }) })
    \<longleftrightarrow> \<not> network_lost V h config s" (is "answered ?rest \<longleftrightarrow> _")
proof -
  obtain sm where sm: "cells (sbxs v) p = Some sm" "s_Config sm = config" by (rule CreateSandboxMetadata_effect [OF c]) simp
  have "answered ?rest \<longleftrightarrow> answered (run_local_sandbox V config p v)"
  proof
    assume "answered (run_local_sandbox V config p v)"
    then show "answered ?rest"
      by (rule answered_bind) (use run_local_sandbox_effect [OF adapter_axioms _ sm(1)] in \<open>fastforce intro!: answers\<close>)
  qed (cases "run_local_sandbox V config p v"; simp)
  also have "\<dots> \<longleftrightarrow> \<not> network_lost V h config s"
    using run_local_answered [OF run sm(1)] setup_answered [OF sm(1)] sm(2) c assms(3)
    by (cases "sv_netPlugin V") (auto simp: network_lost_def)
  finally show ?thesis .
qed

lemma RunPodSandbox_answered:
  assumes "adapter_answers (sv_adapter V) (RunPodSandboxReq req)"
  shows "answered (RunPodSandbox V req s) \<longleftrightarrow> \<not> crashes V s (RunPodSandboxReq req)"
proof -
  obtain x e u where r: "route (sv_remoteCRI V) (rq_RuntimeHandler req) (\<lambda>c. rc_RunPodSandbox c req) s = ((x, e), u)"
    by (metis prod.exhaust)
  note fails = remote_fails_route [OF r]
  from r show ?thesis
  proof (cases rule: routed)
    case local
    show ?thesis
    proof (cases "\<exists>config. rq_Config req = Some config \<and> pc_Metadata config \<noteq> None")
      case True
      then obtain config where config: "rq_Config req = Some config" "pc_Metadata config \<noteq> None" by blast
      obtain p v where c: "SandboxStorage_CreateSandboxMetadata (sv_go V) SANDBOX_NOTREADY config (rq_RuntimeHandler req) s = Some (p, v)"
        using answered_pair [OF create_sandbox_answered [OF config(2)]] by blast
      show ?thesis
        using run_local_lost [OF _ c local(1)] assms config r local c fails
        by (simp add: RunPodSandbox_def Remote_RunPodSandbox_def)
    next
      case False
      with r local fails show ?thesis
        by (auto simp: RunPodSandbox_def Remote_RunPodSandbox_def create_sandbox_crash split: option.splits)
    qed
  next
    case (failed y)
    with r fails show ?thesis by (simp add: RunPodSandbox_def Remote_RunPodSandbox_def)
  next
    case (answered k d)
    then have here: "\<not> network_lost V (rq_RuntimeHandler req) config s" for config by (simp add: network_lost_def)
    show ?thesis
    proof (cases "\<exists>config. rq_Config req = Some config \<and> pc_Metadata config \<noteq> None")
      case True
      then obtain config config' where config: "rq_Config req = Some config" "pc_Metadata config \<noteq> None"
        and c': "set_uid k config = Some config'" "pc_Metadata config' \<noteq> None" by (auto simp: set_uid_def)
      obtain p v where c: "SandboxStorage_CreateSandboxMetadata (sv_go V) SANDBOX_NOTREADY config' (rq_RuntimeHandler req) u = Some (p, v)"
        using answered_pair [OF create_sandbox_answered [OF c'(2)]] by blast
      have "answered (SandboxStorage_Update p v)"
        by (rule CreateSandboxMetadata_effect [OF c]) (simp add: sandbox_put_answered)
      with r config answered c' c here show ?thesis
        by (auto simp: RunPodSandbox_def Remote_RunPodSandbox_def elim!: answeredE)
    next
      case False
      with r answered fails show ?thesis
        by (auto simp: RunPodSandbox_def Remote_RunPodSandbox_def set_uid_def split: option.splits)
    qed
  qed
qed

lemma StopPodSandbox_answered:
  assumes "Inv V s" and "adapter_answers (sv_adapter V) (StopPodSandboxReq k)"
  shows "answered (StopPodSandbox V k s)"
  using assms(1)
proof (cases rule: pod_cases [where k = k])
  case (found p sm)
  obtain x e u where r: "route (sv_remoteCRI V) (s_RuntimeHandler sm) (\<lambda>c. rc_StopPodSandbox c k) s = ((x, e), u)"
    by (metis prod.exhaust)
  have u: "cells (sbxs u) p = Some sm" using route_frame [OF r] found(3) by (simp add: same_stores_def)
  have ad: "answered (if x = None then ad_StopPodSandbox (sv_adapter V) p u else Some (None, u))"
    using assms(2) u by simp
  have "cells (sbxs v) p = Some sm" if "(if x = None then ad_StopPodSandbox (sv_adapter V) p u else Some (None, u)) = Some (err, v)" for err v
    using that u keepsD [OF stop_sandbox] steady_live(1) by (fastforce split: if_splits)
  with ad r found u show ?thesis
    by (auto simp: StopPodSandbox_def Remote_StopPodSandbox_def cong: if_cong intro!: answers split: option.split)
next
  case (missing e)
  then show ?thesis by (auto simp: StopPodSandbox_def intro!: answers)
qed

lemma RemovePodSandbox_answered:
  assumes "Inv V s" and "adapter_answers (sv_adapter V) (RemovePodSandboxReq k)"
  shows "answered (RemovePodSandbox V k s)"
  using assms(1)
proof (cases rule: pod_cases [where k = k])
  case (found p sm)
  obtain x e u where r: "route (sv_remoteCRI V) (s_RuntimeHandler sm) (\<lambda>c. rc_RemovePodSandbox c k) s = ((x, e), u)"
    by (metis prod.exhaust)
  have u: "cells (sbxs u) p = Some sm" using route_frame [OF r] found(3) by (simp add: same_stores_def)
  have "answered (ad_RemovePodSandbox (sv_adapter V) p u)" using assms(2) u by simp
  moreover have "cells (sbxs v) p = Some sm" if "ad_RemovePodSandbox (sv_adapter V) p u = Some (err, v)" for err v
    using that u keepsD [OF remove_sandbox] steady_live(1) by fastforce
  ultimately show ?thesis using r found u
    by (auto simp: RemovePodSandbox_def Remote_RemovePodSandbox_def intro!: answers split: if_splits)
next
  case (missing e)
  then show ?thesis by (auto simp: RemovePodSandbox_def intro!: answers)
qed

lemma PodSandboxStatus_answered:
  assumes "Inv V s" and "adapter_answers (sv_adapter V) (PodSandboxStatusReq k)"
  shows "answered (PodSandboxStatus_handler V k s)"
  using assms(1)
proof (cases rule: pod_cases [where k = k])
  case (found p sm)
  obtain x e u where r: "route (sv_remoteCRI V) (s_RuntimeHandler sm) (\<lambda>c. rc_PodSandboxStatus c k) s = ((x, e), u)"
    by (metis prod.exhaust)
  have ad: "answered (do {
       (err, s) \<leftarrow> ad_PodSandboxStatus (sv_adapter V) p (u\<lparr>sbxs := assign p sm' (sbxs u)\<rparr>);
       (case err of Some e \<Rightarrow> Some ((None, Some e), s)
        | None \<Rightarrow> do { sandbox \<leftarrow> cells (sbxs s) p; Some ((Some (Some (ParseToK8sSandboxStatus sandbox ip)), None), s) }) })"
    for sm' ip
  proof (rule answered_bind)
    show "answered (ad_PodSandboxStatus (sv_adapter V) p (u\<lparr>sbxs := assign p sm' (sbxs u)\<rparr>))" using assms(2) by simp
  next
    fix a assume a: "ad_PodSandboxStatus (sv_adapter V) p (u\<lparr>sbxs := assign p sm' (sbxs u)\<rparr>) = Some a"
    obtain err v where v: "a = (err, v)" by (cases a)
    have "cells (sbxs v) p = Some sm'" using steady_live(1) [OF keepsD [OF status_sandbox a [unfolded v]]] by simp
    then show "answered (case a of (err, s) \<Rightarrow> (case err of Some e \<Rightarrow> Some ((None, Some e), s)
        | None \<Rightarrow> do { sandbox \<leftarrow> cells (sbxs s) p; Some ((Some (Some (ParseToK8sSandboxStatus sandbox ip)), None), s) }))"
      by (auto simp: v intro!: answers)
  qed
  show ?thesis
    using r found
    by (cases x; cases e) (simp_all add: PodSandboxStatus_handler_def Remote_PodSandboxStatus_def Let_def ad split: prod.split)
next
  case (missing e)
  then show ?thesis by (simp add: PodSandboxStatus_handler_def)
qed

lemma ListPodSandbox_answered:
  assumes "Inv V s"
  shows "answered (ListPodSandbox V f s)"
proof -
  have "pool_wf s_ID (sbxs s) (SandboxPool s)" using assms by (simp add: Inv_def state_wf_def)
  then have "answered (SandboxStorage_ListK8s f l s)" for l
    by (simp add: SandboxStorage_ListK8s_def list_sandboxes_wf split: prod.split)
  then show ?thesis by (auto simp: ListPodSandbox_def intro!: answers)
qed

lemma PortForward_answered:
  assumes "Inv V s"
  shows "answered (PortForward V k s)"
  using assms by (cases rule: pod_cases [where k = k]) (auto simp: PortForward_def intro!: answers)

end

section \<open>Containers\<close>

text \<open>A container that the local runtime lists has its image.\<close>

lemma local_image_held:
  assumes "image_held r hi cm" and "s_RuntimeHandler (c_PodSandbox cm) = MulticriRuntimeName r"
  shows "deref (c_Image cm) hi \<noteq> None"
proof (cases "c_Image cm")
  case None
  with assms obtain c where c: "GetRemoteRuntime r (MulticriRuntimeName r) = Inr (Some c)"
    by (auto simp: image_held_def)
  then have "mget r ''default'' = None"
    by (auto simp: GetRemoteRuntime_def MulticriRuntimeName_def split: if_splits)
  with c show ?thesis
    by (auto simp: GetRemoteRuntime_def MulticriRuntimeName_def Let_def split: if_splits)
qed (use assms in \<open>simp add: image_held_def\<close>)

lemma container_listed_local: "container_listed a b c d r cm \<Longrightarrow> s_RuntimeHandler (c_PodSandbox cm) = r"
  by (simp add: container_listed_def split: if_splits)

lemma ListK8s_total:
  assumes "Inv V s"
  shows "\<exists>cs. ContainerStorage_ListK8s a b c d (MulticriRuntimeName (sv_remoteCRI V)) s = Some cs"
proof -
  have "pool_wf c_ID (ctrs s) (ContainerPool s)" using assms by (simp add: Inv_def state_wf_def)
  then have "\<forall>(k, p)\<in>set (ContainerPool s). cells (ctrs s) p \<noteq> None" unfolding pool_wf_def by fastforce
  moreover have "images_held (ctrs s) (imgs s) (ContainerPool s)
      (container_listed a b u x (MulticriRuntimeName (sv_remoteCRI V)))" for u x
    unfolding images_held_def
    using assms by (fastforce simp: Inv_def images_ok_def dest: container_listed_local local_image_held)
  ultimately show ?thesis
    unfolding ContainerStorage_ListK8s_def Let_def using list_containers_total by blast
qed

lemma container_cases:
  assumes "Inv V s"
  obtains (found) p cm where "ContainerStorage_Get k s = (Some p, None)" "mget (ContainerPool s) k = Some p"
      "cells (ctrs s) p = Some cm" "c_ID cm = k" "image_held (sv_remoteCRI V) (imgs s) cm"
      "container_handler (Some p) s = Some (s_RuntimeHandler (c_PodSandbox cm))"
  | (missing) e where "ContainerStorage_Get k s = (None, Some e)" "mget (ContainerPool s) k = None"
proof (cases rule: ContainerGet_cases [of k s])
  case (found p)
  with Inv_container [OF assms found(2)] obtain cm where "cells (ctrs s) p = Some cm" "c_ID cm = k" by blast
  with found that(1) Inv_held [OF assms found(2)] show ?thesis by (simp add: container_handler_def)
qed (use that(2) in blast)

lemma container_Update_images:
  assumes "ContainerStorage_Update p s = Some t"
  shows "imgs t = imgs s"
proof -
  obtain v where "t = ContainerStorage_persist_Put v (s\<lparr>ContainerPool := mset_key (c_ID v) p (ContainerPool s)\<rparr>)"
    using assms by (auto simp: ContainerStorage_Update_def bind_eq_Some_conv)
  then show ?thesis
    using persist_container_same [of "s\<lparr>ContainerPool := mset_key (c_ID v) p (ContainerPool s)\<rparr>" v] by (simp add: same_stores_def)
qed

lemma container_handler_None [simp]: "container_handler None s = Some []"
  by (simp add: container_handler_def)

lemma local_holds:
  assumes "image_held r (imgs s) cm" and "GetRemoteRuntime r (s_RuntimeHandler (c_PodSandbox cm)) = Inr None"
    and "cells (ctrs s) p = Some cm"
  shows "holds_image s p"
  using assms by (auto simp: image_held_def holds_image_def split: if_splits)

context runtime
begin

lemma start_tail:
  assumes "cells (ctrs u) p = Some cm"
  shows "answered (do {
       (err, s) \<leftarrow> ad_StartContainer (sv_adapter V) p u;
       let (t, s) = now (sv_go V) s;
       s \<leftarrow> update_container p (if err \<noteq> None then start_failed t else start_ok t) s;
       s \<leftarrow> ContainerStorage_Update p s;
       Some ((if err \<noteq> None then None else Some (), err), s) }) \<longleftrightarrow> answered (ad_StartContainer (sv_adapter V) p u)"
proof (cases "ad_StartContainer (sv_adapter V) p u")
  case (Some a)
  obtain err v where v: "a = (err, v)" by (cases a)
  obtain n w where n: "now (sv_go V) v = (n, w)" by (metis prod.exhaust)
  have "cells (ctrs v) p \<noteq> None"
    using assms steady_live(2) [OF keepsD [OF start_container Some [unfolded v]]] by simp
  then have "cells (ctrs w) p \<noteq> None" using now_same [OF n] by (simp add: same_stores_def)
  then show ?thesis
    unfolding Some v Let_def Option.bind.bind_lunit prod.case n
    by (auto intro!: answers dest!: update_container_cells)
qed simp

lemma StartContainer_crash:
  assumes "Inv V s"
  shows "StartContainer V k s = None \<longleftrightarrow> (\<exists>p cm e u. mget (ContainerPool s) k = Some p \<and> cells (ctrs s) p = Some cm
     \<and> c_State cm = CONTAINER_CREATED
     \<and> route (sv_remoteCRI V) (s_RuntimeHandler (c_PodSandbox cm)) (\<lambda>c. rc_StartContainer c k) s = ((None, e), u)
     \<and> ad_StartContainer (sv_adapter V) p u = None)"
  using assms
proof (cases rule: container_cases [where k = k])
  case (found p cm)
  obtain x e u where r: "route (sv_remoteCRI V) (s_RuntimeHandler (c_PodSandbox cm)) (\<lambda>c. rc_StartContainer c k) s = ((x, e), u)"
    by (metis prod.exhaust)
  have "cells (ctrs u) p = Some cm" using route_frame [OF r] found(3) by (simp add: same_stores_def)
  from start_tail [OF this] r found show ?thesis
    by (cases x) (auto simp: StartContainer_def Remote_StartContainer_def answered_def)
qed (auto simp: StartContainer_def)

lemma StartContainer_answered:
  assumes "Inv V s" and "adapter_answers (sv_adapter V) (StartContainerReq k)"
  shows "answered (StartContainer V k s) \<longleftrightarrow> \<not> crashes V s (StartContainerReq k)"
proof -
  have image: "c_Image cm = None"
    if "mget (ContainerPool s) k = Some p" and "cells (ctrs s) p = Some cm"
      and "route (sv_remoteCRI V) h f s = ((None, e), u)" and "ad_StartContainer (sv_adapter V) p u = None" for p cm h e u f
  proof (rule ccontr)
    assume "c_Image cm \<noteq> None"
    with Inv_held [OF assms(1) that(1,2)] that(2) route_frame [OF that(3)] have "holds_image u p"
      by (auto simp: holds_image_def same_stores_def image_held_def split: if_splits)
    with assms(2) have "answered (ad_StartContainer (sv_adapter V) p u)" by simp
    with that(4) show False by simp
  qed
  have "(\<exists>p cm e u. mget (ContainerPool s) k = Some p \<and> cells (ctrs s) p = Some cm \<and> c_State cm = CONTAINER_CREATED
       \<and> route (sv_remoteCRI V) (s_RuntimeHandler (c_PodSandbox cm)) (\<lambda>c. rc_StartContainer c k) s = ((None, e), u)
       \<and> ad_StartContainer (sv_adapter V) p u = None) \<longleftrightarrow> crashes V s (StartContainerReq k)"
    unfolding crashes.simps by (intro iff_exI) (use image in blast)
  then show ?thesis unfolding answered_def StartContainer_crash [OF assms(1)] by (rule arg_cong)
qed

lemma stop_tail:
  assumes "cells (ctrs u) p = Some cm"
  shows "answered (do {
       (err, s) \<leftarrow> ad_StopContainer (sv_adapter V) p u;
       (case err of
          Some e \<Rightarrow> Some ((None, Some e), s)
        | None \<Rightarrow> do {
            let (t, s) = now (sv_go V) s;
            s \<leftarrow> update_container p (\<lambda>cm. cm\<lparr>c_State := CONTAINER_EXITED, c_FinishedAt := t\<rparr>) s;
            s \<leftarrow> ContainerStorage_Update p s;
            Some ((Some (), None), s) }) }) \<longleftrightarrow> answered (ad_StopContainer (sv_adapter V) p u)"
proof (cases "ad_StopContainer (sv_adapter V) p u")
  case (Some a)
  obtain err v where v: "a = (err, v)" by (cases a)
  obtain n w where n: "now (sv_go V) v = (n, w)" by (metis prod.exhaust)
  have "cells (ctrs v) p \<noteq> None" using assms steady_live(2) [OF keepsD [OF stop_container Some [unfolded v]]] by simp
  then have "cells (ctrs w) p \<noteq> None" using now_same [OF n] by (simp add: same_stores_def)
  then show ?thesis
    unfolding Some v Let_def Option.bind.bind_lunit prod.case n
    by (auto intro!: answers dest!: update_container_cells)
qed simp

lemma StopContainer_crash:
  assumes "Inv V s"
  shows "StopContainer V k s = None \<longleftrightarrow> (\<exists>p cm e u. mget (ContainerPool s) k = Some p \<and> cells (ctrs s) p = Some cm
     \<and> c_State cm = CONTAINER_RUNNING
     \<and> route (sv_remoteCRI V) (s_RuntimeHandler (c_PodSandbox cm)) (\<lambda>c. rc_StopContainer c k) s = ((None, e), u)
     \<and> ad_StopContainer (sv_adapter V) p u = None)"
  using assms
proof (cases rule: container_cases [where k = k])
  case (found p cm)
  obtain x e u where r: "route (sv_remoteCRI V) (s_RuntimeHandler (c_PodSandbox cm)) (\<lambda>c. rc_StopContainer c k) s = ((x, e), u)"
    by (metis prod.exhaust)
  have u: "cells (ctrs u) p = Some cm" using route_frame [OF r] found(3) by (simp add: same_stores_def)
  from stop_tail [OF u] r found u show ?thesis
    by (cases x) (auto simp: StopContainer_def Remote_StopContainer_def answered_def)
next
  case (missing e)
  obtain x e u where r: "route (sv_remoteCRI V) [] (\<lambda>c. rc_StopContainer c k) s = ((x, e), u)" by (metis prod.exhaust)
  with missing show ?thesis by (cases x) (simp_all add: StopContainer_def Remote_StopContainer_def)
qed

lemma StopContainer_answered:
  assumes "Inv V s" and "adapter_answers (sv_adapter V) (StopContainerReq k)"
  shows "answered (StopContainer V k s)"
proof -
  have "ad_StopContainer (sv_adapter V) p u \<noteq> None"
    if "route (sv_remoteCRI V) h f s = ((None, e), u)" and "cells (ctrs s) p = Some cm" for p cm h e u f
    using that(2) route_frame [OF that(1)] assms(2) by (simp add: same_stores_def answered_def)
  with StopContainer_crash [OF assms(1), of k] show ?thesis unfolding answered_def by blast
qed

lemma ReopenContainerLog_answered:
  assumes "Inv V s" and "adapter_answers (sv_adapter V) (ReopenContainerLogReq k)"
  shows "answered (ReopenContainerLog V k s)"
  using assms(1)
proof (cases rule: container_cases [where k = k])
  case (found p cm)
  obtain x e u where r: "route (sv_remoteCRI V) (s_RuntimeHandler (c_PodSandbox cm)) (\<lambda>c. rc_ReopenContainerLog c k) s = ((x, e), u)"
    by (metis prod.exhaust)
  have "answered (ad_ReopenContainerLog (sv_adapter V) p u)"
    using assms(2) route_frame [OF r] found(3) by (simp add: same_stores_def)
  with r found show ?thesis
    by (cases x) (auto simp: ReopenContainerLog_def Remote_ReopenContainerLog_def intro!: answers)
qed (simp add: ReopenContainerLog_def)

lemma ListContainers_answered:
  assumes "Inv V s"
  shows "answered (ListContainers V f s) \<longleftrightarrow> \<not> crashes V s (ListContainersReq f)"
proof (cases f)
  case (Some g)
  obtain cs where "ContainerStorage_ListK8s (cf_Id g) (cf_PodSandboxId g) (cf_LabelSelector g) (cf_State g)
      (MulticriRuntimeName (sv_remoteCRI V)) s = Some cs" using ListK8s_total [OF assms] by blast
  with Some show ?thesis by (simp add: ListContainers_def)
qed (simp add: ListContainers_def)

lemma ListContainerStats_answered:
  assumes "Inv V s"
  shows "answered (ListContainerStats V f s) \<longleftrightarrow> \<not> crashes V s (ListContainerStatsReq f)"
proof (cases f)
  case (Some g)
  obtain cs where "ContainerStorage_ListK8s (cf_Id g) (cf_PodSandboxId g) (cf_LabelSelector g) None
      (MulticriRuntimeName (sv_remoteCRI V)) s = Some cs" using ListK8s_total [OF assms] by blast
  with Some show ?thesis by (simp add: ListContainerStats_def)
qed (simp add: ListContainerStats_def)

lemma exec_answered:
  assumes "Inv V s"
  shows "answered (exec_route V k f g s)"
  using assms
proof (cases rule: container_cases [where k = k])
  case (found p cm)
  then show ?thesis by (auto simp: exec_route_def intro!: answers)
qed (simp add: exec_route_def)

lemma holds_image_frame:
  assumes f: "adapter_frame s t" and h: "holds_image s p"
  shows "holds_image t p"
proof -
  obtain cm q im where cm: "cells (ctrs s) p = Some cm" "c_Image cm = Some q" "cells (imgs s) q = Some im"
    using h by (auto simp: holds_image_def deref_def split: option.splits)
  obtain cm' where "cells (ctrs t) p = Some cm'" "same_container cm cm'" by (rule adapter_frame_container [OF f cm(1)])
  moreover obtain im' where "cells (imgs t) q = Some im'" by (rule adapter_frame_image [OF f cm(3)])
  ultimately show ?thesis using cm(2) by (simp add: holds_image_def same_container_def)
qed

lemma holds_image_refile:
  assumes "holds_image s p"
  shows "answered (do { cm \<leftarrow> cells (ctrs s) p; q \<leftarrow> c_Image cm; s \<leftarrow> ImageStorage_Update q s; s \<leftarrow> ContainerStorage_Update p s; Some (r, s) })"
  using assms by (cases "cells (ctrs s) p") (auto simp: holds_image_def image_Update_others deref_def intro!: answers split: option.splits)

lemma found_known:
  assumes "Inv V s" and g: "ImageStorage_GetByID img s = Some (ip, err)"
  shows "image_known s img \<longleftrightarrow> err = None"
proof -
  obtain r where r: "find_image (image_matches img) (imgs s) (ImagePool s) = Some r" "image_result r = (ip, err)"
    using g by (auto simp: ImageStorage_GetByID_def bind_eq_Some_conv)
  have wf: "mwf (ImagePool s)" using assms(1) by (simp add: Inv_def state_wf_def pool_wf_def)
  show ?thesis
  proof (cases r)
    case None
    with r(1) have "\<not> image_matches img k im" if "mget (ImagePool s) k = Some p" "cells (imgs s) p = Some im" for k p im
      using find_image_None [of "image_matches img", OF _ mget_in_set [OF that(1)] that(2)] by simp
    with None r(2) show ?thesis by (auto simp: image_known_def image_result_def)
  next
    case (Some p)
    with r(1) obtain k im where "(k, p) \<in> set (ImagePool s)" "cells (imgs s) p = Some im" "image_matches img k im"
      using find_image_Some by blast
    with in_set_mget [OF wf] Some r(2) show ?thesis by (auto simp: image_known_def image_result_def)
  qed
qed

lemma create_local_found:
  assumes "Inv V s" and "adapter_answers (sv_adapter V) (CreateContainerReq req)" and "cells (sbxs s) sp \<noteq> None"
    and c: "cr_Config req = Some config" "cc_Metadata config = Some name" "cc_Image config = Some img" "cr_SandboxConfig req = Some sc"
    and g: "ImageStorage_GetByID img s = Some (ip, None)"
  shows "answered (create_local V req sp s)"
proof -
  obtain at s1 where n: "now (sv_go V) s = (at, s1)" by (metis prod.exhaust)
  have s1: "same_stores s s1" by (rule now_same [OF n])
  obtain q where q: "ip = Some q" "cells (imgs s) q \<noteq> None" using GetByID_in_pool [OF assms(1) g] by blast
  obtain p s2 where k: "ContainerStorage_CreateContainerMetadata (sv_go V) name (Some sp) CONTAINER_CREATED at ip
      (cc_Command config) (cc_Args config) True config (env_map (cc_Envs config)) (container_port sc) None s1 = Some (p, s2)"
    using answered_pair [OF create_container_answered] assms(3) s1 unfolding same_stores_def by metis
  have hold: "holds_image s2 p"
    by (rule CreateContainerMetadata_effect [OF k]) (use q s1 in \<open>simp add: holds_image_def same_stores_def\<close>)
  have "answered (do {
       (err, s) \<leftarrow> ad_CreateContainer (sv_adapter V) p s2;
       (case err of
          Some e \<Rightarrow> Some (Inl e, s)
        | None \<Rightarrow> do {
            cm \<leftarrow> cells (ctrs s) p;
            q \<leftarrow> c_Image cm;
            s \<leftarrow> ImageStorage_Update q s;
            s \<leftarrow> ContainerStorage_Update p s;
            Some (Inr p :: error + ptr, s) }) })"
  proof (rule answered_bind)
    show "answered (ad_CreateContainer (sv_adapter V) p s2)" using assms(2) hold by simp
  qed (auto dest!: keepsD [OF create_container] split: option.split
      intro!: answered_Some holds_image_refile holds_image_frame [OF steady_adapter_frame hold])
  with c g n k show ?thesis by (simp add: create_local_def)
qed

lemma create_local_answered:
  assumes "Inv V s" and "adapter_answers (sv_adapter V) (CreateContainerReq req)" and "cells (sbxs s) sp \<noteq> None"
    and "cr_Config req = Some config"
  shows "answered (create_local V req sp s) \<longleftrightarrow> \<not> (cc_Metadata config = None \<or> (case cc_Image config of None \<Rightarrow> True
               | Some img \<Rightarrow> image_known s img \<and> cr_SandboxConfig req = None))"
proof (cases "cc_Metadata config = None \<or> cc_Image config = None")
  case True
  with assms(4) show ?thesis by (auto simp: create_local_def split: option.split)
next
  case False
  then obtain name img where c: "cc_Metadata config = Some name" "cc_Image config = Some img" by auto
  obtain ip err where g: "ImageStorage_GetByID img s = Some (ip, err)"
    using answered_pair [OF GetByID_answered [OF assms(1)]] by blast
  note known = found_known [OF assms(1) g]
  show ?thesis
  proof (cases "err = None \<and> cr_SandboxConfig req \<noteq> None")
    case True
    then obtain sc where "err = None" "cr_SandboxConfig req = Some sc" by blast
    with create_local_found [OF assms(1-4) c] g c known show ?thesis by simp
  next
    case False
    obtain at s1 where n: "now (sv_go V) s = (at, s1)" by (metis prod.exhaust)
    from False c g n known assms(4) show ?thesis by (cases err) (simp_all add: create_local_def)
  qed
qed

lemma link_answered:
  assumes "cells (sbxs u) sp \<noteq> None" and "\<And>p. y = Inr p \<Longrightarrow> cells (ctrs t) p \<noteq> None \<and> sbxs t = sbxs u"
  shows "answered (case y of
       Inl e \<Rightarrow> Some ((None, Some e), t)
     | Inr p \<Rightarrow> do {
         container \<leftarrow> cells (ctrs t) p;
         sandbox \<leftarrow> cells (sbxs t) sp;
         let s = t\<lparr>sbxs := assign sp (sandbox\<lparr>s_Containers := s_Containers sandbox @ [c_ID container]\<rparr>) (sbxs t)\<rparr>;
         s \<leftarrow> SandboxStorage_Update sp s;
         Some ((Some (c_ID container), None), s) })"
  using assms by (cases y) (auto simp: Let_def intro!: answers)

lemma CreateContainer_answered:
  assumes "Inv V s" and "adapter_answers (sv_adapter V) (CreateContainerReq req)"
  shows "answered (CreateContainer V req s) \<longleftrightarrow> \<not> crashes V s (CreateContainerReq req)"
  using assms(1)
proof (cases rule: pod_cases [where k = "cr_PodSandboxId req"])
  case (found sp sandbox)
  obtain x e u where r: "route (sv_remoteCRI V) (s_RuntimeHandler sandbox) (\<lambda>c. rc_CreateContainer c req) s = ((x, e), u)"
    by (metis prod.exhaust)
  note fails = remote_fails_route [OF r]
  from r show ?thesis
  proof (cases rule: routed)
    case local
    show ?thesis
    proof (cases "cr_Config req")
      case None
      with r local found fails show ?thesis
        by (simp add: CreateContainer_def Remote_CreateContainer_def create_local_def)
    next
      case (Some config)
      have live: "cells (sbxs s) sp \<noteq> None" using found(3) by simp
      have "answered (CreateContainer V req s) \<longleftrightarrow> answered (create_local V req sp s)"
      proof (cases "create_local V req sp s")
        case (Some a)
        obtain y t where a: "a = (y, t)" by (cases a)
        have "cells (ctrs t) p \<noteq> None \<and> sbxs t = sbxs s" if "y = Inr p" for p
          using create_local_effect [OF adapter_axioms Some [unfolded a that] found(3)] by auto
        from link_answered [OF live this] r found local Some a show ?thesis
          by (simp add: CreateContainer_def Remote_CreateContainer_def)
      qed (use r local found in \<open>simp add: CreateContainer_def Remote_CreateContainer_def\<close>)
      with create_local_answered [OF assms live Some] found local fails Some show ?thesis by simp
    qed
  next
    case (failed y)
    with r found fails show ?thesis by (simp add: CreateContainer_def Remote_CreateContainer_def)
  next
    case (answered k c)
    have live: "cells (sbxs u) sp \<noteq> None" using answered(4) found(3) by (simp add: same_stores_def)
    show ?thesis
    proof (cases "cr_Config req")
      case None
      with r answered found fails show ?thesis
        by (simp add: CreateContainer_def Remote_CreateContainer_def create_remote_def)
    next
      case (Some config)
      obtain p t where c: "ContainerStorage_CreateContainerMetadata (sv_go V) [] (Some sp) CONTAINER_CREATED 0 None
          (cc_Command config) (cc_Args config) True config [] 0 (Some k) u = Some (p, t)"
        using answered_pair [OF create_container_answered [OF live]] by metis
      have "cells (ctrs t) p \<noteq> None \<and> sbxs t = sbxs u"
        by (rule CreateContainerMetadata_effect [OF c]) simp
      with link_answered [OF live, of "Inr p" t] r found answered c Some show ?thesis
        by (simp add: CreateContainer_def Remote_CreateContainer_def create_remote_def)
    qed
  qed
qed (simp add: CreateContainer_def SandboxStorage_Get_def split: option.splits)

lemma remove_tail:
  assumes "steady s t" and cm: "cells (ctrs s) p = Some cm"
  shows "answered (do {
       cm \<leftarrow> cells (ctrs t) p;
       s \<leftarrow> SandboxStorage_RemoveContainer (s_ID (c_PodSandbox cm)) k t;
       Some (r, s) }) \<longleftrightarrow>
     (\<forall>q. mget (SandboxPool s) (s_ID (c_PodSandbox cm)) = Some q \<longrightarrow>
        (\<exists>sm. cells (sbxs s) q = Some sm \<and> \<not> listed_again k (s_Containers sm)))"
proof -
  note f = steady_adapter_frame [OF assms(1)]
  obtain cm' where cm': "cells (ctrs t) p = Some cm'" "same_container cm cm'"
    by (rule adapter_frame_container [OF f cm])
  have "sbxs t = sbxs s" "SandboxPool t = SandboxPool s" using f by (simp_all add: adapter_frame_def)
  with cm' show ?thesis
    by (cases "mget (SandboxPool s) (s_ID (c_PodSandbox cm))")
      (auto simp: SandboxStorage_RemoveContainer_def Let_def same_container_def answered_def bind_eq_None_conv
        remove_container_id_panics split: option.splits)
qed

lemma RemoveContainer_answered:
  assumes inv: "Inv V s" and "adapter_answers (sv_adapter V) (RemoveContainerReq k)"
  shows "answered (RemoveContainer V k s) \<longleftrightarrow> \<not> crashes V s (RemoveContainerReq k)"
  using inv
proof (cases rule: container_cases [where k = k])
  case (found p cm)
  obtain x e u where r: "route (sv_remoteCRI V) (s_RuntimeHandler (c_PodSandbox cm)) (\<lambda>c. rc_RemoveContainer c k) s = ((x, e), u)"
    by (metis prod.exhaust)
  note fails = remote_fails_route [OF r]
  have pods: "\<exists>sm. cells (sbxs s) q = Some sm" if "mget (SandboxPool s) (s_ID (c_PodSandbox cm)) = Some q" for q
    using Inv_sandbox [OF inv that] by blast
  from r show ?thesis
  proof (cases rule: routed)
    case local
    show ?thesis
    proof (cases "c_State cm = CONTAINER_RUNNING")
      case True
      with r local found show ?thesis by (simp add: RemoveContainer_def Remote_RemoveContainer_def)
    next
      case False
      have "answered (ad_ReopenContainerLog (sv_adapter V) p s)" using assms(2) found(3) by simp
      then obtain err v where a: "ad_ReopenContainerLog (sv_adapter V) p s = Some (err, v)" using answered_pair by blast
      note st = keepsD [OF reopen_log a]
      show ?thesis
        using False r local found a remove_tail [OF st found(3), of k "(Some (), None)"] pods fails
        by (cases err) (auto simp: RemoveContainer_def Remote_RemoveContainer_def)
    qed
  next
    case (failed y)
    with r found fails show ?thesis by (simp add: RemoveContainer_def Remote_RemoveContainer_def)
  next
    case (answered y c)
    have st: "steady s u" using answered(4) by (simp add: same_stores_steady)
    show ?thesis
      using r answered found remove_tail [OF st found(3), of k "(Some (), None)"] pods fails
      by (auto simp: RemoveContainer_def Remote_RemoveContainer_def)
  qed
next
  case (missing e)
  obtain x y u where r: "route (sv_remoteCRI V) [] (\<lambda>c. rc_RemoveContainer c k) s = ((x, y), u)" by (metis prod.exhaust)
  from r show ?thesis
    by (cases rule: routed) (use r missing in \<open>simp_all add: RemoveContainer_def Remote_RemoveContainer_def\<close>)
qed

lemma unknown_routed:
  assumes "route (sv_remoteCRI V) [] f s = ((x, e), t)"
  shows "x = None \<and> e = None \<longleftrightarrow> sv_remoteCRI V = []"
  using assms
proof (cases rule: routed)
  case local
  then show ?thesis by (simp add: local_handler MulticriRuntimeHandler_def)
next
  case (failed y)
  with assms show ?thesis by (auto simp: route_def GetRemoteRuntime_def)
next
  case (answered y c)
  then show ?thesis by (auto simp: GetRemoteRuntime_def)
qed

lemma status_tail_answered:
  assumes h: "holds_image v p"
  shows "answered (do {
         s \<leftarrow> ContainerStorage_Update p v;
         cm \<leftarrow> cells (ctrs s) p;
         containerStatus \<leftarrow> GetK8sContainerStatus (imgs s) cm;
         Some ((Some containerStatus, None :: error option), s) })"
proof (rule answered_bind)
  show "answered (ContainerStorage_Update p v)" using h by (auto simp: holds_image_def intro!: answers)
  fix w assume w: "ContainerStorage_Update p v = Some w"
  have "ctrs w = ctrs v" by (rule container_store.put_heap [OF w])
  moreover have "imgs w = imgs v" by (rule container_Update_images [OF w])
  ultimately show "answered (do {
         cm \<leftarrow> cells (ctrs w) p;
         containerStatus \<leftarrow> GetK8sContainerStatus (imgs w) cm;
         Some ((Some containerStatus, None :: error option), w) })"
    using h by (auto simp: holds_image_def GetK8sContainerStatus_def)
qed

lemma ContainerStatus_answered:
  assumes "Inv V s" and "adapter_answers (sv_adapter V) (ContainerStatusReq k)"
  shows "answered (ContainerStatus V k s) \<longleftrightarrow> \<not> crashes V s (ContainerStatusReq k)"
  using assms(1)
proof (cases rule: container_cases [where k = k])
  case (found p cm)
  obtain x e u where r: "route (sv_remoteCRI V) (s_RuntimeHandler (c_PodSandbox cm)) (\<lambda>c. rc_ContainerStatus c k) s = ((x, e), u)"
    by (metis prod.exhaust)
  from r show ?thesis
  proof (cases rule: routed)
    case local
    have hold: "holds_image s p" by (rule local_holds [OF found(5) local(1) found(3)])
    have ad: "\<exists>err v. ad_ContainerStatus (sv_adapter V) p s = Some (err, v)"
      using assms(2) hold answered_pair by fastforce
    have held: "holds_image v p" if "ad_ContainerStatus (sv_adapter V) p s = Some (err, v)" for err v
      by (rule holds_image_frame [OF keepsD [OF container_status that] hold])
    note tail = status_tail_answered
    have set: "\<exists>w. update_container p (manageContainerError y) v = Some w \<and> holds_image w p"
      if "holds_image v p" for y v
      using that by (auto simp: holds_image_def update_container_def manageContainerError_def)
    show ?thesis
    proof (cases "c_State cm = CONTAINER_EXITED")
      case True
      with tail [OF hold] r local found(1,2,3,6) show ?thesis
        by (simp add: ContainerStatus_def Remote_ContainerStatus_def)
    next
      case False
      obtain err v where v: "ad_ContainerStatus (sv_adapter V) p s = Some (err, v)" using ad by blast
      show ?thesis
      proof (cases err)
        case None
        with False v tail [OF held [OF v]] r local found(1,2,3,6) show ?thesis
          by (simp add: ContainerStatus_def Remote_ContainerStatus_def)
      next
        case (Some y)
        obtain w where "update_container p (manageContainerError y) v = Some w" "holds_image w p"
          using set [OF held [OF v]] by blast
        with False v Some tail [of w] r local found(1,2,3,6) show ?thesis
          by (simp add: ContainerStatus_def Remote_ContainerStatus_def)
      qed
    qed
  qed (use r found(1,2,6) in \<open>simp_all add: ContainerStatus_def Remote_ContainerStatus_def\<close>)
next
  case (missing e)
  obtain x y u where r: "route (sv_remoteCRI V) [] (\<lambda>c. rc_ContainerStatus c k) s = ((x, y), u)" by (metis prod.exhaust)
  from unknown_routed [OF r] r missing show ?thesis
    by (cases x; cases y) (simp_all add: ContainerStatus_def Remote_ContainerStatus_def)
qed

lemma ContainerStats_answered:
  assumes "Inv V s"
  shows "answered (ContainerStats_handler V k s) \<longleftrightarrow> \<not> crashes V s (ContainerStatsReq k)"
  using assms
proof (cases rule: container_cases [where k = k])
  case (found p cm)
  obtain x e u where r: "route (sv_remoteCRI V) (s_RuntimeHandler (c_PodSandbox cm)) (\<lambda>c. rc_ContainerStats c k) s = ((x, e), u)"
    by (metis prod.exhaust)
  from r show ?thesis
  proof (cases rule: routed)
    case local
    have "deref (c_Image cm) (imgs s) \<noteq> None"
      using local_holds [OF found(5) local(1) found(3)] found(3) by (simp add: holds_image_def)
    with r local found(1-3) show ?thesis
      by (auto simp: ContainerStats_handler_def Remote_ContainerStats_def ParseToK8sContainer_def)
  qed (use r found(1-3) in \<open>simp_all add: ContainerStats_handler_def Remote_ContainerStats_def\<close>)
next
  case (missing e)
  obtain x y u where r: "route (sv_remoteCRI V) [] (\<lambda>c. rc_ContainerStats c k) s = ((x, y), u)" by (metis prod.exhaust)
  from unknown_routed [OF r] r missing show ?thesis
    by (cases x; cases y)
      (simp_all add: ContainerStats_handler_def Remote_ContainerStats_def zero_container_def zero_sandbox_def
        ParseToK8sContainer_def)
qed

lemma UpdateContainerResources_answered:
  assumes "Inv V s" and "adapter_answers (sv_adapter V) (UpdateContainerResourcesReq k)"
  shows "answered (UpdateContainerResources V k s)"
proof -
  define q where "q = (case ContainerStorage_Get k s of (Some p, None) \<Rightarrow> (p, s)
      | _ \<Rightarrow> (let (p, h) = alloc zero_container (ctrs s) in (p, s\<lparr>ctrs := h\<rparr>)))"
  obtain p t where pt: "q = (p, t)" by (cases q)
  have "cells (ctrs t) p \<noteq> None"
    using assms(1) by (cases rule: container_cases [where k = k]) (use pt in \<open>auto simp: q_def alloc_def\<close>)
  then obtain cm where cm: "cells (ctrs t) p = Some cm" by blast
  obtain x e u where r: "route (sv_remoteCRI V) (s_RuntimeHandler (c_PodSandbox cm)) (\<lambda>c. rc_UpdateContainerResources c k) t = ((x, e), u)"
    by (metis prod.exhaust)
  have "answered (ad_UpdateContainerResources (sv_adapter V) p u)"
    using assms(2) route_frame [OF r] cm by (simp add: same_stores_def)
  then show ?thesis
    unfolding UpdateContainerResources_def q_def [symmetric] pt
    using cm r by (auto simp: Remote_UpdateContainerResources_def intro!: answers)
qed

end

section \<open>Images\<close>

lemma ImageStorage_remove_imgs [simp]: "imgs (ImageStorage_remove k s) = imgs s"
  using image_store.rem_heap [of k s] by (simp add: ImageStorage_Remove_def)

lemma remote_call_answers: "remote_call f s = ((x, e), t) \<Longrightarrow> x \<noteq> None \<or> e \<noteq> None"
  by (auto simp: remote_call_def split: prod.splits sum.splits)

lemma list_images_answered:
  "\<forall>(k, p) \<in> set m. cells (imgs s) p \<noteq> None \<Longrightarrow> answered (list_images filt m s)"
proof (induction m arbitrary: s)
  case (Cons kp m)
  obtain k p where kp: "kp = (k, p)" by (cases kp)
  have "answered (list_images filt m s)" "answered (list_images filt m (ImageStorage_remove j s))" for j
    using Cons by auto
  with Cons.prems show ?case by (auto simp: kp Let_def intro!: answers)
qed simp

context runtime
begin

lemma PullImage_answered:
  assumes "adapter_answers (sv_adapter V) (PullImageReq req)"
  shows "answered (PullImage V req s) \<longleftrightarrow> \<not> crashes V s (PullImageReq req)"
proof -
  have created: "answered (pull_created V p t)" if im: "cells (imgs t) p = Some im" for p t im
  proof -
    obtain err im' where q: "ParseImage im = (err, im')" by (metis prod.exhaust)
    let ?t = "t\<lparr>imgs := assign p im' (imgs t)\<rparr>"
    have live: "cells (imgs w) p \<noteq> None" if "ad_PullImage (sv_adapter V) p ?t = Some (e, w)" for e w
      using steady_live(3) [OF keepsD [OF pull_image that], of p] by simp
    have "answered (ad_PullImage (sv_adapter V) p ?t)" using assms by simp
    then show ?thesis
      using im q by (auto simp: pull_created_def Let_def intro!: answers dest!: live)
  qed
  have "answered (pull_local V r t)" if img: "pr_Image r \<noteq> None" for r t
  proof -
    obtain p err u where c: "ImageStorage_CreateImageMetadata (sv_go V) r t = Some ((p, err), u)"
      using answered_pair [OF create_image_answered [OF img, of "sv_go V" t]] by (metis prod.exhaust)
    have "\<exists>im. cells (imgs u) p = Some im" using create_image_live [OF c] .
    with c created show ?thesis by (auto simp: pull_local_def)
  qed
  then show ?thesis
    by (cases "pr_Image req") (auto simp: PullImage_def Remote_PullImage_def Let_def intro!: answers split: prod.splits option.splits
        dest!: remote_call_answers)
qed

lemma ListImages_answered:
  assumes "Inv V s" and "adapter_answers (sv_adapter V) (ListImagesReq f)"
  shows "answered (ListImages V f s)"
proof -
  have "\<forall>(k, p) \<in> set (ImagePool s). cells (imgs s) p \<noteq> None"
    using assms(1) unfolding Inv_def state_wf_def pool_wf_def by fastforce
  then have "answered (ImageStorage_ListK8s f s)" unfolding ImageStorage_ListK8s_def by (rule list_images_answered)
  then show ?thesis using assms(2) by (auto simp: ListImages_def Let_def intro!: answers)
qed

lemma found_image:
  assumes "ImageStorage_GetByID img s = Some (ip, None)"
  shows "\<exists>p im. ip = Some p \<and> cells (imgs s) p = Some im"
  using assms find_image_Some [of "image_matches img" "imgs s" "ImagePool s"]
  by (fastforce simp: ImageStorage_GetByID_def image_result_def bind_eq_Some_conv split: option.splits)

lemma ImageStatus_answered:
  assumes "Inv V s" and "adapter_answers (sv_adapter V) (ImageStatusReq r)"
  shows "answered (ImageStatus_handler V r s) \<longleftrightarrow> \<not> crashes V s (ImageStatusReq r)"
proof -
  have "answered (image_status_local V img s)" for img
  proof -
    obtain ip err where g: "ImageStorage_GetByID img s = Some (ip, err)"
      using answered_pair [OF GetByID_answered [OF assms(1)]] by blast
    have live: "cells (imgs w) p \<noteq> None" if "ad_ImageStatus (sv_adapter V) p s = Some (e, w)" "cells (imgs s) p = Some im" for p e w im
      using steady_live(3) [OF keepsD [OF image_status that(1)], of p] that(2) by simp
    show ?thesis
      using g found_image [of img s ip] assms(2)
      by (cases err) (auto simp: image_status_local_def intro!: answers dest: live)
  qed
  then show ?thesis
    by (cases r) (auto simp: ImageStatus_handler_def Remote_ImageStatus_def intro!: answers split: prod.splits option.splits
        dest!: remote_call_answers)
qed

lemma RemoveImage_answered:
  assumes "Inv V s" and "adapter_answers (sv_adapter V) (RemoveImageReq r)"
  shows "answered (RemoveImage V r s) \<longleftrightarrow> \<not> crashes V s (RemoveImageReq r)"
proof -
  have "answered (remove_image_local V img s)" for img
  proof -
    obtain ip err where g: "ImageStorage_GetByID img s = Some (ip, err)"
      using answered_pair [OF GetByID_answered [OF assms(1)]] by blast
    have live: "cells (imgs w) p \<noteq> None" if "ad_RemoveImage (sv_adapter V) p s = Some (e, w)" "cells (imgs s) p = Some im" for p e w im
      using steady_live(3) [OF keepsD [OF remove_image that(1)], of p] that(2) by simp
    show ?thesis
      using g found_image [of img s ip] assms(2)
      by (cases err) (auto simp: remove_image_local_def intro!: answers dest: live)
  qed
  then show ?thesis
    by (cases r) (auto simp: RemoveImage_def Remote_RemoveImage_def intro!: answers split: prod.splits option.splits
        dest!: remote_call_answers)
qed

lemma ImageFsInfo_answered: "adapter_answers (sv_adapter V) ImageFsInfoReq \<Longrightarrow> answered (ImageFsInfo V s)"
  by (auto simp: ImageFsInfo_def intro!: answers)

section \<open>All requests\<close>

lemma handle_answered:
  assumes "Inv V s" and "adapter_answers (sv_adapter V) r"
  shows "answered (handle V r s) \<longleftrightarrow> \<not> crashes V s r"
proof (cases r)
  case (RunPodSandboxReq req)
  then show ?thesis using RunPodSandbox_answered assms(2) by simp
next
  case (CreateContainerReq req)
  then show ?thesis using CreateContainer_answered assms by simp
next
  case (StartContainerReq k)
  then show ?thesis using StartContainer_answered assms by simp
next
  case (RemoveContainerReq k)
  then show ?thesis using RemoveContainer_answered assms by simp
next
  case (ContainerStatusReq k)
  then show ?thesis using ContainerStatus_answered assms by simp
next
  case (ContainerStatsReq k)
  then show ?thesis using ContainerStats_answered assms(1) by simp
next
  case (ListContainersReq f)
  then show ?thesis using ListContainers_answered assms(1) by simp
next
  case (ListContainerStatsReq f)
  then show ?thesis using ListContainerStats_answered assms(1) by simp
next
  case (PullImageReq req)
  then show ?thesis using PullImage_answered assms(2) by simp
next
  case (ImageStatusReq q)
  then show ?thesis using ImageStatus_answered assms by simp
next
  case (RemoveImageReq q)
  then show ?thesis using RemoveImage_answered assms by simp
qed (use assms in \<open>auto simp: Attach_def Exec_def ExecSync_def simp del: adapter_answers.simps
    intro: StopPodSandbox_answered RemovePodSandbox_answered PodSandboxStatus_answered
      ListPodSandbox_answered PortForward_answered StopContainer_answered UpdateContainerResources_answered
      ReopenContainerLog_answered exec_answered ListImages_answered ImageFsInfo_answered\<close>)

end

section \<open>What the Slurm adapter answers\<close>

text \<open>
  What is assumed of the SSH package: a connection attempt whose authentication methods are all there
  returns, with a connection or an error.  A key that does not parse leaves a nil method, and a
  refused pseudo terminal ends the program (\<open>log.Fatal\<close>).
\<close>

definition dial_returns :: "'w lib \<Rightarrow> bool" where
  "dial_returns B \<longleftrightarrow> (\<forall>n a m w. None \<notin> set m \<longrightarrow> answered (ssh_Dial (lib_ssh B) n a m w))"

definition bad_key :: "'w lib \<Rightarrow> ContainerMetadata \<Rightarrow> bool" where
  "bad_key B cm \<longleftrightarrow> (let k = mstr (c_Environment cm) ''CLUSTER_KEYVALUE'' in
     k \<noteq> [] \<and> (\<exists>e. ssh_ParsePrivateKey (lib_ssh B) k = Inl e))"

definition pty_refused :: "'w lib \<Rightarrow> SSH \<Rightarrow> 'w mstate \<Rightarrow> bool" where
  "pty_refused B a s \<longleftrightarrow> (\<exists>c h v w. ssh_Dial (lib_ssh B) (sprintf ''%s:%s'' [host a, port a]) (user a)
       (SSH_auth (lib_ssh B) a (files s)) (world s) = Some (Inr c, v)
     \<and> ssh_NewSession (lib_ssh B) c v = (Inr h, w) \<and> fst (ssh_RequestPty (lib_ssh B) h w) \<noteq> None)"

text \<open>
  The crashes of a request to a Slurm service that are in its connections: the key of the container's
  cluster does not parse, or the cluster refuses the terminal, of the submission once the scripts are
  there, or of the cancellation.
\<close>

fun ssh_crashes :: "'w lib \<Rightarrow> 'w multicriService \<Rightarrow> 'w mstate \<Rightarrow> request \<Rightarrow> bool" where
  "ssh_crashes B V s (StartContainerReq k) \<longleftrightarrow> (\<exists>p cm sl e u sa job v. mget (ContainerPool s) k = Some p
     \<and> cells (ctrs s) p = Some cm \<and> c_State cm = CONTAINER_CREATED \<and> CreateCMD cm = Inr sl
     \<and> route (sv_remoteCRI V) (s_RuntimeHandler (c_PodSandbox cm)) (\<lambda>c. rc_StartContainer c k) s = ((None, e), u)
     \<and> (bad_key B cm \<or> sv_adapter V = SlurmAdapter_interface B sa \<and> buildStartCommand sa cm u = Some job
         \<and> SlurmCmd_batchScript B sl (setupBatchHeaders cm (job\<lparr>jc_ENV := filterEnvironmentVariables cm\<rparr>)) u = Some (None, v)
         \<and> pty_refused B (sc_sshClient sl) v))"
| "ssh_crashes B V s (StopContainerReq k) \<longleftrightarrow> (\<exists>p cm sl e u. mget (ContainerPool s) k = Some p
     \<and> cells (ctrs s) p = Some cm \<and> c_State cm = CONTAINER_RUNNING \<and> CreateCMD cm = Inr sl
     \<and> route (sv_remoteCRI V) (s_RuntimeHandler (c_PodSandbox cm)) (\<lambda>c. rc_StopContainer c k) s = ((None, e), u)
     \<and> (bad_key B cm \<or> pty_refused B (sc_sshClient sl) u))"
| "ssh_crashes B V s r \<longleftrightarrow> False"

lemma CreateCMD_client: "CreateCMD cm = Inr sl \<Longrightarrow> client (sc_sshClient sl) = None \<and> keypath (sc_sshClient sl) = None"
  by (auto simp: CreateCMD_def NewSlurmCMD_def NewSSH_def Let_def split: if_splits)

lemma CreateCMD_auth:
  assumes "CreateCMD cm = Inr sl" and "\<not> bad_key B cm"
  shows "None \<notin> set (SSH_auth (lib_ssh B) (sc_sshClient sl) f)"
  using assms
  by (auto simp: CreateCMD_def NewSlurmCMD_def NewSSH_def SSH_auth_def publicKey_def bad_key_def Let_def
      split: if_splits sum.splits)

lemma auth_files: "keypath a = None \<Longrightarrow> SSH_auth S a f = SSH_auth S a g"
  by (simp add: SSH_auth_def)

lemma Connect_answered:
  assumes "dial_returns B" and "None \<notin> set (SSH_auth (lib_ssh B) a (files s))"
  shows "answered (SSH_Connect (lib_ssh B) a s)"
  using assms unfolding dial_returns_def SSH_Connect_def Let_def by (auto intro!: answers)

lemma GetSession_answered:
  assumes "dial_returns B" and "None \<notin> set (SSH_auth (lib_ssh B) a (files s))" and "client a = None"
    and "tty \<Longrightarrow> \<not> pty_refused B a s"
  shows "answered (SSH_GetSession (lib_ssh B) tty a s)"
proof -
  obtain r w where d: "ssh_Dial (lib_ssh B) (sprintf ''%s:%s'' [host a, port a]) (user a)
      (SSH_auth (lib_ssh B) a (files s)) (world s) = Some (r, w)"
    using assms(1,2) answered_pair unfolding dial_returns_def by blast
  show ?thesis
  proof (cases r)
    case (Inl e)
    with d assms(3) show ?thesis by (simp add: SSH_GetSession_def SSH_Connect_def)
  next
    case (Inr c)
    obtain q v where n: "ssh_NewSession (lib_ssh B) c w = (q, v)" by (metis prod.exhaust)
    have "fst (ssh_RequestPty (lib_ssh B) h v) = None" if "tty" "q = Inr h" for h
      using assms(4) d n Inr that unfolding pty_refused_def by blast
    with d Inr n assms(3) show ?thesis
      by (cases q) (auto simp: SSH_GetSession_def SSH_Connect_def onw_def answered_def split: prod.splits option.splits)
  qed
qed

text \<open>A client that can log in: its methods are all there.\<close>

lemma client_session:
  assumes "dial_returns B" and "CreateCMD cm = Inr sl" and "\<not> bad_key B cm"
    and "tty \<Longrightarrow> \<not> pty_refused B (sc_sshClient sl) s"
  shows "answered (SSH_GetSession (lib_ssh B) tty (sc_sshClient sl) s)"
  using GetSession_answered [OF assms(1) CreateCMD_auth [OF assms(2,3)]] CreateCMD_client [OF assms(2)] assms(4) by blast

lemma run_answered:
  assumes "dial_returns B" and "CreateCMD cm = Inr sl" and "\<not> bad_key B cm" and "\<not> pty_refused B (sc_sshClient sl) s"
  shows "answered (SlurmCmd_run B sl cmd so se s)"
  using client_session [OF assms(1-3)] assms(4) by (auto simp: SlurmCmd_run_def SSH_Run_def intro!: answers)

lemma CopyTo_answered:
  assumes "dial_returns B" and "CreateCMD cm = Inr sl" and "\<not> bad_key B cm"
  shows "answered (SlurmCmd_CopyTo B sl p q s)"
  using client_session [OF assms, of False] by (auto simp: SlurmCmd_CopyTo_def SSH_CopyTo_def intro!: answers)

lemma batchScript_answered:
  assumes "dial_returns B" and "CreateCMD cm = Inr sl" and "\<not> bad_key B cm"
  shows "answered (SlurmCmd_batchScript B sl conf s)"
proof -
  have "answered (copy_script B sl n l dest r)" for n l dest r
    by (auto simp: copy_script_def intro!: answers CopyTo_answered [OF assms])
  note scripts = this
  show ?thesis unfolding SlurmCmd_batchScript_def by (intro answers) (simp_all only: scripts answered_iff)
qed

text \<open>Opening the log of a command is not seen by the connection.\<close>

lemma Loggers_world: "CreateContainerLoggers p tty n s = (r, t) \<Longrightarrow> world t = world s"
  by (auto simp: CreateContainerLoggers_def Let_def split: if_splits prod.splits option.splits)

lemma refused_same:
  assumes "keypath a = None" and "world s = world t"
  shows "pty_refused B a s \<longleftrightarrow> pty_refused B a t"
  using auth_files [OF assms(1), of "lib_ssh B" "files s" "files t"] assms(2) by (simp add: pty_refused_def)

lemma Sbatch_answered:
  assumes "dial_returns B" and sl: "CreateCMD cm = Inr sl" and "\<not> bad_key B cm"
    and "\<And>v. SlurmCmd_batchScript B sl conf s = Some (None, v) \<Longrightarrow> \<not> pty_refused B (sc_sshClient sl) v"
  shows "answered (SlurmCmd_Sbatch B sl conf s)"
proof -
  have run: "answered (SlurmCmd_run B sl cmd so se w)"
    if "SlurmCmd_batchScript B sl conf s = Some (None, v)" and "CreateContainerLoggers l b n v = (x, w)" for cmd so se v l b n x w
    using run_answered [OF assms(1-3)] assms(4) [OF that(1)] refused_same [of "sc_sshClient sl" v w]
      CreateCMD_client [OF sl] Loggers_world [OF that(2)] by simp
  show ?thesis
    unfolding SlurmCmd_Sbatch_def
    by (auto intro!: answers batchScript_answered [OF assms(1-3)] dest: run)
qed

lemma Slurm_start_answered:
  assumes "dial_returns B" and cm: "cells (ctrs s) p = Some cm" "deref (c_Image cm) (imgs s) \<noteq> None"
    and none: "Slurm_StartContainer B sa p s = None"
  obtains sl where "CreateCMD cm = Inr sl" "bad_key B cm"
  | sl job v where "CreateCMD cm = Inr sl" "buildStartCommand sa cm s = Some job"
      "SlurmCmd_batchScript B sl (setupBatchHeaders cm (job\<lparr>jc_ENV := filterEnvironmentVariables cm\<rparr>)) s = Some (None, v)"
      "pty_refused B (sc_sshClient sl) v"
proof (cases "CreateCMD cm")
  case (Inl e)
  with cm(1) none show ?thesis by (simp add: Slurm_StartContainer_def)
next
  case (Inr sl)
  obtain job where job: "buildStartCommand sa cm s = Some job"
    using cm(2) by (auto simp: buildStartCommand_def GetRMImagePath_def Let_def)
  let ?conf = "setupBatchHeaders cm (job\<lparr>jc_ENV := filterEnvironmentVariables cm\<rparr>)"
  have "cells (ctrs t) p \<noteq> None" if "SlurmCmd_Sbatch B sl ?conf s = Some (r, t)" for r t
    using keepsD [OF Sbatch_keeps that] cm(1) by (simp add: same_stores_def)
  then have "answered (Slurm_StartContainer B sa p s)" if "answered (SlurmCmd_Sbatch B sl ?conf s)"
    unfolding Slurm_StartContainer_def Let_def using that cm(1) Inr job by (auto intro!: answers split del: if_split)
  with none have "\<not> answered (SlurmCmd_Sbatch B sl ?conf s)" by auto
  with Sbatch_answered [OF assms(1) Inr] Inr job that show ?thesis by blast
qed

lemma Slurm_stop_answered:
  assumes "dial_returns B" and cm: "cells (ctrs s) p = Some cm" and none: "Slurm_StopContainer B p s = None"
  obtains sl where "CreateCMD cm = Inr sl" "bad_key B cm \<or> pty_refused B (sc_sshClient sl) s"
proof (cases "CreateCMD cm")
  case (Inl e)
  with cm none show ?thesis by (simp add: Slurm_StopContainer_def)
next
  case (Inr sl)
  obtain r v where l: "CreateContainerLoggers (sc_logPath sl) False 100 s = (r, v)" by (metis prod.exhaust)
  have "answered (Slurm_StopContainer B p s)" if ok: "\<not> bad_key B cm" "\<not> pty_refused B (sc_sshClient sl) s"
  proof -
    have "\<not> pty_refused B (sc_sshClient sl) v"
      using ok(2) refused_same [of "sc_sshClient sl" v s] CreateCMD_client [OF Inr] Loggers_world [OF l] by simp
    from run_answered [OF assms(1) Inr ok(1) this] show ?thesis
      using cm Inr l by (auto simp: Slurm_StopContainer_def SlurmCmd_Scancel_def intro!: answers)
  qed
  with none Inr that show ?thesis by auto
qed

text \<open>
  Two requests are left out, which may crash whatever the cluster does: creating a container writes
  to a log that could not be opened, and the status reads columns that \<open>sacct\<close> did not print.
\<close>

lemma slurm_answers:
  assumes "slurm_adapter sa" and "\<forall>req. r \<noteq> CreateContainerReq req" and "\<forall>k. r \<noteq> ContainerStatusReq k"
    and "\<forall>k. r \<noteq> StartContainerReq k" and "\<forall>k. r \<noteq> StopContainerReq k"
  shows "adapter_answers (SlurmAdapter_interface B sa) r"
proof -
  have "answered (Slurm_PullImage sa q s)" if live: "cells (imgs s) q \<noteq> None" for q s
  proof -
    have "answered (ib_PullImage (sa_Builder sa) (zero_container\<lparr>c_Image := Some q\<rparr>) s)"
      using image_builder.pull_returns [OF slurm_adapter.axioms [OF assms(1)], of "zero_container\<lparr>c_Image := Some q\<rparr>" s] live
      by (auto simp: answered_def)
    with live show ?thesis by (auto simp: Slurm_PullImage_def)
  qed
  then show ?thesis
    using assms(2-5)
    by (cases r) (simp_all add: ok_op_def Slurm_ReopenContainerLog_def Slurm_UpdateContainerResources_def
        Slurm_ImageFsInfo_def split: prod.split)
qed

text \<open>A request to a Slurm service crashes where every service does, or in its connections.\<close>

lemma slurm_handle:
  assumes "runtime V" and "Inv V s" and "slurm_adapter sa" and A: "sv_adapter V = SlurmAdapter_interface B sa"
    and "dial_returns B" and "\<forall>req. r \<noteq> CreateContainerReq req" and "\<forall>k. r \<noteq> ContainerStatusReq k"
    and none: "handle V r s = None"
  shows "crashes V s r \<or> ssh_crashes B V s r"
proof (cases "\<exists>k. r = StartContainerReq k \<or> r = StopContainerReq k")
  case False
  then have "adapter_answers (sv_adapter V) r" using slurm_answers [OF assms(3,6,7)] A by simp
  from runtime.handle_answered [OF assms(1,2) this] none show ?thesis by simp
next
  case True
  then consider k where "r = StartContainerReq k" | k where "r = StopContainerReq k" by blast
  then show ?thesis
  proof cases
    case (1 k)
    then have "StartContainer V k s = None" using none by simp
    then obtain p cm e u where c: "mget (ContainerPool s) k = Some p" "cells (ctrs s) p = Some cm" "c_State cm = CONTAINER_CREATED"
      and u: "route (sv_remoteCRI V) (s_RuntimeHandler (c_PodSandbox cm)) (\<lambda>c. rc_StartContainer c k) s = ((None, e), u)"
      and ad: "ad_StartContainer (sv_adapter V) p u = None"
      using runtime.StartContainer_crash [OF assms(1,2)] by blast
    have same: "same_stores s u" using route_frame [OF u] by blast
    show ?thesis
    proof (cases "c_Image cm")
      case None
      with c u ad 1 show ?thesis by auto
    next
      case (Some q)
      then have im: "deref (c_Image cm) (imgs u) \<noteq> None"
        using Inv_held [OF assms(2) c(1,2)] same by (simp add: image_held_def same_stores_def)
      have cm: "cells (ctrs u) p = Some cm" using same c(2) by (simp add: same_stores_def)
      have "Slurm_StartContainer B sa p u = None" using ad A by (simp add: SlurmAdapter_interface_def)
      then have "ssh_crashes B V s r" by (rule Slurm_start_answered [OF assms(5) cm im]) (use 1 c u A in auto)
      then show ?thesis by blast
    qed
  next
    case (2 k)
    then have "StopContainer V k s = None" using none by simp
    then obtain p cm e u where c: "mget (ContainerPool s) k = Some p" "cells (ctrs s) p = Some cm" "c_State cm = CONTAINER_RUNNING"
      and u: "route (sv_remoteCRI V) (s_RuntimeHandler (c_PodSandbox cm)) (\<lambda>c. rc_StopContainer c k) s = ((None, e), u)"
      and ad: "ad_StopContainer (sv_adapter V) p u = None"
      using runtime.StopContainer_crash [OF assms(1,2)] by blast
    have "cells (ctrs u) p = Some cm" using route_frame [OF u] c(2) by (simp add: same_stores_def)
    moreover have "Slurm_StopContainer B p u = None" using ad A by (simp add: SlurmAdapter_interface_def)
    ultimately obtain sl where "CreateCMD cm = Inr sl" "bad_key B cm \<or> pty_refused B (sc_sshClient sl) u"
      by (rule Slurm_stop_answered [OF assms(5)])
    with 2 c u show ?thesis by auto
  qed
qed

end
