(* ===== verification/Replies.thy ===== *)
theory Replies
  imports Requests
begin

text \<open>
  The shape of what a request is answered with.  A gRPC method has to return a response or an
  error: a nil response without an error cannot be sent.  \<open>given\<close> says that a handler that
  returns does so; its rules follow the text of a handler, as those of \<open>keeps\<close> do.
\<close>

named_theorems given_intros \<open>decomposition of the statement that a handler gives a response or an error\<close>

definition given :: "('a reply \<times> 's) option \<Rightarrow> bool" where
  "given m \<longleftrightarrow> (\<forall>x e t. m = Some ((x, e), t) \<longrightarrow> x \<noteq> None \<or> e \<noteq> None)"

text \<open>Whether a reply carries a response, and whether it carries an error.\<close>

definition shape :: "('a reply \<times> 's) option \<Rightarrow> (bool \<times> bool) option" where
  "shape m = map_option (\<lambda>((x, e), t). (x \<noteq> None, e \<noteq> None)) m"

lemma given_shape: "given m \<longleftrightarrow> shape m \<noteq> Some (False, False)"
  by (cases m) (auto simp: given_def shape_def)

fun replied :: "'w multicriService \<Rightarrow> request \<Rightarrow> 'w mstate \<Rightarrow> (bool \<times> bool) option" where
  "replied V (RunPodSandboxReq r) s = shape (RunPodSandbox V r s)"
| "replied V (StopPodSandboxReq k) s = shape (StopPodSandbox V k s)"
| "replied V (RemovePodSandboxReq k) s = shape (RemovePodSandbox V k s)"
| "replied V (PodSandboxStatusReq k) s = shape (PodSandboxStatus_handler V k s)"
| "replied V (ListPodSandboxReq f) s = shape (ListPodSandbox V f s)"
| "replied V (PortForwardReq k) s = shape (PortForward V k s)"
| "replied V (CreateContainerReq r) s = shape (CreateContainer V r s)"
| "replied V (StartContainerReq k) s = shape (StartContainer V k s)"
| "replied V (StopContainerReq k) s = shape (StopContainer V k s)"
| "replied V (RemoveContainerReq k) s = shape (RemoveContainer V k s)"
| "replied V (ListContainersReq f) s = shape (ListContainers V f s)"
| "replied V (ContainerStatusReq k) s = shape (ContainerStatus V k s)"
| "replied V (ContainerStatsReq k) s = shape (ContainerStats_handler V k s)"
| "replied V (ListContainerStatsReq f) s = shape (ListContainerStats V f s)"
| "replied V (UpdateContainerResourcesReq k) s = shape (UpdateContainerResources V k s)"
| "replied V (ReopenContainerLogReq k) s = shape (ReopenContainerLog V k s)"
| "replied V (AttachReq k) s = shape (Attach V k s)"
| "replied V (ExecReq k) s = shape (Exec V k s)"
| "replied V (ExecSyncReq k cmd) s = shape (ExecSync V k cmd s)"
| "replied V (PullImageReq r) s = shape (PullImage V r s)"
| "replied V (ListImagesReq f) s = shape (ListImages V f s)"
| "replied V (ImageStatusReq k) s = shape (ImageStatus_handler V k s)"
| "replied V (RemoveImageReq k) s = shape (RemoveImage V k s)"
| "replied V ImageFsInfoReq s = shape (ImageFsInfo V s)"

text \<open>A request that is replied to is a request that is handled.\<close>

lemma replied_handle: "replied V r s = None \<longleftrightarrow> handle V r s = None"
  by (cases r) (simp_all add: shape_def)

section \<open>The rules\<close>

lemma given_simps [simp]: "given None" "given (Some ((x, e), t)) \<longleftrightarrow> x \<noteq> None \<or> e \<noteq> None"
  by (auto simp: given_def)

lemma given_bind [given_intros]: "(\<And>y. m = Some y \<Longrightarrow> given (f y)) \<Longrightarrow> given (Option.bind m f)"
  by (cases m) auto

lemma given_cases [given_intros]:
  "(b \<Longrightarrow> given m) \<Longrightarrow> (\<not> b \<Longrightarrow> given n) \<Longrightarrow> given (if b then m else n)"
  "(r = None \<Longrightarrow> given m) \<Longrightarrow> (\<And>y. r = Some y \<Longrightarrow> given (f y)) \<Longrightarrow> given (case_option m f r)"
  "(\<And>a b. p = (a, b) \<Longrightarrow> given (g a b)) \<Longrightarrow> given (case_prod g p)"
  "(\<And>y. q = Inl y \<Longrightarrow> given (h y)) \<Longrightarrow> (\<And>y. q = Inr y \<Longrightarrow> given (i y)) \<Longrightarrow> given (case_sum h i q)"
  by (auto split: option.split prod.split sum.split)

lemma given_args [given_intros]:
  "(\<And>a b. p = (a, b) \<Longrightarrow> given (g a b x)) \<Longrightarrow> given (case_prod g p x)"
  "(\<And>a b. p = (a, b) \<Longrightarrow> given (f a b x z)) \<Longrightarrow> given (case_prod f p x z)"
  by (auto split: prod.split)

lemma given_remote [given_intros]: "given (Some (remote_call f s))"
  by (auto simp: given_def dest: remote_call_reply)

section \<open>The handlers\<close>

lemma pods_given:
  "given (RunPodSandbox V r s)" "given (StopPodSandbox V k s)" "given (RemovePodSandbox V k s)"
  "given (PodSandboxStatus_handler V k s)" "given (ListPodSandbox V f s)" "given (PortForward V k s)"
  subgoal unfolding RunPodSandbox_def by (intro given_intros) simp_all
  subgoal unfolding StopPodSandbox_def Let_def by (intro given_intros) simp_all
  subgoal unfolding RemovePodSandbox_def Let_def by (intro given_intros) simp_all
  subgoal unfolding PodSandboxStatus_handler_def Let_def by (intro given_intros) simp_all
  subgoal unfolding ListPodSandbox_def by (intro given_intros) (auto simp: given_def split: prod.splits sum.splits)
  subgoal unfolding PortForward_def Let_def
    by (intro given_intros) (auto simp: given_def split: prod.splits option.splits if_splits dest: remote_call_reply)
  done

lemma containers_given:
  "given (CreateContainer V q s)" "given (StartContainer V k s)" "given (StopContainer V k s)"
  "given (ListContainers V f s)" "given (ContainerStatus V k s)" "given (ContainerStats_handler V k s)"
  "given (ListContainerStats V f s)" "given (ReopenContainerLog V k s)"
  subgoal unfolding CreateContainer_def Let_def by (intro given_intros) simp_all
  subgoal unfolding StartContainer_def Let_def by (intro given_intros) simp_all
  subgoal unfolding StopContainer_def Let_def by (intro given_intros) simp_all
  subgoal unfolding ListContainers_def by (intro given_intros) (auto simp: given_def split: prod.splits sum.splits)
  subgoal unfolding ContainerStatus_def Let_def by (intro given_intros) simp_all
  subgoal unfolding ContainerStats_handler_def by (intro given_intros) simp_all
  subgoal unfolding ListContainerStats_def by (intro given_intros) (auto simp: given_def split: prod.splits sum.splits)
  subgoal unfolding ReopenContainerLog_def by (intro given_intros) simp_all
  done

lemma remove_given: "given (RemoveContainer V k s)"
  unfolding RemoveContainer_def Let_def
  by (intro given_intros) (auto simp: bind_eq_Some_conv split: if_splits option.splits)

lemma images_given:
  "given (PullImage V i s)" "given (ListImages V g s)" "given (ImageStatus_handler V j s)" "given (RemoveImage V j s)"
  subgoal unfolding PullImage_def pull_local_def pull_created_def Let_def by (intro given_intros) simp_all
  subgoal unfolding ListImages_def Let_def by (intro given_intros) simp_all
  subgoal unfolding ImageStatus_handler_def image_status_local_def by (intro given_intros) simp_all
  subgoal unfolding RemoveImage_def remove_image_local_def by (intro given_intros) simp_all
  done

lemmas handlers_given = pods_given [unfolded given_shape] containers_given [unfolded given_shape]
  remove_given [unfolded given_shape] images_given [unfolded given_shape]

text \<open>The streaming requests and the file system usage give what the adapter gives.\<close>

lemma exec_route_given:
  "(\<And>p x e. local p = (x, e) \<Longrightarrow> x \<noteq> None \<or> e \<noteq> None) \<Longrightarrow> given (exec_route V k remote local s)"
  unfolding exec_route_def by (intro given_intros) (auto simp: given_def)

lemma fs_info_given: "given (ad_ImageFsInfo (sv_adapter V) s) \<Longrightarrow> given (ImageFsInfo V s)"
  unfolding ImageFsInfo_def by (intro given_intros) simp_all

section \<open>Adapters\<close>

text \<open>What the streaming operations and the file system usage of an adapter give.\<close>

definition streams_given :: "'w AdapterInterface \<Rightarrow> bool" where
  "streams_given A \<longleftrightarrow>
     (\<forall>p. fst (ad_Exec A p) \<noteq> None \<or> snd (ad_Exec A p) \<noteq> None)
     \<and> (\<forall>p c. fst (ad_ExecSync A p c) \<noteq> None \<or> snd (ad_ExecSync A p c) \<noteq> None)
     \<and> (\<forall>s. given (ad_ImageFsInfo A s))"

lemma fake_streams: "streams_given (FakeAdapter b)"
  by (simp add: streams_given_def) (simp add: FakeAdapter_def)

lemma slurm_streams:
  "streams_given (SlurmAdapter_interface B sa)" "snd (ad_Attach (SlurmAdapter_interface B sa) p) \<noteq> None"
  "ad_UpdateContainerResources (SlurmAdapter_interface B sa) p s = Some (e, t) \<Longrightarrow> e \<noteq> None"
  by (auto simp: streams_given_def SlurmAdapter_interface_def Slurm_Exec_def Slurm_ExecSync_def Slurm_Attach_def
      Slurm_UpdateContainerResources_def Slurm_ImageFsInfo_def split: prod.split)

lemma replies:
  assumes "streams_given (sv_adapter V)" and "replied V r s = Some (False, False)"
  shows "(\<exists>k. r = AttachReq k) \<or> (\<exists>k. r = UpdateContainerResourcesReq k)"
proof (cases r)
  case (ExecReq k)
  have "given (Exec V k s)" unfolding Exec_def
    by (rule exec_route_given) (use assms(1) in \<open>metis streams_given_def fst_conv snd_conv\<close>)
  with assms(2) ExecReq show ?thesis by (simp add: given_shape)
next
  case (ExecSyncReq k c)
  have "given (ExecSync V k c s)" unfolding ExecSync_def
    by (rule exec_route_given) (use assms(1) in \<open>metis streams_given_def fst_conv snd_conv\<close>)
  with assms(2) ExecSyncReq show ?thesis by (simp add: given_shape)
next
  case ImageFsInfoReq
  with fs_info_given [of V s] assms show ?thesis by (simp add: given_shape streams_given_def)
qed (use assms(2) in \<open>simp_all add: handlers_given\<close>)

text \<open>Attaching, and the update of a container's resources, which drops its own response.\<close>

lemma attach_given: "(\<And>p. snd (ad_Attach (sv_adapter V) p) \<noteq> None) \<Longrightarrow> replied V (AttachReq k) s \<noteq> Some (False, False)"
  unfolding replied.simps given_shape [symmetric] Attach_def by (rule exec_route_given) (metis snd_conv)

lemma update_given:
  "(\<And>p s e t. ad_UpdateContainerResources (sv_adapter V) p s = Some (e, t) \<Longrightarrow> e \<noteq> None) \<Longrightarrow>
   replied V (UpdateContainerResourcesReq k) s \<noteq> Some (False, False)"
  unfolding replied.simps given_shape [symmetric] UpdateContainerResources_def Let_def
  by (intro given_intros) (use not_None_eq in fastforce)

text \<open>
  Over the fake adapter an update is answered exactly when a remote runtime has answered it, whether
  the container is known or not.
\<close>

lemma update_fake:
  assumes "sv_adapter V = FakeAdapter b"
    and "mget (ContainerPool s) k = None \<and> h = [] \<or> (\<exists>p cm. mget (ContainerPool s) k = Some p
      \<and> cells (ctrs s) p = Some cm \<and> s_RuntimeHandler (c_PodSandbox cm) = h)"
  shows "replied V (UpdateContainerResourcesReq k) s = Some ((\<exists>c y w. GetRemoteRuntime (sv_remoteCRI V) h = Inr (Some c)
      \<and> rc_UpdateContainerResources c k (world s) = (Inr y, w)), False)"
proof -
  have reply: "fst (fst (Remote_UpdateContainerResources (sv_remoteCRI V) h k t)) \<noteq> None \<longleftrightarrow>
      (\<exists>c y w. GetRemoteRuntime (sv_remoteCRI V) h = Inr (Some c) \<and> rc_UpdateContainerResources c k (world t) = (Inr y, w))"
    for t :: "'a mstate"
    by (auto simp: Remote_UpdateContainerResources_def route_def remote_call_def split: sum.splits option.splits prod.splits)
  have update: "replied V (UpdateContainerResourcesReq k) s =
      Some (fst (fst (Remote_UpdateContainerResources (sv_remoteCRI V) h k t)) \<noteq> None, False)"
    if "(case ContainerStorage_Get k s of (Some p, None) \<Rightarrow> (p, s)
      | _ \<Rightarrow> (let (p, h) = alloc zero_container (ctrs s) in (p, s\<lparr>ctrs := h\<rparr>))) = (q, t)"
      and "cells (ctrs t) q = Some cm" "s_RuntimeHandler (c_PodSandbox cm) = h" for q t cm
    using that assms(1)
    by (simp add: UpdateContainerResources_def shape_def ok_op_def Let_def split: prod.split)
  from assms(2) show ?thesis
  proof (elim disjE exE conjE)
    assume "mget (ContainerPool s) k = None" and "h = []"
    then show ?thesis
      using update [OF prod.collapse [symmetric]] reply
      by (simp add: ContainerStorage_Get_def alloc_def zero_container_def zero_sandbox_def)
  next
    fix p cm assume "mget (ContainerPool s) k = Some p" "cells (ctrs s) p = Some cm" "s_RuntimeHandler (c_PodSandbox cm) = h"
    with update [of p s cm] reply [of s] show ?thesis by (simp add: ContainerStorage_Get_def)
  qed
qed

end
