(* ===== verification/Properties_Service.thy ===== *)
theory Properties_Service
  imports Example_Host Answering Replies
begin

text \<open>
  The properties of the service as a whole: what holds in every state that a sequence of
  requests can reach, whatever the adapter, the cluster and the remote runtimes do.
\<close>

lemma built_runtime:
  "NewMulticriService H nm a b c d e f g cache pods net i s = Some (Inr V, t) \<Longrightarrow> runtime V"
  by (rule runtime.intro) (rule new_service_adapter)

lemma built_reachable:
  assumes "NewMulticriService H nm a b c d e f g cache False net i (empty_state w fl) = Some (Inr V, s0)"
    and "images_keyed H cache"
    and "reachable V s0 s"
  shows "Inv V s"
  using new_service_inv [OF assms(1,2)] runtime.reachable_evolves [OF built_runtime [OF assms(1)] assms(3)]
  by (simp add: evolves_def)

lemma new_service_slurm:
  "NewMulticriService H ''slurm'' a b c d e f g cache pods net i s = Some (Inr V, t) \<Longrightarrow>
   \<exists>sa. slurm_adapter sa \<and> sv_adapter V = SlurmAdapter_interface (hl_lib H) sa"
  by (erule NewMulticriService_cases) (metis loaded_slurm)

lemma ex_keys: "images_keyed ex_host p"
  by (auto simp: images_keyed_def ex_host_def ex_skv_def ex_kv_def)

lemma ex_life_run:
  obtains t where "serve_all ex_V ex_life ex_s0 = Some t" "exited t 0"
    "ContainerPool t = [(''u1'', 0)]" "SandboxPool t = [(''pod'', 0)]"
  using ex_life_ends by (auto simp: exited_def)

text \<open>
  C1.  Every state that a service, built without pod persistence over an image file that keeps
  its images under their own IDs, can reach satisfies the invariant: the three pools have unique
  keys and point to live objects filed under their own IDs, no sandbox records a network
  namespace, and a container of the pool without an image belongs to a remote runtime.
\<close>

theorem service_invariant:
  assumes "NewMulticriService H nm a b c d e f g cache False net i (empty_state w fl) = Some (Inr V, s0)"
    and "images_keyed H cache"
    and "reachable V s0 s"
  shows "Inv V s"
  by (rule built_reachable [OF assms])

theorem service_invariant_witness:
  "\<exists>s. serve_all ex_V ex_life ex_s0 = Some s \<and> Inv ex_V s"
  by (rule ex_life_run) (use service_invariant [OF ex_built ex_keys serve_all_reachable] in blast)

text \<open>
  C3.  A container that has exited never leaves that state, through any sequence of requests,
  outside changes and map reorderings.
\<close>

theorem exited_is_final:
  assumes "NewMulticriService H nm a b c d e f g cache False net i (empty_state w fl) = Some (Inr V, s0)"
    and "images_keyed H cache"
    and "reachable V s0 s" and "exited s p" and "reachable V s t"
  shows "exited t p"
  using built_reachable [OF assms(1-3)] runtime.reachable_evolves [OF built_runtime [OF assms(1)] assms(5)] assms(4)
  by (simp add: evolves_def)

theorem exited_is_final_witness:
  "\<exists>s. serve_all ex_V ex_life ex_s0 = Some s \<and> (\<forall>w. exited (s\<lparr>world := w, files := ex_fs\<rparr>) 0)"
proof (rule ex_life_run)
  fix s assume s: "serve_all ex_V ex_life ex_s0 = Some s" and ex: "exited s 0"
  have "exited (s\<lparr>world := w, files := ex_fs\<rparr>) 0" for w
    by (rule exited_is_final [OF ex_built ex_keys serve_all_reachable [OF s] ex reachable_step [OF step.outside]])
  with s show ?thesis by blast
qed

section \<open>Answering and listing\<close>

text \<open>
  C8.  In every reachable state a request is answered exactly when it is none of the crashes listed in
  \<open>crashes\<close>: there a handler meets a nil pointer or an index out of range.  The service is built with
  the fake adapter, or its adapter's own operation for the request does not crash.
\<close>

theorem requests_answered:
  assumes "NewMulticriService H nm a b c d e f g cache False net i (empty_state w fl) = Some (Inr V, s0)"
    and "images_keyed H cache"
    and "reachable V s0 s"
    and "nm = ''fake'' \<or> adapter_answers (sv_adapter V) r"
  shows "handle V r s = None \<longleftrightarrow> crashes V s r"
proof -
  have "adapter_answers (sv_adapter V) r"
  proof (rule NewMulticriService_cases [OF assms(1)])
    fix A assume "loadAdapter (hl_lib H) (hl_env H) (hl_LookPath H) (files (empty_state w fl)) nm = Some (Inr A)" "sv_adapter V = A"
    then have "sv_adapter V = FakeAdapter False" if "nm = ''fake''" using that by (simp add: loadAdapter_def)
    then show ?thesis using assms(4) fake_answers by metis
  qed
  from runtime.handle_answered [OF built_runtime [OF assms(1)] built_reachable [OF assms(1-3)] this]
  show ?thesis by (auto simp: answered_def)
qed

theorem requests_answered_witness:
  "\<exists>s. serve_all ex_V ex_life ex_s0 = Some s
     \<and> handle ex_V (StartContainerReq ''u1'') s \<noteq> None \<and> handle ex_V (RemoveContainerReq ''u1'') s \<noteq> None
     \<and> handle ex_V (ListContainersReq None) s = None \<and> handle ex_V (ContainerStatusReq ''u2'') s = None"
proof -
  have "map_option (\<lambda>s. (ContainerPool s, map_option (\<lambda>cm. (c_Image cm, s_ID (c_PodSandbox cm))) (cells (ctrs s) 0), SandboxPool s,
      map_option s_Containers (cells (sbxs s) 0))) (serve_all ex_V ex_life ex_s0)
      = Some ([(''u1'', 0)], Some (Some 0, ''pod''), [(''pod'', 0)], Some [''u1''])" by code_simp
  then obtain s cm sm where s: "serve_all ex_V ex_life ex_s0 = Some s" "ContainerPool s = [(''u1'', 0)]" "SandboxPool s = [(''pod'', 0)]"
      "cells (ctrs s) 0 = Some cm" "c_Image cm = Some 0" "s_ID (c_PodSandbox cm) = ''pod''"
      "cells (sbxs s) 0 = Some sm" "s_Containers sm = [''u1'']" by auto
  have "\<not> listed_again ''u1'' [''u1'']" by (simp add: listed_again_def)
  then have a: "\<not> crashes ex_V s (StartContainerReq ''u1'')" "\<not> crashes ex_V s (RemoveContainerReq ''u1'')"
      "crashes ex_V s (ListContainersReq None)" "crashes ex_V s (ContainerStatusReq ''u2'')"
    using s by simp_all
  have ans: "handle ex_V r s = None \<longleftrightarrow> crashes ex_V s r" for r
    by (rule requests_answered [OF ex_built ex_keys serve_all_reachable [OF s(1)]]) simp
  from s(1) a show ?thesis unfolding ans [symmetric] by blast
qed

text \<open>
  C9.  A request to a service with the Slurm adapter, other than creating a container and asking for its
  status, crashes only in the situations of C8, or at a start or a stop that connects to the cluster:
  because the container's key does not parse, or because the cluster refuses the terminal of the command
  (of the submission, once the scripts are copied, or of the cancellation).  Of the SSH package only this is
  assumed: a connection attempt returns if no authentication method is nil.
\<close>

theorem slurm_requests_answered:
  assumes "NewMulticriService H ''slurm'' a b c d e f g cache False net i (empty_state w fl) = Some (Inr V, s0)"
    and "images_keyed H cache" and "dial_returns (hl_lib H)"
    and "reachable V s0 s"
    and "\<forall>req. r \<noteq> CreateContainerReq req" and "\<forall>k. r \<noteq> ContainerStatusReq k"
    and "handle V r s = None"
  shows "crashes V s r \<or> ssh_crashes (hl_lib H) V s r"
proof -
  obtain sa where "slurm_adapter sa" "sv_adapter V = SlurmAdapter_interface (hl_lib H) sa"
    using new_service_slurm [OF assms(1)] by blast
  from slurm_handle [OF built_runtime [OF assms(1)] built_reachable [OF assms(1,2,4)] this assms(3,5-7)]
  show ?thesis .
qed

lemma ex_connects: "dial_returns ex_lib" "\<not> ssh_crashes ex_lib V s r"
  by (simp add: dial_returns_def ex_lib_def ex_ssh_def)
    (cases r; simp add: bad_key_def pty_refused_def ex_lib_def ex_ssh_def Let_def)

theorem slurm_requests_answered_witness:
  "\<exists>s t u. serve_all ex_slurm_V ex_slurm_life ex_slurm_s0 = Some s
     \<and> handle ex_slurm_V (StartContainerReq ''u1'') s = Some t \<and> map_option c_Pid (cells (ctrs t) 0) = Some 42
     \<and> handle ex_slurm_V (StopContainerReq ''u1'') t = Some u"
proof -
  obtain s cm where s: "serve_all ex_slurm_V ex_slurm_life ex_slurm_s0 = Some s" "ContainerPool s = [(''u1'', 0)]"
      "cells (ctrs s) 0 = Some cm" "c_Image cm = Some 0"
    using ex_slurm_created by auto
  have H: "hl_lib ex_host = ex_lib" by (simp add: ex_host_def)
  have ans: "\<exists>t. handle ex_slurm_V r s = Some t"
    if "reachable ex_slurm_V ex_slurm_s0 s" "\<not> crashes ex_slurm_V s r"
      "\<forall>req. r \<noteq> CreateContainerReq req" "\<forall>k. r \<noteq> ContainerStatusReq k" for r s
    using slurm_requests_answered [OF ex_slurm_built ex_keys _ that(1,3,4)] that(2) ex_connects unfolding H by blast
  note s_reach = serve_all_reachable [OF s(1)]
  have "\<not> crashes ex_slurm_V s (StartContainerReq ''u1'')" using s by simp
  from ans [OF s_reach this] obtain t where t: "handle ex_slurm_V (StartContainerReq ''u1'') s = Some t" by auto
  have "\<exists>u. handle ex_slurm_V (StopContainerReq ''u1'') t = Some u"
    by (rule ans [OF reachable.more [OF s_reach step.serve [OF t]]]) simp_all
  moreover have "map_option (\<lambda>t. map_option c_Pid (cells (ctrs t) 0))
      (serve_all ex_slurm_V (ex_slurm_life @ [StartContainerReq ''u1'']) ex_slurm_s0) = Some (Some 42)" by code_simp
  then have "map_option c_Pid (cells (ctrs t) 0) = Some 42" using s(1) t by (simp add: serve_all_append del: handle.simps)
  ultimately show ?thesis using s(1) t by blast
qed

text \<open>
  C11.  Every reply can be sent over gRPC, whatever the state: a handler that returns gives a response or an
  error, unless the service was built with the fake adapter and the request is an attach or an
  update of a container's resources.  Such an update gives no error, and a response only when a remote
  runtime has given one (the test of the response is the wrong way round): a local container's update, and
  that of an unknown container when there is no remote runtime, is answered with neither.
\<close>

theorem replies_given:
  assumes "NewMulticriService H nm a b c d e f g cache pods net i s0 = Some (Inr V, s1)"
  shows "(replied V r s = Some (False, False) \<longrightarrow>
      nm = ''fake'' \<and> (\<exists>k. r = AttachReq k \<or> r = UpdateContainerResourcesReq k))
    \<and> (nm = ''fake'' \<and> (mget (ContainerPool s) k = None \<and> h = []
          \<or> (\<exists>p cm. mget (ContainerPool s) k = Some p \<and> cells (ctrs s) p = Some cm \<and> s_RuntimeHandler (c_PodSandbox cm) = h)) \<longrightarrow>
      replied V (UpdateContainerResourcesReq k) s = Some ((\<exists>c y w. GetRemoteRuntime (sv_remoteCRI V) h = Inr (Some c)
        \<and> rc_UpdateContainerResources c k (world s) = (Inr y, w)), False))"
proof (rule NewMulticriService_cases [OF assms])
  fix A assume A: "loadAdapter (hl_lib H) (hl_env H) (hl_LookPath H) (files s0) nm = Some (Inr A)" "sv_adapter V = A"
  show ?thesis
  proof (cases "nm = ''fake''")
    case True
    with A have V: "sv_adapter V = FakeAdapter False" by (simp add: loadAdapter_def)
    with True show ?thesis using replies [of V r s] update_fake [OF V] by (auto simp: fake_streams simp del: replied.simps)
  next
    case False
    with A have "nm = ''slurm''" by (auto simp: loadAdapter_def split: if_splits)
    with A obtain sa where V: "sv_adapter V = SlurmAdapter_interface (hl_lib H) sa" using loaded_slurm by blast
    have "replied V r s \<noteq> Some (False, False)"
      using replies [of V r s] attach_given [of V _ s] update_given [of V _ s] slurm_streams by (fastforce simp: V)
    with False show ?thesis by blast
  qed
qed

theorem replies_given_witness:
  "\<exists>s. serve_all ex_V ex_life ex_s0 = Some s \<and> (\<exists>p. mget (ContainerPool s) ''u1'' = Some p)
     \<and> replied ex_V (UpdateContainerResourcesReq ''u1'') s = Some (False, False)
     \<and> replied ex_V (UpdateContainerResourcesReq ''u2'') s = Some (False, False)
     \<and> replied ex_V (StartContainerReq ''u1'') s \<noteq> Some (False, False)"
proof -
  have "map_option (\<lambda>s. (ContainerPool s, cells (ctrs s) 0 \<noteq> None)) (serve_all ex_V ex_life ex_s0)
      = Some ([(''u1'', 0)], True)" by code_simp
  then obtain s cm where s: "serve_all ex_V ex_life ex_s0 = Some s" "ContainerPool s = [(''u1'', 0)]" "cells (ctrs s) 0 = Some cm"
    by auto
  note ex = replies_given [OF ex_built, of "StartContainerReq ''u1''" s]
  from ex [of "''u1''" "s_RuntimeHandler (c_PodSandbox cm)"] ex [of "''u2''" "[]"] s show ?thesis
    by (simp del: replied.simps)
qed

text \<open>
  C7.  What a listing of the pods answers, in every reachable state, with or without a filter.  Where a
  remote runtime fails to list its own, the error alone.  Otherwise the local pods followed by the remote
  ones; the local ones are, once each, the pods of the pool that were run for this runtime and that have
  the ID, the UID and the state the filter asks for.
\<close>

theorem list_pods_exact:
  assumes "NewMulticriService H nm a b c d e f g cache False net i (empty_state w fl) = Some (Inr V, s0)"
    and "images_keyed H cache"
    and "reachable V s0 s"
  shows "case Remote_ListPodSandbox (sv_remoteCRI V) flt s of
      (Inl e, t) \<Rightarrow> ListPodSandbox V flt s = Some ((None, Some e), t)
    | (Inr remote, t) \<Rightarrow> (\<exists>local. ListPodSandbox V flt s = Some ((Some (local @ remote), None), t)
        \<and> distinct (map ps_Id local)
        \<and> (\<forall>x. x \<in> set local \<longleftrightarrow> (\<exists>k p sm. mget (SandboxPool s) k = Some p \<and> cells (sbxs s) p = Some sm
            \<and> x = \<lparr>ps_Id = k, ps_Metadata = pc_Metadata (s_Config sm), ps_State = s_State sm, ps_CreatedAt = s_CreatedAt sm,
                ps_Labels = pc_Labels (s_Config sm), ps_Annotations = pc_Annotations (s_Config sm)\<rparr>
            \<and> s_RuntimeHandler sm = (if mget (sv_remoteCRI V) ''default'' = None then [] else ''multicri'')
            \<and> (\<forall>f. flt = Some f \<longrightarrow> pf_Id f \<in> {[], k}
                \<and> mget (pf_LabelSelector f) ''io.kubernetes.pod.uid'' \<in> {None, Some [], Some k}
                \<and> (\<forall>n. pf_State f = Some n \<longrightarrow> n < 100 \<longrightarrow> n = (if s_State sm = SANDBOX_READY then 0 else 1))))))"
proof -
  note inv = built_reachable [OF assms]
  let ?h = "MulticriRuntimeName (sv_remoteCRI V)"
  have wf: "pool_wf s_ID (sbxs s) (SandboxPool s)" using inv by (simp add: Inv_def state_wf_def)
  obtain l where l: "SandboxStorage_ListK8s flt ?h s = Some l" "distinct (map ps_Id l)"
    and mem: "\<And>x. x \<in> set l \<longleftrightarrow> (\<exists>k p sm. mget (SandboxPool s) k = Some p \<and> cells (sbxs s) p = Some sm
       \<and> x = ParseToK8sSandbox sm \<and> listed_for flt ?h sm)"
    by (rule sandboxes_ListK8s [OF wf, of flt ?h], rule that)
  have tests: "x = ParseToK8sSandbox sm \<and> listed_for flt ?h sm \<longleftrightarrow>
      x = \<lparr>ps_Id = k, ps_Metadata = pc_Metadata (s_Config sm), ps_State = s_State sm, ps_CreatedAt = s_CreatedAt sm,
          ps_Labels = pc_Labels (s_Config sm), ps_Annotations = pc_Annotations (s_Config sm)\<rparr>
      \<and> s_RuntimeHandler sm = (if mget (sv_remoteCRI V) ''default'' = None then [] else ''multicri'')
      \<and> (\<forall>f. flt = Some f \<longrightarrow> pf_Id f \<in> {[], k}
          \<and> mget (pf_LabelSelector f) ''io.kubernetes.pod.uid'' \<in> {None, Some [], Some k}
          \<and> (\<forall>n. pf_State f = Some n \<longrightarrow> n < 100 \<longrightarrow> n = (if s_State sm = SANDBOX_READY then 0 else 1)))"
    if "s_ID sm = k" for x sm k
  proof -
    have "listed_for flt ?h sm \<longleftrightarrow> s_RuntimeHandler sm = ?h \<and> (\<forall>f. flt = Some f \<longrightarrow> pf_Id f \<in> {[], k}
        \<and> mget (pf_LabelSelector f) ''io.kubernetes.pod.uid'' \<in> {None, Some [], Some k}
        \<and> (\<forall>n. pf_State f = Some n \<longrightarrow> n < 100 \<longrightarrow> n = sandbox_state_num (s_State sm)))"
    proof (cases flt)
      case (Some f)
      then show ?thesis
        using that by (cases "pf_State f"; cases "mget (pf_LabelSelector f) ''io.kubernetes.pod.uid''")
          (auto simp: listed_for_def sandbox_listed_def mstr_def)
    qed (simp add: listed_for_def sandbox_listed_def)
    moreover have "sandbox_state_num (s_State sm) = (if s_State sm = SANDBOX_READY then 0 else 1)"
      by (cases "s_State sm") simp_all
    moreover have "?h = (if mget (sv_remoteCRI V) ''default'' = None then [] else ''multicri'')"
      by (simp add: MulticriRuntimeName_def MulticriRuntimeHandler_def)
    ultimately show ?thesis using that by (simp only: ParseToK8sSandbox_def)
  qed
  have keyed: "mget (SandboxPool s) k = Some p \<Longrightarrow> cells (sbxs s) p = Some sm \<Longrightarrow> s_ID sm = k" for k p sm
    using Inv_sandbox [OF inv] by fastforce
  obtain y t where r: "Remote_ListPodSandbox (sv_remoteCRI V) flt s = (y, t)" by (metis prod.exhaust)
  show ?thesis
  proof (cases y)
    case (Inl e)
    with r l(1) show ?thesis by (simp add: ListPodSandbox_def)
  next
    case (Inr remote)
    have "ListPodSandbox V flt s = Some ((Some (l @ remote), None), t)" using r Inr l(1) by (simp add: ListPodSandbox_def)
    then show ?thesis
      unfolding r Inr prod.case sum.case
      by (intro exI [of _ l] conjI allI l(2); assumption?)
        (rule mem [THEN trans], (rule iff_exI)+, (rule conj_cong [OF refl])+, rule tests, rule keyed)
  qed
qed

theorem list_pods_exact_witness:
  "\<exists>s. serve_all ex_V ex_life ex_s0 = Some s \<and>
     (\<exists>x. ListPodSandbox ex_V (Some \<lparr>pf_Id = [], pf_State = None, pf_LabelSelector = []\<rparr>) s = Some ((Some x, None), s))"
proof (rule ex_life_run)
  fix s assume s: "serve_all ex_V ex_life ex_s0 = Some s"
  have "Remote_ListPodSandbox (sv_remoteCRI ex_V) f s = (Inr [], s)" for f
    by (simp add: Remote_ListPodSandbox_def ex_V_def)
  with list_pods_exact [OF ex_built ex_keys serve_all_reachable [OF s], of "Some \<lparr>pf_Id = [], pf_State = None, pf_LabelSelector = []\<rparr>"] s
  show ?thesis by auto
qed

section \<open>The adapter\<close>

text \<open>
  C31.  Every adapter a built service can have, the fake one and both builders of the Slurm one,
  meets the contract of the runtime: no operation changes the pools, the sandboxes, or the
  identity, image and configuration of a container, and only the container status may move a
  container to another state, the one it was asked for.
\<close>

theorem built_adapter_contract:
  assumes "NewMulticriService H nm a b c d e f g cache pods net i s = Some (Inr V, t)"
  shows "adapter (sv_adapter V)"
  by (rule new_service_adapter [OF assms])

theorem built_adapter_contract_witness: "adapter (sv_adapter ex_V)"
  by (rule built_adapter_contract [OF ex_built])

text \<open>
  C23.  What a restart with pod persistence makes of the file of sandboxes.  A ready sandbox whose record
  has a network namespace path is in the pool again, equal but for the path; every other record, such as
  that of any sandbox without a namespace of its own, is not in the pool and is deleted from the file
  (unless the file refuses a deletion).  The restart panics only if a recorded namespace can neither be
  opened nor be replaced.
\<close>

theorem restart_sandboxes:
  assumes "skv_Open_sandboxes K (d @ ''/'' @ SANDBOXSTORE) (world s) = Some kv" and "skv_behaves kv db"
    and "namespaces_apart N db" and "heap_wf (sbxs s)"
  shows "(NewSandboxStorage K N d True s = None \<longrightarrow> (\<exists>k sm w u e f. db (world s) k = Some sm
      \<and> s_NetNSPath sm \<noteq> [] \<and> s_State sm = SANDBOX_READY
      \<and> fst (cnins_GetNS N (s_NetNSPath sm) w) = Inl e \<and> fst (cnins_NewNS N u) = Inl f))
    \<and> (\<forall>err t. NewSandboxStorage K N d True s = Some (err, t) \<longrightarrow> err = None
      \<and> (\<forall>k. db (world s) k = None \<longrightarrow> mget (SandboxPool t) k = None \<and> db (world t) k = None)
      \<and> (\<forall>k sm. db (world s) k = Some sm \<and> s_NetNSPath sm \<noteq> [] \<and> s_State sm = SANDBOX_READY \<longrightarrow>
          (\<exists>p path. mget (SandboxPool t) k = Some p \<and> cells (sbxs t) p = Some (sm\<lparr>s_NetNSPath := path\<rparr>)
             \<and> db (world t) k \<in> {Some sm, Some (sm\<lparr>s_NetNSPath := path\<rparr>)}))
      \<and> (\<forall>k sm. db (world s) k = Some sm \<and> (s_NetNSPath sm = [] \<or> s_State sm \<noteq> SANDBOX_READY) \<longrightarrow>
          mget (SandboxPool t) k = None \<and> (db (world t) k = None \<or> (\<exists>j w. fst (kv_Delete kv j w) \<noteq> None))))"
proof -
  let ?kvs = "fst (kv_List kv (world s))"
  have kvs: "mwf ?kvs" "mget ?kvs = db (world s)" using assms(2) by (simp_all add: skv_behaves_def)
  have new: "NewSandboxStorage K N d True s = map_option (\<lambda>(m, t). (None, t\<lparr>sandbox_persist := Some kv, SandboxPool := m\<rparr>))
      (load_sandboxes N kv ?kvs [] s)"
    using assms(1) by (auto simp: NewSandboxStorage_def NewSandboxPersist_def SandboxPersist_LoadAll_def
        map_option_case split: option.split)
  show ?thesis
  proof (cases "load_sandboxes N kv ?kvs [] s")
    case None
    with load_sandboxes_panics [OF None] new in_set_mget [OF kvs(1)] kvs(2) show ?thesis by fastforce
  next
    case (Some mt)
    obtain m t where mt: "mt = (m, t)" by (cases mt)
    have "\<forall>k. case db (world s) k of None \<Rightarrow> mget m k = None \<and> db (world t) k = None
          | Some v \<Rightarrow> record_loaded kv (db (world t) k) (mget m k) (sbxs t) v"
      using load_sandboxes_records [OF assms(2-4) kvs(1) Some [unfolded mt]] kvs(2)
      by (simp split: option.splits) (metis option.distinct(1))
    note k = spec [OF this]
    have "mget m k = None \<and> db (world t) k = None" if "db (world s) k = None" for k
      using k [of k] that by simp
    moreover have "record_loaded kv (db (world t) k) (mget m k) (sbxs t) v" if "db (world s) k = Some v" for k v
      using k [of k] that by simp
    ultimately show ?thesis
      using new Some mt by (fastforce simp: record_loaded_def split: option.splits)
  qed
qed

theorem restart_sandboxes_witness:
  "\<exists>t p path. NewSandboxStorage \<lparr>skv_Open_containers = (\<lambda>p w. None), skv_Open_sandboxes = (\<lambda>p w. Some map_kv), skv_Open_images = (\<lambda>p w. None)\<rparr>
     \<lparr>cnins_GetNS = (\<lambda>p w. (Inr p, w)), cnins_NewNS = (\<lambda>w. (Inl ''unused'', w)),
       cnins_Close = (\<lambda>p w. (None, w)), unix_Unmount = (\<lambda>p w. (None, w))\<rparr>
     ''/cache'' True (empty_state [(''a'', zero_sandbox), (''b'', zero_sandbox\<lparr>s_NetNSPath := ''/var/run/netns/b''\<rparr>)] ex_fs) = Some (None, t)
   \<and> mget (SandboxPool t) ''a'' = None \<and> mget (world t) ''a'' = None
   \<and> mget (SandboxPool t) ''b'' = Some p \<and> cells (sbxs t) p = Some (zero_sandbox\<lparr>s_NetNSPath := path\<rparr>)"
proof -
  let ?K = "\<lparr>skv_Open_containers = (\<lambda>p w. None), skv_Open_sandboxes = (\<lambda>p w. Some map_kv), skv_Open_images = (\<lambda>p w. None)\<rparr>
      :: (string \<times> SandboxMetadata) list skvlib"
  let ?N = "\<lparr>cnins_GetNS = (\<lambda>p w. (Inr p, w)), cnins_NewNS = (\<lambda>w. (Inl ''unused'', w)),
       cnins_Close = (\<lambda>p w. (None, w)), unix_Unmount = (\<lambda>p w. (None, w))\<rparr> :: (string \<times> SandboxMetadata) list nslib"
  let ?s = "empty_state [(''a'', zero_sandbox), (''b'', zero_sandbox\<lparr>s_NetNSPath := ''/var/run/netns/b''\<rparr>)] ex_fs"
  have zero: "s_State zero_sandbox = SANDBOX_READY" "s_NetNSPath zero_sandbox = []" by (simp_all add: zero_sandbox_def)
  have del: "fst (kv_Delete map_kv k w) = None" for k and w :: "(string \<times> SandboxMetadata) list" by (simp add: map_kv_def)
  have ns: "namespaces_apart ?N mget" and heap: "heap_wf (sbxs ?s)" by (simp_all add: namespaces_apart_def empty_state_def)
  note ex = restart_sandboxes [of ?K "''/cache''" ?s map_kv mget ?N, OF _ map_kv_behaves ns heap, simplified]
  obtain t where t: "NewSandboxStorage ?K ?N ''/cache'' True ?s = Some (None, t)" using ex by auto
  have a: "mget (world ?s) ''a'' = Some zero_sandbox"
    and b: "mget (world ?s) ''b'' = Some (zero_sandbox\<lparr>s_NetNSPath := ''/var/run/netns/b''\<rparr>)" by (simp_all add: empty_state_def)
  from ex t have "(\<forall>k sm. mget (world ?s) k = Some sm \<and> s_NetNSPath sm \<noteq> [] \<and> s_State sm = SANDBOX_READY \<longrightarrow>
          (\<exists>p path. mget (SandboxPool t) k = Some p \<and> cells (sbxs t) p = Some (sm\<lparr>s_NetNSPath := path\<rparr>)))"
     and "(\<forall>k sm. mget (world ?s) k = Some sm \<and> (s_NetNSPath sm = [] \<or> s_State sm \<noteq> SANDBOX_READY) \<longrightarrow>
          mget (SandboxPool t) k = None \<and> mget (world t) k = None)" using del by fastforce+
  from this(1) [rule_format, OF conjI [OF b]] this(2) [rule_format, OF conjI [OF a]] t zero show ?thesis by auto
qed

end
