(* ===== verification/Simulation.thy ===== *)
theory Simulation
  imports Registry
begin

text \<open>
  Every request the service serves is a step of the registry: one lemma per request, the
  requests that leave the registry alone together, and the lifting to runs of the service.
\<close>

section \<open>Cases and fresh objects\<close>

lemma remote_handler_simps [simp]:
  "GetRemoteRuntime (sv_remoteCRI V) h = Inr None \<Longrightarrow> \<not> remote_handler V h"
  "GetRemoteRuntime (sv_remoteCRI V) h = Inr (Some c) \<Longrightarrow> remote_handler V h"
  by (simp_all add: remote_handler_def)

lemma view_alloc:
  assumes "pool_wf idof h m" and "alloc v h = (p, h')"
  shows "Option.bind (mget m j) (\<lambda>q. map_option f (cells h' q)) = Option.bind (mget m j) (\<lambda>q. map_option f (cells h q))"
proof (cases "mget m j")
  case (Some q)
  then obtain ob where "cells h q = Some ob" using pool_wfD [OF assms(1)] by blast
  moreover have "heap_wf h" using assms(1) by (simp add: pool_wf_def)
  ultimately have "q \<noteq> p" using heap_wf_fresh cells_alloc [OF assms(2)] by fastforce
  with Some cells_alloc [OF assms(2)] show ?thesis by simp
qed simp

lemma registry_alloc_pod:
  assumes "state_wf s" and "alloc sm (sbxs s) = (p, h)"
  shows "registry_of (s\<lparr>sbxs := h\<rparr>) = registry_of s"
  by (rule registry_eq; rule ext)
    (use assms view_alloc [of s_ID "sbxs s" "SandboxPool s" sm p h] in \<open>simp_all add: registry_of_def state_wf_def\<close>)

lemma registry_alloc_box:
  assumes "state_wf s" and "alloc cm (ctrs s) = (p, h)"
  shows "registry_of (s\<lparr>ctrs := h\<rparr>) = registry_of s"
  by (rule registry_eq; rule ext)
    (use assms view_alloc [of c_ID "ctrs s" "ContainerPool s" cm p h] in \<open>simp_all add: registry_of_def state_wf_def\<close>)

lemma set_pod_same: "pods R k = Some pd \<Longrightarrow> set_pod k (Some pd) R = R"
  by (rule registry_eq) auto

lemma set_box_same: "boxes R k = Some bx \<Longrightarrow> set_box k (Some bx) R = R"
  by (rule registry_eq) auto

lemma set_pod_twice [simp]: "set_pod k x (set_pod k y R) = set_pod k x R"
  by (rule registry_eq) auto

lemma set_box_twice [simp]: "set_box k x (set_box k y R) = set_box k x R"
  by (rule registry_eq) auto

lemma registry_pod:
  "mget (SandboxPool s) k = Some p \<Longrightarrow> cells (sbxs s) p = Some sm \<Longrightarrow> pods (registry_of s) k = Some (pod_of sm)"
  by (simp add: registry_parts)

lemma registry_box:
  "mget (ContainerPool s) k = Some p \<Longrightarrow> cells (ctrs s) p = Some cm \<Longrightarrow> boxes (registry_of s) k = Some (box_of cm)"
  by (simp add: registry_parts)

lemma same_wf: "same_stores s t \<Longrightarrow> state_wf s \<Longrightarrow> state_wf t"
  using same_stores_wf by blast

lemma Inv_wf: "Inv V s \<Longrightarrow> state_wf s"
  by (simp add: Inv_def)

text \<open>Reassigning a filed sandbox and filing it again.\<close>

lemma registry_rewrite_pod:
  assumes "state_wf s" and "mget (SandboxPool s) k = Some p" and "s_ID sm = k"
    and "SandboxStorage_Update p (s\<lparr>sbxs := assign p sm (sbxs s)\<rparr>) = Some t"
  shows "registry_of t = set_pod k (Some (pod_of sm)) (registry_of s)"
  using registry_put_pod [OF assms(4), of sm] registry_assign_pod [OF assms(1,2), of sm] assms(3) by simp

lemma update_container_box:
  assumes "state_wf s" and "mget (ContainerPool s) k = Some p" and "cells (ctrs s) p = Some cm"
    and "update_container p f s = Some t"
  shows "registry_of t = set_box k (Some (box_of (f cm))) (registry_of s)"
  using assms registry_assign_box [OF assms(1,2), of "f cm"] by (auto simp: update_container_def)

text \<open>Filing a container that is filed changes nothing.\<close>

lemma registry_refile:
  assumes "state_wf s" and "mget (ContainerPool s) k = Some p" and "ContainerStorage_Update p s = Some t"
  shows "registry_of t = registry_of s"
proof -
  obtain cm where cm: "cells (ctrs s) p = Some cm" "c_ID cm = k"
    using assms(1,2) by (auto simp: state_wf_def dest: pool_wfD)
  from registry_put_box [OF assms(3) cm(1)] set_box_same [OF registry_box [OF assms(2) cm(1)]] cm(2)
  show ?thesis by simp
qed

section \<open>Pods\<close>

lemma create_pod_registry:
  assumes "SandboxStorage_CreateSandboxMetadata L st config h s = Some (p, t)" and "state_wf s"
  obtains sm where "cells (sbxs t) p = Some sm" "mget (SandboxPool t) (s_ID sm) = Some p"
    "pod_of sm = \<lparr>pod_state = st, pod_handler = h, pod_boxes = []\<rparr>"
    "registry_of t = set_pod (s_ID sm) (Some (pod_of sm)) (registry_of s)"
proof (rule CreateSandboxMetadata_effect [OF assms(1)])
  fix sm u
  assume u: "same_stores s u" "alloc sm (sbxs u) = (p, sbxs t)"
    "SandboxStorage_Update p (u\<lparr>sbxs := sbxs t\<rparr>) = Some t" and cell: "cells (sbxs t) = (cells (sbxs s))(p := Some sm)"
    and pool: "SandboxPool t = mset_key (s_ID sm) p (SandboxPool s)"
    and fields: "s_State sm = st" "s_RuntimeHandler sm = h" "s_Containers sm = []"
  have "registry_of t = set_pod (s_ID sm) (Some (pod_of sm)) (registry_of (u\<lparr>sbxs := sbxs t\<rparr>))"
    by (rule registry_put_pod [OF u(3)]) (simp add: cell)
  also have "registry_of (u\<lparr>sbxs := sbxs t\<rparr>) = registry_of s"
    using registry_alloc_pod [OF same_wf [OF u(1) assms(2)] u(2)] same_registry [OF u(1)] by simp
  finally show ?thesis
    by (rule that [rotated 3]) (use cell pool fields in \<open>simp_all add: mget_update pod_of_def\<close>)
qed

lemma run_local_registry:
  assumes A: "adapter (sv_adapter V)" and run: "run_local_sandbox V config p s = Some (err, t)"
    and wf: "state_wf s" and p: "mget (SandboxPool s) k = Some p" and sm: "cells (sbxs s) p = Some sm"
  shows "registry_of t = registry_of s"
proof -
  obtain e u where net: "(if sv_netPlugin V \<noteq> None then setupPodNetwork V p s else Some (None, s)) = Some (e, u)"
    and rest: "(if e \<noteq> None then Some (e, u) else do {
       sandbox \<leftarrow> cells (sbxs u) p;
       let errPath = GenerateLogDir (pc_LogDirectory config) (s_ID sandbox);
       let s = u\<lparr>files := snd (CreatePathDirectory errPath (files u))\<rparr>;
       let s = s\<lparr>sbxs := assign p (sandbox\<lparr>s_LogPath := errPath\<rparr>) (sbxs s)\<rparr>;
       ad_RunPodSandbox (sv_adapter V) p s }) = Some (err, t)"
    using run unfolding run_local_sandbox_def by (auto simp: bind_eq_Some_conv simp del: Let_def)
  have same: "registry_of (s\<lparr>sbxs := assign p sm' (sbxs s)\<rparr>) = registry_of s" if "pod_of sm' = pod_of sm" for sm'
    using registry_assign_pod [OF wf p, of sm'] set_pod_same [OF registry_pod [OF p sm]] that by simp
  have "addressed p sm s u"
    using net setupPodNetwork_effect [OF _ sm] addressed_same [OF sm, of s] by (auto split: if_splits)
  then obtain ip where u: "same_stores (s\<lparr>sbxs := assign p (sm\<lparr>s_IP := ip\<rparr>) (sbxs s)\<rparr>) u" by (auto simp: addressed_def)
  have ru: "registry_of u = registry_of s"
    using same_registry [OF u] same [of "sm\<lparr>s_IP := ip\<rparr>"] by (simp add: pod_of_def)
  show ?thesis
  proof (cases e)
    case None
    let ?l = "GenerateLogDir (pc_LogDirectory config) (s_ID sm)"
    let ?v = "u\<lparr>files := snd (CreatePathDirectory ?l (files u)), sbxs := assign p (sm\<lparr>s_IP := ip, s_LogPath := ?l\<rparr>) (sbxs u)\<rparr>"
    have ad: "ad_RunPodSandbox (sv_adapter V) p ?v = Some (err, t)" using rest u None by (simp add: Let_def same_stores_def)
    have "same_stores (s\<lparr>sbxs := assign p (sm\<lparr>s_IP := ip, s_LogPath := ?l\<rparr>) (sbxs s)\<rparr>) ?v"
      using u by (simp add: same_stores_def assign_def)
    from same_registry [OF this] same [of "sm\<lparr>s_IP := ip, s_LogPath := ?l\<rparr>"]
    have "registry_of ?v = registry_of s" by (simp add: pod_of_def)
    with steady_registry [OF keepsD [OF adapter.run_sandbox [OF A] ad]] show ?thesis by simp
  qed (use rest ru in simp)
qed

context runtime
begin

abbreviation does :: "request \<Rightarrow> 'w mstate \<Rightarrow> 'w mstate \<Rightarrow> bool" where
  "does r s t \<equiv> registry_step (remote_handler V) r (registry_of s) (registry_of t)"

lemma does_idle: "registry_of t = registry_of s \<Longrightarrow> does r s t"
  by (simp add: idle)

lemma RunPodSandbox_step:
  assumes inv: "Inv V s" and run: "RunPodSandbox V req s = Some (reply, t)"
  shows "does (RunPodSandboxReq req) s t"
proof -
  let ?new = "Some \<lparr>pod_state = SANDBOX_NOTREADY, pod_handler = rq_RuntimeHandler req, pod_boxes = []\<rparr>"
  obtain x e u where r: "route (sv_remoteCRI V) (rq_RuntimeHandler req) (\<lambda>c. rc_RunPodSandbox c req) s = ((x, e), u)"
    by (metis prod.exhaust)
  from r show ?thesis
  proof (cases rule: routed)
    case local
    obtain config p v where c: "SandboxStorage_CreateSandboxMetadata (sv_go V) SANDBOX_NOTREADY config (rq_RuntimeHandler req) s = Some (p, v)"
      and rest: "do {
         (err, s) \<leftarrow> run_local_sandbox V config p v;
         sandbox \<leftarrow> cells (sbxs s) p;
         (case err of
            Some e \<Rightarrow> Some ((None, Some e), SandboxStorage_Remove (s_ID sandbox) s)
          | None \<Rightarrow> do { s \<leftarrow> SandboxStorage_Update p s; Some ((Some (s_ID sandbox), None), s) }) } = Some (reply, t)"
      using run r local by (auto simp: RunPodSandbox_def Remote_RunPodSandbox_def bind_eq_Some_conv)
    have vwf: "state_wf v" using ev_create_sandbox [OF c, of V] inv by (simp add: evolves_def Inv_def)
    obtain sm where sm: "cells (sbxs v) p = Some sm" "mget (SandboxPool v) (s_ID sm) = Some p"
      "registry_of v = set_pod (s_ID sm) ?new (registry_of s)" "Some (pod_of sm) = ?new"
      by (rule create_pod_registry [OF c Inv_wf [OF inv]]) simp
    obtain err w where l: "run_local_sandbox V config p v = Some (err, w)" using rest by (auto simp: bind_eq_Some_conv)
    have w: "registry_of w = set_pod (s_ID sm) ?new (registry_of s)"
      using run_local_registry [OF adapter_axioms l vwf sm(2,1)] sm(3) by simp
    obtain sm' where sm': "cells (sbxs w) p = Some sm'" "s_ID sm' = s_ID sm" "pod_of sm' = pod_of sm"
      using run_local_sandbox_effect [OF adapter_axioms l sm(1)] by (auto simp: pod_of_def)
    show ?thesis
    proof (cases err)
      case None
      with rest l sm'(1) have "SandboxStorage_Update p w = Some t" by (auto simp: bind_eq_Some_conv)
      from registry_put_pod [OF this sm'(1)] w sm' sm(4) show ?thesis by (simp add: pod_run)
    next
      case (Some y)
      with rest l sm' have "t = SandboxStorage_Remove (s_ID sm) w" by simp
      with w local show ?thesis by (simp add: registry_drop_pod pod_failed)
    qed
  next
    case (failed y)
    with run r have "t = u" by (simp add: RunPodSandbox_def Remote_RunPodSandbox_def)
    with failed show ?thesis by (simp add: does_idle same_registry)
  next
    case (answered k d)
    obtain config p v where c: "SandboxStorage_CreateSandboxMetadata (sv_go V) SANDBOX_NOTREADY config (rq_RuntimeHandler req) u = Some (p, v)"
      and up: "SandboxStorage_Update p v = Some t"
      using run r answered by (auto simp: RunPodSandbox_def Remote_RunPodSandbox_def bind_eq_Some_conv)
    obtain sm where "cells (sbxs v) p = Some sm" "registry_of v = set_pod (s_ID sm) ?new (registry_of u)" "Some (pod_of sm) = ?new"
      by (rule create_pod_registry [OF c same_wf [OF answered(4) Inv_wf [OF inv]]]) simp
    with registry_put_pod [OF up] same_registry [OF answered(4)] show ?thesis by (simp add: pod_run)
  qed
qed

lemma StopPodSandbox_step:
  assumes inv: "Inv V s" and run: "StopPodSandbox V k s = Some (reply, t)"
  shows "does (StopPodSandboxReq k) s t"
proof (cases "mget (SandboxPool s) k")
  case None
  obtain x e u where r: "route (sv_remoteCRI V) [] (\<lambda>c. rc_StopPodSandbox c k) s = ((x, e), u)" by (metis prod.exhaust)
  with run None have "t = u"
    by (auto simp: StopPodSandbox_def SandboxStorage_Get_def handler_of_def Remote_StopPodSandbox_def
        bind_eq_Some_conv split: option.splits if_splits)
  with route_frame [OF r] show ?thesis by (simp add: does_idle same_registry)
next
  case (Some p)
  obtain sm where sm: "cells (sbxs s) p = Some sm" "s_ID sm = k" "s_NetNSPath sm = []"
    using Inv_sandbox [OF inv Some] by blast
  obtain x e u where r: "route (sv_remoteCRI V) (s_RuntimeHandler sm) (\<lambda>c. rc_StopPodSandbox c k) s = ((x, e), u)"
    by (metis prod.exhaust)
  have u: "same_stores s u" using route_frame [OF r] by simp
  show ?thesis
  proof (cases e)
    case (Some y)
    with run r \<open>mget (SandboxPool s) k = Some p\<close> sm have "t = u"
      by (simp add: StopPodSandbox_def SandboxStorage_Get_def handler_of_def Remote_StopPodSandbox_def)
    with u show ?thesis by (simp add: does_idle same_registry)
  next
    case None
    obtain err v where ad: "(if x = None then ad_StopPodSandbox (sv_adapter V) p u else Some (None, u)) = Some (err, v)"
      and rest: "(case err of
             Some e \<Rightarrow> Some ((None, Some e), v)
           | None \<Rightarrow> do {
               sandbox \<leftarrow> cells (sbxs v) p;
               s \<leftarrow> SandboxStorage_Update p (v\<lparr>sbxs := assign p (sandbox\<lparr>s_State := SANDBOX_NOTREADY, s_IP := []\<rparr>) (sbxs v)\<rparr>);
               Some ((Some (), None), s) }) = Some (reply, t)"
      using run r Some sm None u
      by (auto simp: StopPodSandbox_def SandboxStorage_Get_def handler_of_def Remote_StopPodSandbox_def same_stores_def
          bind_eq_Some_conv split: if_splits option.splits)
    have "steady u v" using ad keepsD [OF stop_sandbox] by (auto split: if_splits)
    then have v: "registry_of v = registry_of s" "state_wf v" "SandboxPool v = SandboxPool s" "sbxs v = sbxs s"
      using u same_registry [OF u] steady_registry [of u v] adapter_frame_wf [OF steady_adapter_frame] same_wf [OF u] Inv_wf [OF inv]
      by (auto simp: steady_def adapter_frame_def same_stores_def)
    show ?thesis
    proof (cases err)
      case None
      with rest v(4) sm(1) have "SandboxStorage_Update p (v\<lparr>sbxs := assign p (sm\<lparr>s_State := SANDBOX_NOTREADY, s_IP := []\<rparr>) (sbxs v)\<rparr>) = Some t"
        by (auto simp: bind_eq_Some_conv)
      from registry_rewrite_pod [OF v(2) _ _ this, of k] Some v(1,3) sm(2)
      have "registry_of t = set_pod k (Some (pod_of sm\<lparr>pod_state := SANDBOX_NOTREADY\<rparr>)) (registry_of s)" by (simp add: pod_of_def)
      then show ?thesis by (simp add: pod_stopped registry_pod [OF Some sm(1)])
    qed (use rest v(1) in \<open>simp add: does_idle\<close>)
  qed
qed

lemma RemovePodSandbox_step:
  assumes inv: "Inv V s" and run: "RemovePodSandbox V k s = Some (reply, t)"
  shows "does (RemovePodSandboxReq k) s t"
proof (cases "mget (SandboxPool s) k")
  case None
  obtain x e u where r: "route (sv_remoteCRI V) [] (\<lambda>c. rc_RemovePodSandbox c k) s = ((x, e), u)" by (metis prod.exhaust)
  from r show ?thesis
  proof (cases rule: routed)
    case (answered y c)
    with run r None have "t = SandboxStorage_Remove [] u"
      by (simp add: RemovePodSandbox_def SandboxStorage_Get_def handler_of_def Remote_RemovePodSandbox_def)
    with answered None show ?thesis
      by (simp add: registry_drop_pod same_registry unknown_removed registry_parts)
  qed (use run r None in \<open>simp_all add: RemovePodSandbox_def SandboxStorage_Get_def handler_of_def
      Remote_RemovePodSandbox_def does_idle same_registry\<close>)
next
  case (Some p)
  obtain sm where sm: "cells (sbxs s) p = Some sm" "s_ID sm = k" using Inv_sandbox [OF inv Some] by blast
  note pd = registry_pod [OF Some sm(1)]
  obtain x e u where r: "route (sv_remoteCRI V) (s_RuntimeHandler sm) (\<lambda>c. rc_RemovePodSandbox c k) s = ((x, e), u)"
    by (metis prod.exhaust)
  from r show ?thesis
  proof (cases rule: routed)
    case local
    show ?thesis
    proof (cases "s_State sm")
      case SANDBOX_READY
      with run r Some sm local show ?thesis
        by (simp add: RemovePodSandbox_def SandboxStorage_Get_def handler_of_def Remote_RemovePodSandbox_def does_idle)
    next
      case SANDBOX_NOTREADY
      then obtain err v where ad: "ad_RemovePodSandbox (sv_adapter V) p s = Some (err, v)"
        and rest: "(case err of Some e \<Rightarrow> Some ((None, Some e), v)
           | None \<Rightarrow> do { k \<leftarrow> map_option s_ID (cells (sbxs v) p); Some ((Some (), None), SandboxStorage_Remove k v) }) = Some (reply, t)"
        using run r Some sm local
        by (auto simp: RemovePodSandbox_def SandboxStorage_Get_def handler_of_def Remote_RemovePodSandbox_def bind_eq_Some_conv
            cong: option.case_cong)
      have st: "steady s v" by (rule keepsD [OF remove_sandbox ad])
      then have "sbxs v = sbxs s" by (simp add: steady_def adapter_frame_def)
      moreover have "registry_step (remote_handler V) (RemovePodSandboxReq k) (registry_of s) (set_pod k None (registry_of s))"
        by (rule pod_removed [OF pd]) (simp add: pod_of_def SANDBOX_NOTREADY)
      ultimately show ?thesis
        using rest sm steady_registry [OF st] by (cases err) (auto simp: does_idle registry_drop_pod)
    qed
  next
    case (failed y)
    with run r Some sm show ?thesis
      by (simp add: RemovePodSandbox_def SandboxStorage_Get_def handler_of_def Remote_RemovePodSandbox_def does_idle same_registry)
  next
    case (answered y c)
    with run r Some sm have "t = SandboxStorage_Remove k u"
      by (simp add: RemovePodSandbox_def SandboxStorage_Get_def handler_of_def Remote_RemovePodSandbox_def same_stores_def)
    with answered show ?thesis
      by (simp add: registry_drop_pod same_registry pod_of_def pod_removed [OF pd])
  qed
qed

lemma PodSandboxStatus_step:
  assumes inv: "Inv V s" and run: "PodSandboxStatus_handler V k s = Some (reply, t)"
  shows "does (PodSandboxStatusReq k) s t"
proof (cases "mget (SandboxPool s) k")
  case None
  with run show ?thesis by (simp add: PodSandboxStatus_handler_def SandboxStorage_Get_def does_idle)
next
  case (Some p)
  obtain sm where sm: "cells (sbxs s) p = Some sm" "s_ID sm = k" using Inv_sandbox [OF inv Some] by blast
  obtain x e u where r: "route (sv_remoteCRI V) (s_RuntimeHandler sm) (\<lambda>c. rc_PodSandboxStatus c k) s = ((x, e), u)"
    by (metis prod.exhaust)
  from r show ?thesis
  proof (cases rule: routed)
    case local
    obtain ip sm' where ip: "(if s_IP sm \<noteq> [] then (s_IP sm, sm\<lparr>s_State := SANDBOX_READY\<rparr>)
        else if sv_netPlugin V = None then (''127.0.0.1'', sm\<lparr>s_State := SANDBOX_READY\<rparr>) else (s_IP sm, sm)) = (ip, sm')"
      by (metis prod.exhaust)
    let ?v = "s\<lparr>sbxs := assign p sm' (sbxs s)\<rparr>"
    obtain err w where ad: "ad_PodSandboxStatus (sv_adapter V) p ?v = Some (err, w)" and t: "t = w"
      using run r Some sm local ip
      by (auto simp: PodSandboxStatus_handler_def SandboxStorage_Get_def Remote_PodSandboxStatus_def Let_def
          bind_eq_Some_conv split: option.splits)
    have "registry_of t = set_pod k (Some (pod_of sm')) (registry_of s)"
      using steady_registry [OF keepsD [OF status_sandbox ad]] t registry_assign_pod [OF Inv_wf [OF inv] Some] by simp
    moreover have "pod_of sm' = pod_of sm \<or> pod_of sm' = pod_of sm\<lparr>pod_state := SANDBOX_READY\<rparr>"
      using ip by (auto simp: pod_of_def split: if_splits)
    ultimately show ?thesis
      using set_pod_same [OF registry_pod [OF Some sm(1)]] pod_ready [OF registry_pod [OF Some sm(1)]] local
      by (auto simp: does_idle pod_of_def)
  qed (use run r Some sm in \<open>simp_all add: PodSandboxStatus_handler_def SandboxStorage_Get_def
      Remote_PodSandboxStatus_def does_idle same_registry\<close>)
qed

section \<open>Containers\<close>

lemma box_pair: "box_of cm = \<lparr>box_state = st, box_pod = k\<rparr> \<longleftrightarrow> c_State cm = st \<and> s_ID (c_PodSandbox cm) = k"
  by (simp add: box_of_def)

lemma create_box_registry:
  assumes "ContainerStorage_CreateContainerMetadata L name (Some sp) st at img cmd args svc config env prt ident s = Some (p, t)"
    and "state_wf s" and "cells (sbxs s) sp = Some sandbox"
  obtains cm where "cells (ctrs t) p = Some cm" "mget (ContainerPool t) (c_ID cm) = Some p"
    "box_of cm = \<lparr>box_state = st, box_pod = s_ID sandbox\<rparr>"
    "registry_of t = set_box (c_ID cm) (Some (box_of cm)) (registry_of s)" "sbxs t = sbxs s" "SandboxPool t = SandboxPool s"
proof (rule CreateContainerMetadata_effect [OF assms(1)])
  fix cm u sb
  assume u: "same_stores s u" "alloc cm (ctrs u) = (p, ctrs t)" "ContainerStorage_Update p (u\<lparr>ctrs := ctrs t\<rparr>) = Some t"
    and cell: "cells (ctrs t) = (cells (ctrs s))(p := Some cm)"
    and pool: "ContainerPool t = mset_key (c_ID cm) p (ContainerPool s)" and sb: "sbxs t = sbxs s"
    and fields: "cells (sbxs s) sp = Some sb" "c_PodSandbox cm = sb" "c_State cm = st"
  have "registry_of t = set_box (c_ID cm) (Some (box_of cm)) (registry_of (u\<lparr>ctrs := ctrs t\<rparr>))"
    by (rule registry_put_box [OF u(3)]) (simp add: cell)
  also have "registry_of (u\<lparr>ctrs := ctrs t\<rparr>) = registry_of s"
    using registry_alloc_box [OF same_wf [OF u(1) assms(2)] u(2)] same_registry [OF u(1)] by simp
  finally have reg: "registry_of t = set_box (c_ID cm) (Some (box_of cm)) (registry_of s)" .
  show ?thesis
    by (rule that [OF _ _ _ reg sb create_metadata_pods [OF assms(1)]])
      (use cell pool fields assms(3) in \<open>simp_all add: mget_update box_of_def\<close>)
qed

lemma image_Update_registry: "ImageStorage_Update q s = Some t \<Longrightarrow> registry_of t = registry_of s"
  by (drule image_Update_others) (simp add: registry_of_def)

lemma create_local_step:
  assumes inv: "Inv V s" and run: "create_local V req sp s = Some (r, t)" and sb: "cells (sbxs s) sp = Some sandbox"
  shows "sbxs t = sbxs s \<and> SandboxPool t = SandboxPool s \<and> ((\<exists>e. r = Inl e) \<and> registry_of t = registry_of s \<or>
    (\<exists>b. registry_of t = set_box b (Some \<lparr>box_state = CONTAINER_CREATED, box_pod = s_ID sandbox\<rparr>) (registry_of s)
      \<and> (\<forall>p. r = Inr p \<longrightarrow> map_option c_ID (cells (ctrs t) p) = Some b)))"
proof -
  obtain config name img ip err where cfg: "cr_Config req = Some config" "cc_Metadata config = Some name" "cc_Image config = Some img"
    and g: "ImageStorage_GetByID img s = Some (ip, err)"
    using run by (auto simp: create_local_def bind_eq_Some_conv)
  show ?thesis
  proof (cases err)
    case (Some y)
    with run cfg g have "r = Inl ''Image not found''" "t = s" by (simp_all add: create_local_def)
    then show ?thesis by simp
  next
    case None
    obtain at s1 where n: "now (sv_go V) s = (at, s1)" by (metis prod.exhaust)
    obtain sc p s2 e s3 where
      c: "ContainerStorage_CreateContainerMetadata (sv_go V) name (Some sp) CONTAINER_CREATED at ip
          (cc_Command config) (cc_Args config) True config (env_map (cc_Envs config)) (container_port sc) None s1 = Some (p, s2)"
      and ad: "ad_CreateContainer (sv_adapter V) p s2 = Some (e, s3)"
      and rest: "(case e of Some e \<Rightarrow> Some (Inl e, s3) | None \<Rightarrow> do {
          cm \<leftarrow> cells (ctrs s3) p; q \<leftarrow> c_Image cm; s \<leftarrow> ImageStorage_Update q s3; s \<leftarrow> ContainerStorage_Update p s;
          Some (Inr p, s) }) = Some (r, t)"
      using run cfg g None n by (auto simp: create_local_def bind_eq_Some_conv Let_def cong: option.case_cong)
    have s1: "same_stores s s1" by (rule now_same [OF n])
    have sb1: "cells (sbxs s1) sp = Some sandbox" using s1 sb by (simp add: same_stores_def)
    obtain cm where cm: "cells (ctrs s2) p = Some cm" "box_of cm = \<lparr>box_state = CONTAINER_CREATED, box_pod = s_ID sandbox\<rparr>"
      "registry_of s2 = set_box (c_ID cm) (Some (box_of cm)) (registry_of s1)" "sbxs s2 = sbxs s1" "SandboxPool s2 = SandboxPool s1"
      by (rule create_box_registry [OF c same_wf [OF s1 Inv_wf [OF inv]] sb1])
    have st: "steady s2 s3" by (rule keepsD [OF create_container ad])
    note f = steady_adapter_frame [OF st]
    obtain cm' where cm': "cells (ctrs s3) p = Some cm'" "same_container cm cm'" by (rule adapter_frame_container [OF f cm(1)])
    have box: "box_of cm' = box_of cm" "c_ID cm' = c_ID cm"
      using cm'(2) steady_state [OF st cm(1) cm'(1)] by (simp_all add: box_of_def same_container_def)
    have s3: "sbxs s3 = sbxs s" "SandboxPool s3 = SandboxPool s"
      "registry_of s3 = set_box (c_ID cm) (Some (box_of cm)) (registry_of s)"
      using f cm(3-5) s1 steady_registry [OF st] same_registry [OF s1] by (simp_all add: adapter_frame_def same_stores_def)
    show ?thesis
    proof (cases e)
      case (Some y)
      with rest s3 cm(2) show ?thesis by auto
    next
      case None
      with rest cm'(1) obtain q s4 where up: "ImageStorage_Update q s3 = Some s4" "ContainerStorage_Update p s4 = Some t" and r: "r = Inr p"
        by (auto simp: bind_eq_Some_conv)
      have s4: "cells (ctrs s4) p = Some cm'" "sbxs s4 = sbxs s" "SandboxPool s4 = SandboxPool s"
        using image_Update_others [OF up(1)] cm'(1) s3 by simp_all
      have "registry_of t = set_box (c_ID cm) (Some (box_of cm)) (registry_of s)"
        using registry_put_box [OF up(2) s4(1)] image_Update_registry [OF up(1)] s3(3) box by simp
      moreover have "cells (ctrs t) p = Some cm'" using container_store.put_heap [OF up(2)] s4(1) by simp
      ultimately show ?thesis
        using container_Update_pods [OF up(2)] s4 r box(2) cm(2) by auto
    qed
  qed
qed

lemma create_remote_step:
  assumes wf: "state_wf s" and run: "create_remote V req sp k s = Some (r, t)" and sb: "cells (sbxs s) sp = Some sandbox"
  obtains p cm where "r = Inr p" "cells (ctrs t) p = Some cm" "sbxs t = sbxs s" "SandboxPool t = SandboxPool s"
    "registry_of t = set_box (c_ID cm) (Some \<lparr>box_state = CONTAINER_CREATED, box_pod = s_ID sandbox\<rparr>) (registry_of s)"
proof -
  obtain config p where c: "ContainerStorage_CreateContainerMetadata (sv_go V) [] (Some sp) CONTAINER_CREATED 0 None
        (cc_Command config) (cc_Args config) True config [] 0 (Some k) s = Some (p, t)" and r: "r = Inr p"
    using run by (auto simp: create_remote_def bind_eq_Some_conv)
  show ?thesis
    by (rule create_box_registry [OF c wf sb]) (use r in \<open>auto intro: that\<close>)
qed

lemma list_box_step:
  assumes run: "do {
       container \<leftarrow> cells (ctrs u) p;
       sandbox \<leftarrow> cells (sbxs u) sp;
       s \<leftarrow> SandboxStorage_Update sp (u\<lparr>sbxs := assign sp (sandbox\<lparr>s_Containers := s_Containers sandbox @ [c_ID container]\<rparr>) (sbxs u)\<rparr>);
       Some ((Some (c_ID container), None :: error option), s) } = Some (reply, t)"
    and wf: "state_wf u" and sp: "mget (SandboxPool u) k = Some sp" and sb: "cells (sbxs u) sp = Some sandbox" "s_ID sandbox = k"
    and cm: "cells (ctrs u) p = Some cm"
  shows "registry_of t = set_pod k (Some (pod_of sandbox\<lparr>pod_boxes := pod_boxes (pod_of sandbox) @ [c_ID cm]\<rparr>)) (registry_of u)"
proof -
  have "SandboxStorage_Update sp (u\<lparr>sbxs := assign sp (sandbox\<lparr>s_Containers := s_Containers sandbox @ [c_ID cm]\<rparr>) (sbxs u)\<rparr>) = Some t"
    using run sb cm by (auto simp: bind_eq_Some_conv)
  from registry_rewrite_pod [OF wf sp _ this] sb(2) show ?thesis by (simp add: pod_of_def)
qed

lemma CreateContainer_step:
  assumes inv: "Inv V s" and run: "CreateContainer V req s = Some (reply, t)"
  shows "does (CreateContainerReq req) s t"
proof (cases "mget (SandboxPool s) (cr_PodSandboxId req)")
  case None
  with run show ?thesis by (simp add: CreateContainer_def SandboxStorage_Get_def does_idle)
next
  case (Some sp)
  let ?k = "cr_PodSandboxId req"
  obtain sm where sm: "cells (sbxs s) sp = Some sm" "s_ID sm = ?k" using Inv_sandbox [OF inv Some] by blast
  obtain x e u where r: "route (sv_remoteCRI V) (s_RuntimeHandler sm) (\<lambda>c. rc_CreateContainer c req) s = ((x, e), u)"
    by (metis prod.exhaust)
  have u: "same_stores s u" using route_frame [OF r] by simp
  have reg: "registry_of u = registry_of s" by (rule same_registry [OF u])
  have inv_u: "Inv V u" using same_stores_evolves [OF u] inv by (simp add: evolves_def)
  have pool: "mget (SandboxPool u) ?k = Some sp" "cells (sbxs u) sp = Some sm" using u Some sm by (simp_all add: same_stores_def)
  note pd = registry_pod [OF Some sm(1)]
  from r show ?thesis
  proof (cases rule: routed)
    case failed
    with run r Some sm have "t = u" by (simp add: CreateContainer_def SandboxStorage_Get_def Remote_CreateContainer_def)
    with reg show ?thesis by (simp add: does_idle)
  next
    case local
    obtain z v where l: "create_local V req sp u = Some (z, v)"
      and rest: "(case z of Inl e \<Rightarrow> Some ((None, Some e), v) | Inr p \<Rightarrow> do {
          container \<leftarrow> cells (ctrs v) p;
          sandbox \<leftarrow> cells (sbxs v) sp;
          s \<leftarrow> SandboxStorage_Update sp (v\<lparr>sbxs := assign sp (sandbox\<lparr>s_Containers := s_Containers sandbox @ [c_ID container]\<rparr>) (sbxs v)\<rparr>);
          Some ((Some (c_ID container), None), s) }) = Some (reply, t)"
      using run r Some sm local
      by (auto simp: CreateContainer_def SandboxStorage_Get_def Remote_CreateContainer_def bind_eq_Some_conv cong: sum.case_cong)
    have inv_v: "Inv V v" using keepsD [OF create_local_evolves l] inv_u by (simp add: evolves_def)
    note st = create_local_step [OF inv_u l pool(2)]
    show ?thesis
    proof (cases z)
      case (Inl y)
      with rest st reg show ?thesis
        using box_orphaned [OF refl pd] local sm(2) by (auto simp: does_idle pod_of_def)
    next
      case (Inr p)
      with st obtain cm where cm: "cells (ctrs v) p = Some cm"
        "registry_of v = set_box (c_ID cm) (Some \<lparr>box_state = CONTAINER_CREATED, box_pod = ?k\<rparr>) (registry_of s)"
        using reg sm(2) by auto
      have "registry_of t = set_pod ?k (Some (pod_of sm\<lparr>pod_boxes := pod_boxes (pod_of sm) @ [c_ID cm]\<rparr>)) (registry_of v)"
        by (rule list_box_step [OF _ Inv_wf [OF inv_v] _ _ sm(2) cm(1)]) (use rest Inr st pool in auto)
      then show ?thesis using box_created [OF refl pd] cm(2) by simp
    qed
  next
    case (answered y c)
    obtain z v where l: "create_remote V req sp y u = Some (z, v)"
      and rest: "(case z of Inl e \<Rightarrow> Some ((None, Some e), v) | Inr p \<Rightarrow> do {
          container \<leftarrow> cells (ctrs v) p;
          sandbox \<leftarrow> cells (sbxs v) sp;
          s \<leftarrow> SandboxStorage_Update sp (v\<lparr>sbxs := assign sp (sandbox\<lparr>s_Containers := s_Containers sandbox @ [c_ID container]\<rparr>) (sbxs v)\<rparr>);
          Some ((Some (c_ID container), None), s) }) = Some (reply, t)"
      using run r Some sm answered
      by (auto simp: CreateContainer_def SandboxStorage_Get_def Remote_CreateContainer_def bind_eq_Some_conv cong: sum.case_cong)
    have "evolves V u v"
      by (rule keepsD [OF create_remote_evolves l]) (use answered pool in auto)
    then have wf_v: "state_wf v" using inv_u by (auto simp: evolves_def Inv_def)
    obtain p cm where p: "z = Inr p" "cells (ctrs v) p = Some cm" "sbxs v = sbxs u" "SandboxPool v = SandboxPool u"
      "registry_of v = set_box (c_ID cm) (Some \<lparr>box_state = CONTAINER_CREATED, box_pod = s_ID sm\<rparr>) (registry_of u)"
      by (rule create_remote_step [OF Inv_wf [OF inv_u] l pool(2)])
    have "registry_of t = set_pod ?k (Some (pod_of sm\<lparr>pod_boxes := pod_boxes (pod_of sm) @ [c_ID cm]\<rparr>)) (registry_of v)"
      by (rule list_box_step [OF _ wf_v _ _ sm(2) p(2)]) (use rest p pool in auto)
    then show ?thesis using box_created [OF refl pd] p(5) sm(2) reg by simp
  qed
qed

lemma remove_listed_step:
  assumes inv: "Inv V s" and rem: "SandboxStorage_RemoveContainer i k s = Some t"
  shows "registry_of t = registry_of s \<or> (\<exists>pd bs. pods (registry_of s) i = Some pd
    \<and> remove_container_id k (pod_boxes pd) = Some bs
    \<and> registry_of t = set_pod i (Some (pd\<lparr>pod_boxes := bs\<rparr>)) (registry_of s))"
proof (cases "mget (SandboxPool s) i")
  case None
  with rem show ?thesis by (simp add: SandboxStorage_RemoveContainer_def)
next
  case (Some p)
  obtain sm where sm: "cells (sbxs s) p = Some sm" "s_ID sm = i" using Inv_sandbox [OF inv Some] by blast
  obtain cs where cs: "remove_container_id k (s_Containers sm) = Some cs"
    using rem Some sm by (auto simp: SandboxStorage_RemoveContainer_def bind_eq_Some_conv)
  let ?u = "s\<lparr>SandboxPool := mset_key i p (SandboxPool s)\<rparr>"
  let ?sm = "sm\<lparr>s_Containers := cs\<rparr>"
  have "SandboxStorage_Update p (?u\<lparr>sbxs := assign p ?sm (sbxs ?u)\<rparr>) = Some t"
    using rem Some sm cs by (simp add: SandboxStorage_RemoveContainer_def SandboxStorage_Update_def Let_def)
  moreover have "state_wf ?u"
    using Inv_wf [OF inv] pool_wf_put [of s_ID "sbxs s" "SandboxPool s" p sm] sm by (simp add: state_wf_def)
  moreover have "mget (SandboxPool ?u) i = Some p" by (simp add: mget_update)
  ultimately have "registry_of t = set_pod i (Some (pod_of ?sm)) (registry_of ?u)"
    using registry_rewrite_pod [of ?u i p ?sm t] sm(2) by simp
  moreover have "registry_of ?u = registry_of s"
    by (rule registry_eq) (use Some in \<open>auto simp: registry_of_def mget_update\<close>)
  ultimately show ?thesis using registry_pod [OF Some sm(1)] cs by (auto simp: pod_of_def)
qed

text \<open>Writing the run data of a filed container and filing it again.\<close>

lemma restate_box:
  assumes wf: "state_wf s" and m: "mget (ContainerPool s) k = Some p" and cm: "cells (ctrs s) p = Some cm"
    and f: "adapter_frame s w" and reg: "registry_of w = set_box k x (registry_of s)"
    and up: "update_container p f w = Some a" and refile: "ContainerStorage_Update p a = Some t"
    and same: "\<And>c. same_container c (f c)" and st: "\<And>c. c_State (f c) = st"
  shows "registry_of t = set_box k (Some (box_of cm\<lparr>box_state := st\<rparr>)) (registry_of s)"
proof -
  obtain cw where cw: "cells (ctrs w) p = Some cw" "same_container cm cw" by (rule adapter_frame_container [OF f cm])
  have mw: "mget (ContainerPool w) k = Some p" using f m by (simp add: adapter_frame_def)
  have wf_w: "state_wf w" by (rule adapter_frame_wf [OF f wf])
  have "adapter_frame w a" by (rule update_container_frame [OF up same])
  then have "state_wf a" "mget (ContainerPool a) k = Some p"
    using adapter_frame_wf wf_w mw by (auto simp: adapter_frame_def)
  then have "registry_of t = registry_of a" by (rule registry_refile [OF _ _ refile])
  also have "\<dots> = set_box k (Some (box_of (f cw))) (registry_of s)"
    using update_container_box [OF wf_w mw cw(1) up] reg by simp
  also have "box_of (f cw) = box_of cm\<lparr>box_state := st\<rparr>"
    using same_container_trans [OF cw(2) same] st by (simp add: box_of_def same_container_def)
  finally show ?thesis .
qed

lemma steady_box:
  assumes "steady s t" and "mget (ContainerPool s) k = Some p" and "cells (ctrs s) p = Some cm"
  shows "registry_of t = set_box k (Some (box_of cm)) (registry_of s)"
  using steady_registry [OF assms(1)] set_box_same [OF registry_box [OF assms(2,3)]] by simp

lemma StartContainer_step:
  assumes inv: "Inv V s" and run: "StartContainer V k s = Some (reply, t)"
  shows "does (StartContainerReq k) s t"
proof (rule ContainerGet_cases [of k s])
  fix e assume "ContainerStorage_Get k s = (None, Some e)"
  with run show ?thesis by (simp add: StartContainer_def does_idle)
next
  fix p assume g: "ContainerStorage_Get k s = (Some p, None)" and m: "mget (ContainerPool s) k = Some p"
  obtain cm where cm: "cells (ctrs s) p = Some cm" "c_ID cm = k" using Inv_container [OF inv m] by blast
  obtain x e u where r: "route (sv_remoteCRI V) (s_RuntimeHandler (c_PodSandbox cm)) (\<lambda>c. rc_StartContainer c k) s = ((x, e), u)"
    by (metis prod.exhaust)
  have u: "same_stores s u" using route_frame [OF r] by simp
  show ?thesis
  proof (cases "x = None \<and> c_State cm = CONTAINER_CREATED")
    case False
    with run g cm r have "t = u" by (auto simp: StartContainer_def Remote_StartContainer_def split: option.splits if_splits)
    with u show ?thesis by (simp add: does_idle same_registry)
  next
    case True
    obtain err v where ad: "ad_StartContainer (sv_adapter V) p u = Some (err, v)"
      and rest: "(case now (sv_go V) v of (now1, w) \<Rightarrow> do {
          s \<leftarrow> update_container p (if err \<noteq> None then start_failed now1 else start_ok now1) w;
          s \<leftarrow> ContainerStorage_Update p s;
          Some ((if err \<noteq> None then None else Some (), err), s) }) = Some (reply, t)"
      using run g cm r True by (auto simp: StartContainer_def Remote_StartContainer_def bind_eq_Some_conv Let_def)
    obtain now1 w where n: "now (sv_go V) v = (now1, w)" by (metis prod.exhaust)
    obtain a where up: "update_container p (if err \<noteq> None then start_failed now1 else start_ok now1) w = Some a"
      and refile: "ContainerStorage_Update p a = Some t"
      using rest n by (auto simp: bind_eq_Some_conv)
    have "steady u w"
      using steady_trans [OF keepsD [OF start_container ad] same_stores_steady [OF now_same [OF n]]] .
    then have w: "steady s w" by (rule steady_trans [OF same_stores_steady [OF u]])
    have "registry_of t = set_box k (Some (box_of cm\<lparr>box_state := (if err \<noteq> None then CONTAINER_EXITED else CONTAINER_RUNNING)\<rparr>)) (registry_of s)"
      by (rule restate_box [OF Inv_wf [OF inv] m cm(1) steady_adapter_frame [OF w] steady_box [OF w m cm(1)] up refile])
        (simp_all add: same_container_def start_failed_def start_ok_def)
    with box_started [OF registry_box [OF m cm(1)]] True show ?thesis by (simp add: box_of_def)
  qed
qed

lemma StopContainer_step:
  assumes inv: "Inv V s" and run: "StopContainer V k s = Some (reply, t)"
  shows "does (StopContainerReq k) s t"
proof (rule ContainerGet_cases [of k s])
  fix y assume g: "ContainerStorage_Get k s = (None, Some y)"
  obtain x e u where r: "route (sv_remoteCRI V) [] (\<lambda>c. rc_StopContainer c k) s = ((x, e), u)" by (metis prod.exhaust)
  with run g have "t = u"
    by (cases x) (simp_all add: StopContainer_def container_handler_def Remote_StopContainer_def)
  with route_frame [OF r] show ?thesis by (simp add: does_idle same_registry)
next
  fix p assume g: "ContainerStorage_Get k s = (Some p, None)" and m: "mget (ContainerPool s) k = Some p"
  obtain cm where cm: "cells (ctrs s) p = Some cm" "c_ID cm = k" using Inv_container [OF inv m] by blast
  obtain x e u where r: "route (sv_remoteCRI V) (s_RuntimeHandler (c_PodSandbox cm)) (\<lambda>c. rc_StopContainer c k) s = ((x, e), u)"
    by (metis prod.exhaust)
  have u: "same_stores s u" using route_frame [OF r] by simp
  then have cu: "cells (ctrs u) p = Some cm" using cm by (simp add: same_stores_def)
  show ?thesis
  proof (cases "x = None \<and> c_State cm = CONTAINER_RUNNING")
    case False
    with run g cm cu r have "t = u"
      by (cases x) (auto simp: StopContainer_def container_handler_def Remote_StopContainer_def)
    with u show ?thesis by (simp add: does_idle same_registry)
  next
    case True
    obtain err v where ad: "ad_StopContainer (sv_adapter V) p u = Some (err, v)"
      and rest: "(case err of Some e \<Rightarrow> Some ((None, Some e), v)
         | None \<Rightarrow> (case now (sv_go V) v of (now1, w) \<Rightarrow> do {
             s \<leftarrow> update_container p (\<lambda>cm. cm\<lparr>c_State := CONTAINER_EXITED, c_FinishedAt := now1\<rparr>) w;
             s \<leftarrow> ContainerStorage_Update p s;
             Some ((Some (), None), s) })) = Some (reply, t)"
      using run g cm cu r True
      by (auto simp: StopContainer_def container_handler_def Remote_StopContainer_def bind_eq_Some_conv Let_def
          cong: option.case_cong)
    have v: "steady s v" by (rule steady_trans [OF same_stores_steady [OF u] keepsD [OF stop_container ad]])
    show ?thesis
    proof (cases err)
      case (Some y)
      with rest v show ?thesis by (simp add: does_idle steady_registry)
    next
      case None
      obtain now1 w where n: "now (sv_go V) v = (now1, w)" by (metis prod.exhaust)
      obtain a where up: "update_container p (\<lambda>cm. cm\<lparr>c_State := CONTAINER_EXITED, c_FinishedAt := now1\<rparr>) w = Some a"
        and refile: "ContainerStorage_Update p a = Some t"
        using rest None n by (auto simp: bind_eq_Some_conv)
      have w: "steady s w" by (rule steady_trans [OF v same_stores_steady [OF now_same [OF n]]])
      have "registry_of t = set_box k (Some (box_of cm\<lparr>box_state := CONTAINER_EXITED\<rparr>)) (registry_of s)"
        by (rule restate_box [OF Inv_wf [OF inv] m cm(1) steady_adapter_frame [OF w] steady_box [OF w m cm(1)] up refile])
          (simp_all add: same_container_def)
      with box_stopped [OF registry_box [OF m cm(1)]] True show ?thesis by (simp add: box_of_def)
    qed
  qed
qed

lemma status_registry:
  assumes inv: "Inv V s" and m: "mget (ContainerPool s) k = Some p" and cm: "cells (ctrs s) p = Some cm"
    and ad: "ad_ContainerStatus (sv_adapter V) p s = Some (e, w)"
    and cw: "cells (ctrs w) p = Some cw" "same_container cm cw"
  shows "registry_of w = set_box k (Some (box_of cm\<lparr>box_state := c_State cw\<rparr>)) (registry_of s)"
proof (rule registry_eq)
  have f: "adapter_frame s w" by (rule keepsD [OF container_status ad])
  then show "pods (registry_of w) = pods (set_box k (Some (box_of cm\<lparr>box_state := c_State cw\<rparr>)) (registry_of s))"
    by (simp add: registry_of_def adapter_frame_def)
  have "pool_wf c_ID (ctrs s) (ContainerPool s)" using inv by (simp add: Inv_def state_wf_def)
  note inj = pool_wf_inj [OF this]
  have "Option.bind (mget (ContainerPool s) j) (\<lambda>q. map_option box_of (cells (ctrs w) q))
      = ((boxes (registry_of s))(k := Some (box_of cm\<lparr>box_state := c_State cw\<rparr>))) j" for j
  proof (cases "mget (ContainerPool s) j")
    case (Some q)
    show ?thesis
    proof (cases "q = p")
      case True
      with Some m inj have "j = k" by blast
      with Some True cw show ?thesis by (simp add: box_of_def same_container_def)
    next
      case False
      with Some m have "j \<noteq> k" by auto
      with Some False container_status_other [OF ad] show ?thesis by (simp add: registry_parts)
    qed
  qed (use m in \<open>auto simp: registry_parts\<close>)
  then show "boxes (registry_of w) = boxes (set_box k (Some (box_of cm\<lparr>box_state := c_State cw\<rparr>)) (registry_of s))"
    using f by (auto simp: registry_of_def adapter_frame_def)
qed

lemma ContainerStatus_step:
  assumes inv: "Inv V s" and run: "ContainerStatus V k s = Some (reply, t)"
  shows "does (ContainerStatusReq k) s t"
proof (rule ContainerGet_cases [of k s])
  fix y assume g: "ContainerStorage_Get k s = (None, Some y)"
  obtain x e u where r: "route (sv_remoteCRI V) [] (\<lambda>c. rc_ContainerStatus c k) s = ((x, e), u)" by (metis prod.exhaust)
  with run g have "t = u"
    by (cases x; cases e) (simp_all add: ContainerStatus_def container_handler_def Remote_ContainerStatus_def)
  with route_frame [OF r] show ?thesis by (simp add: does_idle same_registry)
next
  fix p assume g: "ContainerStorage_Get k s = (Some p, None)" and m: "mget (ContainerPool s) k = Some p"
  obtain cm where cm: "cells (ctrs s) p = Some cm" "c_ID cm = k" using Inv_container [OF inv m] by blast
  obtain x e u where r: "route (sv_remoteCRI V) (s_RuntimeHandler (c_PodSandbox cm)) (\<lambda>c. rc_ContainerStatus c k) s = ((x, e), u)"
    by (metis prod.exhaust)
  from r show ?thesis
  proof (cases rule: routed)
    case local
    obtain v w where chk: "(if c_State cm \<noteq> CONTAINER_EXITED then do {
          (err, s) \<leftarrow> ad_ContainerStatus (sv_adapter V) p s;
          (case err of Some e \<Rightarrow> update_container p (manageContainerError e) s | None \<Rightarrow> Some s) } else Some s) = Some v"
      and refile: "ContainerStorage_Update p v = Some t"
      using run g cm r local
      by (auto simp: ContainerStatus_def container_handler_def Remote_ContainerStatus_def bind_eq_Some_conv)
    show ?thesis
    proof (cases "c_State cm = CONTAINER_EXITED")
      case True
      with chk registry_refile [OF Inv_wf [OF inv] m] refile show ?thesis by (simp add: does_idle)
    next
      case False
      then obtain err w where ad: "ad_ContainerStatus (sv_adapter V) p s = Some (err, w)"
        and upd: "(case err of Some e \<Rightarrow> update_container p (manageContainerError e) w | None \<Rightarrow> Some w) = Some v"
        using chk by (auto simp: bind_eq_Some_conv)
      have f: "adapter_frame s w" by (rule keepsD [OF container_status ad])
      obtain cw where cw: "cells (ctrs w) p = Some cw" "same_container cm cw" by (rule adapter_frame_container [OF f cm(1)])
      have w: "registry_of w = set_box k (Some (box_of cm\<lparr>box_state := c_State cw\<rparr>)) (registry_of s)"
        by (rule status_registry [OF inv m cm(1) ad cw])
      have "\<exists>st. registry_of t = set_box k (Some (box_of cm\<lparr>box_state := st\<rparr>)) (registry_of s)"
      proof (cases err)
        case None
        have "state_wf w" "mget (ContainerPool w) k = Some p"
          using adapter_frame_wf [OF f Inv_wf [OF inv]] f m by (simp_all add: adapter_frame_def)
        with registry_refile [of w k p t] upd None refile w show ?thesis by auto
      next
        case (Some y)
        with upd have up: "update_container p (manageContainerError y) w = Some v" by simp
        have "registry_of t = set_box k (Some (box_of cm\<lparr>box_state := CONTAINER_EXITED\<rparr>)) (registry_of s)"
          by (rule restate_box [OF Inv_wf [OF inv] m cm(1) f w up refile])
            (simp_all add: same_container_def manageContainerError_def)
        then show ?thesis by blast
      qed
      with box_checked [OF registry_box [OF m cm(1)]] False show ?thesis by (auto simp: box_of_def)
    qed
  qed (use run g cm r in \<open>simp_all add: ContainerStatus_def container_handler_def Remote_ContainerStatus_def
      does_idle same_registry\<close>)
qed

lemma RemoveContainer_step:
  assumes inv: "Inv V s" and run: "RemoveContainer V k s = Some (reply, t)"
  shows "does (RemoveContainerReq k) s t"
proof (rule ContainerGet_cases [of k s])
  fix y assume g: "ContainerStorage_Get k s = (None, Some y)"
  obtain x e u where r: "route (sv_remoteCRI V) [] (\<lambda>c. rc_RemoveContainer c k) s = ((x, e), u)" by (metis prod.exhaust)
  from r show ?thesis
  proof (cases rule: routed)
    case answered
    with run r g show ?thesis by (simp add: RemoveContainer_def container_handler_def Remote_RemoveContainer_def)
  qed (use run r g in \<open>simp_all add: RemoveContainer_def container_handler_def Remote_RemoveContainer_def
      does_idle same_registry\<close>)
next
  fix p assume g: "ContainerStorage_Get k s = (Some p, None)" and m: "mget (ContainerPool s) k = Some p"
  obtain cm where cm: "cells (ctrs s) p = Some cm" "c_ID cm = k" using Inv_container [OF inv m] by blast
  obtain x e u where r: "route (sv_remoteCRI V) (s_RuntimeHandler (c_PodSandbox cm)) (\<lambda>c. rc_RemoveContainer c k) s = ((x, e), u)"
    by (metis prod.exhaust)
  have u: "same_stores s u" using route_frame [OF r] by simp
  then have cu: "cells (ctrs u) p = Some cm" using cm by (simp add: same_stores_def)
  show ?thesis
  proof (cases e)
    case (Some y)
    with run g cm r have "t = u" by (simp add: RemoveContainer_def container_handler_def Remote_RemoveContainer_def)
    with u show ?thesis by (simp add: does_idle same_registry)
  next
    case None
    obtain early v where early: "(if x = None then
          (if c_State cm = CONTAINER_RUNNING then
             Some (Some (Some (), Some (sprintf ''Running containers can not be deleted %s'' [k])), u)
           else do { (err, s) \<leftarrow> ad_ReopenContainerLog (sv_adapter V) p u; Some (map_option (\<lambda>e. (None, Some e)) err, s) })
        else Some (None, u)) = Some (early, v)"
      and rest: "(case early of Some r \<Rightarrow> Some (r, v) | None \<Rightarrow> do {
          cm \<leftarrow> cells (ctrs v) p;
          s \<leftarrow> SandboxStorage_RemoveContainer (s_ID (c_PodSandbox cm)) k v;
          Some ((Some (), None), s) }) = Some (reply, t)"
      using run g cm(1) cu r None
      by (auto simp: RemoveContainer_def container_handler_def Remote_RemoveContainer_def bind_eq_Some_conv
          cong: option.case_cong if_cong)
    have st: "steady u v"
      using early by (auto simp: bind_eq_Some_conv split: if_splits dest: keepsD [OF reopen_log])
    note v = steady_trans [OF same_stores_steady [OF u] st]
    note f = steady_adapter_frame [OF v]
    show ?thesis
    proof (cases early)
      case (Some y)
      with rest v show ?thesis by (simp add: does_idle steady_registry)
    next
      case None
      obtain cv where cv: "cells (ctrs v) p = Some cv" "same_container cm cv" by (rule adapter_frame_container [OF f cm(1)])
      let ?i = "s_ID (c_PodSandbox cm)"
      have rem: "SandboxStorage_RemoveContainer ?i k v = Some t"
        using rest None cv by (auto simp: bind_eq_Some_conv same_container_def)
      show ?thesis
        using remove_listed_step [OF adapter_frame_Inv [OF f inv] rem] box_unlisted [OF registry_box [OF m cm(1)]] steady_registry [OF v]
        by (auto simp: does_idle box_of_def)
    qed
  qed
qed

lemma UpdateContainerResources_step:
  assumes inv: "Inv V s" and run: "UpdateContainerResources V k s = Some (reply, t)"
  shows "registry_of t = registry_of s"
proof -
  obtain p u where pu: "(case ContainerStorage_Get k s of (Some p, None) \<Rightarrow> (p, s)
      | _ \<Rightarrow> (let (p, h) = alloc zero_container (ctrs s) in (p, s\<lparr>ctrs := h\<rparr>))) = (p, u)" by (metis prod.exhaust)
  obtain q h where a: "alloc zero_container (ctrs s) = (q, h)" by (metis prod.exhaust)
  have reg: "registry_of u = registry_of s"
    using pu a registry_alloc_box [OF Inv_wf [OF inv] a] by (auto split: prod.splits option.splits)
  obtain cm where cm: "cells (ctrs u) p = Some cm"
    using run pu by (auto simp: UpdateContainerResources_def bind_eq_Some_conv Let_def)
  obtain x e v where r: "route (sv_remoteCRI V) (s_RuntimeHandler (c_PodSandbox cm)) (\<lambda>c. rc_UpdateContainerResources c k) u = ((x, e), v)"
    by (metis prod.exhaust)
  obtain err where ad: "ad_UpdateContainerResources (sv_adapter V) p v = Some (err, t)"
    using run pu cm r by (auto simp: UpdateContainerResources_def Remote_UpdateContainerResources_def bind_eq_Some_conv)
  have "registry_of v = registry_of u" by (rule same_registry) (use route_frame [OF r] in simp)
  with steady_registry [OF keepsD [OF update_resources ad]] reg show ?thesis by simp
qed

lemma ReopenContainerLog_step:
  assumes "ReopenContainerLog V k s = Some (reply, t)"
  shows "registry_of t = registry_of s"
proof (rule ContainerGet_cases [of k s])
  fix p assume g: "ContainerStorage_Get k s = (Some p, None)"
  obtain h where h: "container_handler (Some p) s = Some h" using assms g by (auto simp: ReopenContainerLog_def bind_eq_Some_conv)
  obtain x e u where r: "route (sv_remoteCRI V) h (\<lambda>c. rc_ReopenContainerLog c k) s = ((x, e), u)" by (metis prod.exhaust)
  have "t = u \<or> (\<exists>err. ad_ReopenContainerLog (sv_adapter V) p u = Some (err, t))"
    using assms g h r by (cases x) (auto simp: ReopenContainerLog_def Remote_ReopenContainerLog_def bind_eq_Some_conv)
  then have "steady u t" using keepsD [OF reopen_log] by auto
  with steady_registry same_registry route_frame [OF r] show ?thesis by fastforce
qed (use assms in \<open>simp add: ReopenContainerLog_def\<close>)

section \<open>The service\<close>

text \<open>The requests that never change the registry.\<close>

lemmas quiet_store =
  ListPodSandbox_same PortForward_same ListContainers_same ContainerStats_same ListContainerStats_same exec_route_same

lemmas quiet_images =
  images_calm.PullImage_keeps images_calm.ListImages_keeps images_calm.ImageStatus_keeps
  images_calm.RemoveImage_keeps images_calm.ImageFsInfo_keeps

lemmas request_steps =
  RunPodSandbox_step StopPodSandbox_step RemovePodSandbox_step PodSandboxStatus_step CreateContainer_step
  StartContainer_step StopContainer_step RemoveContainer_step ContainerStatus_step

lemma snd_some: "map_option snd m = Some t \<Longrightarrow> \<exists>x. m = Some (x, t)"
  by (cases m) auto

lemma does_store: "keeps same_stores s m \<Longrightarrow> map_option snd m = Some t \<Longrightarrow> does r s t"
  by (auto simp: keeps_def intro: does_idle same_registry)

lemma does_calm: "keeps calm s m \<Longrightarrow> map_option snd m = Some t \<Longrightarrow> does r s t"
  by (auto simp: keeps_def intro: does_idle calm_registry)

lemma handle_step:
  assumes inv: "Inv V s" and run: "handle V r s = Some t"
  shows "does r s t"
proof (cases r)
qed (use run in \<open>simp_all only: handle.simps Attach_def Exec_def ExecSync_def\<close>,
    (erule does_store [rotated], rule quiet_store | erule does_calm [rotated], rule quiet_images
     | drule snd_some, elim exE, rule request_steps [OF inv], assumption
     | drule snd_some, elim exE, rule does_idle, erule UpdateContainerResources_step [OF inv] ReopenContainerLog_step)+)

text \<open>The outside world and the order of the maps do not change the registry.\<close>

lemma reorder_registry:
  assumes "state_wf s" and "mset (SandboxPool s) = mset ps" and "mset (ContainerPool s) = mset qs"
  shows "registry_of (s\<lparr>SandboxPool := ps, ContainerPool := qs, ImagePool := rs\<rparr>) = registry_of s"
proof (rule registry_eq)
  have "mwf (SandboxPool s)" "mwf (ContainerPool s)" using assms(1) by (simp_all add: state_wf_def pool_wf_def)
  then have get: "mget ps k = mget (SandboxPool s) k" "mget qs k = mget (ContainerPool s) k" for k
    using mget_mset [OF assms(2)] mget_mset [OF assms(3)] by blast+
  show "pods (registry_of (s\<lparr>SandboxPool := ps, ContainerPool := qs, ImagePool := rs\<rparr>)) = pods (registry_of s)"
    "boxes (registry_of (s\<lparr>SandboxPool := ps, ContainerPool := qs, ImagePool := rs\<rparr>)) = boxes (registry_of s)"
    by (simp_all add: registry_of_def get)
qed

lemma step_registry: "Inv V s \<Longrightarrow> step V s t \<Longrightarrow> \<exists>r. does r s t"
proof (erule stepE)
  fix r assume "Inv V s" "handle V r s = Some t"
  then show ?thesis using handle_step by blast
next
  fix w f assume t: "t = s\<lparr>world := w, files := f\<rparr>"
  have "registry_of t = registry_of s" unfolding t by (rule same_registry) (simp add: same_stores_def)
  then show ?thesis using does_idle by blast
next
  fix ps qs rs
  assume "Inv V s" and t: "t = s\<lparr>SandboxPool := ps, ContainerPool := qs, ImagePool := rs\<rparr>"
    and "mset (SandboxPool s) = mset ps" "mset (ContainerPool s) = mset qs"
  then have "registry_of t = registry_of s" by (simp add: reorder_registry Inv_wf)
  then show ?thesis using does_idle by blast
qed

lemma reachable_registry:
  assumes "reachable V s t" and "Inv V s"
  shows "registry_run (remote_handler V) (registry_of s) (registry_of t)"
  using assms(1)
proof (induction rule: reachable.induct)
  case start
  then show ?case by (rule registry_run.here)
next
  case (more t u)
  have "Inv V t" using reachable_evolves [OF more.hyps(1)] assms(2) by (simp add: evolves_def)
  from step_registry [OF this more.hyps(2)] more.IH show ?case by (blast intro: registry_run.on)
qed

end

section \<open>What the machine guarantees\<close>

text \<open>Every container a pod lists has a record.\<close>

definition listed_recorded :: "registry \<Rightarrow> bool" where
  "listed_recorded R \<longleftrightarrow> (\<forall>k pd b. pods R k = Some pd \<longrightarrow> b \<in> set (pod_boxes pd) \<longrightarrow> boxes R b \<noteq> None)"

lemma set_remove_loop:
  "remove_loop cid is (b, n) = Some (b', n') \<Longrightarrow> n \<le> length b \<Longrightarrow> set b' \<subseteq> set b \<and> n' \<le> length b'"
proof (induction cid "is" "(b, n)" arbitrary: b n rule: remove_loop.induct)
  case (2 cid i "is" b n)
  show ?case
  proof (cases "b ! i = cid")
    case False
    with 2 show ?thesis by auto
  next
    case True
    let ?b = "take i b @ drop (i + 1) (take n b) @ drop (n - 1) b"
    have n: "\<not> n < i + 1" using 2(3) True by auto
    have "set b' \<subseteq> set ?b \<and> n' \<le> length b'" using 2(1) [OF True n] 2(3,4) True n by auto
    moreover have "set ?b \<subseteq> set b" by (auto dest: in_set_takeD in_set_dropD)
    ultimately show ?thesis by blast
  qed
qed simp

lemma set_remove_container_id: "remove_container_id cid cs = Some bs \<Longrightarrow> set bs \<subseteq> set cs"
  unfolding remove_container_id_def
  by (auto simp: bind_eq_Some_conv dest!: set_remove_loop dest: in_set_takeD)

lemma step_listed: "registry_step remote r R R' \<Longrightarrow> listed_recorded R \<Longrightarrow> listed_recorded R'"
  by (induction rule: registry_step.induct)
    (auto simp: listed_recorded_def split: if_splits dest!: set_remove_container_id)

lemma step_records: "registry_step remote r R R' \<Longrightarrow> boxes R b \<noteq> None \<Longrightarrow> boxes R' b \<noteq> None"
  by (induction rule: registry_step.induct) auto

lemma run_records: "registry_run remote R R' \<Longrightarrow> boxes R b \<noteq> None \<Longrightarrow> boxes R' b \<noteq> None"
  by (induction rule: registry_run.induct) (auto dest: step_records)

lemma run_listed: "registry_run remote R R' \<Longrightarrow> listed_recorded R \<Longrightarrow> listed_recorded R'"
  by (induction rule: registry_run.induct) (auto dest: step_listed)

end
