(* ===== verification/Properties_Registry.thy ===== *)
theory Properties_Registry
  imports Properties_Service Simulation
begin

text \<open>
  The service against its abstract specification: every run of the service is a run of the
  registry of pods and containers, and what that machine guarantees holds of the service's
  stores.
\<close>

lemma new_service_registry:
  "NewMulticriService H nm a b c d e f g cache False net i s = Some (Inr V, t) \<Longrightarrow>
   registry_of t = \<lparr>pods = Map.empty, boxes = Map.empty\<rparr>"
  by (drule new_service_pools) (simp add: registry_of_def)

lemma service_run:
  assumes "NewMulticriService H nm a b c d e f g cache False net i (empty_state w fl) = Some (Inr V, s0)"
    and "images_keyed H cache" and "reachable V s0 s"
  shows "registry_run (remote_handler V) (registry_of s0) (registry_of s)"
  using runtime.reachable_registry [OF built_runtime [OF assms(1)] assms(3)] new_service_inv [OF assms(1,2)] by blast

lemma reachable_run:
  assumes "NewMulticriService H nm a b c d e f g cache False net i (empty_state w fl) = Some (Inr V, s0)"
    and "images_keyed H cache" and "reachable V s0 s" and "reachable V s t"
  shows "registry_run (remote_handler V) (registry_of s) (registry_of t)"
  by (rule runtime.reachable_registry [OF built_runtime [OF assms(1)] assms(4) built_reachable [OF assms(1-3)]])

text \<open>
  C2.  The service refines the registry: in every reachable state the registry of the stores is
  one the abstract machine can reach, and serving a request moves it by one of the steps the
  machine allows that request, which name the only pods and containers it may touch and the
  states they may leave and enter.
\<close>

theorem service_refines_registry:
  assumes "NewMulticriService H nm a b c d e f g cache False net i (empty_state w fl) = Some (Inr V, s0)"
    and "images_keyed H cache"
    and "reachable V s0 s" and "handle V r s = Some t"
  shows "registry_run (remote_handler V) \<lparr>pods = Map.empty, boxes = Map.empty\<rparr> (registry_of s)
    \<and> registry_step (remote_handler V) r (registry_of s) (registry_of t)"
  using service_run [OF assms(1-3)] new_service_registry [OF assms(1)]
    runtime.handle_step [OF built_runtime [OF assms(1)] built_reachable [OF assms(1-3)] assms(4)] by simp

theorem service_refines_registry_witness:
  "\<exists>t. handle ex_V (RunPodSandboxReq (NewCreateSandboxRequest ''pod'' ''multicri'')) ex_s0 = Some t
     \<and> registry_step (remote_handler ex_V) (RunPodSandboxReq (NewCreateSandboxRequest ''pod'' ''multicri''))
         (registry_of ex_s0) (registry_of t)"
proof -
  let ?r = "RunPodSandboxReq (NewCreateSandboxRequest ''pod'' ''multicri'')"
  have "map_option SandboxPool (handle ex_V ?r ex_s0) = Some [(''pod'', 0)]" by code_simp
  then obtain t where "handle ex_V ?r ex_s0 = Some t" by auto
  with service_refines_registry [OF ex_built ex_keys reachable.start this] show ?thesis by blast
qed

text \<open>
  C4.  In every reachable state each container that a pod of the store lists has a record of its
  own in the container store, filed under the listed ID.
\<close>

theorem listed_containers_recorded:
  assumes "NewMulticriService H nm a b c d e f g cache False net i (empty_state w fl) = Some (Inr V, s0)"
    and "images_keyed H cache"
    and "reachable V s0 s"
    and "mget (SandboxPool s) k = Some p" and "cells (sbxs s) p = Some sm" and "j \<in> set (s_Containers sm)"
  shows "\<exists>q cm. mget (ContainerPool s) j = Some q \<and> cells (ctrs s) q = Some cm \<and> c_ID cm = j"
proof -
  have "listed_recorded (registry_of s0)"
    by (simp add: new_service_registry [OF assms(1)] listed_recorded_def)
  with run_listed [OF service_run [OF assms(1-3)]] have "listed_recorded (registry_of s)" by blast
  moreover have "pods (registry_of s) k = Some (pod_of sm)" by (rule registry_pod [OF assms(4,5)])
  ultimately have "boxes (registry_of s) j \<noteq> None" using assms(6) by (auto simp: listed_recorded_def pod_of_def)
  then obtain q where "mget (ContainerPool s) j = Some q" by (auto simp: registry_parts bind_eq_Some_conv)
  with Inv_container [OF built_reachable [OF assms(1-3)]] show ?thesis by blast
qed

theorem listed_containers_recorded_witness:
  "\<exists>s sm q. serve_all ex_V (take 3 ex_life) ex_s0 = Some s \<and> cells (sbxs s) 0 = Some sm \<and> s_Containers sm = [''u1'']
     \<and> mget (ContainerPool s) ''u1'' = Some q"
proof -
  have "map_option (\<lambda>s. (SandboxPool s, map_option s_Containers (cells (sbxs s) 0))) (serve_all ex_V (take 3 ex_life) ex_s0)
      = Some ([(''pod'', 0)], Some [''u1''])" by code_simp
  then obtain s sm where s: "serve_all ex_V (take 3 ex_life) ex_s0 = Some s" "mget (SandboxPool s) ''pod'' = Some 0"
    "cells (sbxs s) 0 = Some sm" "s_Containers sm = [''u1'']" by auto
  from listed_containers_recorded [OF ex_built ex_keys serve_all_reachable [OF s(1)] s(2,3), of "''u1''"] s show ?thesis by auto
qed

text \<open>
  C6.  The record of a container is kept for ever: once the container store knows an ID it knows
  it in every later state, whatever is stopped or removed.
\<close>

theorem container_records_kept:
  assumes "NewMulticriService H nm a b c d e f g cache False net i (empty_state w fl) = Some (Inr V, s0)"
    and "images_keyed H cache"
    and "reachable V s0 s" and "mget (ContainerPool s) k = Some p" and "reachable V s t"
  shows "mget (ContainerPool t) k \<noteq> None"
proof -
  obtain cm where "cells (ctrs s) p = Some cm" using Inv_container [OF built_reachable [OF assms(1-3)] assms(4)] by blast
  then have "boxes (registry_of s) k \<noteq> None" by (simp add: registry_box [OF assms(4)])
  with run_records [OF reachable_run [OF assms(1-3,5)]] have "boxes (registry_of t) k \<noteq> None" by blast
  then show ?thesis by (cases "mget (ContainerPool t) k") (simp_all add: registry_parts)
qed

theorem container_records_kept_witness:
  "\<exists>s t. serve_all ex_V ex_life ex_s0 = Some s \<and> handle ex_V (RemoveContainerReq ''u1'') s = Some t
     \<and> mget (ContainerPool t) ''u1'' \<noteq> None"
proof (rule ex_life_run)
  fix s assume s: "serve_all ex_V ex_life ex_s0 = Some s" "ContainerPool s = [(''u1'', 0)]"
  have "serve_all ex_V (ex_life @ [RemoveContainerReq ''u1'']) ex_s0 \<noteq> None" by code_simp
  then have "handle ex_V (RemoveContainerReq ''u1'') s \<noteq> None" using s(1)
    by (cases "handle ex_V (RemoveContainerReq ''u1'') s") (simp_all add: serve_all_append del: handle.simps)
  then obtain t where t: "handle ex_V (RemoveContainerReq ''u1'') s = Some t" by blast
  from container_records_kept [OF ex_built ex_keys serve_all_reachable [OF s(1)] _ reachable_step [OF step.serve [OF t]], of "''u1''" 0]
  show ?thesis using s t by auto
qed

end
