(* ===== verification/Properties_Lifecycle.thy ===== *)
theory Properties_Lifecycle
  imports Properties_Service
begin

text \<open>
  Properties that follow an object through several parts of the program: a container from its
  file back into the pool, a pod from its request to the pool or out of it, a new container and
  its pod, the network of a pod that stops.
\<close>

section \<open>Restarting\<close>

text \<open>The address holds a decoded record: the record but for its image pointer, which leads to the record's image.\<close>

definition restored :: "'w mstate \<Rightarrow> stored_container \<Rightarrow> ptr \<Rightarrow> bool" where
  "restored s v p \<longleftrightarrow> (\<exists>q. cells (ctrs s) p = Some ((fst v)\<lparr>c_Image := q\<rparr>) \<and> (q = None) = (snd v = None)
     \<and> deref q (imgs s) = snd v)"

definition grows :: "'w mstate \<Rightarrow> 'w mstate \<Rightarrow> bool" where
  "grows s t \<longleftrightarrow> heap_wf (ctrs t) \<and> heap_wf (imgs t)
     \<and> (\<forall>p cm. cells (ctrs s) p = Some cm \<longrightarrow> cells (ctrs t) p = Some cm)
     \<and> (\<forall>q im. cells (imgs s) q = Some im \<longrightarrow> cells (imgs t) q = Some im)"

lemma restored_grows: "restored s v p \<Longrightarrow> grows s t \<Longrightarrow> restored t v p"
  unfolding restored_def grows_def by (metis deref_def option.case_eq_if option.collapse)

lemma alloc_keeps: "heap_wf h \<Longrightarrow> cells h a = Some v \<Longrightarrow> cells (snd (alloc w h)) a = Some v"
  using heap_wf_fresh [of h a v] by (simp add: alloc_def)

lemma decode_container_restored:
  assumes "decode_container v s = (p, t)" and "heap_wf (ctrs s)" and "heap_wf (imgs s)"
  shows "restored t v p \<and> grows s t"
proof (cases "snd v")
  case None
  with assms show ?thesis
    using alloc_keeps [OF assms(2)] heap_wf_alloc [OF assms(2)]
    by (cases v) (auto simp: decode_container_def restored_def grows_def alloc_def Let_def)
next
  case (Some im)
  with assms show ?thesis
    using alloc_keeps [OF assms(2)] heap_wf_alloc [OF assms(2)] alloc_keeps [OF assms(3)] heap_wf_alloc [OF assms(3)]
    by (cases v) (auto simp: decode_container_def restored_def grows_def alloc_def Let_def)
qed

lemma load_containers_restored:
  assumes "mwf kvs" and "heap_wf (ctrs s)" and "heap_wf (imgs s)" and "load_containers kvs out s = (m, t)"
  shows "grows s t \<and> (\<forall>k. case mget kvs k of
     None \<Rightarrow> mget m k = mget out k | Some v \<Rightarrow> (\<exists>p. mget m k = Some p \<and> restored t v p))"
  using assms
proof (induction kvs arbitrary: out s)
  case (Cons kv kvs)
  obtain k v where kv: "kv = (k, v)" by (cases kv)
  obtain p u where d: "decode_container v s = (p, u)" by (metis prod.exhaust)
  have u: "restored u v p" "grows s u" using decode_container_restored [OF d Cons.prems(2,3)] by simp_all
  have "load_containers kvs (mset_key k p out) u = (m, t)" using Cons.prems(4) kv d by simp
  moreover have "mwf kvs" "k \<notin> fst ` set kvs" using Cons.prems(1) kv by (simp_all add: mwf_def)
  moreover have "heap_wf (ctrs u)" "heap_wf (imgs u)" using u(2) by (simp_all add: grows_def)
  ultimately have ih: "grows u t" "\<And>j. case mget kvs j of
     None \<Rightarrow> mget m j = mget (mset_key k p out) j | Some v \<Rightarrow> (\<exists>p. mget m j = Some p \<and> restored t v p)"
    using Cons.IH by blast+
  have "mget kvs k = None" using \<open>k \<notin> fst ` set kvs\<close> by (simp add: map_of_eq_None_iff)
  with ih(2) [of k] have "mget m k = Some p" by (simp add: mget_update)
  moreover have "restored t v p" by (rule restored_grows [OF u(1) ih(1)])
  moreover have "grows s t" using u(2) ih(1) by (simp add: grows_def)
  moreover have "case mget kvs j of None \<Rightarrow> mget m j = mget out j | Some v \<Rightarrow> (\<exists>p. mget m j = Some p \<and> restored t v p)"
    if "j \<noteq> k" for j
    using ih(2) [of j] that by (auto simp: mget_update split: option.splits)
  ultimately show ?case using kv by auto
qed (simp add: grows_def)

text \<open>
  C22.  A restart with persistence restores the containers: the pool then has exactly the IDs of
  the file, and each leads to a container equal to its record, with its own equal image.
\<close>

theorem restart_restores_containers:
  assumes "skv_Open_containers K (d @ ''/'' @ CONTAINERSTORE) (world s) = Some kv" and "skv_behaves kv db"
    and "heap_wf (ctrs s)" and "heap_wf (imgs s)"
  shows "\<exists>t. NewContainerStorage K d True s = (None, t) \<and> (\<forall>k. case db (world s) k of
     None \<Rightarrow> mget (ContainerPool t) k = None
   | Some (cm, im) \<Rightarrow> \<exists>p q. mget (ContainerPool t) k = Some p \<and> cells (ctrs t) p = Some (cm\<lparr>c_Image := q\<rparr>)
       \<and> deref q (imgs t) = im)"
proof -
  let ?kvs = "fst (kv_List kv (world s))"
  obtain m u where l: "load_containers ?kvs [] s = (m, u)" by (metis prod.exhaust)
  have kvs: "mwf ?kvs" "mget ?kvs = db (world s)" using assms(2) by (simp_all add: skv_behaves_def)
  from load_containers_restored [OF kvs(1) assms(3,4) l] kvs(2)
  have "\<forall>k. case db (world s) k of None \<Rightarrow> mget m k = None
     | Some (cm, im) \<Rightarrow> \<exists>p q. mget m k = Some p \<and> cells (ctrs u) p = Some (cm\<lparr>c_Image := q\<rparr>) \<and> deref q (imgs u) = im"
    by (fastforce simp: restored_def split: option.splits)
  with assms(1) l show ?thesis
    by (simp add: NewContainerStorage_def NewContainerPersist_def ContainerPersist_LoadAll_def cong: option.case_cong prod.case_cong)
qed

theorem restart_restores_containers_witness:
  "\<exists>t p. NewContainerStorage \<lparr>skv_Open_containers = (\<lambda>p w. Some map_kv), skv_Open_sandboxes = (\<lambda>p w. None), skv_Open_images = (\<lambda>p w. None)\<rparr>
       ''/cache'' True (empty_state [(''c1'', (zero_container, Some zero_image))] ex_fs) = (None, t)
     \<and> mget (ContainerPool t) ''c1'' = Some p"
proof -
  let ?K = "\<lparr>skv_Open_containers = (\<lambda>p w. Some map_kv), skv_Open_sandboxes = (\<lambda>p w. None), skv_Open_images = (\<lambda>p w. None)\<rparr>
      :: (string \<times> stored_container) list skvlib"
  let ?s = "empty_state [(''c1'', (zero_container, Some zero_image))] ex_fs"
  have "skv_Open_containers ?K (''/cache'' @ ''/'' @ CONTAINERSTORE) (world ?s) = Some map_kv"
    "heap_wf (ctrs ?s)" "heap_wf (imgs ?s)" "mget (world ?s) ''c1'' = Some (zero_container, Some zero_image)"
    by (simp_all add: empty_state_def)
  note k = this
  obtain t where t: "NewContainerStorage ?K ''/cache'' True ?s = (None, t)" and
    all: "\<forall>k. case mget (world ?s) k of None \<Rightarrow> mget (ContainerPool t) k = None
       | Some (cm, im) \<Rightarrow> \<exists>p q. mget (ContainerPool t) k = Some p \<and> cells (ctrs t) p = Some (cm\<lparr>c_Image := q\<rparr>) \<and> deref q (imgs t) = im"
    using restart_restores_containers [OF k(1) map_kv_behaves k(2,3)] by blast
  have "\<exists>p. mget (ContainerPool t) ''c1'' = Some p" using spec [OF all, of "''c1''"] unfolding k(4) by auto
  with t show ?thesis by blast
qed

text \<open>
  C24.  What the container file stores is what it gives back: after a successful put, reading the record into a new
  container returns all fields of the one that was stored, with an image of its own that equals
  the stored container's image, and touches no other container and no pool.
\<close>

theorem container_file_round_trip:
  assumes "skv_behaves kv db" and "skv_gets kv db (zero_container, None)"
    and "ContainerPersist_Put kv k cm s = (None, s1)"
    and "cells (ctrs s) p = Some zero_container" and "heap_wf (imgs s)"
  shows "\<exists>s2 cm'. ContainerPersist_Get kv k p s1 = Some (None, s2) \<and> cells (ctrs s2) p = Some cm'
    \<and> cm'\<lparr>c_Image := None\<rparr> = cm\<lparr>c_Image := None\<rparr> \<and> deref (c_Image cm') (imgs s2) = deref (c_Image cm) (imgs s)
    \<and> (\<forall>q. c_Image cm' = Some q \<longrightarrow> cells (imgs s) q = None)
    \<and> (\<forall>q. q \<noteq> p \<longrightarrow> cells (ctrs s2) q = cells (ctrs s) q) \<and> ContainerPool s2 = ContainerPool s"
proof -
  obtain w where w: "kv_Put kv k (encode_container s cm) (world s) = (None, w)" "s1 = s\<lparr>world := w\<rparr>"
    using assms(3) by (auto simp: ContainerPersist_Put_def split: prod.splits)
  then have "db w k = Some (encode_container s cm)" using skv_putD [OF assms(1)] by simp
  from skv_getsD [OF assms(2) this] have get: "kv_Get kv k (zero_container, None) w = (None, encode_container s cm)" .
  have z: "encode_container s1 zero_container = (zero_container, None)"
    by (simp add: encode_container_def zero_container_def)
  have i: "c_Image zero_container = None" by (simp add: zero_container_def)
  show ?thesis
  proof (cases "deref (c_Image cm) (imgs s)")
    case None
    then have "encode_container s cm = (cm, None)" by (simp add: encode_container_def)
    with assms(4) get z w(2) i
    have "ContainerPersist_Get kv k p s1 = Some (None, s1\<lparr>ctrs := assign p (cm\<lparr>c_Image := None\<rparr>) (ctrs s1)\<rparr>)"
      by (simp add: ContainerPersist_Get_def)
    with None w(2) show ?thesis by (simp add: assign_def)
  next
    case (Some im)
    then have "encode_container s cm = (cm, Some im)" by (simp add: encode_container_def)
    with assms(4) get z w(2) i
    have "ContainerPersist_Get kv k p s1 = Some (None, s1\<lparr>imgs := snd (alloc im (imgs s)),
        ctrs := assign p (cm\<lparr>c_Image := Some (next_free (imgs s))\<rparr>) (ctrs s1)\<rparr>)"
      by (simp add: ContainerPersist_Get_def alloc_def)
    moreover have "cells (imgs s) (next_free (imgs s)) = None" using assms(5) by (simp add: heap_wf_def)
    ultimately show ?thesis using Some w(2) by (simp add: assign_def alloc_def)
  qed
qed

theorem container_file_round_trip_witness:
  "\<exists>s2 cm'. ContainerPersist_Get map_kv ''c1'' 1
       ((empty_state [] ex_fs)\<lparr>ctrs := \<lparr>cells = [1 \<mapsto> zero_container], next_free = 2\<rparr>, imgs := \<lparr>cells = [0 \<mapsto> zero_image], next_free = 1\<rparr>,
          world := [(''c1'', (zero_container\<lparr>c_ID := ''c1'', c_Image := Some 0\<rparr>, Some zero_image))]\<rparr>) = Some (None, s2)
     \<and> cells (ctrs s2) 1 = Some cm' \<and> c_ID cm' = ''c1'' \<and> deref (c_Image cm') (imgs s2) = Some zero_image"
proof -
  let ?s = "(empty_state ([] :: (string \<times> stored_container) list) ex_fs)\<lparr>ctrs := \<lparr>cells = [1 \<mapsto> zero_container], next_free = 2\<rparr>,
    imgs := \<lparr>cells = [0 \<mapsto> zero_image], next_free = 1\<rparr>\<rparr>"
  let ?cm = "zero_container\<lparr>c_ID := ''c1'', c_Image := Some 0\<rparr>"
  have gets: "skv_gets map_kv mget (zero_container, None)" by (simp add: skv_gets_def map_kv_def split: option.split)
  have put: "ContainerPersist_Put map_kv ''c1'' ?cm ?s = (None, ?s\<lparr>world := [(''c1'', (?cm, Some zero_image))]\<rparr>)"
    by (simp add: ContainerPersist_Put_def encode_container_def map_kv_def empty_state_def)
  have h: "cells (ctrs ?s) 1 = Some zero_container" "heap_wf (imgs ?s)" by (simp_all add: heap_wf_def)
  from container_file_round_trip [OF map_kv_behaves gets put h]
  obtain s2 cm' where r: "ContainerPersist_Get map_kv ''c1'' 1 (?s\<lparr>world := [(''c1'', (?cm, Some zero_image))]\<rparr>) = Some (None, s2)"
    "cells (ctrs s2) 1 = Some cm'" "cm'\<lparr>c_Image := None\<rparr> = ?cm\<lparr>c_Image := None\<rparr>"
    "deref (c_Image cm') (imgs s2) = deref (c_Image ?cm) (imgs ?s)" by blast
  from arg_cong [OF r(3), of c_ID] have "c_ID cm' = ''c1''" by simp
  with r(1,2,4) show ?thesis by (intro exI [of _ s2] exI [of _ cm']) simp
qed

section \<open>Pods\<close>

text \<open>
  C16.  Running a local pod with a UID either succeeds, and the pool then files under that UID a
  pod that is not ready, carries the request's configuration and handler and knows its log
  directory; or fails, and the pool has no pod of that UID, not even one it had before.  No other
  entry changes.
\<close>

theorem run_pod_effect:
  assumes "adapter (sv_adapter V)" and "GetRemoteRuntime (sv_remoteCRI V) (rq_RuntimeHandler req) = Inr None"
    and "rq_Config req = Some config" and "pc_Metadata config = Some md" and "pm_Uid md = k" and "k \<noteq> []"
    and "RunPodSandbox V req s = Some ((r, err), t)"
  shows "(\<forall>j. j \<noteq> k \<longrightarrow> mget (SandboxPool t) j = mget (SandboxPool s) j)
    \<and> (case err of
         Some e \<Rightarrow> r = None \<and> mget (SandboxPool t) k = None
       | None \<Rightarrow> r = Some k \<and> (\<exists>p sm. mget (SandboxPool t) k = Some p \<and> cells (sbxs t) p = Some sm
            \<and> s_ID sm = k \<and> s_State sm = SANDBOX_NOTREADY \<and> s_Config sm = config
            \<and> s_RuntimeHandler sm = rq_RuntimeHandler req
            \<and> s_LogPath sm = GenerateLogDir (pc_LogDirectory config) k))"
proof -
  obtain p u where c: "SandboxStorage_CreateSandboxMetadata (sv_go V) SANDBOX_NOTREADY config (rq_RuntimeHandler req) s = Some (p, u)"
    and rest: "do {
       (err, s) \<leftarrow> run_local_sandbox V config p u;
       sandbox \<leftarrow> cells (sbxs s) p;
       (case err of
          Some e \<Rightarrow> Some ((None, Some e), SandboxStorage_Remove (s_ID sandbox) s)
        | None \<Rightarrow> do { s \<leftarrow> SandboxStorage_Update p s; Some ((Some (s_ID sandbox), None), s) }) } = Some ((r, err), t)"
    using assms(2,3,7) by (auto simp: RunPodSandbox_def Remote_RunPodSandbox_def route_none bind_eq_Some_conv)
  obtain sm where sm: "cells (sbxs u) p = Some sm" "s_ID sm = k" "SandboxPool u = mset_key k p (SandboxPool s)"
    "s_State sm = SANDBOX_NOTREADY" "s_Config sm = config" "s_RuntimeHandler sm = rq_RuntimeHandler req"
    by (rule CreateSandboxMetadata_effect [OF c]) (use assms(4-6) in auto)
  obtain e v where l: "run_local_sandbox V config p u = Some (e, v)" using rest by (auto simp: bind_eq_Some_conv)
  from run_local_sandbox_effect [OF assms(1) l sm(1)] obtain ip lp where
    v: "SandboxPool v = SandboxPool u" "cells (sbxs v) p = Some (sm\<lparr>s_IP := ip, s_LogPath := lp\<rparr>)"
      "e = None \<longrightarrow> lp = GenerateLogDir (pc_LogDirectory config) (s_ID sm)" by blast
  show ?thesis
  proof (cases e)
    case (Some x)
    with rest l v(2) sm(2) have t: "t = SandboxStorage_Remove k v" "err = Some x" "r = None" by simp_all
    have "mget (SandboxPool t) j = (if j = k then None else mget (SandboxPool s) j)" for j
      unfolding t using sandbox_store.rem_lookup [of k v j] v(1) sm(3) by (simp add: mget_update)
    with t show ?thesis by simp
  next
    case None
    with rest l v(2) sm(2) have t: "SandboxStorage_Update p v = Some t" "err = None" "r = Some k"
      by (auto simp: bind_eq_Some_conv)
    have "mget (SandboxPool t) j = (if j = k then Some p else mget (SandboxPool s) j)" for j
      using sandbox_store.put_lookup [OF t(1) v(2), of j] v(1) sm(2,3) by (simp add: mget_update)
    moreover have "sbxs t = sbxs v" by (rule sandbox_store.put_heap [OF t(1)])
    ultimately show ?thesis using t(2,3) v(2,3) sm None by simp
  qed
qed

theorem run_pod_effect_witness:
  "\<exists>t p. RunPodSandbox ex_V (NewCreateSandboxRequest ''pod'' ''multicri'') ex_s0 = Some ((Some ''pod'', None), t)
     \<and> mget (SandboxPool t) ''pod'' = Some p"
proof -
  let ?req = "NewCreateSandboxRequest ''pod'' ''multicri''"
  have "map_option fst (RunPodSandbox ex_V ?req ex_s0) = Some (Some ''pod'', None)" by code_simp
  then obtain t where t: "RunPodSandbox ex_V ?req ex_s0 = Some ((Some ''pod'', None), t)" by auto
  have req: "\<exists>config md. rq_Config ?req = Some config \<and> pc_Metadata config = Some md \<and> pm_Uid md = ''pod''"
    by (simp add: NewCreateSandboxRequest_def)
  then obtain config md where "rq_Config ?req = Some config" "pc_Metadata config = Some md" "pm_Uid md = ''pod''" by blast
  from run_pod_effect [OF ex_adapter ex_local this _ t] t show ?thesis by auto
qed

text \<open>
  C5.  In every reachable state stopping a pod does not use the network plugin or the namespace
  manager: whatever they are, the answer and the new state are the same, so the network of a pod
  is never torn down.
\<close>

theorem stop_never_tears_down:
  assumes "NewMulticriService H nm a b c d e f g cache False net i (empty_state w fl) = Some (Inr V, s0)"
    and "images_keyed H cache"
    and "reachable V s0 s"
  shows "StopPodSandbox (V\<lparr>sv_netPlugin := plugin, sv_networkNamespace := manager\<rparr>) k s = StopPodSandbox V k s"
proof (cases "mget (SandboxPool s) k")
  case None
  then show ?thesis by (simp add: StopPodSandbox_def SandboxStorage_Get_def handler_of_def split: prod.split option.split)
next
  case (Some p)
  then obtain sm where sm: "cells (sbxs s) p = Some sm" "s_NetNSPath sm = []"
    using Inv_sandbox [OF built_reachable [OF assms]] by blast
  obtain x er t where r: "Remote_StopPodSandbox (sv_remoteCRI V) (s_RuntimeHandler sm) k s = ((x, er), t)"
    by (metis prod.exhaust)
  then have "sbxs t = sbxs s" using route_frame by (fastforce simp: Remote_StopPodSandbox_def same_stores_def)
  with Some sm r show ?thesis
    by (simp add: StopPodSandbox_def SandboxStorage_Get_def handler_of_def split: option.split)
qed

theorem stop_never_tears_down_witness:
  "\<exists>s. serve_all ex_V ex_life ex_s0 = Some s
     \<and> StopPodSandbox (ex_V\<lparr>sv_netPlugin := Some NewFackeCNIPlugin, sv_networkNamespace := FakeNetworkManager\<rparr>) ''pod'' s = StopPodSandbox ex_V ''pod'' s"
  by (rule ex_life_run) (use stop_never_tears_down [OF ex_built ex_keys serve_all_reachable] in blast)

text \<open>
  A local pod is listed by an unfiltered listing exactly when a remote runtime named
  \<open>default\<close> is configured or the pod's handler is empty: without a default runtime a pod
  that was run with the handler \<open>multicri\<close> is not listed.
\<close>

lemma local_pods_listed:
  assumes "GetRemoteRuntime r (s_RuntimeHandler sm) = Inr None"
  shows "sandbox_listed [] [] 100 (MulticriRuntimeName r) sm \<longleftrightarrow> mget r ''default'' \<noteq> None \<or> s_RuntimeHandler sm = []"
  using assms by (auto simp: local_handler sandbox_listed_def MulticriRuntimeName_def)

lemma local_pods_listed_witness:
  "\<not> sandbox_listed [] [] 100 (MulticriRuntimeName ([] :: unit remotes)) (ex_pod SANDBOX_READY MulticriRuntimeHandler)"
  by (subst local_pods_listed) (simp_all add: MulticriRuntimeHandler_def)

section \<open>Containers\<close>

text \<open>
  C17.  A container created in a local pod is filed under the ID of the reply, in the state
  \<open>CREATED\<close>, with an image and a copy of the pod's record; the pod lists it last; and no
  other container is touched.
\<close>

theorem create_container_effect:
  assumes "adapter (sv_adapter V)" and "mget (SandboxPool s) (cr_PodSandboxId req) = Some sp"
    and "cells (sbxs s) sp = Some sandbox"
    and "GetRemoteRuntime (sv_remoteCRI V) (s_RuntimeHandler sandbox) = Inr None"
    and "CreateContainer V req s = Some ((Some k, None), t)"
  shows "(\<exists>p cm. mget (ContainerPool t) k = Some p \<and> cells (ctrs t) p = Some cm \<and> c_ID cm = k
       \<and> c_State cm = CONTAINER_CREATED \<and> c_PodSandbox cm = sandbox \<and> c_Image cm \<noteq> None)
    \<and> cells (sbxs t) sp = Some (sandbox\<lparr>s_Containers := s_Containers sandbox @ [k]\<rparr>)
    \<and> (\<forall>j. j \<noteq> k \<longrightarrow> mget (ContainerPool t) j = mget (ContainerPool s) j)"
proof -
  obtain p u cm where l: "create_local V req sp s = Some (Inr p, u)" and cm: "cells (ctrs u) p = Some cm" "c_ID cm = k"
    and up: "SandboxStorage_Update sp (u\<lparr>sbxs := assign sp (sandbox\<lparr>s_Containers := s_Containers sandbox @ [k]\<rparr>) (sbxs u)\<rparr>) = Some t"
  proof -
    obtain r u where l: "create_local V req sp s = Some (r, u)"
      and rest: "(case r of Inl e \<Rightarrow> Some ((None, Some e), u) | Inr p \<Rightarrow> do {
          container \<leftarrow> cells (ctrs u) p;
          sandbox \<leftarrow> cells (sbxs u) sp;
          let s = u\<lparr>sbxs := assign sp (sandbox\<lparr>s_Containers := s_Containers sandbox @ [c_ID container]\<rparr>) (sbxs u)\<rparr>;
          s \<leftarrow> SandboxStorage_Update sp s;
          Some ((Some (c_ID container), None), s) }) = Some ((Some k, None), t)"
      using assms(2-5) by (auto simp: CreateContainer_def SandboxStorage_Get_def Remote_CreateContainer_def route_none
          bind_eq_Some_conv simp del: Let_def)
    then obtain p where p: "r = Inr p" by (cases r) auto
    with create_local_effect [OF assms(1) _ assms(3)] l have "sbxs u = sbxs s" by blast
    with rest p l assms(3) show ?thesis by (auto simp: bind_eq_Some_conv intro: that)
  qed
  from create_local_effect [OF assms(1) l assms(3)] cm have u: "c_State cm = CONTAINER_CREATED" "c_PodSandbox cm = sandbox"
    "c_Image cm \<noteq> None" "\<And>j. mget (ContainerPool u) j = (if j = k then Some p else mget (ContainerPool s) j)" by auto
  have t: "ctrs t = ctrs u" "ContainerPool t = ContainerPool u" using sandbox_Update_containers [OF up] by simp_all
  have "cells (sbxs t) sp = Some (sandbox\<lparr>s_Containers := s_Containers sandbox @ [k]\<rparr>)"
    using sandbox_store.put_heap [OF up] by simp
  with t u cm show ?thesis by auto
qed

theorem create_container_effect_witness:
  "\<exists>s t p. serve_all ex_V (take 2 ex_life) ex_s0 = Some s
     \<and> CreateContainer ex_V (NewCreateContainerRequest ''pod'' ''c'' ''b'') s = Some ((Some ''u1'', None), t)
     \<and> mget (ContainerPool t) ''u1'' = Some p"
proof -
  let ?req = "NewCreateContainerRequest ''pod'' ''c'' ''b''"
  have "map_option (\<lambda>s. (map_option fst (CreateContainer ex_V ?req s), SandboxPool s, cells (sbxs s) 0 \<noteq> None)) (serve_all ex_V (take 2 ex_life) ex_s0)
      = Some (Some (Some ''u1'', None), [(''pod'', 0)], True)" by code_simp
  then obtain s t sm where s: "serve_all ex_V (take 2 ex_life) ex_s0 = Some s"
    and c: "CreateContainer ex_V ?req s = Some ((Some ''u1'', None), t)"
    and pod: "mget (SandboxPool s) (cr_PodSandboxId ?req) = Some 0" "cells (sbxs s) 0 = Some sm"
    by (auto simp: NewCreateContainerRequest_def)
  from create_container_effect [OF ex_adapter pod ex_local c] s c show ?thesis by blast
qed

end
