(* ===== verification/Properties_Runtime.thy ===== *)
theory Properties_Runtime
  imports Example_Host
begin

text \<open>
  What the handlers of \<open>pkg/cri/runtime\<close> do to pods, containers and images: the effect of
  each request on the stores, its errors, and the routing between the local and the remote
  runtimes.
\<close>

lemma sandbox_get: "SandboxStorage_Get k s = (case mget (SandboxPool s) k of
    None \<Rightarrow> (None, Some ''Pod not found'') | Some p \<Rightarrow> (Some p, None))"
  by (simp add: SandboxStorage_Get_def)

lemma sandbox_Update_pool:
  assumes "SandboxStorage_Update p s = Some t" and "mget (SandboxPool s) k = Some p" and "cells (sbxs s) p = Some sm"
    and "s_ID sm = k"
  shows "mget (SandboxPool t) j = mget (SandboxPool s) j"
  using sandbox_store.put_lookup [OF assms(1,3), of j] assms(2,4) by simp

section \<open>Pods\<close>

text \<open>
  C35.  When no network plugin is configured, asking for the status of a local pod makes it
  ready, so that a following \<open>RemovePodSandbox\<close> refuses it as running, even if it had been
  stopped before.
\<close>

theorem status_blocks_removal:
  assumes "sv_netPlugin V = None" and "adapter (sv_adapter V)"
    and "mget (SandboxPool s) k = Some p" and "cells (sbxs s) p = Some sm"
    and "GetRemoteRuntime (sv_remoteCRI V) (s_RuntimeHandler sm) = Inr None"
    and "PodSandboxStatus_handler V k s = Some (reply, t)"
  shows "RemovePodSandbox V k t =
    Some ((None, Some (sprintf ''Sandbox %q is running. First stop it '' [quote k])), t)"
proof -
  obtain ip where ready: "(if s_IP sm \<noteq> [] then (s_IP sm, sm\<lparr>s_State := SANDBOX_READY\<rparr>)
      else if sv_netPlugin V = None then (''127.0.0.1'', sm\<lparr>s_State := SANDBOX_READY\<rparr>) else (s_IP sm, sm))
    = (ip, sm\<lparr>s_State := SANDBOX_READY\<rparr>)"
    using assms(1) by (cases "s_IP sm = []") auto
  let ?u = "s\<lparr>sbxs := assign p (sm\<lparr>s_State := SANDBOX_READY\<rparr>) (sbxs s)\<rparr>"
  obtain err where a: "ad_PodSandboxStatus (sv_adapter V) p ?u = Some (err, t)"
    using assms(3-6) ready
    by (auto simp: PodSandboxStatus_handler_def sandbox_get Remote_PodSandboxStatus_def route_none
        bind_eq_Some_conv split: option.splits)
  have "adapter_frame ?u t"
    by (rule steady_adapter_frame [OF keepsD [OF adapter.status_sandbox [OF assms(2)] a]])
  then have "sbxs t = sbxs ?u" "SandboxPool t = SandboxPool s" by (simp_all add: adapter_frame_def)
  with assms(3,5) show ?thesis
    by (simp add: RemovePodSandbox_def sandbox_get handler_of_def Remote_RemovePodSandbox_def route_none)
qed

theorem status_blocks_removal_witness:
  "\<exists>reply t. PodSandboxStatus_handler ex_V ''pod'' (ex_state (ex_pod SANDBOX_NOTREADY []) (ex_ctr CONTAINER_EXITED []) zero_image) = Some (reply, t)
    \<and> RemovePodSandbox ex_V ''pod'' t = Some ((None, Some (sprintf ''Sandbox %q is running. First stop it '' [quote ''pod''])), t)"
proof -
  let ?s = "ex_state (ex_pod SANDBOX_NOTREADY []) (ex_ctr CONTAINER_EXITED []) zero_image"
  have "\<exists>reply t. PodSandboxStatus_handler ex_V ''pod'' ?s = Some (reply, t)"
    by (simp add: PodSandboxStatus_handler_def sandbox_get Remote_PodSandboxStatus_def ok_op_def Let_def)
  then obtain reply t where st: "PodSandboxStatus_handler ex_V ''pod'' ?s = Some (reply, t)" by blast
  have "RemovePodSandbox ex_V ''pod'' t = Some ((None, Some (sprintf ''Sandbox %q is running. First stop it '' [quote ''pod''])), t)"
    by (rule status_blocks_removal [OF _ ex_adapter _ _ ex_local st, where sm = "ex_pod SANDBOX_NOTREADY []" and p = 0]) simp_all
  with st show ?thesis by blast
qed

text \<open>
  C20.  \<open>StopPodSandbox\<close> on a local pod whose adapter agrees leaves the pod filed where it
  was, not ready and without an address.
\<close>

theorem stop_pod_effect:
  assumes "adapter (sv_adapter V)" and "mget (SandboxPool s) k = Some p" and "cells (sbxs s) p = Some sm"
    and "s_ID sm = k" and "s_NetNSPath sm = []"
    and "GetRemoteRuntime (sv_remoteCRI V) (s_RuntimeHandler sm) = Inr None"
    and "ad_StopPodSandbox (sv_adapter V) p s = Some (None, u)"
  shows "\<exists>t. StopPodSandbox V k s = Some ((Some (), None), t)
    \<and> cells (sbxs t) p = Some (sm\<lparr>s_State := SANDBOX_NOTREADY, s_IP := []\<rparr>)
    \<and> (\<forall>j. mget (SandboxPool t) j = mget (SandboxPool s) j)"
proof -
  have "adapter_frame s u"
    by (rule steady_adapter_frame [OF keepsD [OF adapter.stop_sandbox [OF assms(1)] assms(7)]])
  then have u: "sbxs u = sbxs s" "SandboxPool u = SandboxPool s" by (simp_all add: adapter_frame_def)
  let ?sm = "sm\<lparr>s_State := SANDBOX_NOTREADY, s_IP := []\<rparr>"
  let ?v = "u\<lparr>sbxs := assign p ?sm (sbxs u)\<rparr>"
  have cell: "cells (sbxs ?v) p = Some ?sm" by simp
  from sandbox_store.put_defined [OF cell] obtain t where t: "SandboxStorage_Update p ?v = Some t" by blast
  have "StopPodSandbox V k s = Some ((Some (), None), t)"
    using assms t u
    by (simp add: StopPodSandbox_def sandbox_get handler_of_def Remote_StopPodSandbox_def route_none)
  moreover have "cells (sbxs t) p = Some ?sm"
    using sandbox_store.put_heap [OF t] by simp
  moreover have "mget (SandboxPool t) j = mget (SandboxPool s) j" for j
    using sandbox_Update_pool [OF t _ cell, of k j] assms(2,4) u by simp
  ultimately show ?thesis by blast
qed

theorem stop_pod_effect_witness:
  "\<exists>t. StopPodSandbox ex_V ''pod'' (ex_state (ex_pod SANDBOX_READY []) (ex_ctr CONTAINER_EXITED []) zero_image) = Some ((Some (), None), t)"
  using stop_pod_effect [OF ex_adapter, of "ex_state (ex_pod SANDBOX_READY []) (ex_ctr CONTAINER_EXITED []) zero_image" "''pod''" 0
      "ex_pod SANDBOX_READY []" "ex_state (ex_pod SANDBOX_READY []) (ex_ctr CONTAINER_EXITED []) zero_image"]
  by (auto simp: ok_op_def)

text \<open>
  C21.  \<open>RemovePodSandbox\<close> on a local pod that is not ready and whose adapter agrees removes
  that pod from the pool and nothing else.
\<close>

theorem remove_pod_effect:
  assumes "adapter (sv_adapter V)" and "mget (SandboxPool s) k = Some p" and "cells (sbxs s) p = Some sm"
    and "s_ID sm = k" and "s_State sm = SANDBOX_NOTREADY"
    and "GetRemoteRuntime (sv_remoteCRI V) (s_RuntimeHandler sm) = Inr None"
    and "ad_RemovePodSandbox (sv_adapter V) p s = Some (None, u)"
  shows "\<exists>t. RemovePodSandbox V k s = Some ((Some (), None), t)
    \<and> (\<forall>j. mget (SandboxPool t) j = (if j = k then None else mget (SandboxPool s) j))
    \<and> ContainerPool t = ContainerPool s"
proof -
  have "adapter_frame s u"
    by (rule steady_adapter_frame [OF keepsD [OF adapter.remove_sandbox [OF assms(1)] assms(7)]])
  then have u: "sbxs u = sbxs s" "SandboxPool u = SandboxPool s" "ContainerPool u = ContainerPool s"
    by (simp_all add: adapter_frame_def)
  let ?t = "SandboxStorage_Remove k u"
  have "RemovePodSandbox V k s = Some ((Some (), None), ?t)"
    using assms u
    by (simp add: RemovePodSandbox_def sandbox_get handler_of_def Remote_RemovePodSandbox_def route_none)
  moreover have "ContainerPool ?t = ContainerPool s"
    using u by (auto simp: SandboxStorage_Remove_def SandboxPersist_Delete_def Let_def split: option.splits prod.splits)
  moreover have "mget (SandboxPool ?t) j = (if j = k then None else mget (SandboxPool s) j)" for j
    using sandbox_store.rem_lookup [of k u j] u by simp
  ultimately show ?thesis by blast
qed

theorem remove_pod_effect_witness:
  "\<exists>t. RemovePodSandbox ex_V ''pod'' (ex_state (ex_pod SANDBOX_NOTREADY []) (ex_ctr CONTAINER_EXITED []) zero_image) = Some ((Some (), None), t)
    \<and> mget (SandboxPool t) ''pod'' = None"
  using remove_pod_effect [OF ex_adapter, of "ex_state (ex_pod SANDBOX_NOTREADY []) (ex_ctr CONTAINER_EXITED []) zero_image" "''pod''" 0
      "ex_pod SANDBOX_NOTREADY []" "ex_state (ex_pod SANDBOX_NOTREADY []) (ex_ctr CONTAINER_EXITED []) zero_image"]
  by (auto simp: ok_op_def)

section \<open>Containers\<close>

lemma container_get: "ContainerStorage_Get k s = (case mget (ContainerPool s) k of
    None \<Rightarrow> (None, snd (ContainerStorage_Get k s)) | Some p \<Rightarrow> (Some p, None))"
  by (simp add: ContainerStorage_Get_def split: option.split)

lemma container_found: "mget (ContainerPool s) k = Some p \<Longrightarrow> ContainerStorage_Get k s = (Some p, None)"
  by (rule container_store.get_hit)

lemma container_missing: "mget (ContainerPool s) k = None \<Longrightarrow> \<exists>e. ContainerStorage_Get k s = (None, Some e)"
  by (rule container_store.get_miss)

text \<open>
  C19.  \<open>StartContainer\<close> starts only a local container that has been created: in any other
  state the adapter is not called, nothing changes, and the reply carries an error.
\<close>

theorem start_only_created:
  assumes "mget (ContainerPool s) k = Some p" and "cells (ctrs s) p = Some cm"
    and "GetRemoteRuntime (sv_remoteCRI V) (s_RuntimeHandler (c_PodSandbox cm)) = Inr None"
    and "c_State cm \<noteq> CONTAINER_CREATED"
  shows "StartContainer V k s = Some ((Some (), Some (if c_State cm = CONTAINER_RUNNING
    then ''Container already started'' else ''Container failed'')), s)"
  using assms by (simp add: StartContainer_def container_found Remote_StartContainer_def route_none)

theorem start_only_created_witness:
  "StartContainer ex_V ''c1'' (ex_state (ex_pod SANDBOX_READY []) (ex_ctr CONTAINER_EXITED []) zero_image)
    = Some ((Some (), Some ''Container failed''), ex_state (ex_pod SANDBOX_READY []) (ex_ctr CONTAINER_EXITED []) zero_image)"
  using start_only_created [of "ex_state (ex_pod SANDBOX_READY []) (ex_ctr CONTAINER_EXITED []) zero_image" "''c1''" 0
      "ex_ctr CONTAINER_EXITED []" ex_V] by (simp add: ex_local)

text \<open>
  C18.  Starting a created local container: when the adapter succeeds the container is running,
  when it fails the container has exited with code 1, and the reply is the adapter's error.
\<close>

theorem start_container_effect:
  assumes "adapter (sv_adapter V)" and "mget (ContainerPool s) k = Some p" and "cells (ctrs s) p = Some cm"
    and "c_ID cm = k"
    and "GetRemoteRuntime (sv_remoteCRI V) (s_RuntimeHandler (c_PodSandbox cm)) = Inr None"
    and "c_State cm = CONTAINER_CREATED"
    and "ad_StartContainer (sv_adapter V) p s = Some (err, u)"
  shows "\<exists>t cm'. StartContainer V k s = Some ((if err = None then Some () else None, err), t)
    \<and> cells (ctrs t) p = Some cm' \<and> c_ID cm' = k
    \<and> (if err = None then c_State cm' = CONTAINER_RUNNING
       else c_State cm' = CONTAINER_EXITED \<and> c_ExitCode cm' = 1 \<and> c_Reason cm' = ''ContainerCannotRun'')
    \<and> (\<forall>j. mget (ContainerPool t) j = mget (ContainerPool s) j)"
proof -
  have f: "adapter_frame s u"
    by (rule steady_adapter_frame [OF keepsD [OF adapter.start_container [OF assms(1)] assms(7)]])
  then have pool: "ContainerPool u = ContainerPool s" by (simp add: adapter_frame_def)
  obtain c where c: "cells (ctrs u) p = Some c" "same_container cm c"
    by (rule adapter_frame_container [OF f assms(3)])
  obtain n v where n: "now (sv_go V) u = (n, v)" by (metis prod.exhaust)
  have v: "ctrs v = ctrs u" "ContainerPool v = ContainerPool s"
    using now_same [OF n] pool by (simp_all add: same_stores_def)
  let ?f = "if err \<noteq> None then start_failed n else start_ok n"
  let ?w = "v\<lparr>ctrs := assign p (?f c) (ctrs v)\<rparr>"
  have upd: "update_container p ?f v = Some ?w" using c v by (simp add: update_container_def)
  have cell: "cells (ctrs ?w) p = Some (?f c)" by simp
  from container_store.put_defined [OF cell] obtain t where t: "ContainerStorage_Update p ?w = Some t" by blast
  have "StartContainer V k s = Some ((if err = None then Some () else None, err), t)"
    using assms n upd t by (simp add: StartContainer_def container_found Remote_StartContainer_def route_none)
  moreover have "cells (ctrs t) p = Some (?f c)" using container_store.put_heap [OF t] by simp
  moreover have "c_ID (?f c) = k" using c(2) assms(4) by (simp add: start_failed_def start_ok_def same_container_def)
  moreover have "mget (ContainerPool t) j = mget (ContainerPool s) j" for j
    using container_store.put_lookup [OF t cell, of j] \<open>c_ID (?f c) = k\<close> assms(2) v by simp
  ultimately show ?thesis by (intro exI [of _ t] exI [of _ "?f c"]) (simp add: start_failed_def start_ok_def)
qed

theorem start_container_effect_witness:
  "\<exists>t cm'. StartContainer ex_V ''c1'' (ex_state (ex_pod SANDBOX_READY []) (ex_ctr CONTAINER_CREATED []) zero_image)
    = Some ((Some (), None), t) \<and> cells (ctrs t) 0 = Some cm' \<and> c_State cm' = CONTAINER_RUNNING"
proof -
  let ?s = "ex_state (ex_pod SANDBOX_READY []) (ex_ctr CONTAINER_CREATED []) zero_image"
  have "ad_StartContainer (sv_adapter ex_V) 0 ?s = Some (None, ?s)" by (simp add: ex_V_def ok_op_def)
  from start_container_effect [OF ex_adapter _ _ _ ex_local _ this, of "''c1''" "ex_ctr CONTAINER_CREATED []"]
  show ?thesis by auto
qed

text \<open>
  The error of a remote runtime that fails to stop a container is lost: the local record
  of a remote container is never running, so the request is answered with success.
\<close>

lemma remote_stop_error_lost:
  assumes "mget (ContainerPool s) k = Some p" and "cells (ctrs s) p = Some cm"
    and "c_State cm \<noteq> CONTAINER_RUNNING"
    and "GetRemoteRuntime (sv_remoteCRI V) (s_RuntimeHandler (c_PodSandbox cm)) = Inr (Some c)"
    and "rc_StopContainer c k (world s) = (Inl e, w)"
  shows "StopContainer V k s = Some ((Some (), None), s\<lparr>world := w\<rparr>)"
  using assms
  by (simp add: StopContainer_def container_found container_handler_def Remote_StopContainer_def route_def remote_call_def)

lemma remote_stop_error_lost_witness:
  "StopContainer (ex_V\<lparr>sv_remoteCRI := [(''default'', ex_remote)]\<rparr>) ''c1'' (ex_state (ex_pod SANDBOX_READY ''default'') (ex_ctr CONTAINER_CREATED ''default'') zero_image)
    = Some ((Some (), None), ex_state (ex_pod SANDBOX_READY ''default'') (ex_ctr CONTAINER_CREATED ''default'') zero_image)"
  using remote_stop_error_lost [of "ex_state (ex_pod SANDBOX_READY ''default'') (ex_ctr CONTAINER_CREATED ''default'') zero_image" "''c1''" 0
      "ex_ctr CONTAINER_CREATED ''default''" "ex_V\<lparr>sv_remoteCRI := [(''default'', ex_remote)]\<rparr>" ex_remote "''timeout''" "()"]
  by (simp add: GetRemoteRuntime_def MulticriRuntimeHandler_def ex_remote_def)

lemma sandbox_Remove_containers:
  assumes "SandboxStorage_RemoveContainer j k s = Some t"
  shows "ContainerPool t = ContainerPool s"
proof (cases "mget (SandboxPool s) j")
  case None
  with assms show ?thesis by (simp add: SandboxStorage_RemoveContainer_def)
next
  case (Some p)
  then obtain u sm where "t = SandboxStorage_persist_Put sm u" "ContainerPool u = ContainerPool s"
    using assms by (auto simp: SandboxStorage_RemoveContainer_def bind_eq_Some_conv Let_def)
  with persist_sandbox_same [of u sm] show ?thesis by (simp add: same_stores_def)
qed

lemma remove_early_frame:
  assumes "adapter A"
    and "(if remote = None then
              (case err of
                 Some e \<Rightarrow> Some (Some (None, Some e), u)
               | None \<Rightarrow> do {
                   p \<leftarrow> cp;
                   cm \<leftarrow> cells (ctrs u) p;
                   if c_State cm = CONTAINER_RUNNING then
                     Some (Some (Some (), Some (sprintf ''Running containers can not be deleted %s'' [k])), u)
                   else do {
                     (err, s) \<leftarrow> ad_ReopenContainerLog A p u;
                     Some (map_option (\<lambda>e. (None, Some e)) err, s)
                   }
                 })
            else Some (None, u)) = Some (early, v)"
  shows "ContainerPool v = ContainerPool u"
proof (cases "remote = None \<and> err = None")
  case True
  then have "adapter_frame u v"
    using assms(2) adapter_frame_refl
    by (auto simp: bind_eq_Some_conv split: if_splits
        dest: keepsD [OF adapter.reopen_log [OF assms(1)], THEN steady_adapter_frame])
  then show ?thesis by (simp add: adapter_frame_def)
next
  case False
  with assms(2) show ?thesis by (auto split: if_splits option.splits)
qed

text \<open>
  With the Slurm adapter a local container that is not running can never be removed: the
  request asks the adapter to reopen the log, which it does not implement, and fails.
\<close>

lemma slurm_remove_fails:
  assumes "sv_adapter V = SlurmAdapter_interface B sa"
    and "mget (ContainerPool s) k = Some p" and "cells (ctrs s) p = Some cm"
    and "GetRemoteRuntime (sv_remoteCRI V) (s_RuntimeHandler (c_PodSandbox cm)) = Inr None"
    and "c_State cm \<noteq> CONTAINER_RUNNING"
  shows "RemoveContainer V k s = Some ((None, Some ''SLURMCRU: ReopenContainerLog not implemented''), s)"
  using assms
  by (simp add: RemoveContainer_def container_found container_handler_def Remote_RemoveContainer_def route_none
      SlurmAdapter_interface_def Slurm_ReopenContainerLog_def)

lemma slurm_remove_fails_witness:
  "RemoveContainer (ex_V\<lparr>sv_adapter := SlurmAdapter_interface ex_lib \<lparr>sa_MountPath = MOUNTHPATH,
       sa_Builder = NewImageBuilderInCluster ex_lib MOUNTHPATH [], sa_ImageRemoteMount = []\<rparr>\<rparr>) ''c1''
     (ex_state (ex_pod SANDBOX_READY []) (ex_ctr CONTAINER_EXITED []) zero_image)
   = Some ((None, Some ''SLURMCRU: ReopenContainerLog not implemented''),
       ex_state (ex_pod SANDBOX_READY []) (ex_ctr CONTAINER_EXITED []) zero_image)"
  by (rule slurm_remove_fails [where p = 0 and cm = "ex_ctr CONTAINER_EXITED []"]) (simp_all add: ex_local)

text \<open>
  Without remote runtimes, asking for the status or the statistics of a container the
  store does not know crashes the service.
\<close>

lemma unknown_container_panics:
  assumes "sv_remoteCRI V = []" and "mget (ContainerPool s) k = None"
  shows "ContainerStatus V k s = None \<and> ContainerStats_handler V k s = None"
  using container_missing [OF assms(2)] assms(1)
  by (auto simp: ContainerStatus_def ContainerStats_handler_def container_handler_def Remote_ContainerStatus_def
      Remote_ContainerStats_def route_local ParseToK8sContainer_def zero_container_def)

lemma unknown_container_panics_witness:
  "ContainerStatus ex_V ''x'' ex_s0 = None \<and> ContainerStats_handler ex_V ''x'' ex_s0 = None"
  by (rule unknown_container_panics) (simp_all add: ex_V_def ex_s0_def empty_state_def)

text \<open>
  When the adapter cannot tell the status of a local container that has not exited, for
  instance because the cluster did not answer, the container is recorded as exited with code 1
  and the error as reason.
\<close>

lemma status_error_exits:
  assumes "adapter (sv_adapter V)" and "mget (ContainerPool s) k = Some p" and "cells (ctrs s) p = Some cm"
    and "GetRemoteRuntime (sv_remoteCRI V) (s_RuntimeHandler (c_PodSandbox cm)) = Inr None"
    and "c_State cm \<noteq> CONTAINER_EXITED"
    and "ad_ContainerStatus (sv_adapter V) p s = Some (Some e, u)"
    and "ContainerStatus V k s = Some (reply, t)"
  shows "\<exists>cm'. cells (ctrs t) p = Some cm' \<and> c_State cm' = CONTAINER_EXITED \<and> c_ExitCode cm' = 1 \<and> c_Reason cm' = e"
proof -
  have f: "adapter_frame s u"
    by (rule keepsD [OF adapter.container_status [OF assms(1)] assms(6)])
  obtain c where c: "cells (ctrs u) p = Some c" by (rule adapter_frame_container [OF f assms(3)])
  let ?w = "u\<lparr>ctrs := assign p (manageContainerError e c) (ctrs u)\<rparr>"
  have upd: "update_container p (manageContainerError e) u = Some ?w" using c by (simp add: update_container_def)
  obtain v where v: "ContainerStorage_Update p ?w = Some v" "t = v"
    using assms upd
    by (auto simp: ContainerStatus_def container_found container_handler_def Remote_ContainerStatus_def route_none
        bind_eq_Some_conv)
  then have "cells (ctrs t) p = Some (manageContainerError e c)" using container_store.put_heap [OF v(1)] by simp
  then show ?thesis by (simp add: manageContainerError_def)
qed

lemma status_error_exits_witness:
  "\<exists>reply t cm'. ContainerStatus (ex_V\<lparr>sv_adapter := SlurmAdapter_interface ex_lib \<lparr>sa_MountPath = MOUNTHPATH,
       sa_Builder = NewImageBuilderInCluster ex_lib MOUNTHPATH [], sa_ImageRemoteMount = []\<rparr>\<rparr>) ''c1''
     (ex_state (ex_pod SANDBOX_READY []) (ex_ctr CONTAINER_RUNNING []) zero_image) = Some (reply, t)
    \<and> cells (ctrs t) 0 = Some cm' \<and> c_State cm' = CONTAINER_EXITED \<and> c_Reason cm' = ''KeyPath or password must be setup''"
proof -
  let ?s = "ex_state (ex_pod SANDBOX_READY []) (ex_ctr CONTAINER_RUNNING []) zero_image"
  let ?A = "SlurmAdapter_interface ex_lib \<lparr>sa_MountPath = MOUNTHPATH,
       sa_Builder = NewImageBuilderInCluster ex_lib MOUNTHPATH [], sa_ImageRemoteMount = []\<rparr>"
  let ?V = "ex_V\<lparr>sv_adapter := ?A\<rparr>"
  have a: "ad_ContainerStatus (sv_adapter ?V) 0 ?s = Some (Some ''KeyPath or password must be setup'', ?s)"
    by (simp add: SlurmAdapter_interface_def Slurm_ContainerStatus_def CreateCMD_def NewSlurmCMD_def ex_ctr_def
        zero_container_def mstr_def Let_def)
  have "\<exists>reply t. ContainerStatus ?V ''c1'' ?s = Some (reply, t)"
    using a by (simp add: ContainerStatus_def container_found container_handler_def Remote_ContainerStatus_def
        route_none ex_local update_container_def manageContainerError_def ContainerStorage_Update_def
        ContainerStorage_persist_Put_def GetK8sContainerStatus_def)
      (simp add: ex_state_def ex_heap_def empty_state_def)
  then obtain reply t where st: "ContainerStatus ?V ''c1'' ?s = Some (reply, t)" by blast
  have "adapter (sv_adapter ?V)" by (simp add: slurm_cluster.adapter_axioms)
  from status_error_exits [OF this _ _ _ _ a st] st show ?thesis by (auto simp: ex_local)
qed

section \<open>Images\<close>

text \<open>
  Pulling a local image from an unsupported repository fails but leaves a new image behind
  in the pool, under the generated ID.
\<close>

lemma unsupported_pull_leaves_image:
  assumes "getImageManager (sv_remoteCRI V) img = (None, rest)" and "image_kind rest = None"
    and "new_uuid (sv_go V) s = (k, u)" and "mget (ImagePool s) k = None"
  shows "\<exists>t p im. PullImage V \<lparr>pr_Image = Some img, pr_Auth = a\<rparr> s =
      Some ((None, Some (''Image repository is not supported '' @ rest)), t)
    \<and> mget (ImagePool t) k = Some p \<and> cells (imgs t) p = Some im \<and> i_RemotePath im = rest"
proof -
  have same: "imgs u = imgs s" "ImagePool u = ImagePool s"
    using new_uuid_same [OF assms(3)] by (simp_all add: same_stores_def)
  let ?im = "zero_image\<lparr>i_RemotePath := rest, i_ID := k,
     i_Auth := (case a of None \<Rightarrow> zero_auth | Some a \<Rightarrow> a), i_LocalPath := basePath u @ ''/.images''\<rparr>"
  obtain p h where al: "alloc ?im (imgs u) = (p, h)" by (metis prod.exhaust)
  have cell: "cells (imgs (u\<lparr>imgs := h\<rparr>)) p = Some ?im" using cells_alloc [OF al] by simp
  obtain t where t: "ImageStorage_Update p (u\<lparr>imgs := h\<rparr>) = Some t"
    using image_store.put_defined [OF cell] by blast
  have heap: "imgs t = h" and pool: "mget (ImagePool t) k = Some p"
    using image_store.put_heap [OF t] image_store.put_lookup [OF t cell, of k] by simp_all
  have "ImageStorage_Add p (u\<lparr>imgs := h\<rparr>) = Some (None, t)"
    using t cell assms(4) same by (simp add: ImageStorage_Add_def ImageStorage_Update_def Let_def)
  then have create: "ImageStorage_CreateImageMetadata (sv_go V) \<lparr>pr_Image = Some rest, pr_Auth = a\<rparr> s = Some ((p, None), t)"
    using assms(3) al by (simp add: ImageStorage_CreateImageMetadata_def)
  have parse: "ParseImage ?im = (Some (''Image repository is not supported '' @ rest), ?im)"
    using assms(2) by (simp add: ParseImage_def)
  let ?t = "t\<lparr>imgs := assign p ?im (imgs t)\<rparr>"
  have "PullImage V \<lparr>pr_Image = Some img, pr_Auth = a\<rparr> s =
      Some ((None, Some (''Image repository is not supported '' @ rest)), ?t)"
    using assms(1) create parse cell heap
    by (simp add: PullImage_def Remote_PullImage_def pull_local_def pull_created_def Let_def)
  with pool show ?thesis by (intro exI [of _ ?t] exI [of _ p] exI [of _ ?im]) simp
qed

lemma unsupported_pull_leaves_image_witness:
  "\<exists>t p. PullImage ex_V \<lparr>pr_Image = Some ''busybox'', pr_Auth = None\<rparr> ex_s0 =
      Some ((None, Some ''Image repository is not supported busybox''), t) \<and> mget (ImagePool t) ''u1'' = Some p"
proof -
  have "getImageManager (sv_remoteCRI ex_V) ''busybox'' = (None, ''busybox'')"
    by (simp add: getImageManager_def MulticriRuntimeHandler_def HasPrefix_def)
  moreover have "image_kind ''busybox'' = None" by code_simp
  moreover have "new_uuid (sv_go ex_V) ex_s0 = (''u1'', ex_s0)"
    by (simp add: new_uuid_def ex_go_def ReplaceAll_def Split_def)
  moreover have "mget (ImagePool ex_s0) ''u1'' = None" by (simp add: ex_s0_def empty_state_def)
  ultimately show ?thesis using unsupported_pull_leaves_image [of ex_V "''busybox''" "''busybox''" ex_s0 "''u1''" ex_s0 None]
    by auto
qed

end
