(* ===== verification/Properties_Slurm.thy ===== *)
theory Properties_Slurm
  imports Example_Host
begin

text \<open>
  Properties of the Slurm adapter, its client and the image builders: what is submitted, what is
  read from Slurm's answers, and which text and files travel.
\<close>

section \<open>Submitting\<close>

lemma env_fold:
  assumes "mwf m"
  shows "mget (foldl (\<lambda>e (k, v). if env_passes k then mset_key k v e else e) acc m) k
    = (if env_passes k \<and> mget m k \<noteq> None then mget m k else mget acc k)"
  using assms
proof (induction m arbitrary: acc)
  case (Cons kv m)
  obtain j v where kv: "kv = (j, v)" by (cases kv)
  with Cons.prems have wf: "mwf m" and j: "mget m j = None"
    by (auto simp: mwf_def map_of_eq_None_iff)
  with Cons.IH [OF wf] kv show ?case by (auto simp: mget_update)
qed simp

text \<open>The lines of the script that submits a job; each is ended by a space and a newline.\<close>

definition start_lines :: "JobConfig \<Rightarrow> string list" where
  "start_lines conf =
     [''#!/bin/bash''] @ map (\<lambda>(k, v). ''export '' @ k @ ''='' @ dquote @ v @ dquote) (jc_ENV conf)
     @ (if jc_ENV conf = [] then [] else [[]]) @ [''cd '' @ jc_Path conf]
     @ (if jc_Prerun conf = [] then [] else [''source '' @ PreRunScript]) @ [''sbatch '' @ BatchScript]"

lemma env_lines:
  "foldl (\<lambda>e (k, v). e @ env_line k v) b env
     = b @ concat (map (\<lambda>l. l @ '' '' @ nl) (map (\<lambda>(k, v). ''export '' @ k @ ''='' @ dquote @ v @ dquote) env))"
  by (induction env arbitrary: b) (auto simp: env_line_def sprintf.simps)

lemma run_script_lines: "run_script_text conf = concat (map (\<lambda>l. l @ '' '' @ nl) (start_lines conf))"
  by (cases "jc_ENV conf")
    (auto simp: run_script_text_def start_lines_def env_lines writeNewLine_def Let_def sprintf.simps)

text \<open>
  C29.  The environment that goes into the job's script is the container's environment without the
  variables of the cluster, of the job and of Kubernetes and without the MPI flags: the script that submits the
  job exports exactly these variables, between its first line and the change into the job's
  directory, the values between double quotes as they are.  The login and the keys of the
  cluster never reach the script.
\<close>

theorem job_environment:
  assumes "mwf (c_Environment c)"
  shows "mget (filterEnvironmentVariables c) k =
    (if HasPrefix k ''KUBERNETES_'' \<or> HasPrefix k ''CLUSTER_'' \<or> HasPrefix k ''JOB_'' \<or> EqualFold k ''MPI_FLAGS''
     then None else mget (c_Environment c) k)
    \<and> run_script_text (conf\<lparr>jc_ENV := filterEnvironmentVariables c\<rparr>)
      = concat (map (\<lambda>l. l @ '' '' @ nl) (start_lines (conf\<lparr>jc_ENV := filterEnvironmentVariables c\<rparr>)))"
  using env_fold [OF assms, of "[]" k] run_script_lines [of "conf\<lparr>jc_ENV := filterEnvironmentVariables c\<rparr>"]
  by (auto simp: filterEnvironmentVariables_def env_passes_def)

theorem job_environment_witness:
  "mget (filterEnvironmentVariables (zero_container\<lparr>c_Environment := [(''CLUSTER_PASSWORD'', ''secret''), (''A'', ''1'')]\<rparr>))
     ''CLUSTER_PASSWORD'' = None"
proof -
  let ?c = "zero_container\<lparr>c_Environment := [(''CLUSTER_PASSWORD'', ''secret''), (''A'', ''1'')]\<rparr>"
  have "mwf (c_Environment ?c)" by (simp add: mwf_def)
  from job_environment [OF this, of "''CLUSTER_PASSWORD''"] show ?thesis by (simp add: HasPrefix_def)
qed

text \<open>What a job runs and what its script says, as functions of the container.\<close>

definition mpi_prefix :: "string gomap \<Rightarrow> string" where
  "mpi_prefix env = (if mget env ''MPI_VERSION'' = None then []
     else case mget env ''MPI_FLAGS'' of None \<Rightarrow> ''mpirun'' | Some flags \<Rightarrow> ''mpirun '' @ flags @ '' '')"

definition shell_word :: "string \<Rightarrow> string" where
  "shell_word a = concat (map (\<lambda>c. if c = CHR ''('' \<or> c = CHR '')'' then backslash @ [c] else [c]) a)"

definition option_line :: "string gomap \<Rightarrow> string \<Rightarrow> string \<Rightarrow> string \<Rightarrow> string list" where
  "option_line env k pre post = (case mget env k of None \<Rightarrow> [] | Some v \<Rightarrow> [''#SBATCH '' @ pre @ v @ post])"

definition job_lines :: "ContainerMetadata \<Rightarrow> string \<Rightarrow> string list" where
  "job_lines cm command =
     (let env = c_Environment cm in
      [''#!/bin/bash''] @ filter (\<lambda>l. l \<noteq> []) [mstr env ''JOB_CUSTOM_CONFIG'']
      @ [''#SBATCH -J '' @ c_Name cm, ''#SBATCH -o stdout.out'', ''#SBATCH -e sterr.out'']
      @ option_line env ''JOB_QUEUE'' ''-p '' [] @ option_line env ''JOB_GPU'' ''--gres='' '' ''
      @ option_line env ''JOB_NUM_NODES'' ''-N '' [] @ option_line env ''JOB_NUM_CORES_NODE'' ''-c '' []
      @ option_line env ''JOB_NUM_CORES'' ''-n '' [] @ option_line env ''JOB_NUM_TASKS_NODE'' ''--ntasks-per-node='' '' ''
      @ [command])"

lemma command_words:
  "foldl (\<lambda>cmd a. cmd @ CHR '' '' # EscapeSpeciaCharacters a) b cs = b @ concat (map (\<lambda>a. '' '' @ shell_word a) cs)"
  by (induction cs arbitrary: b) (simp_all add: sprintf.simps EscapeSpeciaCharacters_concat shell_word_def)

text \<open>
  C26.  The command of a job is an optional \<open>mpirun\<close> with its flags, \<open>singularity exec\<close> on the
  image's file on the cluster and the words of the container's command with their parentheses
  escaped; the container's arguments do not take part in it.
\<close>

theorem job_command:
  assumes "buildStartCommand sa cm s = Some conf" and "deref (c_Image cm) (imgs s) = Some im"
  shows "jc_Command conf = mpi_prefix (c_Environment cm) @ ''singularity exec $HOME/''
      @ (if sa_ImageRemoteMount sa \<noteq> [] then sa_MountPath sa
         else sa_MountPath sa @ ''/'' @ Base (mstr (c_Extra cm) ''VolumePath''))
      @ ''/.images/'' @ map (\<lambda>c. if c = CHR '':'' \<or> c = CHR ''/'' then CHR ''.'' else c) (i_RemotePath im)
      @ concat (map (\<lambda>a. '' '' @ shell_word a) (c_Command cm))
    \<and> buildStartCommand sa (cm\<lparr>c_Args := args\<rparr>) s = Some conf"
proof
  have "c_Extra (cm\<lparr>c_Args := args\<rparr>) = c_Extra cm" "c_Environment (cm\<lparr>c_Args := args\<rparr>) = c_Environment cm"
    "c_Image (cm\<lparr>c_Args := args\<rparr>) = c_Image cm" "c_Command (cm\<lparr>c_Args := args\<rparr>) = c_Command cm" by simp_all
  then have "buildStartCommand sa (cm\<lparr>c_Args := args\<rparr>) s = buildStartCommand sa cm s"
    by (simp only: buildStartCommand_def GetRMImagePath_def)
  with assms(1) show "buildStartCommand sa (cm\<lparr>c_Args := args\<rparr>) s = Some conf" by simp
  show "jc_Command conf = mpi_prefix (c_Environment cm) @ ''singularity exec $HOME/''
      @ (if sa_ImageRemoteMount sa \<noteq> [] then sa_MountPath sa
         else sa_MountPath sa @ ''/'' @ Base (mstr (c_Extra cm) ''VolumePath''))
      @ ''/.images/'' @ map (\<lambda>c. if c = CHR '':'' \<or> c = CHR ''/'' then CHR ''.'' else c) (i_RemotePath im)
      @ concat (map (\<lambda>a. '' '' @ shell_word a) (c_Command cm))"
    using assms
    by (auto simp: buildStartCommand_def GetRMImagePath_def command_words parseImageFileName_map sprintf.simps
        mpi_prefix_def split: option.splits)
qed

theorem job_command_witness:
  "\<exists>conf. buildStartCommand \<lparr>sa_MountPath = ''multi-cri'', sa_Builder = NewImageBuilderInCluster ex_lib [] [], sa_ImageRemoteMount = ''/img''\<rparr>
      ((ex_ctr CONTAINER_CREATED [])\<lparr>c_Command := [''echo'', ''f(x)'']\<rparr>)
      (ex_state (ex_pod SANDBOX_READY []) (ex_ctr CONTAINER_CREATED []) (zero_image\<lparr>i_RemotePath := ''hub/a:1''\<rparr>)) = Some conf
    \<and> jc_Command conf = ''singularity exec $HOME/multi-cri/.images/hub.a.1 echo f'' @ backslash @ ''(x'' @ backslash @ '')''"
proof -
  let ?sa = "\<lparr>sa_MountPath = ''multi-cri'', sa_Builder = NewImageBuilderInCluster ex_lib [] [], sa_ImageRemoteMount = ''/img''\<rparr>"
  let ?cm = "(ex_ctr CONTAINER_CREATED [])\<lparr>c_Command := [''echo'', ''f(x)'']\<rparr>"
  let ?im = "zero_image\<lparr>i_RemotePath := ''hub/a:1''\<rparr>"
  let ?s = "ex_state (ex_pod SANDBOX_READY []) (ex_ctr CONTAINER_CREATED []) ?im"
  obtain conf where conf: "buildStartCommand ?sa ?cm ?s = Some conf"
    by (simp add: buildStartCommand_def GetRMImagePath_def)
  have "deref (c_Image ?cm) (imgs ?s) = Some ?im" by simp
  from job_command [OF conf this] conf show ?thesis
    by (simp add: mpi_prefix_def shell_word_def ex_ctr_def zero_container_def)
qed

text \<open>What \<open>PullImageScript\<close> leaves in its file before the file is copied and run.\<close>

lemma pull_script_written:
  assumes "SlurmCmd_PullImageScript B sl command img script env s = Some ((sz, None), t)"
  obtains f pre v where "run_pull_script B sl f script v = Some ((sz, None), t)"
    "file_content (files v) f = Some (pre @ concat (map (\<lambda>l. l @ '' '' @ nl) (pull_script_lines command img)))"
proof -
  obtain f s1 where tmp: "tmp_file B ''pullimage'' s = (f, s1)" by (metis prod.exhaust)
  obtain f1 where f1: "os_OpenCreate False f (files s1) = (None, f1)"
    using assms tmp by (cases "os_OpenCreate False f (files s1)") (auto simp: SlurmCmd_PullImageScript_def split: option.splits)
  let ?config = "case mget env ''CLUSTER_CONFIG'' of None \<Rightarrow> (None, f1)
      | Some c \<Rightarrow> (case os_ReadFile c f1 of Inl e \<Rightarrow> (Some e, f1) | Inr fConfig \<Rightarrow> os_Append f fConfig f1)"
  obtain f2 where f2: "?config = (None, f2)"
    using assms tmp f1 by (cases ?config) (auto simp: SlurmCmd_PullImageScript_def split: option.splits)
  obtain f3 where f3: "os_Append f (writeLines [] (pull_script_lines command img)) f2 = (None, f3)"
    using assms tmp f1 f2 by (cases "os_Append f (writeLines [] (pull_script_lines command img)) f2")
      (auto simp: SlurmCmd_PullImageScript_def split: option.splits)
  have run: "run_pull_script B sl f script (s1\<lparr>files := f3\<rparr>) = Some ((sz, None), t)"
    using assms tmp f1 f2 f3 by (simp add: SlurmCmd_PullImageScript_def)
  have "\<exists>c. file_content f1 f = Some c" using f1 by (auto simp: os_OpenCreate_def file_content_def split: if_splits option.splits entry.splits)
  then have "\<exists>c. file_content f2 f = Some c"
    using f2 by (auto simp: os_Append_def file_content_def split: option.splits sum.splits if_splits entry.splits)
  then obtain c where "file_content f2 f = Some c" by blast
  then have "file_content f3 f = Some (c @ concat (map (\<lambda>l. l @ '' '' @ nl) (pull_script_lines command img)))"
    using f3 by (auto simp: os_Append_def file_content_def writeLines_concat split: option.splits if_splits entry.splits)
  with that run show ?thesis by simp
qed

text \<open>
  C27.  With the builder that pulls on the cluster a job runs the image that was pulled for it: the file
  that the pull script writes with \<open>singularity pull\<close> is the one the job's command gives to \<open>singularity exec\<close>,
  and the script makes its directory first and asks for its size last.
\<close>

theorem job_runs_pulled_image:
  assumes "ib_PullImageInCluster (NewImageBuilderInCluster B m r) cm s = Some (None, t)"
    and "deref (c_Image cm) (imgs s) = Some im" and "i_RepoType im \<noteq> LocalImageRepo"
    and "buildStartCommand \<lparr>sa_MountPath = m, sa_Builder = b, sa_ImageRemoteMount = r\<rparr> cm u = Some conf"
    and "deref (c_Image cm) (imgs u) = Some im'" and "i_RemotePath im' = i_RemotePath im"
  shows "\<exists>path auth sl f pre v sz t'.
      jc_Command conf = mpi_prefix (c_Environment cm) @ ''singularity exec '' @ path @ concat (map (\<lambda>a. '' '' @ shell_word a) (c_Command cm))
    \<and> run_pull_script B sl f (getRMImageScript cm) v = Some ((sz, None), t')
    \<and> file_content (files v) f = Some (pre @ concat (map (\<lambda>l. l @ '' '' @ nl)
        [''mkdir -p '' @ Dir path, auth @ '' singularity pull '' @ path @ '' '' @ i_RemotePath im,
         ''stat --print='' @ [CHR 0x27] @ ''FileSize:%s'' @ [CHR 0x27] @ '' '' @ path]))"
proof -
  obtain path where path: "GetRMImagePath cm m r u = Some path" using assms(5) by (simp add: GetRMImagePath_def)
  have command: "jc_Command conf = mpi_prefix (c_Environment cm) @ ''singularity exec '' @ path
      @ concat (map (\<lambda>a. '' '' @ shell_word a) (c_Command cm))"
    using assms(4) path by (auto simp: buildStartCommand_def command_words sprintf.simps mpi_prefix_def split: option.splits)
  obtain q where q: "c_Image cm = Some q" "cells (imgs s) q = Some im" using assms(2) by (cases "c_Image cm") auto
  obtain lp where lp: "getMountImagePath cm m s = Some lp" using assms(2) by (simp add: getMountImagePath_def Let_def)
  let ?s = "s\<lparr>imgs := assign q (im\<lparr>i_LocalPath := lp\<rparr>) (imgs s)\<rparr>"
  have path': "InCluster_GetImagePath \<lparr>bc_MountPoint = m, bc_RemoteMount = r\<rparr> cm ?s = Some path"
    using path assms(5,6) q by (simp add: InCluster_GetImagePath_def GetRMImagePath_def)
  have pull: "do {
       authString \<leftarrow> ParseImageAuth cm ?s;
       let command = sprintf ''%s singularity pull %s %s'' [authString, path, i_RemotePath im];
       (case CreateCMD cm of
          Inl e \<Rightarrow> Some (Some e, ?s)
        | Inr sl \<Rightarrow> do {
            ((sz, err), s) \<leftarrow> SlurmCmd_PullImageScript B sl command path (getRMImageScript cm) (c_Environment cm) ?s;
            s \<leftarrow> set_Size (c_Image cm) sz s;
            Some (err, s)
          }) } = Some (None, t)"
    using assms(1,3) lp q path'
    by (simp add: NewImageBuilderInCluster_def InCluster_PullImageInCluster_def set_LocalPath_def update_image_def Let_def)
  then obtain auth where auth: "ParseImageAuth cm ?s = Some auth" by (auto simp: bind_eq_Some_conv)
  obtain sl where sl: "CreateCMD cm = Inr sl" using pull auth by (cases "CreateCMD cm") simp_all
  let ?cmd = "sprintf ''%s singularity pull %s %s'' [auth, path, i_RemotePath im]"
  obtain sz t' where p: "SlurmCmd_PullImageScript B sl ?cmd path (getRMImageScript cm) (c_Environment cm) ?s = Some ((sz, None), t')"
    using pull auth sl by (auto simp: bind_eq_Some_conv)
  obtain f pre v where "run_pull_script B sl f (getRMImageScript cm) v = Some ((sz, None), t')"
    "file_content (files v) f = Some (pre @ concat (map (\<lambda>l. l @ '' '' @ nl) (pull_script_lines ?cmd path)))"
    by (rule pull_script_written [OF p])
  moreover have "pull_script_lines ?cmd path = [''mkdir -p '' @ Dir path, auth @ '' singularity pull '' @ path @ '' '' @ i_RemotePath im,
      ''stat --print='' @ [CHR 0x27] @ ''FileSize:%s'' @ [CHR 0x27] @ '' '' @ path]"
    by (simp add: pull_script_lines_def sprintf.simps)
  ultimately show ?thesis using command by metis
qed

theorem job_runs_pulled_image_witness:
  "\<exists>t (conf :: JobConfig) path. ib_PullImageInCluster (NewImageBuilderInCluster (ex_lib\<lparr>lib_ssh := ex_ssh ''FileSize:5''\<rparr>) ''multi-cri'' ''/img'')
       ((ex_ctr CONTAINER_CREATED [])\<lparr>c_Environment := [(''CLUSTER_PASSWORD'', ''x'')]\<rparr>)
       (ex_state (ex_pod SANDBOX_READY []) (ex_ctr CONTAINER_CREATED []) (zero_image\<lparr>i_RemotePath := ''docker://a'', i_RepoType := DockerRepositoryImageRepo\<rparr>)) = Some (None, t)
     \<and> jc_Command conf = ''singularity exec '' @ path"
proof -
  let ?B = "ex_lib\<lparr>lib_ssh := ex_ssh ''FileSize:5''\<rparr>"
  let ?cm = "(ex_ctr CONTAINER_CREATED [])\<lparr>c_Environment := [(''CLUSTER_PASSWORD'', ''x'')]\<rparr>"
  let ?im = "zero_image\<lparr>i_RemotePath := ''docker://a'', i_RepoType := DockerRepositoryImageRepo\<rparr>"
  let ?s = "ex_state (ex_pod SANDBOX_READY []) (ex_ctr CONTAINER_CREATED []) ?im"
  let ?b = "NewImageBuilderInCluster ?B ''multi-cri'' ''/img''"
  have "map_option fst (ib_PullImageInCluster ?b ?cm ?s) = Some None" by code_simp
  then obtain t where t: "ib_PullImageInCluster ?b ?cm ?s = Some (None, t)" by auto
  obtain conf where conf: "buildStartCommand \<lparr>sa_MountPath = ''multi-cri'', sa_Builder = ?b, sa_ImageRemoteMount = ''/img''\<rparr> ?cm ?s = Some conf"
    by (simp add: buildStartCommand_def GetRMImagePath_def)
  have im: "deref (c_Image ?cm) (imgs ?s) = Some ?im" "i_RepoType ?im \<noteq> LocalImageRepo" by simp_all
  have "mpi_prefix (c_Environment ?cm) = []" "c_Command ?cm = []" by (simp_all add: mpi_prefix_def ex_ctr_def zero_container_def)
  moreover obtain path where "jc_Command conf = mpi_prefix (c_Environment ?cm) @ ''singularity exec '' @ path
      @ concat (map (\<lambda>a. '' '' @ shell_word a) (c_Command ?cm))"
    using job_runs_pulled_image [OF t im conf im(1) refl] by blast
  ultimately have "jc_Command conf = ''singularity exec '' @ path" by (simp only:) simp
  with t show ?thesis by blast
qed

text \<open>
  C28.  The batch script of a container's job, written to a file that did not exist, has one line
  for the shell, the custom lines, the job's name and outputs, one line per resource variable of
  the container's environment and the command, each ended by a space and a newline.
\<close>

theorem batch_script_lines:
  assumes "buildStartCommand sa cm s = Some conf"
    and "buildSbatch B (setupBatchHeaders cm (conf\<lparr>jc_ENV := env\<rparr>)) s = (Inr p, t)" and "file_content (files s) p = None"
  shows "file_content (files t) p = Some (concat (map (\<lambda>l. l @ '' '' @ nl) (job_lines cm (jc_Command conf))))"
proof -
  let ?conf = "setupBatchHeaders cm (conf\<lparr>jc_ENV := env\<rparr>)"
  have none: "jc_Headers conf = []" "jc_CustomHeaders conf = []"
    using assms(1) by (auto simp: buildStartCommand_def Let_def bind_eq_Some_conv)
  have lines: "sbatch_lines ?conf = job_lines cm (jc_Command conf)"
    by (simp add: sbatch_lines_def setupBatchHeaders_def none job_lines_def opt_header_def option_line_def Let_def
        sprintf.simps StdoutFile_def SterrFile_def mstr_def split: option.split)
  obtain q u where tmp: "tmp_file B ''batch'' s = (q, u)" by (metis prod.exhaust)
  have "jc_Headers ?conf \<noteq> []" by (simp add: setupBatchHeaders_def Let_def)
  then have "append_script q (concat (map (\<lambda>l. l @ '' '' @ nl) (job_lines cm (jc_Command conf)))) u = (Inr p, t)"
    using assms(2) tmp lines by (simp add: buildSbatch_def writeLines_concat)
  moreover have "files u = files s" using tmp by (auto simp: tmp_file_def split: prod.splits)
  ultimately show ?thesis using append_script_content assms(3) by fastforce
qed

theorem batch_script_lines_witness:
  "\<exists>conf p t. buildStartCommand \<lparr>sa_MountPath = ''multi-cri'', sa_Builder = NewImageBuilderInCluster ex_lib [] [], sa_ImageRemoteMount = ''/img''\<rparr>
      (ex_ctr CONTAINER_CREATED []) (ex_state (ex_pod SANDBOX_READY []) (ex_ctr CONTAINER_CREATED []) zero_image) = Some conf
    \<and> buildSbatch ex_lib (setupBatchHeaders (ex_ctr CONTAINER_CREATED []) (conf\<lparr>jc_ENV := []\<rparr>))
        (ex_state (ex_pod SANDBOX_READY []) (ex_ctr CONTAINER_CREATED []) zero_image) = (Inr p, t)
    \<and> file_content (files t) p = Some (concat (map (\<lambda>l. l @ '' '' @ nl) (job_lines (ex_ctr CONTAINER_CREATED []) (jc_Command conf))))"
proof -
  let ?sa = "\<lparr>sa_MountPath = ''multi-cri'', sa_Builder = NewImageBuilderInCluster ex_lib [] [], sa_ImageRemoteMount = ''/img''\<rparr>"
  let ?cm = "ex_ctr CONTAINER_CREATED []"
  let ?s = "ex_state (ex_pod SANDBOX_READY []) ?cm zero_image"
  obtain conf where conf: "buildStartCommand ?sa ?cm ?s = Some conf" by (simp add: buildStartCommand_def GetRMImagePath_def)
  have headers: "jc_Headers (setupBatchHeaders ?cm (conf\<lparr>jc_ENV := []\<rparr>)) \<noteq> []" by (simp add: setupBatchHeaders_def Let_def)
  have "files ?s = ex_fs" by (simp add: ex_state_def empty_state_def)
  then have "\<exists>t. append_script q b ?s = (Inr q, t)" for q b
    by (simp add: append_script_def os_OpenCreate_def os_Append_def ex_fs_def)
  moreover obtain q where "tmp_file ex_lib ''batch'' ?s = (q, ?s)"
    by (simp add: tmp_file_def ex_lib_def ex_go_def)
  ultimately obtain p t where b: "buildSbatch ex_lib (setupBatchHeaders ?cm (conf\<lparr>jc_ENV := []\<rparr>)) ?s = (Inr p, t)"
    using headers unfolding buildSbatch_def Let_def by force
  have "file_content (files ?s) p = None" by (simp add: file_content_def ex_fs_def)
  from batch_script_lines [OF conf b this] conf b show ?thesis by blast
qed

text \<open>
  A script is added to whatever its temporary file already holds: two scripts of the same
  kind written in the same second end up in one file, one after the other.
\<close>

lemma scripts_accumulate:
  assumes "append_script p a s = (Inr q, t)" and "append_script p b t = (Inr r, u)"
  shows "file_content (files u) p = Some ((case file_content (files s) p of None \<Rightarrow> [] | Some c \<Rightarrow> c) @ a @ b)"
  using append_script_content [OF assms(1)] append_script_content [OF assms(2)] by simp

lemma scripts_accumulate_witness:
  "\<exists>q t r u. append_script ''/tmp/x'' ''one'' (empty_state () ex_fs) = (Inr q, t) \<and> append_script ''/tmp/x'' ''two'' t = (Inr r, u)
     \<and> file_content (files u) ''/tmp/x'' = Some ''onetwo''"
proof -
  obtain q t where a: "append_script ''/tmp/x'' ''one'' (empty_state () ex_fs) = (Inr q, t)" and
    t: "t = empty_state () (ex_fs\<lparr>entries := [''/tmp/x'' \<mapsto> File ''one'']\<rparr>)"
    by (simp add: append_script_def os_OpenCreate_def os_Append_def empty_state_def ex_fs_def)
  obtain r u where b: "append_script ''/tmp/x'' ''two'' t = (Inr r, u)"
    by (simp add: t append_script_def os_OpenCreate_def os_Append_def empty_state_def ex_fs_def)
  from scripts_accumulate [OF a b] a b show ?thesis
    by (auto simp: file_content_def empty_state_def ex_fs_def)
qed

text \<open>
  Stopping a container cancels the job whose number was recorded, as long as that number
  fits in 32 bits; the conversion to \<open>int32\<close> then changes nothing.
\<close>

lemma stop_cancels_recorded_job:
  assumes "cells (ctrs s) p = Some cm" and "CreateCMD cm = Inr sl"
    and "0 \<le> c_Pid cm" and "c_Pid cm < 2 ^ 31"
  shows "Slurm_StopContainer B p s = SlurmCmd_Scancel B sl (c_Pid cm) s"
  using assms int32_id [of "c_Pid cm"] by (simp add: Slurm_StopContainer_def)

lemma stop_cancels_recorded_job_witness:
  "\<exists>sl cm. Slurm_StopContainer ex_lib 0 (ex_state (ex_pod SANDBOX_READY []) cm zero_image)
     = SlurmCmd_Scancel ex_lib sl 4711 (ex_state (ex_pod SANDBOX_READY []) cm zero_image)"
proof -
  let ?cm = "(ex_ctr CONTAINER_RUNNING [])\<lparr>c_Pid := 4711, c_Environment := [(''CLUSTER_PASSWORD'', ''x'')]\<rparr>"
  obtain sl where sl: "CreateCMD ?cm = Inr sl" by (simp add: CreateCMD_def NewSlurmCMD_def mstr_def Let_def)
  from stop_cancels_recorded_job [of "ex_state (ex_pod SANDBOX_READY []) ?cm zero_image" 0 ?cm sl ex_lib] sl
  show ?thesis by auto
qed

section \<open>Reading the status\<close>

text \<open>
  C37.  Reading the accounting of a job crashes exactly when the first line has fewer than three
  columns, or an exit code and fewer than five: an accounting without records crashes the
  service.
\<close>

theorem accounting_columns:
  "(parseAcctStatus out = None \<longleftrightarrow>
      (let cs = Split (Split (TrimSpace out) nl ! 0) ''|''
       in length cs < 3 \<or> length cs < 5 \<and> snd (Atoi (Split (cs ! 2) '':'' ! 0))))
   \<and> parseAcctStatus nl = None"
proof
  let ?cs = "Split (Split (TrimSpace out) nl ! 0) ''|''"
  have "Split (TrimSpace out) nl \<noteq> []" by (rule Split_ne) simp
  then show "parseAcctStatus out = None \<longleftrightarrow> (let cs = ?cs
       in length cs < 3 \<or> length cs < 5 \<and> snd (Atoi (Split (cs ! 2) '':'' ! 0)))"
    by (cases "Atoi (Split (?cs ! 2) '':'' ! 0)") (auto simp: parseAcctStatus_def index_def Let_def)
  show "parseAcctStatus nl = None" by code_simp
qed

text \<open>
  C38.  In a row of \<open>sacct\<close> with the columns the adapter asks for (start, end, exit code,
  start, state, comment), the job's state is taken from the second start column and its reason
  from the state column.
\<close>

theorem acct_columns_shifted:
  assumes "\<forall>c \<in> set (a @ b @ x @ d @ st @ com). c \<noteq> CHR ''|'' \<and> \<not> is_space c"
    and "x = itoa n @ '':'' @ y" and "0 \<le> n" and "n \<le> max_int64" and "CHR '':'' \<notin> set y"
  shows "parseAcctStatus (a @ ''|'' @ b @ ''|'' @ x @ ''|'' @ d @ ''|'' @ st @ ''|'' @ com @ ''|'') =
    Some (Inr \<lparr>js_JobState = d, js_ExitCode = n, js_Reason = (if st \<noteq> [] then st else d), js_StarTime = 0, js_EndTime = 0\<rparr>)"
proof -
  let ?out = "a @ ''|'' @ b @ ''|'' @ x @ ''|'' @ d @ ''|'' @ st @ ''|'' @ com @ ''|''"
  have ns: "\<forall>c\<in>set ?out. \<not> is_space c" using assms(1) by (auto simp: is_space_def [of "CHR ''|''"])
  then have trim: "TrimSpace ?out = ?out" by (rule TrimSpace_no_space)
  have "CHR 0x0A \<notin> set ?out" using ns is_space_def [of "CHR 0x0A"] by blast
  then have lines: "Split ?out nl = [?out]" by (rule Split_char_last)
  have bars: "Split ?out ''|'' = [a, b, x, d, st] @ Split (com @ ''|'') ''|''"
    using parseAcct_row [of a b x d st "com @ ''|''"] assms(1) by auto
  have digits: "CHR '':'' \<notin> set (itoa n)"
    using itoa_digits_nonspace [OF assms(3), of "CHR '':''"] by (auto simp: is_digit_def)
  have "Split x '':'' = [itoa n, y]"
    unfolding assms(2) using digits assms(5) by (simp add: Split_char_step Split_char_last)
  then have code: "Atoi (Split x '':'' ! 0) = (n, True)"
    using Atoi_itoa [of n] assms(3,4) by (simp add: min_int64_def)
  show ?thesis
    unfolding parseAcctStatus_def Let_def trim lines
    using bars code by (simp add: index_def ParseDate_zero)
qed

theorem acct_columns_shifted_witness:
  "parseAcctStatus ''2019-01-01T00:00:00|2019-01-01T00:01:00|9:0|2019-01-01T00:00:00|FAILED||'' =
    Some (Inr \<lparr>js_JobState = ''2019-01-01T00:00:00'', js_ExitCode = 9, js_Reason = ''FAILED'', js_StarTime = 0, js_EndTime = 0\<rparr>)"
proof -
  let ?t = "''2019-01-01T00:00:00''"
  have fields: "\<forall>c \<in> set (?t @ ''2019-01-01T00:01:00'' @ ''9:0'' @ ?t @ ''FAILED'' @ []). c \<noteq> CHR ''|'' \<and> \<not> is_space c"
    by code_simp
  have code: "''9:0'' = itoa 9 @ '':'' @ ''0''" by code_simp
  have "CHR '':'' \<notin> set ''0''" "(9::int) \<le> max_int64" by code_simp+
  note acct_columns_shifted [OF fields code _ this(2,1)]
  then show ?thesis by simp
qed

text \<open>
  The state of a container follows the state of its job: running, exited for every final
  state the adapter knows, and created for every other one.
\<close>

lemma job_state_table:
  "c_State (apply_status js cm) =
    (if js_JobState js = ''RUNNING'' then CONTAINER_RUNNING
     else if js_JobState js \<in> {''COMPLETED'', ''COMPLETING'', ''CANCELLED'', ''TIMEOUT'', ''FAILED'', ''NODE_FAIL''}
       then CONTAINER_EXITED
     else CONTAINER_CREATED)"
  by (simp add: apply_status_def Let_def)

section \<open>Connections\<close>

text \<open>
  What the SSH library documents about its connections and sessions, as two counts over the
  outside world: dialling opens a connection, a new session is open until it is closed, and
  nothing else opens or closes either; writing a log does neither.
\<close>

definition ssh_counts :: "'w sshlib \<Rightarrow> ('w \<Rightarrow> nat) \<Rightarrow> ('w \<Rightarrow> nat) \<Rightarrow> bool" where
  "ssh_counts S conns sess \<longleftrightarrow>
     (\<forall>n a m w r w'. ssh_Dial S n a m w = Some (r, w') \<longrightarrow>
        conns w' = (case r of Inl _ \<Rightarrow> conns w | Inr _ \<Rightarrow> Suc (conns w)) \<and> sess w' = sess w) \<and>
     (\<forall>c w r w'. ssh_NewSession S c w = (r, w') \<longrightarrow>
        conns w' = conns w \<and> sess w' = (case r of Inl _ \<Rightarrow> sess w | Inr _ \<Rightarrow> Suc (sess w))) \<and>
     (\<forall>h w r w'. ssh_RequestPty S h w = (r, w') \<longrightarrow> conns w' = conns w \<and> sess w' = sess w) \<and>
     (\<forall>h c w r w'. ssh_Run S h c w = (r, w') \<longrightarrow> conns w' = conns w \<and> sess w' = sess w) \<and>
     (\<forall>h w. conns (ssh_Close S h w) = conns w \<and> sess (ssh_Close S h w) = sess w - 1)"

definition logging_apart :: "'w cilib \<Rightarrow> ('w \<Rightarrow> nat) \<Rightarrow> ('w \<Rightarrow> nat) \<Rightarrow> bool" where
  "logging_apart C conns sess \<longleftrightarrow>
     (\<forall>st n d w x w'. cri_format C st n d w = (x, w') \<longrightarrow> conns w' = conns w \<and> sess w' = sess w)"

lemma write_counts:
  assumes "logging_apart C conns sess"
  shows "conns (world (write_if C l d s)) = conns (world s)" "sess (world (write_if C l d s)) = sess (world s)"
proof -
  have "conns (world (Logger_Write C g d s)) = conns (world s) \<and> sess (world (Logger_Write C g d s)) = sess (world s)" for g
    using assms by (cases g) (auto simp: logging_apart_def split: prod.splits)
  then show "conns (world (write_if C l d s)) = conns (world s)" "sess (world (write_if C l d s)) = sess (world s)"
    by (simp_all add: write_if_def split: option.split)
qed

text \<open>A session attempt: what is open afterwards, by the outcome of the connection and of the session.\<close>

lemma GetSession_counts:
  assumes c: "ssh_counts S conns sess" and a: "client a = None" and g: "SSH_GetSession S tty a s = Some (r, a', t)"
  obtains d w where "ssh_Dial S (sprintf ''%s:%s'' [host a, port a]) (user a) (SSH_auth S a (files s)) (world s) = Some (d, w)"
    "conns (world t) = conns (world s) + (case d of Inl e \<Rightarrow> 0 | Inr k \<Rightarrow> 1)"
    "sess (world t) = sess (world s) + (case r of Inl e \<Rightarrow> 0 | Inr h \<Rightarrow> 1)"
proof -
  obtain d w where d: "ssh_Dial S (sprintf ''%s:%s'' [host a, port a]) (user a) (SSH_auth S a (files s)) (world s) = Some (d, w)"
    using a g by (auto simp: SSH_GetSession_def SSH_Connect_def bind_eq_Some_conv)
  have w: "conns w = conns (world s) + (case d of Inl e \<Rightarrow> 0 | Inr k \<Rightarrow> 1)" "sess w = sess (world s)"
    using c d unfolding ssh_counts_def by (auto split: sum.splits)
  have "conns (world t) = conns w \<and> sess (world t) = sess w + (case r of Inl e \<Rightarrow> 0 | Inr h \<Rightarrow> 1)"
  proof (cases d)
    case (Inl e)
    with a g d show ?thesis by (auto simp: SSH_GetSession_def SSH_Connect_def)
  next
    case (Inr k)
    obtain q w2 where n: "ssh_NewSession S k w = (q, w2)" by (metis prod.exhaust)
    have w2: "conns w2 = conns w" "sess w2 = sess w + (case q of Inl e \<Rightarrow> 0 | Inr h \<Rightarrow> 1)"
      using c n unfolding ssh_counts_def by (auto split: sum.splits)
    show ?thesis
    proof (cases q)
      case (Inl e)
      with a g d Inr n w2 show ?thesis by (auto simp: SSH_GetSession_def SSH_Connect_def onw_def)
    next
      case (Inr h)
      obtain e w3 where p: "ssh_RequestPty S h w2 = (e, w3)" by (metis prod.exhaust)
      have w3: "conns w3 = conns w2" "sess w3 = sess w2" using c p unfolding ssh_counts_def by blast+
      have "r = Inr h \<and> (world t = w2 \<or> world t = w3)"
        using a g d \<open>d = Inr k\<close> n Inr p
        by (cases e) (auto simp: SSH_GetSession_def SSH_Connect_def onw_def split: if_splits)
      with w2 w3 Inr show ?thesis by auto
    qed
  qed
  with d w that show ?thesis by simp
qed

text \<open>A library whose world is the two counts.\<close>

definition counting_ssh :: "(nat \<times> nat) sshlib" where
  "counting_ssh = \<lparr>ssh_ParsePrivateKey = Inr, ssh_Dial = (\<lambda>n a m (c, k). Some (Inr 0, (Suc c, k))),
     ssh_NewSession = (\<lambda>c (n, k). (Inr 0, (n, Suc k))), ssh_RequestPty = (\<lambda>h w. (None, w)),
     ssh_Run = (\<lambda>h c w. ((''ok'', [], None), w)), ssh_Start = (\<lambda>h c w. (None, w)), ssh_StdoutPipe = (\<lambda>h w. (None, w)),
     ssh_ReadPipe = (\<lambda>h w. (([], None), w)), ssh_Wait = (\<lambda>h w. (None, w)), ssh_Close = (\<lambda>h (n, k). (n, k - 1)),
     scp_CopyPath = (\<lambda>a b h f w. (None, w))\<rparr>"

text \<open>
  C30.  Every command run over SSH that returns, whatever its outcome and its loggers, closes the session it
  opened, and leaves open the connection it made, if the cluster was reached: the connection is stored in
  the copy of the client that the method works on, so it is lost.
\<close>

theorem ssh_run_leaks_connection:
  assumes "ssh_counts S conns sess" and "logging_apart C conns sess" and "client a = None"
    and "SSH_Run S C a command so se tty s = Some (result, t)"
  shows "sess (world t) = sess (world s)
    \<and> (\<exists>d w. ssh_Dial S (sprintf ''%s:%s'' [host a, port a]) (user a) (SSH_auth S a (files s)) (world s) = Some (d, w)
       \<and> conns (world t) = conns (world s) + (case d of Inl e \<Rightarrow> 0 | Inr k \<Rightarrow> 1))"
proof -
  obtain r a' u where g: "SSH_GetSession S tty a s = Some (r, a', u)"
    using assms(4) by (auto simp: SSH_Run_def bind_eq_Some_conv)
  obtain d w where d: "ssh_Dial S (sprintf ''%s:%s'' [host a, port a]) (user a) (SSH_auth S a (files s)) (world s) = Some (d, w)"
    and u: "conns (world u) = conns (world s) + (case d of Inl e \<Rightarrow> 0 | Inr k \<Rightarrow> 1)"
      "sess (world u) = sess (world s) + (case r of Inl e \<Rightarrow> 0 | Inr h \<Rightarrow> 1)"
    by (rule GetSession_counts [OF assms(1,3) g])
  have "conns (world t) = conns (world u) \<and> sess (world t) = sess (world s)"
  proof (cases r)
    case (Inl e)
    with assms(4) g u show ?thesis by (simp add: SSH_Run_def)
  next
    case (Inr h)
    obtain out errs err v where x: "ssh_Run S h command (world u) = ((out, errs, err), v)" by (metis prod.exhaust)
    let ?v = "write_if C so out (write_if C se errs (u\<lparr>world := v\<rparr>))"
    have "world t = ssh_Close S h (world ?v)"
      using assms(4) g Inr x by (auto simp: SSH_Run_def onw_def session_Close_def Let_def split: if_splits option.splits)
    moreover have "conns v = conns (world u)" "sess v = sess (world u)" using assms(1) x unfolding ssh_counts_def by blast+
    moreover have "conns (ssh_Close S h y) = conns y" "sess (ssh_Close S h y) = sess y - 1" for y
      using assms(1) unfolding ssh_counts_def by simp_all
    ultimately show ?thesis using u Inr by (simp add: write_counts [OF assms(2)])
  qed
  with d u show ?thesis by auto
qed

theorem ssh_run_leaks_connection_witness:
  "\<exists>t. SSH_Run counting_ssh \<lparr>cri_format = (\<lambda>st n d w. (d, w))\<rparr> (NewSSH ''u'' ''h'' ''22'' None (Some ''p'') None) ''ls''
        (Some (FileLogger ''/tmp/job.log'' Stdout 100)) (Some DiscardLogger) True (empty_state (0, 0) ex_fs)
      = Some ((''ok'', [], None), t) \<and> world t = (1, 0)"
proof -
  let ?C = "\<lparr>cri_format = (\<lambda>st n d w. (d, w))\<rparr> :: (nat \<times> nat) cilib"
  let ?a = "NewSSH ''u'' ''h'' ''22'' None (Some ''p'') None"
  let ?run = "SSH_Run counting_ssh ?C ?a ''ls'' (Some (FileLogger ''/tmp/job.log'' Stdout 100)) (Some DiscardLogger) True
      (empty_state (0, 0) ex_fs)"
  have counts: "ssh_counts counting_ssh fst snd" by (auto simp: ssh_counts_def counting_ssh_def)
  have apart: "logging_apart ?C fst snd" by (simp add: logging_apart_def)
  have "\<exists>t. ?run = Some ((''ok'', [], None), t)"
    by (simp add: SSH_Run_def SSH_GetSession_def SSH_Connect_def NewSSH_def counting_ssh_def onw_def write_if_def Let_def
        empty_state_def split: prod.split)
  then obtain t where t: "?run = Some ((''ok'', [], None), t)" by blast
  have "client ?a = None" by (simp add: NewSSH_def)
  from ssh_run_leaks_connection [OF counts apart this t] have "fst (world t) = 1" "snd (world t) = 0"
    by (auto simp: empty_state_def counting_ssh_def)
  with t show ?thesis by (metis prod.collapse)
qed

end
