(* ===== verification/Properties_Data.thy ===== *)
theory Properties_Data
  imports Example_Host
begin

text \<open>
  Properties of the stores' helpers, the image references, the configuration of remote runtimes,
  the name resolution file of a pod and the firewall rules.
\<close>

section \<open>Image references\<close>

lemma Split_head_char: "Split x [c] ! 0 = takeWhile (\<lambda>d. d \<noteq> c) x"
proof (cases "c \<in> set x")
  case True
  then obtain a b where x: "x = a @ c # b" "c \<notin> set a" by (meson split_list_first)
  have "takeWhile (\<lambda>d. d \<noteq> c) (a @ c # b) = a" using x(2) by (subst takeWhile_append2) auto
  with x show ?thesis by (simp add: Split_char_step)
next
  case False
  then have all: "takeWhile (\<lambda>d. d \<noteq> c) x = x" by (subst takeWhile_eq_all_conv) auto
  show ?thesis unfolding Split_char_last [OF False] all by simp
qed

lemma Split_nth_last: "sep \<noteq> [] \<Longrightarrow> Split s sep ! (length (Split s sep) - 1) = last (Split s sep)"
  by (rule last_conv_nth [symmetric]) (simp add: Split_ne)

lemmas image_prefixes = CRISingularityHubRepository_def CRIDockerRepository_def CRISLocalRepository_def
  CRISLocalDefinitionFile_def

text \<open>
  A separator that ends with a character it has nowhere else does not overlap itself, so what follows
  its last occurrence is the last part, whatever is in front.
\<close>

lemma Split_last:
  assumes sep: "sep = q @ [c]" "c \<notin> set q" and s: "\<not> Contains s sep"
  shows "last (Split (y @ sep @ s) sep) = s"
proof -
  have ne: "sep \<noteq> []" using sep(1) by simp
  have "last (split_scan sep acc (y @ sep @ s)) = s" for acc
  proof (induction y arbitrary: acc rule: length_induct)
    case (1 y)
    show ?case
    proof (cases y)
      case Nil
      have "split_scan sep acc (sep @ s) = rev acc # split_scan sep [] s" by (rule split_scan_prefix [OF ne])
      with Nil s show ?thesis by (simp add: split_scan_absent)
    next
      case (Cons a z)
      show ?thesis
      proof (cases "prefix sep (y @ sep @ s)")
        case False
        with Cons "1.IH" show ?thesis by simp
      next
        case True
        have "length sep \<le> length y"
        proof (rule ccontr)
          assume short: "\<not> length sep \<le> length y"
          then have in_sep: "length sep - 1 - length y < length q" using Cons sep(1) by simp
          obtain z' where "y @ sep @ s = sep @ z'" using True by (auto simp: prefix_def)
          then have "sep ! (length sep - 1) = (y @ sep @ s) ! (length sep - 1)" using ne by (simp add: nth_append)
          also have "\<dots> = (sep @ s) ! (length sep - 1 - length y)"
            using leD [of "length sep" "length y"] short by (subst nth_append) (use sep(1) in auto)
          also have "\<dots> = sep ! (length sep - 1 - length y)"
            using in_sep sep(1) by (subst nth_append) simp
          also have "\<dots> = q ! (length sep - 1 - length y)" using sep(1) in_sep by (simp add: nth_append)
          finally have "c = q ! (length sep - 1 - length y)" using sep(1) by simp
          with in_sep sep(2) show False by auto
        qed
        with True obtain w where w: "y = sep @ w" by (metis prefix_append prefix_def prefix_length_prefix append_eq_append_conv2 append_prefixD)
        have "split_scan sep acc (y @ sep @ s) = rev acc # split_scan sep [] (w @ sep @ s)"
          unfolding w append_assoc by (rule split_scan_prefix [OF ne])
        moreover have "last (split_scan sep [] (w @ sep @ s)) = s" using "1.IH" w ne by simp
        moreover have "split_scan sep [] (w @ sep @ s) \<noteq> []" using Split_ne [OF ne] ne by (simp add: Split_def)
        ultimately show ?thesis by simp
      qed
    qed
  qed
  with ne show ?thesis by (simp add: Split_def)
qed

lemma Split_last_char: "last (Split r [c]) = rev (takeWhile (\<lambda>d. d \<noteq> c) (rev r))"
proof (cases "c \<in> set r")
  case True
  then obtain a b where r: "r = a @ c # b" "c \<notin> set b" by (meson split_list_last)
  have "takeWhile (\<lambda>d. d \<noteq> c) (rev b @ c # rev a) = rev b" using r(2) by (subst takeWhile_append2) auto
  with r Split_last [of "[c]" "[]" c b a] show ?thesis by (simp add: Contains_char)
next
  case False
  then have all: "takeWhile (\<lambda>d. d \<noteq> c) (rev r) = rev r" by (subst takeWhile_eq_all_conv) auto
  show ?thesis unfolding Split_char_last [OF False] all by simp
qed

text \<open>
  C33.  What any image reference is parsed into.  One that begins with a known repository prefix: let r be
  what follows the last occurrence of that prefix.  The prefix gives the repository type and the scheme of the
  URL, and the URL is the scheme and r as it is, its tag included; the reference itself becomes the digest, the
  URL the tag, and the name is the part of r after the last slash, up to the colon.  A reference without a known
  prefix is refused and leaves the image as it was.
\<close>

theorem parse_image_reference:
  "((t, u, ty) \<in> {(''singularity-repository.'', ''shub://'', SingularityRepositoryImageRepo),
        (''docker-repository.'', ''docker://'', DockerRepositoryImageRepo),
        (''local-image.'', [], LocalImageRepo), (''local-def-file.'', [], LocalDefinitionFile)}
      \<and> prefix t (i_RemotePath im) \<and> i_RemotePath im = y @ t @ r \<and> \<not> Contains r t \<longrightarrow>
      ParseImage im = (None, im\<lparr>i_RepoType := ty, i_RepoDigest := [i_RemotePath im],
        i_ImageName := takeWhile (\<lambda>c. c \<noteq> CHR '':'') (rev (takeWhile (\<lambda>c. c \<noteq> CHR ''/'') (rev r))),
        i_RemotePath := u @ r, i_RepoTags := [u @ r]\<rparr>))
   \<and> (\<not> prefix ''singularity-repository.'' (i_RemotePath im) \<and> \<not> prefix ''docker-repository.'' (i_RemotePath im)
      \<and> \<not> prefix ''local-image.'' (i_RemotePath im) \<and> \<not> prefix ''local-def-file.'' (i_RemotePath im) \<longrightarrow>
      ParseImage im = (Some (''Image repository is not supported '' @ i_RemotePath im), im))"
proof (intro conjI impI; (elim conjE)?)
  assume kind: "(t, u, ty) \<in> {(''singularity-repository.'', ''shub://'', SingularityRepositoryImageRepo),
        (''docker-repository.'', ''docker://'', DockerRepositoryImageRepo),
        (''local-image.'', [], LocalImageRepo), (''local-def-file.'', [], LocalDefinitionFile)}"
    and t: "prefix t (i_RemotePath im)" and im: "i_RemotePath im = y @ t @ r" and once: "\<not> Contains r t"
  obtain x where x: "i_RemotePath im = t @ x" using t by (auto simp: prefix_def)
  have image: "image_kind (i_RemotePath im) = Some (t, u, ty)"
    using kind image_kind_prefix [of x, unfolded image_prefixes] x by auto
  have "\<exists>q. t = q @ ''.'' \<and> CHR ''.'' \<notin> set q"
    using kind by (auto intro: exI [of _ "butlast t"])
  then obtain q where "t = q @ [CHR ''.'']" "CHR ''.'' \<notin> set q" by blast
  from Split_last [OF this once] have real: "last (Split (i_RemotePath im) t) = r" unfolding im .
  have "t \<noteq> []" using kind by auto
  with image real show "ParseImage im = (None, im\<lparr>i_RepoType := ty, i_RepoDigest := [i_RemotePath im],
        i_ImageName := takeWhile (\<lambda>c. c \<noteq> CHR '':'') (rev (takeWhile (\<lambda>c. c \<noteq> CHR ''/'') (rev r))),
        i_RemotePath := u @ r, i_RepoTags := [u @ r]\<rparr>)"
    by (simp add: ParseImage_def Let_def Split_nth_last [unfolded One_nat_def] Split_last_char Split_head_char)
next
  assume "\<not> prefix ''singularity-repository.'' (i_RemotePath im)" "\<not> prefix ''docker-repository.'' (i_RemotePath im)"
    "\<not> prefix ''local-image.'' (i_RemotePath im)" "\<not> prefix ''local-def-file.'' (i_RemotePath im)"
  then have "image_kind (i_RemotePath im) = None" by (simp add: image_kind_def HasPrefix_def image_prefixes)
  then show "ParseImage im = (Some (''Image repository is not supported '' @ i_RemotePath im), im)"
    by (simp add: ParseImage_def)
qed

theorem parse_image_reference_witness:
  "ParseImage (zero_image\<lparr>i_RemotePath := ''docker-repository.alpine:3.8''\<rparr>) =
    (None, zero_image\<lparr>i_RepoType := DockerRepositoryImageRepo, i_RepoDigest := [''docker-repository.alpine:3.8''],
       i_ImageName := ''alpine'', i_RemotePath := ''docker://alpine:3.8'', i_RepoTags := [''docker://alpine:3.8'']\<rparr>)
   \<and> i_RemotePath (snd (ParseImage (zero_image\<lparr>i_RemotePath := ''singularity-repository.jorgesece/singularity-nginx:latest''\<rparr>)))
      = ''shub://jorgesece/singularity-nginx:latest''
   \<and> fst (ParseImage (zero_image\<lparr>i_RemotePath := ''alpine:3.8''\<rparr>)) \<noteq> None"
proof -
  have "\<not> Contains ''alpine:3.8'' ''docker-repository.''"
    "\<not> Contains ''jorgesece/singularity-nginx:latest'' ''singularity-repository.''" by code_simp+
  then show ?thesis
    using parse_image_reference [of "''docker-repository.''" "''docker://''" DockerRepositoryImageRepo
        "zero_image\<lparr>i_RemotePath := ''docker-repository.alpine:3.8''\<rparr>" "[]" "''alpine:3.8''"]
      parse_image_reference [of "''singularity-repository.''" "''shub://''" SingularityRepositoryImageRepo
        "zero_image\<lparr>i_RemotePath := ''singularity-repository.jorgesece/singularity-nginx:latest''\<rparr>" "[]"
        "''jorgesece/singularity-nginx:latest''"]
      parse_image_reference [of "[]" "[]" UnknownImageRepo "zero_image\<lparr>i_RemotePath := ''alpine:3.8''\<rparr>" "[]" "[]"]
    by simp
qed

text \<open>
  C32.  Looking an image up by a reference in a well-formed pool never crashes: it answers with
  an image of the pool that the reference matches (by part of its name or ID, or by a tag or
  digest), and with an error exactly when no image of the pool matches.
\<close>

theorem image_lookup:
  assumes "pool_wf i_ID (imgs s) (ImagePool s)"
  shows "\<exists>r err. ImageStorage_GetByID reference s = Some (r, err) \<and> (r = None) = (err \<noteq> None)
    \<and> (case r of
         Some p \<Rightarrow> \<exists>k im. mget (ImagePool s) k = Some p \<and> cells (imgs s) p = Some im \<and> image_matches reference k im
       | None \<Rightarrow> \<forall>k p im. mget (ImagePool s) k = Some p \<and> cells (imgs s) p = Some im \<longrightarrow> \<not> image_matches reference k im)"
proof -
  let ?P = "image_matches reference"
  have wf: "mwf (ImagePool s)" using assms by (simp add: pool_wf_def)
  obtain r where r: "find_image ?P (imgs s) (ImagePool s) = Some r" using find_image_wf [OF assms] by blast
  show ?thesis
  proof (cases r)
    case None
    with r have "\<not> ?P k im" if "mget (ImagePool s) k = Some p" "cells (imgs s) p = Some im" for k p im
      using find_image_None [of ?P, OF _ mget_in_set [OF that(1)] that(2)] by simp
    with r None show ?thesis by (simp add: ImageStorage_GetByID_def image_result_def)
  next
    case (Some p)
    with r obtain k im where "(k, p) \<in> set (ImagePool s)" "cells (imgs s) p = Some im" "?P k im"
      using find_image_Some by blast
    with in_set_mget [OF wf] r Some show ?thesis by (auto simp: ImageStorage_GetByID_def image_result_def)
  qed
qed

theorem image_lookup_witness:
  "\<exists>r err. ImageStorage_GetByID ''box'' (ex_state (ex_pod SANDBOX_READY []) (ex_ctr CONTAINER_CREATED []) (zero_image\<lparr>i_ImageName := ''busybox''\<rparr>))
     = Some (r, err) \<and> (r = None) = (err \<noteq> None)"
proof -
  let ?s = "ex_state (ex_pod SANDBOX_READY []) (ex_ctr CONTAINER_CREATED []) (zero_image\<lparr>i_ImageName := ''busybox''\<rparr>)"
  have "pool_wf i_ID (imgs ?s) (ImagePool ?s)"
    by (auto simp: pool_wf_def mwf_def heap_wf_def ex_state_def ex_heap_def)
  from image_lookup [OF this, of "''box''"] show ?thesis by blast
qed

section \<open>Remote runtimes\<close>

lemma load_plugins_names:
  "load_plugins G ps out s = (Inr r, t) \<Longrightarrow>
   mget r name \<noteq> None \<longleftrightarrow> mget out name \<noteq> None \<or> (\<exists>ep. [name, ep] \<in> (\<lambda>p. Split p '':'') ` set ps)"
proof (induction ps arbitrary: out s)
  case (Cons p ps)
  obtain y u where y: "getRemoteCRI G (Split p '':'' ! 1) (Split p '':'' ! 1) s = (y, u)" by (metis prod.exhaust)
  have len: "length (Split p '':'') = 2" using Cons.prems by (cases "length (Split p '':'') = 2") (simp_all add: Let_def)
  then obtain a b where ab: "Split p '':'' = [a, b]" by (auto simp: numeral_2_eq_2 length_Suc_conv)
  obtain cri where cri: "y = Inr cri" using Cons.prems y len by (cases y) auto
  with Cons.prems y ab have "load_plugins G ps (mset_key a cri out) u = (Inr r, t)" by simp
  from Cons.IH [OF this] ab show ?case by (auto simp: mget_update)
qed simp

text \<open>
  C34.  A configuration of remote runtimes that loads makes exactly the named runtimes known: a
  handler resolves when it is the local one, or when some comma-separated item of the
  configuration is its name and an endpoint, the empty handler standing for \<open>default\<close>.
\<close>

theorem remote_configuration:
  assumes "LoadRemoteRuntimeConfiguration G config s = (Inr r, t)" and "config \<noteq> []"
    and "h \<noteq> MulticriRuntimeHandler" and "r \<noteq> []"
  shows "(\<exists>c. GetRemoteRuntime r h = Inr (Some c)) \<longleftrightarrow>
    (\<exists>ep. [if h = [] then ''default'' else h, ep] \<in> (\<lambda>p. Split p '':'') ` set (Split config '',''))"
proof -
  let ?n = "if h = [] then ''default'' else h"
  have "load_plugins G (Split config '','') [] s = (Inr r, t)"
    using assms(1,2) by (simp add: LoadRemoteRuntimeConfiguration_def)
  from load_plugins_names [OF this, of ?n]
  have "mget r ?n \<noteq> None \<longleftrightarrow> (\<exists>ep. [?n, ep] \<in> (\<lambda>p. Split p '':'') ` set (Split config '',''))" by simp
  moreover have "(\<exists>c. GetRemoteRuntime r h = Inr (Some c)) \<longleftrightarrow> mget r ?n \<noteq> None"
    using assms(3,4) by (simp add: GetRemoteRuntime_def Let_def split: option.split)
  ultimately show ?thesis by simp
qed

theorem remote_configuration_witness:
  "\<exists>r. LoadRemoteRuntimeConfiguration (hl_grpc ex_host) ''default:/run/d.sock'' (empty_state () ex_fs) = (Inr r, empty_state () ex_fs)
     \<and> (\<exists>c. GetRemoteRuntime r [] = Inr (Some c))"
proof -
  let ?r = "[(''default'', ex_remote)]"
  have split: "Split ''default:/run/d.sock'' '','' = [''default:/run/d.sock'']" "Split ''default:/run/d.sock'' '':'' = [''default'', ''/run/d.sock'']"
    by code_simp+
  have load: "LoadRemoteRuntimeConfiguration (hl_grpc ex_host) ''default:/run/d.sock'' (empty_state () ex_fs) = (Inr ?r, empty_state () ex_fs)"
    by (simp add: LoadRemoteRuntimeConfiguration_def split getRemoteCRI_def newRemoteRuntimeClient_def newRemoteImageClient_def
        ex_host_def empty_state_def)
  have "\<exists>c. GetRemoteRuntime ?r [] = Inr (Some c)"
    by (subst remote_configuration [OF load]) (simp_all add: MulticriRuntimeHandler_def split)
  with load show ?thesis by blast
qed

section \<open>Stores\<close>

text \<open>
  C39.  Removing a container from a pod's list, which the source does by cutting the slice it
  ranges over, equals removing that ID when no ID is listed twice.
\<close>

theorem removal_loop_correct:
  assumes "distinct cs"
  shows "remove_container_id k cs = Some (removeAll k cs)"
  by (rule remove_container_id_distinct [OF assms])

theorem removal_loop_correct_witness:
  "remove_container_id ''b'' [''a'', ''b'', ''c''] = Some [''a'', ''c'']"
  by (subst removal_loop_correct) simp_all

section \<open>Network\<close>

text \<open>
  The resolver file of a pod: up to six search domains are accepted, and the file has one
  search line, one line per server and one options line, each only when there is something to
  write; more search domains are an error.
\<close>

lemma resolver_file:
  "parseDNSOptions servers searches options =
    (if 6 < length searches then Inl ''DNSOption.Searches has more than 6 domains''
     else Inr ((if searches = [] then [] else ''search '' @ Join searches '' '' @ nl)
       @ concat (map (\<lambda>x. ''nameserver '' @ x @ nl) servers)
       @ (if options = [] then [] else ''options '' @ Join options '' '' @ nl)))"
proof (cases "6 < length searches")
  case True
  then show ?thesis by (simp add: parseDNSOptions_def maxDNSSearches_def)
qed (simp add: parseDNSOptions_lines)

text \<open>
  C36.  When the host cannot make a network namespace, setting up the network of a pod that wants
  its own crashes instead of failing: \<open>OpenNetNamespace\<close> drops the error and the path of the
  missing namespace is read through a nil handle.
\<close>

theorem lost_namespace_panics:
  assumes "sv_networkNamespace V = CNINetworkManager" and "cells (sbxs s) p = Some sandbox"
    and "get_pod_network (s_Config sandbox) = NamespaceMode_POD"
    and "cnins_NewNS (sv_ns V) (world s) = (Inl e, w)"
  shows "setupPodNetwork V p s = None"
  using assms
  by (simp add: setupPodNetwork_def OpenNetNamespace_def Namespace_GetPath_def CNINetwork_OpenNetNamespace_def NetNS_CreateNetNS_def NetNS_newNetNS_def
      new_NetNS_def NetNS_GetPath_def)

theorem lost_namespace_panics_witness:
  "setupPodNetwork (ex_V\<lparr>sv_ns := ex_ns\<lparr>cnins_NewNS := (\<lambda>w. (Inl ''operation not permitted'', w))\<rparr>\<rparr>) 0
     (ex_state (ex_pod SANDBOX_NOTREADY []) (ex_ctr CONTAINER_CREATED []) zero_image) = None"
  by (rule lost_namespace_panics [where sandbox = "ex_pod SANDBOX_NOTREADY []"])
    (simp_all add: ex_V_def ex_pod_def zero_sandbox_def zero_pod_config_def get_pod_network_def)

lemma add_missing_other: "r \<notin> set rs \<Longrightarrow> count (add_missing rs M) r = count M r"
  by (induction rs arbitrary: M) auto

text \<open>
  C25.  Ensuring the firewall rules, when it succeeds, leaves every rule of the CNI interface
  present, duplicates none, touches no other rule, and changes nothing when it is done again.
\<close>

theorem firewall_rules_ensured:
  assumes "iptables_behaves X rules" and "EnsureCNIIPTableRules X i w = (None, w')"
  shows "set (cni_rules i) \<subseteq> set_mset (rules w')
    \<and> (\<forall>r. count (rules w') r = (if r \<in> set (cni_rules i) then max 1 (count (rules w) r) else count (rules w) r))
    \<and> (\<forall>w''. EnsureCNIIPTableRules X i w' = (None, w'') \<longrightarrow> rules w'' = rules w')"
proof -
  note e = Ensure_effect [OF assms]
  have present: "set (cni_rules i) \<subseteq> set_mset (rules w')"
    unfolding e by (auto intro: add_missing_present)
  have "count (rules w') r = (if r \<in> set (cni_rules i) then max 1 (count (rules w) r) else count (rules w) r)" for r
  proof (cases "r \<in> set (cni_rules i)")
    case True
    have "count (rules w) r \<le> count (rules w') r"
      unfolding e by (rule mset_subset_eq_count [OF add_missing_mono])
    moreover have "r \<in># rules w'" using True present by blast
    then have "1 \<le> count (rules w') r" by (simp only: count_greater_eq_one_iff)
    moreover have "count (rules w') r \<le> max 1 (count (rules w) r)" unfolding e by (rule add_missing_count)
    ultimately have "count (rules w') r = max 1 (count (rules w) r)" by linarith
    then show ?thesis using True by simp
  next
    case False
    then show ?thesis unfolding e by (simp add: add_missing_other)
  qed
  moreover have "rules w'' = rules w'" if "EnsureCNIIPTableRules X i w' = (None, w'')" for w''
    using Ensure_effect [OF assms(1) that] add_missing_idem [OF present] by simp
  ultimately show ?thesis using present by blast
qed

text \<open>An \<open>iptables\<close> whose world is its rules.\<close>

definition ipt :: "string list multiset execlib" where
  "ipt = \<lparr>exec_Run = (\<lambda>cmd w. case cmd of
     x # y # r \<Rightarrow> if y = ''-C'' then (([], r \<in># w), w) else if y = ''-A'' then (([], True), add_mset r w) else (([], True), w)
   | _ \<Rightarrow> (([], True), w))\<rparr>"

lemma ipt_behaves: "iptables_behaves ipt (\<lambda>w. w)"
  by (auto simp: iptables_behaves_def ipt_def)

theorem firewall_rules_ensured_witness:
  "\<exists>w'. EnsureCNIIPTableRules ipt ''cni0'' {#} = (None, w') \<and> set (cni_rules ''cni0'') \<subseteq> set_mset w'"
proof -
  obtain w' where "EnsureCNIIPTableRules ipt ''cni0'' {#} = (None, w')"
    by (simp add: EnsureCNIIPTableRules_def addIPTableTarget_def generateIPTablesCommand_def cni_rules_def
        ensureIPTableRuleExists_def checkIPTableRule_def createIPTableRule_def ipt_def)
  with firewall_rules_ensured [OF ipt_behaves this] show ?thesis by blast
qed

end
