(* ===== verification/Concurrency.thy ===== *)
theory Concurrency
  imports Runtime_Container Runtime_Sandbox
begin

text \<open>
  Requests in flight at the same time.  gRPC serves each request in a goroutine of its own; a
  store's mutex covers a single operation, and nothing covers a handler.  Here the handlers that
  start and stop a container, and those that create a container and remove a pod, are cut where they
  hand over to the adapter, and run interleaved.
\<close>

section \<open>Handlers in steps\<close>

text \<open>
  The three stretches of \<open>StartContainer\<close> and \<open>StopContainer\<close>: up to the checks of the record, the
  adapter's work, and writing the outcome into the record.
\<close>

datatype flight =
    StartCheck string | StartCall ptr | StartRecord ptr "error option"
  | StopCheck string | StopCall ptr | StopRecord ptr
  | Replied "unit reply"

fun flight_step :: "'w multicriService \<Rightarrow> flight \<Rightarrow> 'w mstate \<Rightarrow> (flight \<times> 'w mstate) option" where
  "flight_step V (StartCheck containerId) s =
     (case ContainerStorage_Get containerId s of
        (_, Some e) \<Rightarrow> Some (Replied (None, Some ''Container not found when starting it''), s)
      | (cp, None) \<Rightarrow> do {
          p \<leftarrow> cp;
          cm \<leftarrow> cells (ctrs s) p;
          Some (case Remote_StartContainer (sv_remoteCRI V) (s_RuntimeHandler (c_PodSandbox cm)) containerId s of
             ((Some r, err), s) \<Rightarrow> (Replied (Some r, err), s)
           | ((None, _), s) \<Rightarrow>
               (if c_State cm = CONTAINER_RUNNING then Replied (Some (), Some ''Container already started'')
                else if c_State cm \<noteq> CONTAINER_CREATED then Replied (Some (), Some ''Container failed'')
                else StartCall p, s))
        })"
| "flight_step V (StartCall p) s = do {
     (err, s) \<leftarrow> ad_StartContainer (sv_adapter V) p s;
     Some (StartRecord p err, s)
   }"
| "flight_step V (StartRecord p err) s = do {
     let (t, s) = now (sv_go V) s;
     s \<leftarrow> update_container p (if err \<noteq> None then start_failed t else start_ok t) s;
     s \<leftarrow> ContainerStorage_Update p s;
     Some (Replied (if err \<noteq> None then None else Some (), err), s)
   }"
| "flight_step V (StopCheck containerId) s = do {
     let (cp, errGet) = ContainerStorage_Get containerId s;
     runtimeClass \<leftarrow> container_handler cp s;
     (case Remote_StopContainer (sv_remoteCRI V) runtimeClass containerId s of
        ((Some r, err), s) \<Rightarrow> Some (Replied (Some r, err), s)
      | ((None, _), s) \<Rightarrow>
          (case errGet of
             Some e \<Rightarrow> Some (Replied (None, Some e), s)
           | None \<Rightarrow> do {
               p \<leftarrow> cp;
               cm \<leftarrow> cells (ctrs s) p;
               Some (if c_State cm \<noteq> CONTAINER_RUNNING then Replied (Some (), None) else StopCall p, s)
             }))
   }"
| "flight_step V (StopCall p) s = do {
     (err, s) \<leftarrow> ad_StopContainer (sv_adapter V) p s;
     Some (case err of Some e \<Rightarrow> Replied (None, Some e) | None \<Rightarrow> StopRecord p, s)
   }"
| "flight_step V (StopRecord p) s = do {
     let (t, s) = now (sv_go V) s;
     s \<leftarrow> update_container p (\<lambda>cm. cm\<lparr>c_State := CONTAINER_EXITED, c_FinishedAt := t\<rparr>) s;
     s \<leftarrow> ContainerStorage_Update p s;
     Some (Replied (Some (), None), s)
   }"
| "flight_step V (Replied r) s = None"

text \<open>A request that runs alone is the handler.\<close>

fun alone :: "'w multicriService \<Rightarrow> nat \<Rightarrow> flight \<Rightarrow> 'w mstate \<Rightarrow> (unit reply \<times> 'w mstate) option" where
  "alone V n (Replied r) s = Some (r, s)"
| "alone V 0 f s = None"
| "alone V (Suc n) f s = do { (f, s) \<leftarrow> flight_step V f s; alone V n f s }"

lemma alone_start: "alone V 3 (StartCheck k) s = StartContainer V k s"
  by (cases "ContainerStorage_Get k s"; cases "snd (ContainerStorage_Get k s)")
    (auto simp: StartContainer_def numeral_3_eq_3 Option.bind_assoc intro!: Option.bind_cong
      split: prod.splits option.splits)

lemma alone_stop: "alone V 3 (StopCheck k) s = StopContainer V k s"
  by (auto simp: StopContainer_def numeral_3_eq_3 Option.bind_assoc intro!: Option.bind_cong
      split: prod.splits option.splits)

text \<open>
  The stretches of \<open>CreateContainer\<close>, up to the request to the pod's runtime, the new container, and
  its entry in the pod's record, which goes back into the store; and of \<open>RemovePodSandbox\<close>.
\<close>

datatype pod_flight =
    CreateCheck CreateContainerRequest | CreateBody CreateContainerRequest ptr "string option" | CreateLink ptr ptr
  | Created "string reply"
  | RemoveCheck string | RemoveCall ptr | RemoveDrop "ptr option" | Removed "unit reply"

fun pod_step :: "'w multicriService \<Rightarrow> pod_flight \<Rightarrow> 'w mstate \<Rightarrow> (pod_flight \<times> 'w mstate) option" where
  "pod_step V (CreateCheck req) s =
     (case SandboxStorage_Get (cr_PodSandboxId req) s of
        (_, Some e) \<Rightarrow> Some (Created (None, Some e), s)
      | (sp, None) \<Rightarrow> do {
          sp \<leftarrow> sp;
          sandbox \<leftarrow> cells (sbxs s) sp;
          Some (case Remote_CreateContainer (sv_remoteCRI V) (s_RuntimeHandler sandbox) req s of
             ((_, Some e), s) \<Rightarrow> (Created (None, Some e), s)
           | ((response, None), s) \<Rightarrow> (CreateBody req sp response, s))
        })"
| "pod_step V (CreateBody req sp response) s = do {
     (r, s) \<leftarrow> (case response of None \<Rightarrow> create_local V req sp s | Some k \<Rightarrow> create_remote V req sp k s);
     Some (case r of Inl e \<Rightarrow> Created (None, Some e) | Inr p \<Rightarrow> CreateLink sp p, s)
   }"
| "pod_step V (CreateLink sp p) s = do {
     container \<leftarrow> cells (ctrs s) p;
     sandbox \<leftarrow> cells (sbxs s) sp;
     let s = s\<lparr>sbxs := assign sp (sandbox\<lparr>s_Containers := s_Containers sandbox @ [c_ID container]\<rparr>) (sbxs s)\<rparr>;
     s \<leftarrow> SandboxStorage_Update sp s;
     Some (Created (Some (c_ID container), None), s)
   }"
| "pod_step V (RemoveCheck podId) s = do {
     let (sp, errGet) = SandboxStorage_Get podId s;
     h \<leftarrow> handler_of sp s;
     (case Remote_RemovePodSandbox (sv_remoteCRI V) h podId s of
        ((_, Some e), s) \<Rightarrow> Some (Removed (None, Some e), s)
      | ((Some _, None), s) \<Rightarrow> Some (RemoveDrop sp, s)
      | ((None, None), s) \<Rightarrow>
          (case sp of
             None \<Rightarrow> Some (Removed (None, Some ''Sandbox not found when removing it''), s)
           | Some p \<Rightarrow> do {
               sandbox \<leftarrow> cells (sbxs s) p;
               Some (if s_State sandbox = SANDBOX_READY
                 then Removed (None, Some (sprintf ''Sandbox %q is running. First stop it '' [quote podId]))
                 else RemoveCall p, s)
             }))
   }"
| "pod_step V (RemoveCall p) s = do {
     (err, s) \<leftarrow> ad_RemovePodSandbox (sv_adapter V) p s;
     Some (case err of Some e \<Rightarrow> Removed (None, Some e) | None \<Rightarrow> RemoveDrop (Some p), s)
   }"
| "pod_step V (RemoveDrop sp) s = do {
     k \<leftarrow> (case sp of None \<Rightarrow> Some [] | Some p \<Rightarrow> map_option s_ID (cells (sbxs s) p));
     Some (Removed (Some (), None), SandboxStorage_Remove k s)
   }"
| "pod_step V (Created r) s = None"
| "pod_step V (Removed r) s = None"

text \<open>Run alone, the stretches are the handlers.\<close>

fun pod_alone :: "'w multicriService \<Rightarrow> nat \<Rightarrow> pod_flight \<Rightarrow> 'w mstate \<Rightarrow> (pod_flight \<times> 'w mstate) option" where
  "pod_alone V n (Created r) s = Some (Created r, s)"
| "pod_alone V n (Removed r) s = Some (Removed r, s)"
| "pod_alone V 0 f s = None"
| "pod_alone V (Suc n) f s = do { (f, s) \<leftarrow> pod_step V f s; pod_alone V n f s }"

lemma map_bind: "map_option f (Option.bind m g) = Option.bind m (\<lambda>x. map_option f (g x))"
  by (cases m) simp_all

lemma alone_create: "pod_alone V 3 (CreateCheck req) s = map_option (\<lambda>(r, t). (Created r, t)) (CreateContainer V req s)"
  by (auto simp: CreateContainer_def numeral_3_eq_3 Option.bind_assoc map_bind Let_def intro!: Option.bind_cong
      split: prod.splits option.splits sum.splits)

lemma alone_remove: "pod_alone V 3 (RemoveCheck k) s = map_option (\<lambda>(r, t). (Removed r, t)) (RemovePodSandbox V k s)"
  by (auto simp: RemovePodSandbox_def numeral_3_eq_3 Option.bind_assoc map_bind Let_def intro!: Option.bind_cong
      split: prod.splits option.splits)

section \<open>Interleaving\<close>

inductive interleaved :: "('f \<Rightarrow> 's \<Rightarrow> ('f \<times> 's) option) \<Rightarrow> 'f list \<Rightarrow> 's \<Rightarrow> 'f list \<Rightarrow> 's \<Rightarrow> bool"
  for advance :: "'f \<Rightarrow> 's \<Rightarrow> ('f \<times> 's) option" and fs :: "'f list" and s :: 's where
  none: "interleaved advance fs s fs s"
| moves: "interleaved advance fs s gs t \<Longrightarrow> i < length gs \<Longrightarrow> advance (gs ! i) t = Some (g, u) \<Longrightarrow>
    interleaved advance fs s (gs[i := g]) u"

lemma move_pair:
  "interleaved A fs s [f, g] t \<Longrightarrow> A f t = Some (f', u) \<Longrightarrow> interleaved A fs s [f', g] u"
  "interleaved A fs s [f, g] t \<Longrightarrow> A g t = Some (g', u) \<Longrightarrow> interleaved A fs s [f, g'] u"
  using interleaved.moves [of A fs s "[f, g]" t 0 f' u] interleaved.moves [of A fs s "[f, g]" t 1 g' u] by auto

text \<open>The containers that a request in flight holds on to are still filed.\<close>

fun holds :: "'w mstate \<Rightarrow> flight \<Rightarrow> bool" where
  "holds s (StartCall p) \<longleftrightarrow> (\<exists>k. mget (ContainerPool s) k = Some p)"
| "holds s (StartRecord p err) \<longleftrightarrow> (\<exists>k. mget (ContainerPool s) k = Some p)"
| "holds s (StopCall p) \<longleftrightarrow> (\<exists>k. mget (ContainerPool s) k = Some p)"
| "holds s (StopRecord p) \<longleftrightarrow> (\<exists>k. mget (ContainerPool s) k = Some p)"
| "holds s f \<longleftrightarrow> True"

lemma same_container_start: "same_container cm (start_failed n cm)" "same_container cm (start_ok n cm)"
  by (simp_all add: start_failed_def start_ok_def same_container_def)

lemma same_container_stop: "same_container cm (cm\<lparr>c_State := CONTAINER_EXITED, c_FinishedAt := n\<rparr>)"
  by (simp add: same_container_def)

lemma start_check_holds:
  assumes "flight_step V (StartCheck k) s = Some (g, t)"
  shows "same_stores s t \<and> holds s g"
proof (rule ContainerGet_cases [of k s])
  fix p assume g: "ContainerStorage_Get k s = (Some p, None)" "mget (ContainerPool s) k = Some p"
  with assms obtain cm where cm: "cells (ctrs s) p = Some cm" by (auto simp: bind_eq_Some_conv)
  obtain x e u where r: "Remote_StartContainer (sv_remoteCRI V) (s_RuntimeHandler (c_PodSandbox cm)) k s = ((x, e), u)"
    by (metis prod.exhaust)
  then have "same_stores s u" by (auto simp: Remote_StartContainer_def dest: route_frame)
  with assms g cm r show ?thesis by (cases x) (auto split: if_splits)
qed (use assms in auto)

lemma stop_check_holds:
  assumes "flight_step V (StopCheck k) s = Some (g, t)"
  shows "same_stores s t \<and> holds s g"
proof (rule ContainerGet_cases [of k s])
  fix p assume g: "ContainerStorage_Get k s = (Some p, None)" "mget (ContainerPool s) k = Some p"
  with assms obtain h where h: "container_handler (Some p) s = Some h" by (auto simp: bind_eq_Some_conv)
  obtain x e u where r: "Remote_StopContainer (sv_remoteCRI V) h k s = ((x, e), u)" by (metis prod.exhaust)
  then have "same_stores s u" by (auto simp: Remote_StopContainer_def dest: route_frame)
  with assms g h r show ?thesis by (cases x) (auto simp: bind_eq_Some_conv split: if_splits)
next
  fix e assume g: "ContainerStorage_Get k s = (None, Some e)"
  obtain x d u where r: "Remote_StopContainer (sv_remoteCRI V) [] k s = ((x, d), u)" by (metis prod.exhaust)
  then have "same_stores s u" by (auto simp: Remote_StopContainer_def dest: route_frame)
  with assms g r show ?thesis by (cases x) (auto simp: container_handler_def)
qed

context runtime
begin

text \<open>Starting a created local container, step by step.\<close>

lemma start_checks:
  assumes "mget (ContainerPool s) k = Some p" and "cells (ctrs s) p = Some cm"
    and "GetRemoteRuntime (sv_remoteCRI V) (s_RuntimeHandler (c_PodSandbox cm)) = Inr None"
  shows "flight_step V (StartCheck k) s = Some (
    if c_State cm = CONTAINER_RUNNING then Replied (Some (), Some ''Container already started'')
    else if c_State cm \<noteq> CONTAINER_CREATED then Replied (Some (), Some ''Container failed'') else StartCall p, s)"
  using assms by (simp add: ContainerStorage_Get_def Remote_StartContainer_def route_none)

lemma start_calls:
  assumes "ad_StartContainer (sv_adapter V) p s = Some (err, t)" and "cells (ctrs s) p = Some cm"
  obtains c where "flight_step V (StartCall p) s = Some (StartRecord p err, t)" "cells (ctrs t) p = Some c"
    "same_container cm c" "ContainerPool t = ContainerPool s"
proof -
  have f: "adapter_frame s t" by (rule steady_adapter_frame [OF keepsD [OF start_container assms(1)]])
  obtain c where "cells (ctrs t) p = Some c" "same_container cm c" by (rule adapter_frame_container [OF f assms(2)])
  with f assms(1) that show ?thesis by (simp add: adapter_frame_def)
qed

lemma start_records:
  assumes "mget (ContainerPool s) k = Some p" and "cells (ctrs s) p = Some cm" and "c_ID cm = k"
  obtains t n where "flight_step V (StartRecord p None) s = Some (Replied (Some (), None), t)"
    "cells (ctrs t) p = Some (start_ok n cm)" "mget (ContainerPool t) k = Some p"
proof -
  obtain n v where n: "now (sv_go V) s = (n, v)" by (metis prod.exhaust)
  have v: "ctrs v = ctrs s" "ContainerPool v = ContainerPool s" using now_same [OF n] by (simp_all add: same_stores_def)
  let ?w = "v\<lparr>ctrs := assign p (start_ok n cm) (ctrs v)\<rparr>"
  have upd: "update_container p (start_ok n) v = Some ?w" using assms(2) v by (simp add: update_container_def)
  have cell: "cells (ctrs ?w) p = Some (start_ok n cm)" by simp
  from container_store.put_defined [OF cell] obtain t where t: "ContainerStorage_Update p ?w = Some t" by blast
  have "mget (ContainerPool t) k = Some p"
    using container_store.put_lookup [OF t cell, of k] assms v by (simp add: start_ok_def)
  moreover have "cells (ctrs t) p = Some (start_ok n cm)" using container_store.put_heap [OF t] by simp
  ultimately show ?thesis using that n upd t by simp
qed

text \<open>One start after the other.\<close>

lemma serial_starts:
  assumes "mget (ContainerPool s) k = Some p" and "cells (ctrs s) p = Some cm"
    and "c_ID cm = k" and "c_State cm = CONTAINER_CREATED"
    and "GetRemoteRuntime (sv_remoteCRI V) (s_RuntimeHandler (c_PodSandbox cm)) = Inr None"
    and "ad_StartContainer (sv_adapter V) p s = Some (None, s1)"
  shows "\<exists>t. StartContainer V k s = Some ((Some (), None), t)
    \<and> StartContainer V k t = Some ((Some (), Some ''Container already started''), t)"
proof -
  have c: "flight_step V (StartCheck k) s = Some (StartCall p, s)" using start_checks [OF assms(1,2,5)] assms(4) by simp
  obtain x where x: "flight_step V (StartCall p) s = Some (StartRecord p None, s1)" "cells (ctrs s1) p = Some x"
    "same_container cm x" "ContainerPool s1 = ContainerPool s" by (rule start_calls [OF assms(6,2)])
  obtain t n where t: "flight_step V (StartRecord p None) s1 = Some (Replied (Some (), None), t)"
    "cells (ctrs t) p = Some (start_ok n x)" "mget (ContainerPool t) k = Some p"
    by (rule start_records [of s1 k p x]) (use x assms(1,3) in \<open>simp_all add: same_container_def\<close>)
  have "c_State (start_ok n x) = CONTAINER_RUNNING" "c_PodSandbox (start_ok n x) = c_PodSandbox cm"
    using x(3) by (simp_all add: start_ok_def same_container_def)
  with start_checks [OF t(3,2)] assms(5)
  have d: "flight_step V (StartCheck k) t = Some (Replied (Some (), Some ''Container already started''), t)" by simp
  have "alone V 3 (StartCheck k) s = Some ((Some (), None), t)"
    "alone V 3 (StartCheck k) t = Some ((Some (), Some ''Container already started''), t)"
    using c x(1) t(1) d by (simp_all add: numeral_3_eq_3 del: flight_step.simps)
  then show ?thesis by (auto simp: alone_start)
qed

text \<open>A pod that is removed between the two last stretches of \<open>CreateContainer\<close>.\<close>

lemma removed_pod_returns:
  assumes "mget (SandboxPool s) (cr_PodSandboxId req) = Some sp" and "cells (sbxs s) sp = Some sandbox"
    and "s_ID sandbox = cr_PodSandboxId req" and "s_State sandbox = SANDBOX_NOTREADY"
    and "GetRemoteRuntime (sv_remoteCRI V) (s_RuntimeHandler sandbox) = Inr None"
    and "create_local V req sp s = Some (Inr p, s1)" and "ad_RemovePodSandbox (sv_adapter V) sp s1 = Some (None, s2)"
  shows "\<exists>u t cid. interleaved (pod_step V) [CreateCheck req, RemoveCheck (cr_PodSandboxId req)] s [CreateLink sp p, Removed (Some (), None)] u
    \<and> mget (SandboxPool u) (cr_PodSandboxId req) = None
    \<and> pod_step V (CreateCheck req) u = Some (Created (None, Some ''Pod not found''), u)
    \<and> pod_step V (CreateLink sp p) u = Some (Created (Some cid, None), t)
    \<and> mget (SandboxPool t) (cr_PodSandboxId req) = Some sp"
proof -
  let ?k = "cr_PodSandboxId req"
  note mv = move_pair [where A = "pod_step V"]
  have c1: "pod_step V (CreateCheck req) s = Some (CreateBody req sp None, s)"
    using assms(1,2,5) by (simp add: SandboxStorage_Get_def Remote_CreateContainer_def route_none)
  have c2: "pod_step V (CreateBody req sp None) s = Some (CreateLink sp p, s1)" using assms(6) by simp
  from create_local_effect [OF adapter_axioms assms(6,2)] obtain cm where
    s1: "sbxs s1 = sbxs s" "SandboxPool s1 = SandboxPool s" "cells (ctrs s1) p = Some cm" by blast
  have r1: "pod_step V (RemoveCheck ?k) s1 = Some (RemoveCall sp, s1)"
    using assms(1,2,4,5) s1 by (simp add: SandboxStorage_Get_def handler_of_def Remote_RemovePodSandbox_def route_none)
  have r2: "pod_step V (RemoveCall sp) s1 = Some (RemoveDrop (Some sp), s2)" using assms(7) by simp
  have f: "adapter_frame s1 s2" by (rule steady_adapter_frame [OF keepsD [OF remove_sandbox assms(7)]])
  then have s2: "sbxs s2 = sbxs s" "SandboxPool s2 = SandboxPool s" using s1 by (simp_all add: adapter_frame_def)
  obtain x where x: "cells (ctrs s2) p = Some x" by (rule adapter_frame_container [OF f s1(3)])
  let ?u = "SandboxStorage_Remove ?k s2"
  have r3: "pod_step V (RemoveDrop (Some sp)) s2 = Some (Removed (Some (), None), ?u)" using s2 assms(2,3) by simp
  have u: "sbxs ?u = sbxs s" "mget (SandboxPool ?u) ?k = None"
    using sandbox_store.rem_heap [of ?k s2] sandbox_store.rem_lookup [of ?k s2 ?k] s2 by simp_all
  have ux: "cells (ctrs ?u) p = Some x"
    using x by (auto simp: SandboxStorage_Remove_def SandboxPersist_Delete_def Let_def split: option.splits prod.splits)
  let ?sm = "sandbox\<lparr>s_Containers := s_Containers sandbox @ [c_ID x]\<rparr>"
  let ?v = "?u\<lparr>sbxs := assign sp ?sm (sbxs ?u)\<rparr>"
  have v: "cells (sbxs ?v) sp = Some ?sm" by simp
  from sandbox_store.put_defined [OF v] obtain t where t: "SandboxStorage_Update sp ?v = Some t" by blast
  have "pod_step V (CreateLink sp p) ?u = Some (Created (Some (c_ID x), None), t)" using ux u assms(2) t by (simp add: Let_def)
  moreover have "mget (SandboxPool t) ?k = Some sp" using sandbox_store.put_lookup [OF t v, of ?k] assms(3) by simp
  moreover have "interleaved (pod_step V) [CreateCheck req, RemoveCheck ?k] s [CreateLink sp p, Removed (Some (), None)] ?u"
    by (rule mv(2) [OF mv(2) [OF mv(2) [OF mv(1) [OF mv(1) [OF interleaved.none c1] c2] r1] r2] r3])
  moreover have "pod_step V (CreateCheck req) ?u = Some (Created (None, Some ''Pod not found''), ?u)"
    using u(2) by (simp add: SandboxStorage_Get_def)
  ultimately show ?thesis using u(2) by blast
qed

end

end
