(* ===== verification/Interleaving.thy ===== *)
theory Interleaving
  imports Concurrency
begin

text \<open>
  Starts, stops, creations and pod removals in flight at the same time.  Every stretch of a handler
  keeps the invariant on its own, whatever the others did since the last one: what a stretch
  relies on, an object that is live and has what the checks found in it, is never taken away.
\<close>

section \<open>All requests in flight\<close>

datatype request_flight = ContainerFlight flight | PodFlight pod_flight

fun request_step :: "'w multicriService \<Rightarrow> request_flight \<Rightarrow> 'w mstate \<Rightarrow> (request_flight \<times> 'w mstate) option" where
  "request_step V (ContainerFlight f) s = do { (g, t) \<leftarrow> flight_step V f s; Some (ContainerFlight g, t) }"
| "request_step V (PodFlight f) s = do { (g, t) \<leftarrow> pod_step V f s; Some (PodFlight g, t) }"

section \<open>What every stretch leaves in place\<close>

definition sound :: "'w multicriService \<Rightarrow> 'w mstate \<Rightarrow> ptr \<Rightarrow> bool" where
  "sound V s p \<longleftrightarrow> (\<exists>cm. cells (ctrs s) p = Some cm \<and> image_held (sv_remoteCRI V) (imgs s) cm)"

definition pod_runtime :: "'w mstate \<Rightarrow> ptr \<Rightarrow> string option" where
  "pod_runtime s sp = map_option s_RuntimeHandler (cells (sbxs s) sp)"

definition advances :: "'w multicriService \<Rightarrow> 'w mstate \<Rightarrow> 'w mstate \<Rightarrow> bool" where
  "advances V s t \<longleftrightarrow> (Inv V s \<longrightarrow> Inv V t \<and> (\<forall>p. sound V s p \<longrightarrow> sound V t p)
     \<and> (\<forall>sp h. pod_runtime s sp = Some h \<longrightarrow> pod_runtime t sp = Some h)
     \<and> (\<forall>k. mget (ContainerPool s) k \<noteq> None \<longrightarrow> mget (ContainerPool t) k \<noteq> None))"

lemma transp_advances: "transp (advances V)"
  by (rule transpI) (simp add: advances_def)

lemma advances_trans: "advances V s t \<Longrightarrow> advances V t u \<Longrightarrow> advances V s u"
  using transp_advances by (rule transpD)

lemma advances_refl [simp]: "advances V s s"
  by (simp add: advances_def)

lemmas adv_bind = keeps_bind [OF transp_advances]
lemmas adv_step = keeps_step [OF transp_advances]

lemma adv_state:
  "(\<And>t. m = Some t \<Longrightarrow> advances V s t) \<Longrightarrow> (\<And>t. m = Some t \<Longrightarrow> keeps (advances V) t (f t)) \<Longrightarrow>
   keeps (advances V) s (Option.bind m f)"
  by (cases m) (auto intro: adv_step)

lemma adv_stores: "same_stores s t \<Longrightarrow> advances V s t"
  using same_stores_evolves [of s t V]
  by (simp add: advances_def evolves_def sound_def pod_runtime_def same_stores_def)

lemma adv_frame: "adapter_frame s t \<Longrightarrow> advances V s t"
proof (unfold advances_def, intro impI conjI allI)
  assume f: "adapter_frame s t" and inv: "Inv V s"
  show "Inv V t" by (rule adapter_frame_Inv [OF f inv])
  show "sound V t p" if held: "sound V s p" for p
  proof -
    obtain cm where cm: "cells (ctrs s) p = Some cm" "image_held (sv_remoteCRI V) (imgs s) cm" using held by (auto simp: sound_def)
    obtain c where c: "cells (ctrs t) p = Some c" "same_container cm c" by (rule adapter_frame_container [OF f cm(1)])
    have "cells (imgs t) q \<noteq> None" if "cells (imgs s) q \<noteq> None" for q
    proof -
      have "rel_option same_image (cells (imgs s) q) (cells (imgs t) q)" using f unfolding adapter_frame_def by blast
      with that show ?thesis by (cases "cells (imgs t) q") auto
    qed
    from image_held_mono [OF this cm(2)] c show ?thesis by (auto simp: sound_def image_held_def same_container_def)
  qed
  show "pod_runtime s sp = Some h \<Longrightarrow> pod_runtime t sp = Some h" for sp h
    using f by (simp add: pod_runtime_def adapter_frame_def)
  show "mget (ContainerPool s) k \<noteq> None \<Longrightarrow> mget (ContainerPool t) k \<noteq> None" for k
    using f by (simp add: adapter_frame_def)
qed

lemma adv_steady: "keeps steady s m \<Longrightarrow> keeps (advances V) s m"
  by (auto simp: keeps_def intro: adv_frame steady_adapter_frame)

lemma adv_container_Update:
  assumes "ContainerStorage_Update p s = Some t" and "sound V s p"
  shows "advances V s t"
proof -
  obtain cm where cm: "cells (ctrs s) p = Some cm" "image_held (sv_remoteCRI V) (imgs s) cm" using assms(2) by (auto simp: sound_def)
  have "imgs t = imgs s"
    using assms(1) cm(1) persist_container_same [of "s\<lparr>ContainerPool := mset_key (c_ID cm) p (ContainerPool s)\<rparr>" cm]
    by (auto simp: ContainerStorage_Update_def same_stores_def)
  moreover have "mget (ContainerPool t) k \<noteq> None" if "mget (ContainerPool s) k \<noteq> None" for k
    using container_store.put_lookup [OF assms(1) cm(1)] that by simp
  ultimately show ?thesis
    using ev_container_Update [OF assms(1) cm] container_store.put_heap [OF assms(1)] container_Update_pods [OF assms(1)]
    by (simp add: advances_def evolves_def sound_def pod_runtime_def)
qed

lemma adv_image_Update:
  assumes "ImageStorage_Update q s = Some t"
  shows "advances V s t"
  using ev_image_Update [OF assms, of V] image_Update_others [OF assms] image_store.put_heap [OF assms]
  by (simp add: advances_def evolves_def sound_def pod_runtime_def)

lemma adv_sandbox_Update:
  assumes "SandboxStorage_Update p s = Some t"
  shows "advances V s t"
proof -
  obtain v where "t = SandboxStorage_persist_Put v (s\<lparr>SandboxPool := mset_key (s_ID v) p (SandboxPool s)\<rparr>)"
    using assms by (auto simp: SandboxStorage_Update_def bind_eq_Some_conv)
  then have "imgs t = imgs s"
    using persist_sandbox_same [of "s\<lparr>SandboxPool := mset_key (s_ID v) p (SandboxPool s)\<rparr>" v] by (simp add: same_stores_def)
  then show ?thesis
    using ev_sandbox_Update [OF assms, of V] sandbox_Update_containers [OF assms] sandbox_store.put_heap [OF assms]
    by (simp add: advances_def evolves_def sound_def pod_runtime_def)
qed

lemma adv_sandbox_Remove: "advances V s (SandboxStorage_Remove k s)"
proof -
  have "ctrs (SandboxStorage_Remove k s) = ctrs s \<and> imgs (SandboxStorage_Remove k s) = imgs s
      \<and> ContainerPool (SandboxStorage_Remove k s) = ContainerPool s"
    by (auto simp: SandboxStorage_Remove_def SandboxPersist_Delete_def Let_def split: option.split prod.split)
  with ev_sandbox_Remove [of V s k] show ?thesis
    by (simp add: advances_def evolves_def sound_def pod_runtime_def sandbox_store.rem_heap)
qed

lemma adv_assign_sandbox:
  assumes "cells (sbxs s) p = Some sm" and "s_ID sm' = s_ID sm" and "s_NetNSPath sm' = s_NetNSPath sm"
    and "s_RuntimeHandler sm' = s_RuntimeHandler sm"
  shows "advances V s (s\<lparr>sbxs := assign p sm' (sbxs s)\<rparr>)"
  using ev_assign_sandbox [OF assms(1-3), of V] assms(1,4)
  by (auto simp: advances_def evolves_def sound_def pod_runtime_def)

text \<open>A new container is sound when its image or its runtime is there.\<close>

lemma adv_create_container:
  assumes c: "ContainerStorage_CreateContainerMetadata L name (Some sp) st at img cmd args svc config env prt ident s = Some (p, t)"
    and held: "\<And>sandbox. cells (sbxs s) sp = Some sandbox \<Longrightarrow>
      (if img = None then \<exists>c. GetRemoteRuntime (sv_remoteCRI V) (s_RuntimeHandler sandbox) = Inr (Some c)
       else deref img (imgs s) \<noteq> None)"
  shows "advances V s t \<and> sound V t p"
proof (rule CreateContainerMetadata_effect [OF c])
  fix cm u sandbox
  assume u: "p = next_free (ctrs s)" "cells (sbxs s) sp = Some sandbox" "cells (ctrs t) = (cells (ctrs s))(p := Some cm)"
    "ContainerPool t = mset_key (c_ID cm) p (ContainerPool s)" "sbxs t = sbxs s" "imgs t = imgs s"
    "c_Image cm = img" "c_PodSandbox cm = sandbox"
  have p: "sound V t p" using held [OF u(2)] u by (auto simp: sound_def image_held_def split: if_splits)
  have fresh: "cells (ctrs s) p = None" if "Inv V s"
    using that u(1) by (simp add: Inv_def state_wf_def pool_wf_def heap_wf_def)
  have "advances V s t"
    using ev_create_container [OF c held] fresh p u
    by (auto simp: advances_def evolves_def pod_runtime_def mget_update sound_def)
  with p show ?thesis by blast
qed

section \<open>The stretches\<close>

text \<open>What a request in flight relies on.\<close>

fun relies :: "'w multicriService \<Rightarrow> 'w mstate \<Rightarrow> request_flight \<Rightarrow> bool" where
  "relies V s (ContainerFlight (StartCall p)) \<longleftrightarrow> sound V s p"
| "relies V s (ContainerFlight (StartRecord p err)) \<longleftrightarrow> sound V s p"
| "relies V s (ContainerFlight (StopCall p)) \<longleftrightarrow> sound V s p"
| "relies V s (ContainerFlight (StopRecord p)) \<longleftrightarrow> sound V s p"
| "relies V s (PodFlight (CreateBody req sp (Some k))) \<longleftrightarrow>
     (\<exists>h c. pod_runtime s sp = Some h \<and> GetRemoteRuntime (sv_remoteCRI V) h = Inr (Some c))"
| "relies V s f \<longleftrightarrow> True"

lemma relies_advances: "advances V s t \<Longrightarrow> Inv V s \<Longrightarrow> relies V s f \<Longrightarrow> relies V t f"
  by (induction V s f rule: relies.induct) (auto simp: advances_def)

lemma holds_relies:
  assumes "Inv V s" and "holds s f"
  shows "relies V s (ContainerFlight f)"
proof -
  have "sound V s p" if "mget (ContainerPool s) k = Some p" for k p
    using Inv_container [OF assms(1) that] Inv_held [OF assms(1) that] by (auto simp: sound_def)
  with assms(2) show ?thesis by (cases f) auto
qed

lemma record_advances:
  assumes r: "do { s \<leftarrow> update_container p f v; s \<leftarrow> ContainerStorage_Update p s; Some (x, s) } = Some (y, t)"
    and "Inv V v" and "sound V v p" and same: "\<And>cm. same_container cm (f cm)"
  shows "advances V v t"
proof -
  obtain u where u: "update_container p f v = Some u" "ContainerStorage_Update p u = Some t"
    using r by (auto simp: bind_eq_Some_conv)
  have a: "advances V v u" by (rule adv_frame [OF update_container_frame [OF u(1) same]])
  then have "sound V u p" using assms(2,3) by (simp add: advances_def)
  from advances_trans [OF a adv_container_Update [OF u(2) this]] show ?thesis .
qed

context runtime
begin

lemma create_local_advances:
  assumes run: "create_local V req sp s = Some (r, t)" and inv: "Inv V s"
  shows "advances V s t"
proof -
  obtain config name img ip err where q: "cr_Config req = Some config" "cc_Metadata config = Some name" "cc_Image config = Some img"
    "ImageStorage_GetByID img s = Some (ip, err)"
    using run by (auto simp: create_local_def bind_eq_Some_conv)
  show ?thesis
  proof (cases err)
    case (Some e)
    with run q show ?thesis by (simp add: create_local_def)
  next
    case None
    from GetByID_in_pool [OF inv] q(4) None obtain i where i: "ip = Some i" "cells (imgs s) i \<noteq> None" by blast
    obtain at s1 where n: "now (sv_go V) s = (at, s1)" by (metis prod.exhaust)
    have s1: "advances V s s1" "imgs s1 = imgs s" using now_same [OF n] by (simp_all add: adv_stores same_stores_def)
    obtain sc where sc: "cr_SandboxConfig req = Some sc"
      using run q None n by (auto simp: create_local_def bind_eq_Some_conv)
    let ?create = "ContainerStorage_CreateContainerMetadata (sv_go V) name (Some sp) CONTAINER_CREATED at ip
          (cc_Command config) (cc_Args config) True config (env_map (cc_Envs config)) (container_port sc) None s1"
    obtain p s2 where c: "?create = Some (p, s2)"
      using run q None n sc by (cases ?create) (auto simp: create_local_def)
    have s2: "advances V s1 s2" "sound V s2 p" using adv_create_container [OF c, of V] i s1(2) by auto
    obtain e s3 where a: "ad_CreateContainer (sv_adapter V) p s2 = Some (e, s3)"
      using run q None n sc c by (cases "ad_CreateContainer (sv_adapter V) p s2") (auto simp: create_local_def)
    have s3: "advances V s2 s3" by (rule adv_frame [OF steady_adapter_frame [OF keepsD [OF create_container a]]])
    have tail: "(case e of Some e \<Rightarrow> Some (Inl e, s3)
        | None \<Rightarrow> do { cm \<leftarrow> cells (ctrs s3) p; q \<leftarrow> c_Image cm; s \<leftarrow> ImageStorage_Update q s3;
            s \<leftarrow> ContainerStorage_Update p s; Some (Inr p, s) }) = Some (r, t)"
      using run q None n sc c a by (simp add: create_local_def)
    have "advances V s3 t"
    proof (cases e)
      case None
      with tail obtain j s4 where u: "ImageStorage_Update j s3 = Some s4" "ContainerStorage_Update p s4 = Some t"
        by (auto simp: bind_eq_Some_conv)
      note s4 = adv_image_Update [OF u(1), of V]
      have "advances V s s2" "advances V s2 s4" using advances_trans s1(1) s2(1) s3 s4 by blast+
      then have "sound V s4 p" using s2(2) inv by (simp add: advances_def)
      with advances_trans [OF s4 adv_container_Update [OF u(2)]] show ?thesis by blast
    qed (use tail in simp)
    then show ?thesis using advances_trans s1(1) s2(1) s3 by blast
  qed
qed

lemma create_remote_advances:
  assumes run: "create_remote V req sp k s = Some (r, t)" and "pod_runtime s sp = Some h" and "GetRemoteRuntime (sv_remoteCRI V) h = Inr (Some c)"
  shows "advances V s t"
proof -
  obtain config p where c: "ContainerStorage_CreateContainerMetadata (sv_go V) [] (Some sp) CONTAINER_CREATED 0 None
        (cc_Command config) (cc_Args config) True config [] 0 (Some k) s = Some (p, t)"
    using run by (auto simp: create_remote_def bind_eq_Some_conv)
  show ?thesis using adv_create_container [OF c, of V] assms(2,3) by (auto simp: pod_runtime_def)
qed

lemma flight_advances:
  assumes f: "flight_step V f s = Some (g, t)" and r: "relies V s (ContainerFlight f)" and inv: "Inv V s"
  shows "advances V s t \<and> relies V t (ContainerFlight g)"
proof (cases f)
  case (StartCheck k)
  with start_check_holds f have "same_stores s t" "holds s g" by blast+
  with relies_advances [OF adv_stores] holds_relies [OF inv] inv adv_stores show ?thesis by blast
next
  case (StopCheck k)
  with stop_check_holds f have "same_stores s t" "holds s g" by blast+
  with relies_advances [OF adv_stores] holds_relies [OF inv] inv adv_stores show ?thesis by blast
next
  case (StartCall p)
  with f obtain err where a: "ad_StartContainer (sv_adapter V) p s = Some (err, t)" "g = StartRecord p err"
    by (auto simp: bind_eq_Some_conv)
  have "advances V s t" by (rule adv_frame [OF steady_adapter_frame [OF keepsD [OF start_container a(1)]]])
  with a(2) r inv StartCall show ?thesis by (simp add: advances_def)
next
  case (StopCall p)
  with f obtain err where a: "ad_StopContainer (sv_adapter V) p s = Some (err, t)"
    "g = (case err of Some e \<Rightarrow> Replied (None, Some e) | None \<Rightarrow> StopRecord p)" by (auto simp: bind_eq_Some_conv)
  have "advances V s t" by (rule adv_frame [OF steady_adapter_frame [OF keepsD [OF stop_container a(1)]]])
  with a(2) r inv StopCall show ?thesis by (cases err) (simp_all add: advances_def)
next
  case (StartRecord p err)
  obtain n v where n: "now (sv_go V) s = (n, v)" by (metis prod.exhaust)
  have v: "advances V s v" by (rule adv_stores [OF now_same [OF n]])
  with r inv StartRecord have i: "Inv V v" "sound V v p" by (simp_all add: advances_def)
  have w: "do { s \<leftarrow> update_container p (if err \<noteq> None then start_failed n else start_ok n) v;
      s \<leftarrow> ContainerStorage_Update p s; Some (Replied (if err \<noteq> None then None else Some (), err), s) } = Some (g, t)"
    using f StartRecord n by simp
  have "advances V v t" by (rule record_advances [OF w i]) (simp add: same_container_start)
  with w advances_trans [OF v] show ?thesis by (auto simp: bind_eq_Some_conv)
next
  case (StopRecord p)
  obtain n v where n: "now (sv_go V) s = (n, v)" by (metis prod.exhaust)
  have v: "advances V s v" by (rule adv_stores [OF now_same [OF n]])
  with r inv StopRecord have i: "Inv V v" "sound V v p" by (simp_all add: advances_def)
  have w: "do { s \<leftarrow> update_container p (\<lambda>cm. cm\<lparr>c_State := CONTAINER_EXITED, c_FinishedAt := n\<rparr>) v;
      s \<leftarrow> ContainerStorage_Update p s; Some (Replied (Some (), None), s) } = Some (g, t)"
    using f StopRecord n by simp
  have "advances V v t" by (rule record_advances [OF w i same_container_stop])
  with w advances_trans [OF v] show ?thesis by (auto simp: bind_eq_Some_conv)
qed (use f in simp)

lemma create_check_advances:
  assumes "pod_step V (CreateCheck req) s = Some (g, t)"
  shows "advances V s t \<and> relies V t (PodFlight g)"
proof (cases "mget (SandboxPool s) (cr_PodSandboxId req)")
  case None
  with assms show ?thesis by (auto simp: SandboxStorage_Get_def)
next
  case sp: (Some sp)
  with assms obtain sandbox where sb: "cells (sbxs s) sp = Some sandbox"
    by (auto simp: SandboxStorage_Get_def bind_eq_Some_conv)
  obtain x e u where q: "Remote_CreateContainer (sv_remoteCRI V) (s_RuntimeHandler sandbox) req s = ((x, e), u)"
    by (metis prod.exhaust)
  have same: "same_stores s u" using q by (auto simp: Remote_CreateContainer_def dest: route_frame)
  have gt: "t = u" "g = (case e of Some e \<Rightarrow> Created (None, Some e) | None \<Rightarrow> CreateBody req sp x)"
    using assms sp sb q by (auto simp: SandboxStorage_Get_def split: option.splits)
  have "\<exists>c. GetRemoteRuntime (sv_remoteCRI V) (s_RuntimeHandler sandbox) = Inr (Some c)" if "x = Some k" "e = None" for k
    using q that unfolding Remote_CreateContainer_def route_def by (auto split: sum.splits option.splits)
  then have "relies V t (PodFlight g)"
    using gt sb same by (cases e; cases x) (auto simp: pod_runtime_def same_stores_def)
  with gt adv_stores [OF same] show ?thesis by blast
qed

lemma pod_advances:
  assumes f: "pod_step V f s = Some (g, t)" and r: "relies V s (PodFlight f)" and inv: "Inv V s"
  shows "advances V s t \<and> relies V t (PodFlight g)"
proof (cases f)
  case (CreateCheck req)
  with f create_check_advances show ?thesis by blast
next
  case (CreateBody req sp response)
  show ?thesis
  proof (cases response)
    case None
    with f CreateBody obtain z where z: "create_local V req sp s = Some (z, t)"
      "g = (case z of Inl e \<Rightarrow> Created (None, Some e) | Inr p \<Rightarrow> CreateLink sp p)" by (auto simp: bind_eq_Some_conv)
    with create_local_advances [OF z(1) inv] show ?thesis by (cases z) simp_all
  next
    case (Some k)
    with f CreateBody obtain z where z: "create_remote V req sp k s = Some (z, t)"
      "g = (case z of Inl e \<Rightarrow> Created (None, Some e) | Inr p \<Rightarrow> CreateLink sp p)" by (auto simp: bind_eq_Some_conv)
    from r Some CreateBody obtain h c where "pod_runtime s sp = Some h" "GetRemoteRuntime (sv_remoteCRI V) h = Inr (Some c)" by auto
    with create_remote_advances [OF z(1)] z(2) show ?thesis by (cases z) auto
  qed
next
  case (CreateLink sp p)
  with f obtain container sandbox where c: "cells (ctrs s) p = Some container" "cells (sbxs s) sp = Some sandbox"
    and u: "SandboxStorage_Update sp (s\<lparr>sbxs := assign sp (sandbox\<lparr>s_Containers := s_Containers sandbox @ [c_ID container]\<rparr>) (sbxs s)\<rparr>) = Some t"
    and g: "g = Created (Some (c_ID container), None)"
    by (auto simp: bind_eq_Some_conv Let_def)
  from advances_trans [OF adv_assign_sandbox adv_sandbox_Update [OF u]] c(2) g show ?thesis by simp
next
  case (RemoveCheck k)
  obtain sp err where sp: "SandboxStorage_Get k s = (sp, err)" by (metis prod.exhaust)
  with f RemoveCheck obtain h where h: "handler_of sp s = Some h" by (auto simp: bind_eq_Some_conv)
  obtain x e u where q: "Remote_RemovePodSandbox (sv_remoteCRI V) h k s = ((x, e), u)" by (metis prod.exhaust)
  have "same_stores s u" using q by (auto simp: Remote_RemovePodSandbox_def dest: route_frame)
  moreover have "t = u \<and> relies V t (PodFlight g)"
    using f RemoveCheck sp h q
    by (cases e; cases x; cases sp) (auto simp: bind_eq_Some_conv split: if_splits)
  ultimately show ?thesis using adv_stores by blast
next
  case (RemoveCall p)
  with f obtain err where a: "ad_RemovePodSandbox (sv_adapter V) p s = Some (err, t)"
    "g = (case err of Some e \<Rightarrow> Removed (None, Some e) | None \<Rightarrow> RemoveDrop (Some p))" by (auto simp: bind_eq_Some_conv)
  have "advances V s t" by (rule adv_frame [OF steady_adapter_frame [OF keepsD [OF remove_sandbox a(1)]]])
  with a(2) show ?thesis by (cases err) simp_all
next
  case (RemoveDrop sp)
  with f obtain k where "t = SandboxStorage_Remove k s" "g = Removed (Some (), None)" by (auto simp: bind_eq_Some_conv)
  then show ?thesis by (simp add: adv_sandbox_Remove)
qed (use f in simp_all)

lemma request_advances:
  assumes "request_step V f s = Some (g, t)" and "relies V s f" and "Inv V s"
  shows "advances V s t \<and> relies V t g"
proof (cases f)
  case (ContainerFlight h)
  with assms(1) obtain h' where "flight_step V h s = Some (h', t)" "g = ContainerFlight h'" by (auto simp: bind_eq_Some_conv)
  with flight_advances assms(2,3) ContainerFlight show ?thesis by blast
next
  case (PodFlight h)
  with assms(1) obtain h' where "pod_step V h s = Some (h', t)" "g = PodFlight h'" by (auto simp: bind_eq_Some_conv)
  with pod_advances assms(2,3) PodFlight show ?thesis by blast
qed

lemma interleaved_advances:
  assumes "interleaved (request_step V) fs s gs t" and "Inv V s" and "\<forall>f\<in>set fs. relies V s f"
  shows "advances V s t \<and> Inv V t \<and> (\<forall>g\<in>set gs. relies V t g)"
  using assms
proof (induction rule: interleaved.induct)
  case (moves gs t i g u)
  then have ih: "advances V s t" "Inv V t" "\<forall>g\<in>set gs. relies V t g" by blast+
  from moves.hyps(2) ih(3) have "relies V t (gs ! i)" by simp
  from request_advances [OF moves.hyps(3) this ih(2)] have st: "advances V t u" "relies V u g" by simp_all
  moreover have "relies V u f" if "f \<in> set gs" for f using relies_advances [OF st(1) ih(2)] ih(3) that by blast
  moreover have "Inv V u" using st(1) ih(2) by (simp add: advances_def)
  ultimately show ?case using advances_trans [OF ih(1) st(1)] set_update_subset_insert [of gs i g] by auto
qed simp

end

end
