(* ===== verification/Service_Run.thy ===== *)
theory Service_Run
  imports Go_Strings
begin

text \<open>
  \<open>Run\<close> and \<open>Stop\<close> of \<open>pkg/cri/runtime/service.go\<close>: the main thread, the goroutines of the
  streaming server and of the gRPC server with the two channels that they close, and the
  interrupt handler of \<open>main.go\<close>, which calls \<open>Stop\<close> once, as a step relation over their program
  counters.  What \<open>Unlink\<close> and \<open>Listen\<close> return, when a signal comes and when a server fails by itself
  are choices of the environment.
\<close>

section \<open>The threads\<close>

text \<open>The goroutine of a server: serving, back from it (\<open>Start\<close> or \<open>Serve\<close> returned), its channel closed.\<close>

datatype server_pc = NotStarted | Serving | Returned | ChannelClosed

datatype main_pc = Unlinking | Listening | Selecting | StoppingStream | StoppingGrpc | AwaitingStream
  | AwaitingGrpc | Finished "error option"

datatype handler_pc = NoSignal | HandlerStopsStream | HandlerStopsGrpc | Handled

record run_state =
  main_pc :: main_pc
  stream_pc :: server_pc
  grpc_pc :: server_pc
  handler_pc :: handler_pc
  stream_stopped :: bool
  grpc_stopped :: bool

text \<open>The streaming server's goroutine is started before anything else.\<close>

definition run_start :: run_state where
  "run_start = \<lparr>main_pc = Unlinking, stream_pc = Serving, grpc_pc = NotStarted, handler_pc = NoSignal,
     stream_stopped = False, grpc_stopped = False\<rparr>"

definition unlink_result :: "string \<Rightarrow> error option \<Rightarrow> bool \<Rightarrow> run_state \<Rightarrow> run_state" where
  "unlink_result addr err isNotExist s =
     (case err of
        Some e \<Rightarrow> if \<not> isNotExist
                  then s\<lparr>main_pc := Finished (Some (sprintf ''failed to unlink socket file %q: %v'' [quote addr, e]))\<rparr>
                  else s\<lparr>main_pc := Listening\<rparr>
      | None \<Rightarrow> s\<lparr>main_pc := Listening\<rparr>)"

definition listen_result :: "string \<Rightarrow> error option \<Rightarrow> run_state \<Rightarrow> run_state" where
  "listen_result addr err s =
     (case err of
        Some e \<Rightarrow> s\<lparr>main_pc := Finished (Some (sprintf ''failed to listen on %q: %v'' [quote addr, e]))\<rparr>
      | None \<Rightarrow> s\<lparr>grpc_pc := Serving, main_pc := Selecting\<rparr>)"

text \<open>The two calls of \<open>Stop\<close>, made by the main thread or by the interrupt handler.\<close>

definition stop_stream :: "run_state \<Rightarrow> run_state" where
  "stop_stream s = s\<lparr>stream_stopped := True\<rparr>"

definition stop_grpc :: "run_state \<Rightarrow> run_state" where
  "stop_grpc s = s\<lparr>grpc_stopped := True\<rparr>"

inductive run_step :: "string \<Rightarrow> run_state \<Rightarrow> run_state \<Rightarrow> bool" for addr where
  unlink: "main_pc s = Unlinking \<Longrightarrow> run_step addr s (unlink_result addr err isNotExist s)"
| listen: "main_pc s = Listening \<Longrightarrow> run_step addr s (listen_result addr err s)"
| select: "main_pc s = Selecting \<Longrightarrow> stream_pc s = ChannelClosed \<or> grpc_pc s = ChannelClosed \<Longrightarrow>
    run_step addr s (s\<lparr>main_pc := StoppingStream\<rparr>)"
| stops_stream: "main_pc s = StoppingStream \<Longrightarrow> run_step addr s ((stop_stream s)\<lparr>main_pc := StoppingGrpc\<rparr>)"
| stops_grpc: "main_pc s = StoppingGrpc \<Longrightarrow> run_step addr s ((stop_grpc s)\<lparr>main_pc := AwaitingStream\<rparr>)"
| await_stream: "main_pc s = AwaitingStream \<Longrightarrow> stream_pc s = ChannelClosed \<Longrightarrow> run_step addr s (s\<lparr>main_pc := AwaitingGrpc\<rparr>)"
| await_grpc: "main_pc s = AwaitingGrpc \<Longrightarrow> grpc_pc s = ChannelClosed \<Longrightarrow> run_step addr s (s\<lparr>main_pc := Finished None\<rparr>)"
| stream_returns: "stream_pc s = Serving \<Longrightarrow> run_step addr s (s\<lparr>stream_pc := Returned\<rparr>)"
| stream_closes: "stream_pc s = Returned \<Longrightarrow> run_step addr s (s\<lparr>stream_pc := ChannelClosed\<rparr>)"
| grpc_returns: "grpc_pc s = Serving \<Longrightarrow> run_step addr s (s\<lparr>grpc_pc := Returned\<rparr>)"
| grpc_closes: "grpc_pc s = Returned \<Longrightarrow> run_step addr s (s\<lparr>grpc_pc := ChannelClosed\<rparr>)"
| signal: "handler_pc s = NoSignal \<Longrightarrow> run_step addr s (s\<lparr>handler_pc := HandlerStopsStream\<rparr>)"
| signal_stream: "handler_pc s = HandlerStopsStream \<Longrightarrow> run_step addr s ((stop_stream s)\<lparr>handler_pc := HandlerStopsGrpc\<rparr>)"
| signal_grpc: "handler_pc s = HandlerStopsGrpc \<Longrightarrow> run_step addr s ((stop_grpc s)\<lparr>handler_pc := Handled\<rparr>)"

inductive_cases run_stepE: "run_step addr s t"

text \<open>
  The steps that do not depend on luck: a server returns because it was stopped, and no signal
  comes from outside.
\<close>

definition due_step :: "string \<Rightarrow> run_state \<Rightarrow> run_state \<Rightarrow> bool" where
  "due_step addr s t \<longleftrightarrow> run_step addr s t
     \<and> (stream_pc s = Serving \<and> stream_pc t = Returned \<longrightarrow> stream_stopped s)
     \<and> (grpc_pc s = Serving \<and> grpc_pc t = Returned \<longrightarrow> grpc_stopped s)
     \<and> (handler_pc s = NoSignal \<longrightarrow> handler_pc t = NoSignal)"

inductive runs :: "string \<Rightarrow> nat \<Rightarrow> run_state \<Rightarrow> bool" for addr where
  begins: "runs addr 0 run_start"
| goes: "runs addr n s \<Longrightarrow> run_step addr s t \<Longrightarrow> runs addr (Suc n) t"

section \<open>How far a run can go\<close>

fun main_left :: "main_pc \<Rightarrow> nat" where
  "main_left Unlinking = 7"
| "main_left Listening = 6"
| "main_left Selecting = 5"
| "main_left StoppingStream = 4"
| "main_left StoppingGrpc = 3"
| "main_left AwaitingStream = 2"
| "main_left AwaitingGrpc = 1"
| "main_left (Finished e) = 0"

text \<open>A server that is not started has the steps of a serving one ahead, but only while it can be started.\<close>

fun server_left :: "server_pc \<Rightarrow> nat" where
  "server_left NotStarted = 2"
| "server_left Serving = 2"
| "server_left Returned = 1"
| "server_left ChannelClosed = 0"

fun handler_left :: "handler_pc \<Rightarrow> nat" where
  "handler_left NoSignal = 3"
| "handler_left HandlerStopsStream = 2"
| "handler_left HandlerStopsGrpc = 1"
| "handler_left Handled = 0"

definition steps_left :: "run_state \<Rightarrow> nat" where
  "steps_left s = main_left (main_pc s) + server_left (stream_pc s) + server_left (grpc_pc s)
     + handler_left (handler_pc s)"

fun before_listen :: "main_pc \<Rightarrow> bool" where
  "before_listen Unlinking = True"
| "before_listen Listening = True"
| "before_listen m = False"

definition run_inv :: "run_state \<Rightarrow> bool" where
  "run_inv s \<longleftrightarrow> stream_pc s \<noteq> NotStarted
     \<and> (grpc_pc s = NotStarted \<longleftrightarrow> before_listen (main_pc s) \<or> (\<exists>e. main_pc s = Finished (Some e)))
     \<and> (main_pc s = AwaitingGrpc \<or> main_pc s = Finished None \<longrightarrow> stream_pc s = ChannelClosed)
     \<and> (main_pc s = Finished None \<longrightarrow> grpc_pc s = ChannelClosed)
     \<and> (stream_stopped s \<longleftrightarrow> main_pc s \<in> {StoppingGrpc, AwaitingStream, AwaitingGrpc, Finished None}
          \<or> handler_pc s \<in> {HandlerStopsGrpc, Handled})
     \<and> (grpc_stopped s \<longleftrightarrow> main_pc s \<in> {AwaitingStream, AwaitingGrpc, Finished None} \<or> handler_pc s = Handled)"

lemmas run_effects = unlink_result_def listen_result_def stop_stream_def stop_grpc_def

lemma run_inv_start: "run_inv run_start"
  by (simp add: run_inv_def run_start_def)

lemma run_inv_step: "run_step addr s t \<Longrightarrow> run_inv s \<Longrightarrow> run_inv t"
  by (erule run_stepE) (auto simp: run_inv_def run_effects split: option.splits if_splits)

lemma step_decreases: "run_step addr s t \<Longrightarrow> run_inv s \<Longrightarrow> steps_left t < steps_left s"
  by (erule run_stepE)
    (auto simp: steps_left_def run_effects run_inv_def split: option.splits if_splits)

lemma runs_inv: "runs addr n s \<Longrightarrow> run_inv s \<and> n + steps_left s \<le> 14"
proof (induction rule: runs.induct)
  case begins
  then show ?case by (simp add: run_inv_start) (simp add: steps_left_def run_start_def)
next
  case (goes n s t)
  then show ?case using run_inv_step [OF goes.hyps(2)] step_decreases [OF goes.hyps(2)] by auto
qed

text \<open>A goroutine whose server was stopped, or has returned, goes on until its channel is closed.\<close>

lemma server_due:
  "stream_pc s = Returned \<or> stream_pc s = Serving \<and> stream_stopped s \<Longrightarrow> \<exists>t. due_step addr s t"
  "grpc_pc s = Returned \<or> grpc_pc s = Serving \<and> grpc_stopped s \<Longrightarrow> \<exists>t. due_step addr s t"
  by (cases "stream_pc s"; auto simp: due_step_def intro!: exI [of _ "s\<lparr>stream_pc := _\<rparr>"] stream_closes stream_returns)
     (cases "grpc_pc s"; auto simp: due_step_def intro!: exI [of _ "s\<lparr>grpc_pc := _\<rparr>"] grpc_closes grpc_returns)

text \<open>Steps of the main thread are due.\<close>

lemma due_of_step:
  "run_step addr s t \<Longrightarrow> handler_pc t = handler_pc s \<Longrightarrow> stream_pc t = stream_pc s \<Longrightarrow>
   grpc_pc s \<noteq> Serving \<or> grpc_pc t \<noteq> Returned \<Longrightarrow> \<exists>t. due_step addr s t"
  by (auto simp: due_step_def)

lemma main_due:
  "main_pc s = Unlinking \<Longrightarrow> \<exists>t. due_step addr s t"
  "main_pc s = Listening \<Longrightarrow> grpc_pc s \<noteq> Serving \<Longrightarrow> \<exists>t. due_step addr s t"
  "main_pc s = Selecting \<Longrightarrow> stream_pc s = ChannelClosed \<or> grpc_pc s = ChannelClosed \<Longrightarrow> \<exists>t. due_step addr s t"
  "main_pc s = StoppingStream \<Longrightarrow> \<exists>t. due_step addr s t"
  "main_pc s = StoppingGrpc \<Longrightarrow> \<exists>t. due_step addr s t"
  "main_pc s = AwaitingStream \<Longrightarrow> stream_pc s = ChannelClosed \<Longrightarrow> \<exists>t. due_step addr s t"
  "main_pc s = AwaitingGrpc \<Longrightarrow> grpc_pc s = ChannelClosed \<Longrightarrow> \<exists>t. due_step addr s t"
  subgoal by (rule due_of_step [OF unlink [where err = None]]; simp add: run_effects)
  subgoal by (rule due_of_step [OF listen [where err = None]]; simp add: run_effects)
  subgoal by (rule due_of_step [OF select]; simp)
  subgoal by (rule due_of_step [OF stops_stream]; simp add: run_effects)
  subgoal by (rule due_of_step [OF stops_grpc]; simp add: run_effects)
  subgoal by (rule due_of_step [OF await_stream]; simp)
  subgoal by (rule due_of_step [OF await_grpc]; simp)
  done

text \<open>A channel the main thread waits for is closed, or the goroutine behind it goes on.\<close>

lemma awaiting:
  "run_inv s \<Longrightarrow> main_pc s = AwaitingStream \<Longrightarrow> stream_pc s \<noteq> NotStarted \<and> stream_stopped s"
  "run_inv s \<Longrightarrow> main_pc s = AwaitingGrpc \<Longrightarrow> grpc_pc s \<noteq> NotStarted \<and> grpc_stopped s"
  by (simp_all add: run_inv_def)

lemma channel_due:
  "stream_pc s \<noteq> NotStarted \<and> stream_stopped s \<Longrightarrow> stream_pc s = ChannelClosed \<or> (\<exists>t. due_step addr s t)"
  "grpc_pc s \<noteq> NotStarted \<and> grpc_stopped s \<Longrightarrow> grpc_pc s = ChannelClosed \<or> (\<exists>t. due_step addr s t)"
  using server_due(1) [of s addr] by (cases "stream_pc s"; simp)
    (use server_due(2) [of s addr] in \<open>cases "grpc_pc s"; simp\<close>)

lemma handler_due: "handler_pc s \<in> {HandlerStopsStream, HandlerStopsGrpc} \<Longrightarrow> \<exists>t. due_step addr s t"
  using signal_stream [of s addr] signal_grpc [of s addr] by (auto simp: due_step_def run_effects)

text \<open>\<open>Run\<close> only waits for something outside while both servers serve and no signal has come.\<close>

lemma run_progress:
  assumes "run_inv s"
  shows "(\<exists>t. due_step addr s t) \<or> (\<exists>e. main_pc s = Finished e)
    \<or> main_pc s = Selecting \<and> stream_pc s = Serving \<and> grpc_pc s = Serving \<and> handler_pc s = NoSignal"
proof (cases "main_pc s = Selecting")
  case False
  show ?thesis
  proof (cases "main_pc s")
    case Listening
    then show ?thesis using main_due(2) [of s addr] assms by (simp add: run_inv_def)
  next
    case AwaitingStream
    with channel_due(1) [OF awaiting(1) [OF assms]] main_due(6) show ?thesis by blast
  next
    case AwaitingGrpc
    with channel_due(2) [OF awaiting(2) [OF assms]] main_due(7) show ?thesis by blast
  qed (use False main_due(1,4,5) in blast)+
next
  case True
  note m = this
  have nn: "stream_pc s \<noteq> NotStarted" "grpc_pc s \<noteq> NotStarted" using assms m by (auto simp: run_inv_def)
  have st: "handler_pc s = Handled \<Longrightarrow> stream_stopped s" using assms by (simp add: run_inv_def)
  show ?thesis
  proof (cases "stream_pc s = Serving \<and> grpc_pc s = Serving")
    case False
    with nn m main_due(3) [OF m, of addr] server_due [of s addr] show ?thesis
      by (metis server_pc.exhaust)
  next
    case True
    with m st handler_due [of s addr] server_due(1) [of s addr] show ?thesis by (cases "handler_pc s") auto
  qed
qed

end
