(* ===== verification/Fake_OS.thy ===== *)
theory Fake_OS
  imports Go_OS
begin

text \<open>
  \<open>pkg/os/testing/fake_os.go\<close>: the recording double of the operating system interface.  Every
  operation appends its name and arguments to a list of calls, then returns the error injected
  for its name, if any, which is used up, and otherwise calls its function field, if it is set.
  The mutex makes each access atomic.  The function fields are pure functions here.
\<close>

datatype Argument = Text string | Number int | Context nat

record CalledDetail =
  cd_Name :: string
  cd_Arguments :: "Argument list"

text \<open>
  Handles and file descriptions are numbers; \<open>errors\<close> is \<open>None\<close> for a nil map, which can be read
  but not written.  An injected error may itself be nil.
\<close>

record FakeOS =
  MkdirAllFn :: "(path \<Rightarrow> int \<Rightarrow> error option) option"
  RemoveAllFn :: "(path \<Rightarrow> error option) option"
  OpenFifoFn :: "(nat \<Rightarrow> path \<Rightarrow> int \<Rightarrow> int \<Rightarrow> nat option \<times> error option) option"
  StatFn :: "(path \<Rightarrow> nat option \<times> error option) option"
  CopyFileFn :: "(path \<Rightarrow> path \<Rightarrow> int \<Rightarrow> error option) option"
  WriteFileFn :: "(path \<Rightarrow> string \<Rightarrow> int \<Rightarrow> error option) option"
  MountFn :: "(path \<Rightarrow> path \<Rightarrow> string \<Rightarrow> int \<Rightarrow> string \<Rightarrow> error option) option"
  UnmountFn :: "(path \<Rightarrow> int \<Rightarrow> error option) option"
  calls :: "CalledDetail list"
  errors :: "error option gomap option"

section \<open>Injected errors and recorded calls\<close>

definition FakeOS_getError :: "string \<Rightarrow> FakeOS \<Rightarrow> error option \<times> FakeOS" where
  "FakeOS_getError op f =
     (case errors f of
        None \<Rightarrow> (None, f)
      | Some m \<Rightarrow> (case mget m op of
          Some err \<Rightarrow> (err, f\<lparr>errors := Some (mdel op m)\<rparr>)
        | None \<Rightarrow> (None, f)))"

definition FakeOS_InjectError :: "string \<Rightarrow> error option \<Rightarrow> FakeOS \<Rightarrow> FakeOS option" where
  "FakeOS_InjectError fn err f = do { m \<leftarrow> errors f; Some (f\<lparr>errors := Some (mset_key fn err m)\<rparr>) }"

fun FakeOS_InjectErrors :: "error option gomap \<Rightarrow> FakeOS \<Rightarrow> FakeOS option" where
  "FakeOS_InjectErrors [] f = Some f"
| "FakeOS_InjectErrors ((fn, err) # errs) f = do { f \<leftarrow> FakeOS_InjectError fn err f; FakeOS_InjectErrors errs f }"

definition FakeOS_ClearErrors :: "FakeOS \<Rightarrow> FakeOS" where
  "FakeOS_ClearErrors f = f\<lparr>errors := Some []\<rparr>"

definition FakeOS_appendCalls :: "string \<Rightarrow> Argument list \<Rightarrow> FakeOS \<Rightarrow> FakeOS" where
  "FakeOS_appendCalls n args f = f\<lparr>calls := calls f @ [\<lparr>cd_Name = n, cd_Arguments = args\<rparr>]\<rparr>"

definition FakeOS_GetCalls :: "FakeOS \<Rightarrow> CalledDetail list" where
  "FakeOS_GetCalls f = calls f"

definition FakeOS_IsNotExist :: "error option \<Rightarrow> bool" where
  "FakeOS_IsNotExist err = True"

definition NewFakeOS :: FakeOS where
  "NewFakeOS = \<lparr>MkdirAllFn = None, RemoveAllFn = None, OpenFifoFn = None, StatFn = None, CopyFileFn = None,
     WriteFileFn = None, MountFn = None, UnmountFn = None, calls = [], errors = Some []\<rparr>"

section \<open>The operations\<close>

definition FakeOS_MkdirAll :: "path \<Rightarrow> int \<Rightarrow> FakeOS \<Rightarrow> error option \<times> FakeOS" where
  "FakeOS_MkdirAll p perm f =
     (let f = FakeOS_appendCalls ''MkdirAll'' [Text p, Number perm] f;
          (err, f) = FakeOS_getError ''MkdirAll'' f
      in if err \<noteq> None then (err, f)
         else case MkdirAllFn f of Some fn \<Rightarrow> (fn p perm, f) | None \<Rightarrow> (None, f))"

definition FakeOS_RemoveAll :: "path \<Rightarrow> FakeOS \<Rightarrow> error option \<times> FakeOS" where
  "FakeOS_RemoveAll p f =
     (let f = FakeOS_appendCalls ''RemoveAll'' [Text p] f;
          (err, f) = FakeOS_getError ''RemoveAll'' f
      in if err \<noteq> None then (err, f)
         else case RemoveAllFn f of Some fn \<Rightarrow> (fn p, f) | None \<Rightarrow> (None, f))"

definition FakeOS_OpenFifo :: "nat \<Rightarrow> path \<Rightarrow> int \<Rightarrow> int \<Rightarrow> FakeOS \<Rightarrow> (nat option \<times> error option) \<times> FakeOS" where
  "FakeOS_OpenFifo ctx p flag perm f =
     (let f = FakeOS_appendCalls ''OpenFifo'' [Context ctx, Text p, Number flag, Number perm] f;
          (err, f) = FakeOS_getError ''OpenFifo'' f
      in if err \<noteq> None then ((None, err), f)
         else case OpenFifoFn f of Some fn \<Rightarrow> (fn ctx p flag perm, f) | None \<Rightarrow> ((None, None), f))"

definition FakeOS_Stat :: "path \<Rightarrow> FakeOS \<Rightarrow> (nat option \<times> error option) \<times> FakeOS" where
  "FakeOS_Stat p f =
     (let f = FakeOS_appendCalls ''Stat'' [Text p] f;
          (err, f) = FakeOS_getError ''Stat'' f
      in if err \<noteq> None then ((None, err), f)
         else case StatFn f of Some fn \<Rightarrow> (fn p, f) | None \<Rightarrow> ((None, None), f))"

definition FakeOS_CopyFile :: "path \<Rightarrow> path \<Rightarrow> int \<Rightarrow> FakeOS \<Rightarrow> error option \<times> FakeOS" where
  "FakeOS_CopyFile src dest perm f =
     (let f = FakeOS_appendCalls ''CopyFile'' [Text src, Text dest, Number perm] f;
          (err, f) = FakeOS_getError ''CopyFile'' f
      in if err \<noteq> None then (err, f)
         else case CopyFileFn f of Some fn \<Rightarrow> (fn src dest perm, f) | None \<Rightarrow> (None, f))"

definition FakeOS_WriteFile :: "path \<Rightarrow> string \<Rightarrow> int \<Rightarrow> FakeOS \<Rightarrow> error option \<times> FakeOS" where
  "FakeOS_WriteFile p d perm f =
     (let f = FakeOS_appendCalls ''WriteFile'' [Text p, Text d, Number perm] f;
          (err, f) = FakeOS_getError ''WriteFile'' f
      in if err \<noteq> None then (err, f)
         else case WriteFileFn f of Some fn \<Rightarrow> (fn p d perm, f) | None \<Rightarrow> (None, f))"

definition FakeOS_Mount :: "path \<Rightarrow> path \<Rightarrow> string \<Rightarrow> int \<Rightarrow> string \<Rightarrow> FakeOS \<Rightarrow> error option \<times> FakeOS" where
  "FakeOS_Mount src target fstype flags d f =
     (let f = FakeOS_appendCalls ''Mount'' [Text src, Text target, Text fstype, Number flags, Text d] f;
          (err, f) = FakeOS_getError ''Mount'' f
      in if err \<noteq> None then (err, f)
         else case MountFn f of Some fn \<Rightarrow> (fn src target fstype flags d, f) | None \<Rightarrow> (None, f))"

definition FakeOS_Unmount :: "path \<Rightarrow> int \<Rightarrow> FakeOS \<Rightarrow> error option \<times> FakeOS" where
  "FakeOS_Unmount target flags f =
     (let f = FakeOS_appendCalls ''Unmount'' [Text target, Number flags] f;
          (err, f) = FakeOS_getError ''Unmount'' f
      in if err \<noteq> None then (err, f)
         else case UnmountFn f of Some fn \<Rightarrow> (fn target flags, f) | None \<Rightarrow> (None, f))"

section \<open>Calls as a datatype\<close>

text \<open>An operation with its arguments; \<open>call\<close> performs it and keeps the error only.\<close>

datatype os_call = MkdirAllC path int | RemoveAllC path | OpenFifoC nat path int int | StatC path
  | CopyFileC path path int | WriteFileC path string int | MountC path path string int string | UnmountC path int

fun call :: "os_call \<Rightarrow> FakeOS \<Rightarrow> error option \<times> FakeOS" where
  "call (MkdirAllC p m) f = FakeOS_MkdirAll p m f"
| "call (RemoveAllC p) f = FakeOS_RemoveAll p f"
| "call (OpenFifoC c p fl m) f = (case FakeOS_OpenFifo c p fl m f of ((_, e), f) \<Rightarrow> (e, f))"
| "call (StatC p) f = (case FakeOS_Stat p f of ((_, e), f) \<Rightarrow> (e, f))"
| "call (CopyFileC a b m) f = FakeOS_CopyFile a b m f"
| "call (WriteFileC p d m) f = FakeOS_WriteFile p d m f"
| "call (MountC a b t fl d) f = FakeOS_Mount a b t fl d f"
| "call (UnmountC p fl) f = FakeOS_Unmount p fl f"

fun detail :: "os_call \<Rightarrow> CalledDetail" where
  "detail (MkdirAllC p m) = \<lparr>cd_Name = ''MkdirAll'', cd_Arguments = [Text p, Number m]\<rparr>"
| "detail (RemoveAllC p) = \<lparr>cd_Name = ''RemoveAll'', cd_Arguments = [Text p]\<rparr>"
| "detail (OpenFifoC c p fl m) = \<lparr>cd_Name = ''OpenFifo'', cd_Arguments = [Context c, Text p, Number fl, Number m]\<rparr>"
| "detail (StatC p) = \<lparr>cd_Name = ''Stat'', cd_Arguments = [Text p]\<rparr>"
| "detail (CopyFileC a b m) = \<lparr>cd_Name = ''CopyFile'', cd_Arguments = [Text a, Text b, Number m]\<rparr>"
| "detail (WriteFileC p d m) = \<lparr>cd_Name = ''WriteFile'', cd_Arguments = [Text p, Text d, Number m]\<rparr>"
| "detail (MountC a b t fl d) = \<lparr>cd_Name = ''Mount'', cd_Arguments = [Text a, Text b, Text t, Number fl, Text d]\<rparr>"
| "detail (UnmountC p fl) = \<lparr>cd_Name = ''Unmount'', cd_Arguments = [Text p, Number fl]\<rparr>"

text \<open>The function fields, asked for one call.\<close>

fun hooked :: "FakeOS \<Rightarrow> os_call \<Rightarrow> error option" where
  "hooked f (MkdirAllC p m) = (case MkdirAllFn f of None \<Rightarrow> None | Some fn \<Rightarrow> fn p m)"
| "hooked f (RemoveAllC p) = (case RemoveAllFn f of None \<Rightarrow> None | Some fn \<Rightarrow> fn p)"
| "hooked f (OpenFifoC c p fl m) = (case OpenFifoFn f of None \<Rightarrow> None | Some fn \<Rightarrow> snd (fn c p fl m))"
| "hooked f (StatC p) = (case StatFn f of None \<Rightarrow> None | Some fn \<Rightarrow> snd (fn p))"
| "hooked f (CopyFileC a b m) = (case CopyFileFn f of None \<Rightarrow> None | Some fn \<Rightarrow> fn a b m)"
| "hooked f (WriteFileC p d m) = (case WriteFileFn f of None \<Rightarrow> None | Some fn \<Rightarrow> fn p d m)"
| "hooked f (MountC a b t fl d) = (case MountFn f of None \<Rightarrow> None | Some fn \<Rightarrow> fn a b t fl d)"
| "hooked f (UnmountC p fl) = (case UnmountFn f of None \<Rightarrow> None | Some fn \<Rightarrow> fn p fl)"

fun perform :: "os_call list \<Rightarrow> FakeOS \<Rightarrow> error option list \<times> FakeOS" where
  "perform [] f = ([], f)"
| "perform (c # cs) f = (let (e, f) = call c f; (es, f) = perform cs f in (e # es, f))"

section \<open>What a call does\<close>

lemma getError_fields [simp]:
  "MkdirAllFn (snd (FakeOS_getError op f)) = MkdirAllFn f" "RemoveAllFn (snd (FakeOS_getError op f)) = RemoveAllFn f"
  "OpenFifoFn (snd (FakeOS_getError op f)) = OpenFifoFn f" "StatFn (snd (FakeOS_getError op f)) = StatFn f"
  "CopyFileFn (snd (FakeOS_getError op f)) = CopyFileFn f" "WriteFileFn (snd (FakeOS_getError op f)) = WriteFileFn f"
  "MountFn (snd (FakeOS_getError op f)) = MountFn f" "UnmountFn (snd (FakeOS_getError op f)) = UnmountFn f"
  "calls (snd (FakeOS_getError op f)) = calls f"
  by (simp_all add: FakeOS_getError_def split: option.split)

lemma appendCalls_fields [simp]:
  "MkdirAllFn (FakeOS_appendCalls n a f) = MkdirAllFn f" "RemoveAllFn (FakeOS_appendCalls n a f) = RemoveAllFn f"
  "OpenFifoFn (FakeOS_appendCalls n a f) = OpenFifoFn f" "StatFn (FakeOS_appendCalls n a f) = StatFn f"
  "CopyFileFn (FakeOS_appendCalls n a f) = CopyFileFn f" "WriteFileFn (FakeOS_appendCalls n a f) = WriteFileFn f"
  "MountFn (FakeOS_appendCalls n a f) = MountFn f" "UnmountFn (FakeOS_appendCalls n a f) = UnmountFn f"
  "errors (FakeOS_appendCalls n a f) = errors f"
  "calls (FakeOS_appendCalls n a f) = calls f @ [\<lparr>cd_Name = n, cd_Arguments = a\<rparr>]"
  by (simp_all add: FakeOS_appendCalls_def)

lemma call_state:
  "snd (call c f) = snd (FakeOS_getError (cd_Name (detail c)) (f\<lparr>calls := calls f @ [detail c]\<rparr>))"
  by (cases c) (simp_all add: FakeOS_MkdirAll_def FakeOS_RemoveAll_def FakeOS_OpenFifo_def FakeOS_Stat_def
      FakeOS_CopyFile_def FakeOS_WriteFile_def FakeOS_Mount_def FakeOS_Unmount_def FakeOS_appendCalls_def Let_def
      split: prod.split option.split)

lemma call_error:
  "fst (call c f) =
     (let e = fst (FakeOS_getError (cd_Name (detail c)) f) in if e \<noteq> None then e else hooked f c)"
proof -
  have "fst (FakeOS_getError op (FakeOS_appendCalls n a f)) = fst (FakeOS_getError op f)" for op n a
    by (simp add: FakeOS_getError_def split: option.split)
  moreover have "snd (FakeOS_getError op g) = h \<Longrightarrow> hooked h c = hooked g c" for op g h
    by (cases c) auto
  ultimately show ?thesis
    by (cases c) (auto simp: FakeOS_MkdirAll_def FakeOS_RemoveAll_def FakeOS_OpenFifo_def FakeOS_Stat_def
      FakeOS_CopyFile_def FakeOS_WriteFile_def FakeOS_Mount_def FakeOS_Unmount_def Let_def case_prod_unfold
      split: option.split)
qed

lemma call_keeps_hooks: "hooked (snd (call c f)) d = hooked f d"
  by (cases d) (simp_all add: call_state)

lemma call_calls: "calls (snd (call c f)) = calls f @ [detail c]"
  by (simp add: call_state)

section \<open>The specification\<close>

text \<open>
  The reference: which error each call of a list reports, from the injected errors and the
  function fields alone.
\<close>

fun reports :: "(string \<Rightarrow> error option option) \<Rightarrow> (os_call \<Rightarrow> error option) \<Rightarrow> os_call list \<Rightarrow> error option list" where
  "reports m h [] = []"
| "reports m h (c # cs) =
     (case m (cd_Name (detail c)) of Some (Some e) \<Rightarrow> Some e | _ \<Rightarrow> h c) # reports (m(cd_Name (detail c) := None)) h cs"

lemma call_reports:
  assumes "errors f = Some m"
  shows "fst (call c f) = (case mget m (cd_Name (detail c)) of Some (Some e) \<Rightarrow> Some e | _ \<Rightarrow> hooked f c)"
    and "\<exists>m'. errors (snd (call c f)) = Some m' \<and> mget m' = (mget m)(cd_Name (detail c) := None)"
  using assms
  by (auto simp: call_error call_state FakeOS_getError_def Let_def fun_eq_iff mget_delete split: option.split)

end
