(* ===== verification/Properties_Host.thy ===== *)
theory Properties_Host
  imports Properties_Service Interleaving Service_Run Fake_OS
begin

text \<open>
  Properties of the process around the handlers: requests in flight at the same time, the threads
  of \<open>Run\<close> and the recording double of the operating system.
\<close>

section \<open>Requests in flight\<close>

text \<open>
  C12.  The invariant does not depend on requests being served one at a time: any number of requests that
  start and stop containers, create containers and remove pods, interleaved in any way on a reachable
  state, leaves a state in which the invariant holds and every container that was known still is.
\<close>

theorem interleaving_keeps_invariant:
  assumes "NewMulticriService H nm a b c d e f g cache False net i (empty_state w fl) = Some (Inr V, s0)"
    and "images_keyed H cache" and "reachable V s0 s"
    and "interleaved (request_step V) (map (\<lambda>k. ContainerFlight (StartCheck k)) starts @ map (\<lambda>k. ContainerFlight (StopCheck k)) stops
       @ map (\<lambda>req. PodFlight (CreateCheck req)) creations @ map (\<lambda>k. PodFlight (RemoveCheck k)) removals) s gs t"
  shows "Inv V t \<and> (\<forall>k. mget (ContainerPool s) k \<noteq> None \<longrightarrow> mget (ContainerPool t) k \<noteq> None)"
proof -
  have inv: "Inv V s" by (rule built_reachable [OF assms(1-3)])
  have "\<forall>f\<in>set (map (\<lambda>k. ContainerFlight (StartCheck k)) starts @ map (\<lambda>k. ContainerFlight (StopCheck k)) stops
       @ map (\<lambda>req. PodFlight (CreateCheck req)) creations @ map (\<lambda>k. PodFlight (RemoveCheck k)) removals). relies V s f" by auto
  from runtime.interleaved_advances [OF built_runtime [OF assms(1)] assms(4) inv this] inv
  show ?thesis by (simp add: advances_def)
qed

theorem interleaving_keeps_invariant_witness:
  "\<exists>s t u. serve_all ex_V (take 3 ex_life) ex_s0 = Some s
     \<and> interleaved (request_step ex_V) [ContainerFlight (StartCheck ''u1''), PodFlight (RemoveCheck ''pod'')] s
         [ContainerFlight (StartCall 0), PodFlight (RemoveCall 0)] t \<and> Inv ex_V t"
proof -
  have "map_option (\<lambda>s. (SandboxPool s, ContainerPool s, map_option (\<lambda>sm. (s_ID sm, s_State sm)) (cells (sbxs s) 0), map_option c_State (cells (ctrs s) 0)))
      (serve_all ex_V (take 3 ex_life) ex_s0)
      = Some ([(''pod'', 0)], [(''u1'', 0)], Some (''pod'', SANDBOX_NOTREADY), Some CONTAINER_CREATED)" by code_simp
  then obtain s sm cm where s: "serve_all ex_V (take 3 ex_life) ex_s0 = Some s" and v: "SandboxPool s = [(''pod'', 0)]" "ContainerPool s = [(''u1'', 0)]"
    "cells (sbxs s) 0 = Some sm" "s_State sm = SANDBOX_NOTREADY" "cells (ctrs s) 0 = Some cm" "c_State cm = CONTAINER_CREATED"
    by auto
  have "flight_step ex_V (StartCheck ''u1'') s = Some (StartCall 0, s)"
    using runtime.start_checks [OF runtime.intro [OF ex_adapter] _ v(5) ex_local, of "''u1''"] v by simp
  then have a: "request_step ex_V (ContainerFlight (StartCheck ''u1'')) s = Some (ContainerFlight (StartCall 0), s)" by (simp del: flight_step.simps)
  have "pod_step ex_V (RemoveCheck ''pod'') s = Some (RemoveCall 0, s)"
    using v by (simp add: SandboxStorage_Get_def handler_of_def Remote_RemovePodSandbox_def)
  then have b: "request_step ex_V (PodFlight (RemoveCheck ''pod'')) s = Some (PodFlight (RemoveCall 0), s)" by (simp del: pod_step.simps)
  note m = move_pair [where A = "request_step ex_V"]
  have i: "interleaved (request_step ex_V) [ContainerFlight (StartCheck ''u1''), PodFlight (RemoveCheck ''pod'')] s
      [ContainerFlight (StartCall 0), PodFlight (RemoveCall 0)] s"
    by (rule m(2) [OF m(1) [OF interleaved.none a] b])
  from interleaving_keeps_invariant [OF ex_built ex_keys serve_all_reachable [OF s], of "[''u1'']" "[]" "[]" "[''pod'']"] i s
  show ?thesis by auto
qed

text \<open>
  C14.  A pod that was removed can come back: while a container is being created in a pod that is not ready, a request to
  remove the pod is answered with success and the pod is gone; the creation then puts the pod's record back into the
  store and is answered with success as well.  A creation that comes after the removal is refused.
\<close>

theorem removed_pod_comes_back:
  assumes "adapter (sv_adapter V)"
    and "mget (SandboxPool s) (cr_PodSandboxId req) = Some sp" and "cells (sbxs s) sp = Some sandbox"
    and "s_ID sandbox = cr_PodSandboxId req" and "s_State sandbox = SANDBOX_NOTREADY"
    and "GetRemoteRuntime (sv_remoteCRI V) (s_RuntimeHandler sandbox) = Inr None"
    and "create_local V req sp s = Some (Inr p, s1)" and "ad_RemovePodSandbox (sv_adapter V) sp s1 = Some (None, s2)"
  shows "\<exists>u t cid. interleaved (pod_step V) [CreateCheck req, RemoveCheck (cr_PodSandboxId req)] s [CreateLink sp p, Removed (Some (), None)] u
    \<and> mget (SandboxPool u) (cr_PodSandboxId req) = None
    \<and> pod_step V (CreateCheck req) u = Some (Created (None, Some ''Pod not found''), u)
    \<and> pod_step V (CreateLink sp p) u = Some (Created (Some cid, None), t)
    \<and> mget (SandboxPool t) (cr_PodSandboxId req) = Some sp"
  by (rule runtime.removed_pod_returns [OF runtime.intro [OF assms(1)] assms(2-8)])

theorem removed_pod_comes_back_witness:
  "\<exists>s u t. serve_all ex_V (take 2 ex_life) ex_s0 = Some s
     \<and> interleaved (pod_step ex_V) [CreateCheck (NewCreateContainerRequest ''pod'' ''c'' ''b''), RemoveCheck ''pod''] s
         [CreateLink 0 0, Removed (Some (), None)] u
     \<and> mget (SandboxPool u) ''pod'' = None
     \<and> (\<exists>cid. pod_step ex_V (CreateLink 0 0) u = Some (Created (Some cid, None), t)) \<and> mget (SandboxPool t) ''pod'' = Some 0"
proof -
  let ?req = "NewCreateContainerRequest ''pod'' ''c'' ''b''"
  have "map_option (\<lambda>s. (map_option fst (create_local ex_V ?req 0 s), SandboxPool s,
      map_option (\<lambda>sm. (s_ID sm, s_State sm)) (cells (sbxs s) 0))) (serve_all ex_V (take 2 ex_life) ex_s0)
      = Some (Some (Inr 0), [(''pod'', 0)], Some (''pod'', SANDBOX_NOTREADY))" by code_simp
  then obtain s s1 sm where s: "serve_all ex_V (take 2 ex_life) ex_s0 = Some s" and c: "create_local ex_V ?req 0 s = Some (Inr 0, s1)"
    and pod: "mget (SandboxPool s) (cr_PodSandboxId ?req) = Some 0" "cells (sbxs s) 0 = Some sm"
      "s_ID sm = cr_PodSandboxId ?req" "s_State sm = SANDBOX_NOTREADY"
    by (auto simp: NewCreateContainerRequest_def)
  have "ad_RemovePodSandbox (sv_adapter ex_V) 0 s1 = Some (None, s1)" by (simp add: ok_op_def)
  note rpb = removed_pod_comes_back [OF ex_adapter pod ex_local c this]
  have "cr_PodSandboxId ?req = ''pod''" by (simp add: NewCreateContainerRequest_def)
  with rpb s show ?thesis by (simp del: pod_step.simps) blast
qed

section \<open>Run\<close>

text \<open>
  C15.  \<open>Run\<close> neither leaves early nor blocks: whatever \<open>Unlink\<close> and \<open>Listen\<close> return, in whatever order
  the servers end, and whenever a signal comes, every run has at most fourteen steps.  A state in which \<open>Run\<close>
  has not returned either can go on by itself (where a server returns only because it was
  stopped), or both servers serve and no signal has come.  Once \<open>Run\<close> returns without an error
  both servers were stopped and both goroutines have closed their channels.  It returns an error
  only before the gRPC goroutine is started, and then it leaves the servers to the interrupt handler.
\<close>

theorem service_run_ends:
  assumes "runs addr n s"
  shows "n \<le> 14
    \<and> ((\<exists>t. due_step addr s t) \<or> (\<exists>e. main_pc s = Finished e)
       \<or> main_pc s = Selecting \<and> stream_pc s = Serving \<and> grpc_pc s = Serving \<and> handler_pc s = NoSignal)
    \<and> (main_pc s = Finished None \<longrightarrow> stream_pc s = ChannelClosed \<and> grpc_pc s = ChannelClosed
         \<and> stream_stopped s \<and> grpc_stopped s)
    \<and> (main_pc s = Finished (Some e) \<longrightarrow> grpc_pc s = NotStarted
         \<and> (stream_stopped s \<longleftrightarrow> handler_pc s \<in> {HandlerStopsGrpc, Handled}) \<and> (grpc_stopped s \<longleftrightarrow> handler_pc s = Handled))"
  using runs_inv [OF assms] run_progress [of s addr] by (auto simp: run_inv_def)

text \<open>A run in which the gRPC server ends by itself, and \<open>Run\<close> then stops the streaming server.\<close>

theorem service_run_ends_witness:
  "\<exists>s. runs ''/run/x.sock'' 11 s \<and> main_pc s = Finished None \<and> stream_stopped s \<and> handler_pc s = NoSignal
    \<and> (11::nat) \<le> 14 \<and> stream_pc s = ChannelClosed"
proof -
  let ?a = "''/run/x.sock''"
  define m where "m = (\<lambda>p q r a b. \<lparr>main_pc = p, stream_pc = q, grpc_pc = r, handler_pc = NoSignal,
     stream_stopped = a, grpc_stopped = b\<rparr>)"
  have step: "runs ?a n s \<Longrightarrow> run_step ?a s t \<Longrightarrow> k = Suc n \<Longrightarrow> t = u \<Longrightarrow> runs ?a k u" for n s t k u
    using runs.goes by blast
  have "runs ?a 0 (m Unlinking Serving NotStarted False False)" using runs.begins by (simp add: run_start_def m_def)
  then have "runs ?a 1 (m Listening Serving NotStarted False False)"
    by (rule step [OF _ run_step.unlink [where err = "Some ''no such file''" and isNotExist = True]]) (simp_all add: m_def run_effects)
  then have "runs ?a 2 (m Selecting Serving Serving False False)"
    by (rule step [OF _ run_step.listen [where err = None]]) (simp_all add: m_def run_effects)
  then have "runs ?a 3 (m Selecting Serving Returned False False)"
    by (rule step [OF _ run_step.grpc_returns]) (simp_all add: m_def run_effects)
  then have "runs ?a 4 (m Selecting Serving ChannelClosed False False)"
    by (rule step [OF _ run_step.grpc_closes]) (simp_all add: m_def run_effects)
  then have "runs ?a 5 (m StoppingStream Serving ChannelClosed False False)"
    by (rule step [OF _ run_step.select]) (simp_all add: m_def run_effects)
  then have "runs ?a 6 (m StoppingGrpc Serving ChannelClosed True False)"
    by (rule step [OF _ run_step.stops_stream]) (simp_all add: m_def run_effects)
  then have "runs ?a 7 (m AwaitingStream Serving ChannelClosed True True)"
    by (rule step [OF _ run_step.stops_grpc]) (simp_all add: m_def run_effects)
  then have "runs ?a 8 (m AwaitingStream Returned ChannelClosed True True)"
    by (rule step [OF _ run_step.stream_returns]) (simp_all add: m_def run_effects)
  then have "runs ?a 9 (m AwaitingStream ChannelClosed ChannelClosed True True)"
    by (rule step [OF _ run_step.stream_closes]) (simp_all add: m_def run_effects)
  then have "runs ?a 10 (m AwaitingGrpc ChannelClosed ChannelClosed True True)"
    by (rule step [OF _ run_step.await_stream]) (simp_all add: m_def run_effects)
  then have r: "runs ?a 11 (m (Finished None) ChannelClosed ChannelClosed True True)"
    by (rule step [OF _ run_step.await_grpc]) (simp_all add: m_def run_effects)
  show ?thesis by (rule exI [of _ "m (Finished None) ChannelClosed ChannelClosed True True"])
      (use service_run_ends [OF r] r in \<open>simp add: m_def\<close>)
qed

section \<open>The recording operating system\<close>

text \<open>
  C40.  The recording double meets its specification on every sequence of calls: each call reports the
  error injected for its operation if one is left, and otherwise what the operation's function
  field says (an injected nil error is used up and reports nothing by itself); an injected error
  is reported once; and all calls are recorded with their arguments in the order they were made.
\<close>

theorem fake_os_reports:
  assumes "errors f = Some m"
  shows "fst (perform cs f) = reports (mget m) (hooked f) cs \<and> calls (snd (perform cs f)) = calls f @ map detail cs"
  using assms
proof (induction cs arbitrary: f m)
  case (Cons c cs)
  from call_reports(2) [OF Cons.prems] obtain m' where
    m': "errors (snd (call c f)) = Some m'" "mget m' = (mget m)(cd_Name (detail c) := None)" by blast
  have h: "hooked (snd (call c f)) = hooked f" by (rule ext) (rule call_keeps_hooks)
  show ?case
    using Cons.IH [OF m'(1), unfolded m'(2)] call_reports(1) [OF Cons.prems, of c] call_calls [of c f]
    by (simp add: case_prod_unfold Let_def h del: fun_upd_apply)
qed simp

text \<open>A double with an injected error for \<open>Stat\<close> and a function field for \<open>RemoveAll\<close>.\<close>

theorem fake_os_reports_witness:
  "\<exists>f. FakeOS_InjectErrors [(''Stat'', Some ''no such file'')]
        (NewFakeOS\<lparr>RemoveAllFn := Some (\<lambda>p. if p = ''/'' then Some ''refused'' else None)\<rparr>) = Some f
     \<and> errors f = Some [(''Stat'', Some ''no such file'')]
     \<and> fst (perform [StatC ''/a'', RemoveAllC ''/'', StatC ''/a''] f) = [Some ''no such file'', Some ''refused'', None]"
proof -
  define f where "f = NewFakeOS\<lparr>RemoveAllFn := Some (\<lambda>p. if p = ''/'' then Some ''refused'' else None),
    errors := Some [(''Stat'', Some ''no such file'')]\<rparr>"
  have "errors f = Some [(''Stat'', Some ''no such file'')]" by (simp add: f_def)
  from fake_os_reports [OF this, of "[StatC ''/a'', RemoveAllC ''/'', StatC ''/a'']"] show ?thesis
    by (intro exI [of _ f]) (simp add: f_def NewFakeOS_def FakeOS_InjectError_def)
qed

end
