(* ===== verification/Cluster.thy ===== *)
theory Cluster
  imports Slurm_Adapter Concurrency
begin

text \<open>
  The jobs behind the containers.  What Slurm documents of \<open>sbatch\<close> and \<open>scancel\<close> is stated over
  a history of the cluster, the numbers of the jobs submitted and of the jobs cancelled over the
  client's sessions, and followed from the container handlers down to the SSH sessions.
\<close>

section \<open>What Slurm documents\<close>

text \<open>
  A script that submits prints the job's number, a positive one of 32 bits, in the words of
  \<open>sbatch\<close>; other text may come before them (the user's own prerun file may print) and white space after.
\<close>

record job_history =
  submitted :: "int list"
  cancelled :: "int list"

definition submits :: "string \<Rightarrow> job_history \<Rightarrow> job_history \<Rightarrow> bool" where
  "submits out j j' \<longleftrightarrow>
     (\<exists>pre n post. out = pre @ ''Submitted batch job '' @ itoa n @ post \<and> \<not> Contains pre ''Submitted batch job ''
        \<and> list_all is_space post \<and> 0 < n \<and> n < 2 ^ 32 \<and> j' = j\<lparr>submitted := submitted j @ [n]\<rparr>)
     \<or> \<not> Contains out ''Submitted batch job '' \<and> j' = j"

text \<open>
  Only the commands of a session touch the history: dialling, opening and closing sessions, copying
  files, reading the clock and formatting log lines leave it alone.  Nothing is said of a command
  that fails.
\<close>

definition slurm_history :: "'w lib \<Rightarrow> ('w \<Rightarrow> job_history) \<Rightarrow> bool" where
  "slurm_history B jobs \<longleftrightarrow>
     (\<forall>n a m w r w'. ssh_Dial (lib_ssh B) n a m w = Some (r, w') \<longrightarrow> jobs w' = jobs w)
     \<and> (\<forall>c w. jobs (snd (ssh_NewSession (lib_ssh B) c w)) = jobs w)
     \<and> (\<forall>h w. jobs (snd (ssh_RequestPty (lib_ssh B) h w)) = jobs w)
     \<and> (\<forall>h w. jobs (ssh_Close (lib_ssh B) h w) = jobs w)
     \<and> (\<forall>p q h f w. jobs (snd (scp_CopyPath (lib_ssh B) p q h f w)) = jobs w)
     \<and> (\<forall>w. jobs (snd (time_Now (lib_go B) w)) = jobs w)
     \<and> (\<forall>w. jobs (snd (time_Stamp (lib_go B) w)) = jobs w)
     \<and> (\<forall>st n d w. jobs (snd (cri_format (lib_ci B) st n d w)) = jobs w)
     \<and> (\<forall>h c w out w'. ssh_Run (lib_ssh B) h c w = ((out, [], None), w') \<longrightarrow>
          (HasSuffix c (''/'' @ RunScript) \<longrightarrow> submits out (jobs w) (jobs w'))
          \<and> (\<forall>n. 0 < n \<longrightarrow> n < 2 ^ 31 \<longrightarrow> c = ''scancel '' @ itoa n \<longrightarrow> jobs w' = (jobs w)\<lparr>cancelled := cancelled (jobs w) @ [n]\<rparr>))"

lemma slurm_historyD:
  assumes "slurm_history B jobs"
  shows "ssh_Dial (lib_ssh B) nm a m w = Some (r, w') \<Longrightarrow> jobs w' = jobs w"
    and "ssh_NewSession (lib_ssh B) c w = (q, w') \<Longrightarrow> jobs w' = jobs w"
    and "ssh_RequestPty (lib_ssh B) h w = (e, w') \<Longrightarrow> jobs w' = jobs w"
    and "jobs (ssh_Close (lib_ssh B) h w) = jobs w"
    and "scp_CopyPath (lib_ssh B) p p' h f w = (e, w') \<Longrightarrow> jobs w' = jobs w"
    and "time_Now (lib_go B) w = (n, w') \<Longrightarrow> jobs w' = jobs w"
    and "time_Stamp (lib_go B) w = (d, w') \<Longrightarrow> jobs w' = jobs w"
    and "cri_format (lib_ci B) st n d w = (l, w') \<Longrightarrow> jobs w' = jobs w"
  using assms unfolding slurm_history_def by (blast | metis snd_conv)+

lemma submits_run:
  assumes "slurm_history B jobs" and "ssh_Run (lib_ssh B) h c w = ((out, [], None), w')" and "HasSuffix c (''/'' @ RunScript)"
  shows "submits out (jobs w) (jobs w')"
  using assms unfolding slurm_history_def by blast

lemma cancels_run:
  assumes "slurm_history B jobs" and "ssh_Run (lib_ssh B) h (''scancel '' @ itoa n) w = ((out, [], None), w')" and "0 < n" and "n < 2 ^ 31"
  shows "jobs w' = (jobs w)\<lparr>cancelled := cancelled (jobs w) @ [n]\<rparr>"
  using assms unfolding slurm_history_def by blast

section \<open>Operations that leave the history alone\<close>

definition apart :: "('w \<Rightarrow> job_history) \<Rightarrow> 'w mstate \<Rightarrow> 'w mstate \<Rightarrow> bool" where
  "apart jobs s t \<longleftrightarrow> jobs (world t) = jobs (world s)"

lemma transp_apart: "transp (apart jobs)"
  by (rule transpI) (simp add: apart_def)

lemma apart_refl [simp]: "apart jobs s s" "apart jobs s (s\<lparr>files := f\<rparr>)" "apart jobs s (s\<lparr>ctrs := c\<rparr>)"
  by (simp_all add: apart_def)

lemma apart_trans: "apart jobs s t \<Longrightarrow> apart jobs t u \<Longrightarrow> apart jobs s u"
  by (simp add: apart_def)

lemma Loggers_apart: "CreateContainerLoggers p tty n s = (r, t) \<Longrightarrow> apart jobs s t"
  by (auto simp: CreateContainerLoggers_def Let_def split: if_splits prod.splits option.splits)

lemma write_apart:
  assumes H: "slurm_history B jobs"
  shows "apart jobs s (write_if (lib_ci B) l d s)"
proof (cases l)
  case (Some g)
  have "apart jobs s (Logger_Write (lib_ci B) g d s)"
    by (cases g) (auto simp: apart_def Let_def split: prod.split dest: slurm_historyD(8) [OF H])
  with Some show ?thesis by (simp add: write_if_def)
qed (simp add: write_if_def)

lemma onw_apart: "onw f s = (x, t) \<Longrightarrow> (\<And>w w'. f w = (x, w') \<Longrightarrow> jobs w' = jobs w) \<Longrightarrow> apart jobs s t"
  by (auto simp: onw_def apart_def split: prod.splits)

lemma Connect_apart:
  assumes H: "slurm_history B jobs" and c: "SSH_Connect (lib_ssh B) a s = Some (e, a', t)"
  shows "apart jobs s t"
proof -
  obtain r w where d: "ssh_Dial (lib_ssh B) (sprintf ''%s:%s'' [host a, port a]) (user a) (SSH_auth (lib_ssh B) a (files s)) (world s) = Some (r, w)"
    using c by (auto simp: SSH_Connect_def bind_eq_Some_conv)
  with c have "t = s\<lparr>world := w\<rparr>" by (cases r) (simp_all add: SSH_Connect_def)
  with slurm_historyD(1) [OF H d] show ?thesis by (simp add: apart_def)
qed

lemma GetSession_apart:
  assumes H: "slurm_history B jobs" and g: "SSH_GetSession (lib_ssh B) tty a s = Some (r, a', t)"
  shows "apart jobs s t"
proof -
  obtain e a1 s1 where c: "(if client a = None then SSH_Connect (lib_ssh B) a s else Some (None, a, s)) = Some (e, a1, s1)"
    using g by (auto simp: SSH_GetSession_def bind_eq_Some_conv)
  have s1: "apart jobs s s1"
    using c Connect_apart [OF H, of a s e a1 s1] by (auto split: if_splits)
  show ?thesis
  proof (cases e)
    case (Some x)
    with g c s1 show ?thesis by (simp add: SSH_GetSession_def)
  next
    case None
    with g c obtain cl where cl: "client a1 = Some cl" by (auto simp: SSH_GetSession_def bind_eq_Some_conv)
    obtain q s2 where n: "onw (ssh_NewSession (lib_ssh B) cl) s1 = (q, s2)" by (metis prod.exhaust)
    have s2: "apart jobs s1 s2" by (rule onw_apart [OF n slurm_historyD(2) [OF H]])
    have "t = s2 \<or> (\<exists>h. onw (ssh_RequestPty (lib_ssh B) h) s2 = (None, t))"
      using g c None cl n by (auto simp: SSH_GetSession_def split: sum.splits if_splits prod.splits option.splits)
    moreover have "apart jobs s2 u" if "onw (ssh_RequestPty (lib_ssh B) h) s2 = (None, u)" for h u
      by (rule onw_apart [OF that slurm_historyD(3) [OF H]])
    ultimately show ?thesis using apart_trans [OF s1 s2] apart_trans by blast
  qed
qed

lemma CopyTo_apart:
  assumes H: "slurm_history B jobs"
  shows "keeps (apart jobs) s (SlurmCmd_CopyTo B sl p q s)"
proof (rule keepsI)
  fix r t assume a: "SlurmCmd_CopyTo B sl p q s = Some (r, t)"
  then obtain x a' s1 where g: "SSH_GetSession (lib_ssh B) False (sc_sshClient sl) s = Some (x, a', s1)"
    by (auto simp: SlurmCmd_CopyTo_def SSH_CopyTo_def bind_eq_Some_conv)
  note s1 = GetSession_apart [OF H g]
  show "apart jobs s t"
  proof (cases x)
    case (Inl e)
    with a g s1 show ?thesis by (simp add: SlurmCmd_CopyTo_def SSH_CopyTo_def)
  next
    case (Inr h)
    obtain e s2 where c: "onw (scp_CopyPath (lib_ssh B) p q h (files s1)) s1 = (e, s2)" by (metis prod.exhaust)
    have "apart jobs s1 s2" by (rule onw_apart [OF c slurm_historyD(5) [OF H]])
    moreover have "t = session_Close (lib_ssh B) h s2"
      using a g Inr c by (auto simp: SlurmCmd_CopyTo_def SSH_CopyTo_def Let_def split: option.splits)
    ultimately show ?thesis using s1 slurm_historyD(4) [OF H] by (simp add: apart_def session_Close_def)
  qed
qed

text \<open>A command that succeeds ran in one session, with nothing else in between.\<close>

lemma run_command:
  assumes H: "slurm_history B jobs" and a: "SlurmCmd_run B sl cmd so se s = Some ((out, None), t)"
  obtains h w w' where "jobs w = jobs (world s)" "ssh_Run (lib_ssh B) h cmd w = ((out, [], None), w')" "jobs (world t) = jobs w'"
proof -
  let ?S = "lib_ssh B"
  obtain es where r: "SSH_Run ?S (lib_ci B) (sc_sshClient sl) cmd so se True s = Some ((out, es, None), t)"
    using a by (auto simp: SlurmCmd_run_def bind_eq_Some_conv)
  have es: "es = []" by (rule SSH_Run_ok [OF r])
  obtain q a' s1 where g: "SSH_GetSession ?S True (sc_sshClient sl) s = Some (q, a', s1)"
    using r by (auto simp: SSH_Run_def bind_eq_Some_conv)
  with r obtain h where h: "q = Inr h" by (cases q) (auto simp: SSH_Run_def)
  obtain o2 e2 er w' where x: "ssh_Run ?S h cmd (world s1) = ((o2, e2, er), w')" by (metis prod.exhaust)
  let ?u = "write_if (lib_ci B) so o2 (write_if (lib_ci B) se e2 (s1\<lparr>world := w'\<rparr>))"
  have e: "o2 = out" "e2 = []" "er = None" "t = session_Close ?S h ?u"
    using r es g h x by (auto simp: SSH_Run_def onw_def Let_def split: if_splits option.splits)
  have "apart jobs (s1\<lparr>world := w'\<rparr>) ?u" using apart_trans [OF write_apart [OF H] write_apart [OF H]] .
  then have "jobs (world t) = jobs w'" using e slurm_historyD(4) [OF H] by (simp add: apart_def session_Close_def)
  moreover have "jobs (world s1) = jobs (world s)" using GetSession_apart [OF H g] by (simp add: apart_def)
  ultimately show ?thesis using that x e by blast
qed

lemma tmp_file_apart: "slurm_history B jobs \<Longrightarrow> tmp_file B n s = (p, t) \<Longrightarrow> apart jobs s t"
  by (auto simp: tmp_file_def apart_def split: prod.splits dest: slurm_historyD(7))

lemma append_script_apart: "append_script p b s = (r, t) \<Longrightarrow> apart jobs s t"
  by (auto simp: append_script_def split: prod.splits option.splits)

lemma build_apart:
  assumes "slurm_history B jobs"
  shows "buildPreRunScript B c s = (r, t) \<Longrightarrow> apart jobs s t"
    and "buildRunScript B j s = (r, t) \<Longrightarrow> apart jobs s t"
    and "buildSbatch B j s = (r, t) \<Longrightarrow> apart jobs s t"
  using assms by (auto simp: buildPreRunScript_def buildRunScript_def buildSbatch_def Let_def split: prod.splits if_splits
      dest!: tmp_file_apart append_script_apart [where jobs = jobs] intro: apart_trans)

lemma copy_script_apart:
  assumes "slurm_history B jobs" and "\<And>x t. r = (x, t) \<Longrightarrow> apart jobs s t"
  shows "keeps (apart jobs) s (copy_script B sl w f d r)"
proof -
  obtain x t where r: "r = (x, t)" by (cases r)
  have "keeps (apart jobs) t (copy_script B sl w f d r)"
    unfolding copy_script_def r
    by (cases x) (auto intro!: keeps_bind [OF transp_apart] CopyTo_apart [OF assms(1)])
  with assms(2) [OF r] show ?thesis by (rule keeps_step [OF transp_apart])
qed

lemma batchScript_apart:
  assumes H: "slurm_history B jobs"
  shows "keeps (apart jobs) s (SlurmCmd_batchScript B sl config s)"
  unfolding SlurmCmd_batchScript_def
  by (intro keeps_bind [OF transp_apart] keeps_intros copy_script_apart [OF H])
    (auto dest: build_apart [OF H] intro!: keeps_bind [OF transp_apart] copy_script_apart [OF H] keeps_cases(3) split: prod.splits)

section \<open>Starting and stopping\<close>

lemma Contains_subset: "Contains s sub \<Longrightarrow> set sub \<subseteq> set s"
proof (induction s)
  case (Cons x s)
  then show ?case using set_mono_prefix [of sub "x # s"] by (auto split: if_splits)
qed simp

lemma TrimSpace_number:
  assumes "0 \<le> n" and "list_all is_space post"
  shows "TrimSpace (itoa n @ post) = itoa n"
proof -
  have ns: "\<not> is_space c" if "c \<in> set (itoa n)" for c
    using itoa_digits_nonspace [OF assms(1) that] by (auto simp: is_digit_def is_space_def)
  have ne: "itoa n \<noteq> []" using assms(1) nat_digits_props [of "nat n"] by (simp add: itoa_def)
  have "dropWhile is_space (rev post @ rev (itoa n)) = rev (itoa n)"
    using assms(2) ne ns [of "last (itoa n)"] by (subst dropWhile_append2) (auto simp: list_all_iff dropWhile_hd hd_rev)
  moreover have "dropWhile is_space (itoa n @ post) = itoa n @ post"
    using ne ns [of "hd (itoa n)"] by (intro dropWhile_hd) auto
  ultimately show ?thesis by (simp add: TrimSpace_def)
qed

lemma parse_submission:
  assumes "\<not> Contains pre ''Submitted batch job ''" and "list_all is_space post" and "0 \<le> n"
  shows "parseJobId (pre @ ''Submitted batch job '' @ itoa n @ post) = Inr (itoa n)"
proof -
  have "CHR ''S'' \<notin> set (itoa n)"
    using itoa_digits_nonspace [OF assms(3), of "CHR ''S''"] by (auto simp: is_digit_def)
  moreover have "\<not> is_space (CHR ''S'')" by (simp add: is_space_def)
  then have "CHR ''S'' \<notin> set post" using assms(2) unfolding list_all_iff by blast
  ultimately have "CHR ''S'' \<notin> set (itoa n @ post)" by simp
  then have absent: "\<not> Contains (itoa n @ post) ''Submitted batch job ''" using Contains_subset by fastforce
  have "Split (pre @ ''Submitted batch job '' @ itoa n @ post) ''Submitted batch job '' = [pre, itoa n @ post]"
    using Split_first [OF assms(1)] Split_absent [OF _ absent] by simp
  with TrimSpace_number [OF assms(3,2)] show ?thesis by (simp add: parseJobId_def)
qed

lemma parse_no_submission: "\<not> Contains out ''Submitted batch job '' \<Longrightarrow> \<exists>e. parseJobId out = Inl e"
  by (simp add: parseJobId_def Split_absent)

text \<open>A submission that is answered with a number submitted the job of that number, and only that one.\<close>

lemma Sbatch_submits:
  assumes H: "slurm_history B jobs" and a: "SlurmCmd_Sbatch B sl conf s = Some (Inr j, t)"
    and script: "HasSuffix (jc_Script conf) (''/'' @ RunScript)"
  obtains n where "j = itoa n" "0 < n" "n < 2 ^ 32"
    "jobs (world t) = (jobs (world s))\<lparr>submitted := submitted (jobs (world s)) @ [n]\<rparr>"
proof -
  obtain e s1 where b: "SlurmCmd_batchScript B sl conf s = Some (e, s1)" and e: "e = None"
    using a by (cases "SlurmCmd_batchScript B sl conf s") (auto simp: SlurmCmd_Sbatch_def split: option.splits)
  obtain r s2 where l: "CreateContainerLoggers (sc_logPath sl) False 100 s1 = (r, s2)" by (metis prod.exhaust)
  obtain so se where r: "r = Inr (so, se)" using a b e l by (cases r) (auto simp: SlurmCmd_Sbatch_def)
  obtain out err s3 where c: "SlurmCmd_run B sl (jc_Script conf) (Some so) se s2 = Some ((out, err), s3)"
    using a b e l r by (auto simp: SlurmCmd_Sbatch_def bind_eq_Some_conv)
  have p: "err = None" "parseJobId out = Inr j" "t = s3"
    using a b e l r c by (auto simp: SlurmCmd_Sbatch_def split: option.splits)
  obtain h w w' where w: "jobs w = jobs (world s2)" "ssh_Run (lib_ssh B) h (jc_Script conf) w = ((out, [], None), w')"
    "jobs (world s3) = jobs w'" by (rule run_command [OF H c [unfolded p(1)]])
  have s2: "jobs (world s2) = jobs (world s)"
    using keepsD [OF batchScript_apart [OF H] b] Loggers_apart [OF l, of jobs] by (simp add: apart_def)
  from submits_run [OF H w(2) script] p(2) parse_no_submission [of out] show ?thesis
    using that w s2 p parse_submission unfolding submits_def by auto
qed

lemma Scancel_cancels:
  assumes H: "slurm_history B jobs" and a: "SlurmCmd_Scancel B sl n s = Some (None, t)" and "0 < n" and "n < 2 ^ 31"
  shows "jobs (world t) = (jobs (world s))\<lparr>cancelled := cancelled (jobs (world s)) @ [n]\<rparr>"
proof -
  obtain r s2 where l: "CreateContainerLoggers (sc_logPath sl) False 100 s = (r, s2)" by (metis prod.exhaust)
  obtain so se where r: "r = Inr (so, se)" using a l by (cases r) (auto simp: SlurmCmd_Scancel_def)
  have cmd: "sprintf ''scancel %d'' [itoa n] = ''scancel '' @ itoa n" by (simp add: sprintf.simps)
  obtain out where c: "SlurmCmd_run B sl (''scancel '' @ itoa n) (Some so) se s2 = Some ((out, None), t)"
    using a l r by (auto simp: SlurmCmd_Scancel_def cmd bind_eq_Some_conv)
  obtain h w w' where w: "jobs w = jobs (world s2)" "ssh_Run (lib_ssh B) h (''scancel '' @ itoa n) w = ((out, [], None), w')"
    "jobs (world t) = jobs w'" by (rule run_command [OF H c])
  from cancels_run [OF H w(2) assms(3,4)] w Loggers_apart [OF l, of jobs] show ?thesis by (simp add: apart_def)
qed

lemma Slurm_start_submits:
  assumes H: "slurm_history B jobs" and a: "Slurm_StartContainer B sa p s = Some (None, t)"
  obtains n cm where "0 < n" "n < 2 ^ 32" "cells (ctrs t) p = Some cm" "c_Pid cm = n"
    "jobs (world t) = (jobs (world s))\<lparr>submitted := submitted (jobs (world s)) @ [n]\<rparr>"
proof -
  obtain cm where cm: "cells (ctrs s) p = Some cm" using a by (auto simp: Slurm_StartContainer_def bind_eq_Some_conv)
  obtain sl where sl: "CreateCMD cm = Inr sl" using a cm by (cases "CreateCMD cm") (auto simp: Slurm_StartContainer_def)
  obtain conf where conf: "buildStartCommand sa cm s = Some conf"
    using a cm sl by (auto simp: Slurm_StartContainer_def bind_eq_Some_conv)
  let ?conf = "setupBatchHeaders cm (conf\<lparr>jc_ENV := filterEnvironmentVariables cm\<rparr>)"
  obtain r s1 where b: "SlurmCmd_Sbatch B sl ?conf s = Some (r, s1)"
    using a cm sl conf by (auto simp: Slurm_StartContainer_def bind_eq_Some_conv)
  obtain j where j: "r = Inr j" using a cm sl conf b by (cases r) (auto simp: Slurm_StartContainer_def)
  have "jc_Script ?conf = mstr (c_Extra cm) ''RMPath'' @ ''/'' @ RunScript"
    using conf by (auto simp: buildStartCommand_def Let_def bind_eq_Some_conv setupBatchHeaders_def getRMScriptPath_def sprintf.simps)
  then have script: "HasSuffix (jc_Script ?conf) (''/'' @ RunScript)" by (simp add: HasSuffix_def)
  obtain n where n: "j = itoa n" "0 < n" "n < 2 ^ 32"
    "jobs (world s1) = (jobs (world s))\<lparr>submitted := submitted (jobs (world s)) @ [n]\<rparr>"
    by (rule Sbatch_submits [OF H b [unfolded j] script])
  have atoi: "Atoi (itoa n) = (n, True)" "itoa n \<noteq> []"
    using n(2,3) Atoi_itoa [of n] nat_digits_props [of "nat n"] by (simp_all add: min_int64_def max_int64_def itoa_def)
  obtain t' where t': "update_container p (\<lambda>cm. cm\<lparr>c_Pid := n\<rparr>) s1 = Some t'"
    using a cm sl conf b j n(1) atoi by (auto simp: Slurm_StartContainer_def bind_eq_Some_conv)
  have t: "t = t'" using a cm sl conf b j n(1) atoi t' by (simp add: Slurm_StartContainer_def)
  with t' obtain c where "cells (ctrs t) p = Some (c\<lparr>c_Pid := n\<rparr>)" "world t = world s1"
    by (auto simp: update_container_def bind_eq_Some_conv)
  with that n show ?thesis by simp
qed

section \<open>The handlers\<close>

text \<open>The file the containers are kept in is not the cluster.\<close>

definition file_apart :: "('w \<Rightarrow> job_history) \<Rightarrow> 'w mstate \<Rightarrow> bool" where
  "file_apart jobs s \<longleftrightarrow> (\<forall>kv k v w. container_persist s = Some kv \<longrightarrow> jobs (snd (kv_Put kv k v w)) = jobs w)"

lemma put_history:
  assumes "file_apart jobs s" and "ContainerStorage_Update p s = Some t"
  shows "apart jobs s t \<and> container_persist t = container_persist s"
proof (cases "container_persist s")
  case None
  with assms(2) show ?thesis
    by (auto simp: ContainerStorage_Update_def ContainerStorage_persist_Put_def apart_def Let_def bind_eq_Some_conv)
next
  case (Some kv)
  with assms(1) have kv: "jobs (snd (kv_Put kv k v w)) = jobs w" for k v w unfolding file_apart_def by blast
  obtain cm where cm: "cells (ctrs s) p = Some cm" using assms(2) by (auto simp: ContainerStorage_Update_def bind_eq_Some_conv)
  let ?s = "s\<lparr>ContainerPool := mset_key (c_ID cm) p (ContainerPool s)\<rparr>"
  have "t = ?s\<lparr>world := snd (kv_Put kv (c_ID cm) (encode_container ?s cm) (world s))\<rparr>"
    using assms(2) Some cm
    by (simp add: ContainerStorage_Update_def ContainerStorage_persist_Put_def ContainerPersist_Put_def Let_def split_beta)
  with Some show ?thesis by (simp add: apart_def kv)
qed

lemma record_history:
  assumes H: "slurm_history B jobs" and "file_apart jobs s" and n: "now (lib_go B) s = (n, v)"
    and "do { s \<leftarrow> update_container p f v; s \<leftarrow> ContainerStorage_Update p s; Some (x, s) } = Some (y, t)"
  shows "apart jobs s t \<and> file_apart jobs t"
proof -
  obtain u where u: "update_container p f v = Some u" "ContainerStorage_Update p u = Some t"
    using assms(4) by (auto simp: bind_eq_Some_conv)
  have v: "apart jobs s v" "container_persist v = container_persist s"
    using n by (auto simp: now_def apart_def split: prod.splits dest: slurm_historyD(6) [OF H])
  have w: "apart jobs v u" "container_persist u = container_persist v"
    using u(1) by (auto simp: update_container_def apart_def bind_eq_Some_conv)
  have "file_apart jobs u" using assms(2) v w by (simp add: file_apart_def)
  with put_history [OF this u(2)] v(1) w(1) show ?thesis by (auto simp: file_apart_def intro: apart_trans)
qed

text \<open>A local container whose adapter is Slurm's.\<close>

definition slurm_local :: "'w lib \<Rightarrow> 'w SlurmAdapter \<Rightarrow> 'w multicriService \<Rightarrow> ('w \<Rightarrow> job_history) \<Rightarrow> bool" where
  "slurm_local B sa V jobs \<longleftrightarrow> slurm_adapter sa \<and> sv_adapter V = SlurmAdapter_interface B sa \<and> sv_go V = lib_go B \<and> slurm_history B jobs"

lemma slurm_localD:
  assumes "slurm_local B sa V jobs"
  shows "sv_adapter V = SlurmAdapter_interface B sa" "sv_go V = lib_go B" "slurm_history B jobs" "runtime V"
  using assms by (auto simp: slurm_local_def intro!: runtime.intro slurm_adapter.is_adapter)

lemma start_call_history:
  assumes L: "slurm_local B sa V jobs" and "ad_StartContainer (sv_adapter V) p s = Some (None, t)"
  obtains n cm where "0 < n" "n < 2 ^ 32" "cells (ctrs t) p = Some cm" "c_Pid cm = n"
    "jobs (world t) = (jobs (world s))\<lparr>submitted := submitted (jobs (world s)) @ [n]\<rparr>"
proof -
  have "Slurm_StartContainer B sa p s = Some (None, t)" using assms(2) slurm_localD(1) [OF L] by simp
  from Slurm_start_submits [OF slurm_localD(3) [OF L] this] that show ?thesis by metis
qed

lemma start_record_history:
  assumes L: "slurm_local B sa V jobs" and "file_apart jobs s" and r: "flight_step V (StartRecord p err) s = Some (g, t)"
  shows "apart jobs s t \<and> file_apart jobs t"
proof -
  obtain n v where n: "now (sv_go V) s = (n, v)" by (metis prod.exhaust)
  with r have "do { s \<leftarrow> update_container p (if err \<noteq> None then start_failed n else start_ok n) v;
      s \<leftarrow> ContainerStorage_Update p s; Some (Replied (if err \<noteq> None then None else Some (), err), s) } = Some (g, t)" by simp
  from record_history [OF slurm_localD(3) [OF L] assms(2) n [unfolded slurm_localD(2) [OF L]] this] show ?thesis .
qed

lemma stop_running_history:
  assumes L: "slurm_local B sa V jobs" and "file_apart jobs s"
    and "mget (ContainerPool s) k = Some p" and "cells (ctrs s) p = Some cm"
    and "GetRemoteRuntime (sv_remoteCRI V) (s_RuntimeHandler (c_PodSandbox cm)) = Inr None"
    and "c_State cm = CONTAINER_RUNNING" and "0 < c_Pid cm" and "c_Pid cm < 2 ^ 31"
    and stop: "StopContainer V k s = Some ((Some (), None), u)"
  shows "jobs (world u) = (jobs (world s))\<lparr>cancelled := cancelled (jobs (world s)) @ [c_Pid cm]\<rparr>"
proof -
  have c: "flight_step V (StopCheck k) s = Some (StopCall p, s)"
    using assms(3-6) by (simp add: ContainerStorage_Get_def container_handler_def Remote_StopContainer_def route_none)
  with stop have "alone V 2 (StopCall p) s = Some ((Some (), None), u)"
    unfolding alone_stop [symmetric] by (simp add: numeral_3_eq_3 numeral_2_eq_2 del: flight_step.simps)
  then obtain err s1 where a: "Slurm_StopContainer B p s = Some (err, s1)"
    and r: "alone V 1 (case err of Some e \<Rightarrow> Replied (None, Some e) | None \<Rightarrow> StopRecord p) s1 = Some ((Some (), None), u)"
    using slurm_localD(1) [OF L] by (auto simp: numeral_2_eq_2 bind_eq_Some_conv)
  have err: "err = None" using r by (cases err) simp_all
  obtain sl where sl: "CreateCMD cm = Inr sl" using a err assms(4) by (cases "CreateCMD cm") (auto simp: Slurm_StopContainer_def)
  have "SlurmCmd_Scancel B sl (c_Pid cm) s = Some (None, s1)"
    using a err sl assms(4,7,8) int32_id [of "c_Pid cm"] by (simp add: Slurm_StopContainer_def)
  from Scancel_cancels [OF slurm_localD(3) [OF L] this assms(7,8)]
  have h: "jobs (world s1) = (jobs (world s))\<lparr>cancelled := cancelled (jobs (world s)) @ [c_Pid cm]\<rparr>" .
  have "file_apart jobs s1"
    using assms(2) keepsD [OF Slurm_StopContainer_keeps a] by (simp add: file_apart_def same_stores_def)
  moreover obtain n v where n: "now (sv_go V) s1 = (n, v)" by (metis prod.exhaust)
  moreover have "do { s \<leftarrow> update_container p (\<lambda>cm. cm\<lparr>c_State := CONTAINER_EXITED, c_FinishedAt := n\<rparr>) v;
      s \<leftarrow> ContainerStorage_Update p s; Some (Replied (Some (), None), s) } = Some (Replied (Some (), None), u)"
    using r err n by (auto simp: bind_eq_Some_conv)
  ultimately have "apart jobs s1 u"
    using record_history [OF slurm_localD(3) [OF L]] slurm_localD(2) [OF L] by metis
  with h show ?thesis by (simp add: apart_def)
qed

text \<open>Starting a container submits its job; stopping it cancels that job.\<close>

lemma start_owns_job:
  assumes L: "slurm_local B sa V jobs" and "file_apart jobs s"
    and "mget (ContainerPool s) k = Some p" and "cells (ctrs s) p = Some cm" and "c_ID cm = k"
    and "GetRemoteRuntime (sv_remoteCRI V) (s_RuntimeHandler (c_PodSandbox cm)) = Inr None"
    and "c_State cm = CONTAINER_CREATED" and start: "StartContainer V k s = Some ((Some (), None), t)"
  obtains n c where "0 < n" "n < 2 ^ 32" "cells (ctrs t) p = Some c" "c_State c = CONTAINER_RUNNING" "c_Pid c = n"
    "s_RuntimeHandler (c_PodSandbox c) = s_RuntimeHandler (c_PodSandbox cm)" "mget (ContainerPool t) k = Some p" "file_apart jobs t"
    "jobs (world t) = (jobs (world s))\<lparr>submitted := submitted (jobs (world s)) @ [n]\<rparr>"
proof -
  note R = slurm_localD(4) [OF L]
  have c: "flight_step V (StartCheck k) s = Some (StartCall p, s)"
    using runtime.start_checks [OF R assms(3,4,6)] assms(7) by simp
  with start have "alone V 2 (StartCall p) s = Some ((Some (), None), t)"
    unfolding alone_start [symmetric] by (simp add: numeral_3_eq_3 numeral_2_eq_2 del: flight_step.simps)
  then obtain err s1 where a: "ad_StartContainer (sv_adapter V) p s = Some (err, s1)"
    and r: "alone V 1 (StartRecord p err) s1 = Some ((Some (), None), t)"
    by (auto simp: numeral_2_eq_2 bind_eq_Some_conv)
  have err: "err = None" using r by (cases err) (auto simp: bind_eq_Some_conv split: prod.splits)
  obtain n x where n: "0 < n" "n < 2 ^ 32" "cells (ctrs s1) p = Some x" "c_Pid x = n"
    "jobs (world s1) = (jobs (world s))\<lparr>submitted := submitted (jobs (world s)) @ [n]\<rparr>"
    by (rule start_call_history [OF L a [unfolded err]])
  obtain y where y: "cells (ctrs s1) p = Some y" "same_container cm y" "ContainerPool s1 = ContainerPool s"
    by (rule runtime.start_calls [OF R a assms(4)])
  have f: "file_apart jobs s1"
    using assms(2) steady_adapter_frame [OF keepsD [OF adapter.start_container [OF runtime.axioms [OF R]] a]]
    by (simp add: file_apart_def adapter_frame_def)
  obtain u m where u: "flight_step V (StartRecord p None) s1 = Some (Replied (Some (), None), u)"
    "cells (ctrs u) p = Some (start_ok m x)" "mget (ContainerPool u) k = Some p"
    by (rule runtime.start_records [OF R, of s1 k p x]) (use y n assms(3,5) in \<open>simp_all add: same_container_def\<close>)
  have t: "t = u" using r u(1) err by (simp del: flight_step.simps)
  have h: "apart jobs s1 u" "file_apart jobs u" using start_record_history [OF L f u(1)] by simp_all
  show ?thesis
    by (rule that [of n "start_ok m x"]) (use n y u t h in \<open>simp_all add: start_ok_def same_container_def apart_def\<close>)
qed

text \<open>Two starts in step submit two jobs; the container keeps the number of the second.\<close>

lemma two_starts_two_jobs:
  assumes L: "slurm_local B sa V jobs" and "file_apart jobs s"
    and "mget (ContainerPool s) k = Some p" and "cells (ctrs s) p = Some cm" and "c_ID cm = k"
    and "GetRemoteRuntime (sv_remoteCRI V) (s_RuntimeHandler (c_PodSandbox cm)) = Inr None"
    and "c_State cm = CONTAINER_CREATED"
    and a: "ad_StartContainer (sv_adapter V) p s = Some (None, s1)" and b: "ad_StartContainer (sv_adapter V) p s1 = Some (None, s2)"
  obtains t n1 n2 c where "interleaved (flight_step V) [StartCheck k, StartCheck k] s [Replied (Some (), None), Replied (Some (), None)] t"
    "jobs (world t) = (jobs (world s))\<lparr>submitted := submitted (jobs (world s)) @ [n1, n2]\<rparr>" "0 < n2" "n2 < 2 ^ 32"
    "cells (ctrs t) p = Some c" "c_State c = CONTAINER_RUNNING" "c_Pid c = n2" "mget (ContainerPool t) k = Some p" "file_apart jobs t"
    "s_RuntimeHandler (c_PodSandbox c) = s_RuntimeHandler (c_PodSandbox cm)"
proof -
  note R = slurm_localD(4) [OF L]
  have persist: "file_apart jobs v" if "ad_StartContainer (sv_adapter V) p u = Some (e, v)" "file_apart jobs u" for u v e
    using that(2) steady_adapter_frame [OF keepsD [OF adapter.start_container [OF runtime.axioms [OF R]] that(1)]]
    by (simp add: file_apart_def adapter_frame_def)
  have c: "flight_step V (StartCheck k) s = Some (StartCall p, s)"
    using runtime.start_checks [OF R assms(3,4,6)] assms(7) by simp
  obtain x where x: "flight_step V (StartCall p) s = Some (StartRecord p None, s1)" "cells (ctrs s1) p = Some x"
    "same_container cm x" "ContainerPool s1 = ContainerPool s" by (rule runtime.start_calls [OF R a assms(4)])
  obtain y where y: "flight_step V (StartCall p) s1 = Some (StartRecord p None, s2)" "cells (ctrs s2) p = Some y"
    "same_container x y" "ContainerPool s2 = ContainerPool s1" by (rule runtime.start_calls [OF R b x(2)])
  obtain n1 where j1: "jobs (world s1) = (jobs (world s))\<lparr>submitted := submitted (jobs (world s)) @ [n1]\<rparr>"
    by (rule start_call_history [OF L a]) blast
  obtain n2 where j2: "0 < n2" "n2 < 2 ^ 32" "c_Pid y = n2"
    "jobs (world s2) = (jobs (world s1))\<lparr>submitted := submitted (jobs (world s1)) @ [n2]\<rparr>"
    by (rule start_call_history [OF L b]) (use y(2) in auto)
  have f: "file_apart jobs s2" using persist [OF b persist [OF a assms(2)]] .
  obtain t n where t: "flight_step V (StartRecord p None) s2 = Some (Replied (Some (), None), t)"
    "cells (ctrs t) p = Some (start_ok n y)" "mget (ContainerPool t) k = Some p"
    by (rule runtime.start_records [OF R, of s2 k p y]) (use x y assms(3,5) in \<open>simp_all add: same_container_def\<close>)
  obtain u m where u: "flight_step V (StartRecord p None) t = Some (Replied (Some (), None), u)"
    "cells (ctrs u) p = Some (start_ok m (start_ok n y))" "mget (ContainerPool u) k = Some p"
    by (rule runtime.start_records [OF R, of t k p "start_ok n y"]) (use t x y assms(5) in \<open>simp_all add: start_ok_def same_container_def\<close>)
  note s0 = interleaved.none [of "flight_step V" "[StartCheck k, StartCheck k]" s]
  note s2 = move_pair(2) [OF move_pair(1) [OF s0 c] c]
  note s4 = move_pair(2) [OF move_pair(1) [OF s2 x(1)] y(1)]
  note h1 = start_record_history [OF L f t(1)]
  note h2 = start_record_history [OF L conjunct2 [OF h1] u(1)]
  show ?thesis
    by (rule that [OF move_pair(2) [OF move_pair(1) [OF s4 t(1)] u(1)], of n1 n2 "start_ok m (start_ok n y)"])
      (use h1 h2 u x y j1 j2 in \<open>simp_all add: start_ok_def same_container_def apart_def\<close>)
qed

end
