(* ===== verification/Properties_Cluster.thy ===== *)
theory Properties_Cluster
  imports Cluster Example_Host
begin

text \<open>
  Properties that reach from a container's requests to the jobs of the cluster, and a cluster on
  which they are exercised: its world is the history of jobs, every script it runs submits job 42.
\<close>

section \<open>An example cluster\<close>

definition hist_ssh :: "job_history sshlib" where
  "hist_ssh = \<lparr>ssh_ParsePrivateKey = Inr, ssh_Dial = (\<lambda>n a m j. Some (Inr 0, j)), ssh_NewSession = (\<lambda>c j. (Inr 0, j)),
     ssh_RequestPty = (\<lambda>h j. (None, j)),
     ssh_Run = (\<lambda>h c j. if HasSuffix c (''/'' @ RunScript)
          then ((''Submitted batch job 42'' @ nl, [], None), j\<lparr>submitted := submitted j @ [42]\<rparr>)
        else if HasPrefix c ''scancel '' then (([], [], None), j\<lparr>cancelled := cancelled j @ [fst (Atoi (TrimPrefix c ''scancel ''))]\<rparr>)
        else (([], [], None), j)),
     ssh_Start = (\<lambda>h c j. (None, j)), ssh_StdoutPipe = (\<lambda>h j. (None, j)), ssh_ReadPipe = (\<lambda>h j. (([], None), j)),
     ssh_Wait = (\<lambda>h j. (None, j)), ssh_Close = (\<lambda>h j. j), scp_CopyPath = (\<lambda>a b h f j. (None, j))\<rparr>"

definition hist_lib :: "job_history lib" where
  "hist_lib = \<lparr>lib_go = \<lparr>uuid_Generate = (\<lambda>j. (''u-1'', j)), time_Now = (\<lambda>j. (7, j)), time_Stamp = (\<lambda>j. (''20190102030405'', j))\<rparr>,
     lib_ssh = hist_ssh, lib_ci = \<lparr>cri_format = (\<lambda>st n d j. (d, j))\<rparr>, lib_proc = \<lparr>proc_Run = (\<lambda>c f j. (([], True), f, j))\<rparr>\<rparr>"

definition hist_sa :: "job_history SlurmAdapter" where
  "hist_sa = \<lparr>sa_MountPath = ''multi-cri'', sa_Builder = NewImageBuilderInCluster hist_lib ''multi-cri'' ''/img'', sa_ImageRemoteMount = ''/img''\<rparr>"

definition hist_V :: "job_history multicriService" where
  "hist_V = \<lparr>sv_adapter = SlurmAdapter_interface hist_lib hist_sa, sv_serverAddress = ''/run/m.sock'', sv_sandboxImage = ''pause'',
     sv_cgroupPath = [], sv_netPlugin = None, sv_networkNamespace = CNINetworkManager, sv_os = RealOS,
     sv_remoteCRI = [], sv_go = lib_go hist_lib,
     sv_ns = \<lparr>cnins_GetNS = (\<lambda>p j. (Inr p, j)), cnins_NewNS = (\<lambda>j. (Inr ''/ns'', j)), cnins_Close = (\<lambda>p j. (None, j)), unix_Unmount = (\<lambda>p j. (None, j))\<rparr>,
     sv_GetPortForward = (\<lambda>k j. (Inr ''url'', j))\<rparr>"

definition hist_s :: "job_history mstate" where
  "hist_s = (empty_state \<lparr>submitted = [7], cancelled = []\<rparr> ex_fs)\<lparr>sbxs := ex_heap (ex_pod SANDBOX_READY []),
     ctrs := ex_heap ((ex_ctr CONTAINER_CREATED [])\<lparr>c_Environment := [(''CLUSTER_PASSWORD'', ''x'')]\<rparr>), imgs := ex_heap zero_image,
     SandboxPool := [(''pod'', 0)], ContainerPool := [(''c1'', 0)]\<rparr>"

lemma scancel_no_script: "HasSuffix (''scancel '' @ itoa n) (''/'' @ RunScript) \<Longrightarrow> 0 \<le> n \<Longrightarrow> False"
proof -
  assume suffix: "HasSuffix (''scancel '' @ itoa n) (''/'' @ RunScript)" and n: "0 \<le> n"
  have "last (''scancel '' @ itoa n) = CHR ''h''"
    using suffix by (cases "rev (''scancel '' @ itoa n)") (auto simp: HasSuffix_def RunScript_def hd_rev [symmetric])
  moreover have "itoa n \<noteq> []" using n nat_digits_props [of "nat n"] by (simp add: itoa_def)
  then have "last (''scancel '' @ itoa n) \<in> set (itoa n)" by simp
  ultimately show False using itoa_digits_nonspace [OF n, of "CHR ''h''"] by (simp add: is_digit_def)
qed

lemma hist_history: "slurm_history hist_lib id"
proof -
  have lib: "lib_ssh hist_lib = hist_ssh" by (simp add: hist_lib_def)
  have n42: "itoa 42 = ''42''" by code_simp
  have "submits (''Submitted batch job 42'' @ nl) j (j\<lparr>submitted := submitted j @ [42]\<rparr>)" for j
    unfolding submits_def
    by (rule disjI1, rule exI [of _ "[]"], rule exI [of _ 42], rule exI [of _ nl])
      (simp add: n42 is_space_def)
  then have run: "submits out j j'" if "ssh_Run hist_ssh h c j = ((out, [], None), j')" "HasSuffix c (''/'' @ RunScript)" for h c j out j'
    using that by (auto simp: hist_ssh_def)
  have cancel: "j' = j\<lparr>cancelled := cancelled j @ [n]\<rparr>"
    if "ssh_Run hist_ssh h (''scancel '' @ itoa n) j = ((out, [], None), j')" "0 < n" "n < 2 ^ 31" for h j out j' n
  proof -
    have "\<not> HasSuffix (''scancel '' @ itoa n) (''/'' @ RunScript)" using scancel_no_script [of n] that(2) by auto
    moreover have "Atoi (itoa n) = (n, True)" using Atoi_itoa [of n] that by (simp add: min_int64_def max_int64_def)
    ultimately show ?thesis
      using that(1) by (simp add: hist_ssh_def del: append.simps)
  qed
  have "\<forall>h c w out w'. ssh_Run (lib_ssh hist_lib) h c w = ((out, [], None), w') \<longrightarrow>
          (HasSuffix c (''/'' @ RunScript) \<longrightarrow> submits out (id w) (id w'))
          \<and> (\<forall>n. 0 < n \<longrightarrow> n < 2 ^ 31 \<longrightarrow> c = ''scancel '' @ itoa n \<longrightarrow> id w' = (id w)\<lparr>cancelled := cancelled (id w) @ [n]\<rparr>)"
    using run cancel unfolding id_apply lib by blast
  then show ?thesis
    unfolding slurm_history_def by (intro conjI) (assumption | simp add: hist_lib_def hist_ssh_def)+
qed

lemma hist_local: "slurm_local hist_lib hist_sa hist_V id"
  by (simp add: slurm_local_def hist_history hist_V_def hist_sa_def slurm_cluster.slurm_adapter_axioms)

section \<open>Containers and jobs\<close>

text \<open>
  C10.  A started container is a job: starting a created local container with success submits
  exactly one job over the client's sessions, the container runs and carries that job's number.  Stopping the
  container with success then cancels that job and no other, as long as the number fits in 31 bits, which the
  conversion to \<open>int32\<close> needs.
\<close>

theorem container_owns_job:
  assumes "slurm_local B sa V jobs" and "file_apart jobs s"
    and "mget (ContainerPool s) k = Some p" and "cells (ctrs s) p = Some cm" and "c_ID cm = k"
    and "GetRemoteRuntime (sv_remoteCRI V) (s_RuntimeHandler (c_PodSandbox cm)) = Inr None"
    and "c_State cm = CONTAINER_CREATED" and "StartContainer V k s = Some ((Some (), None), t)"
  shows "\<exists>n c. 0 < n \<and> n < 2 ^ 32 \<and> cells (ctrs t) p = Some c \<and> c_State c = CONTAINER_RUNNING \<and> c_Pid c = n
    \<and> jobs (world t) = (jobs (world s))\<lparr>submitted := submitted (jobs (world s)) @ [n]\<rparr>
    \<and> (\<forall>u. n < 2 ^ 31 \<longrightarrow> StopContainer V k t = Some ((Some (), None), u) \<longrightarrow>
         jobs (world u) = (jobs (world t))\<lparr>cancelled := cancelled (jobs (world s)) @ [n]\<rparr>)"
proof -
  obtain n c where n: "0 < n" "n < 2 ^ 32" and c: "cells (ctrs t) p = Some c" "c_State c = CONTAINER_RUNNING" "c_Pid c = n"
    "s_RuntimeHandler (c_PodSandbox c) = s_RuntimeHandler (c_PodSandbox cm)" "mget (ContainerPool t) k = Some p" "file_apart jobs t"
    and j: "jobs (world t) = (jobs (world s))\<lparr>submitted := submitted (jobs (world s)) @ [n]\<rparr>"
    by (rule start_owns_job [OF assms])
  have "jobs (world u) = (jobs (world t))\<lparr>cancelled := cancelled (jobs (world s)) @ [n]\<rparr>"
    if "n < 2 ^ 31" "StopContainer V k t = Some ((Some (), None), u)" for u
    using stop_running_history [OF assms(1) c(6,5,1) _ c(2) _ _ that(2)] c(3,4) n(1) that(1) assms(6) j by simp
  with n c j show ?thesis by blast
qed

theorem container_owns_job_witness:
  "\<exists>t u. StartContainer hist_V ''c1'' hist_s = Some ((Some (), None), t) \<and> StopContainer hist_V ''c1'' t = Some ((Some (), None), u)
     \<and> world u = \<lparr>submitted = [7, 42], cancelled = [42]\<rparr>"
proof -
  have "map_option (\<lambda>(r, t). (r, world t, map_option fst (StopContainer hist_V ''c1'' t), map_option c_Pid (cells (ctrs t) 0)))
      (StartContainer hist_V ''c1'' hist_s)
      = Some ((Some (), None), \<lparr>submitted = [7, 42], cancelled = []\<rparr>, Some (Some (), None), Some 42)" by code_simp
  then obtain t u where t: "StartContainer hist_V ''c1'' hist_s = Some ((Some (), None), t)" "world t = \<lparr>submitted = [7, 42], cancelled = []\<rparr>"
    and u: "StopContainer hist_V ''c1'' t = Some ((Some (), None), u)" and pid: "map_option c_Pid (cells (ctrs t) 0) = Some 42"
    by auto
  have s: "file_apart id hist_s" "mget (ContainerPool hist_s) ''c1'' = Some 0" "world hist_s = \<lparr>submitted = [7], cancelled = []\<rparr>"
    "cells (ctrs hist_s) 0 = Some ((ex_ctr CONTAINER_CREATED [])\<lparr>c_Environment := [(''CLUSTER_PASSWORD'', ''x'')]\<rparr>)"
    by (simp_all add: file_apart_def hist_s_def empty_state_def ex_heap_def)
  have "GetRemoteRuntime (sv_remoteCRI hist_V) h = Inr None" for h by (simp add: hist_V_def)
  from container_owns_job [OF hist_local s(1,2,4) _ this _ t(1)] pid u t s(3) show ?thesis by fastforce
qed

text \<open>
  C13.  Two start requests for the same local container that are in flight together are both answered
  with success and submit two jobs, since the check of the state and its change are not one
  step; the container keeps the number of the second job only, so stopping it cancels that one
  and the first stays.  One after the other, the second request is refused.
\<close>

theorem concurrent_starts_lose_job:
  assumes "slurm_local B sa V jobs" and "file_apart jobs s"
    and "mget (ContainerPool s) k = Some p" and "cells (ctrs s) p = Some cm" and "c_ID cm = k"
    and "GetRemoteRuntime (sv_remoteCRI V) (s_RuntimeHandler (c_PodSandbox cm)) = Inr None"
    and "c_State cm = CONTAINER_CREATED"
    and "ad_StartContainer (sv_adapter V) p s = Some (None, s1)" and "ad_StartContainer (sv_adapter V) p s1 = Some (None, s2)"
  shows "(\<exists>t n1 n2. interleaved (flight_step V) [StartCheck k, StartCheck k] s [Replied (Some (), None), Replied (Some (), None)] t
      \<and> jobs (world t) = (jobs (world s))\<lparr>submitted := submitted (jobs (world s)) @ [n1, n2]\<rparr>
      \<and> (\<forall>u. n2 < 2 ^ 31 \<longrightarrow> StopContainer V k t = Some ((Some (), None), u) \<longrightarrow>
           jobs (world u) = (jobs (world t))\<lparr>cancelled := cancelled (jobs (world s)) @ [n2]\<rparr>))
    \<and> (\<exists>t. StartContainer V k s = Some ((Some (), None), t)
         \<and> StartContainer V k t = Some ((Some (), Some ''Container already started''), t))"
proof
  obtain t n1 n2 c where i: "interleaved (flight_step V) [StartCheck k, StartCheck k] s [Replied (Some (), None), Replied (Some (), None)] t"
    and j: "jobs (world t) = (jobs (world s))\<lparr>submitted := submitted (jobs (world s)) @ [n1, n2]\<rparr>" and n: "0 < n2" "n2 < 2 ^ 32"
    and c: "cells (ctrs t) p = Some c" "c_State c = CONTAINER_RUNNING" "c_Pid c = n2" "mget (ContainerPool t) k = Some p" "file_apart jobs t"
      "s_RuntimeHandler (c_PodSandbox c) = s_RuntimeHandler (c_PodSandbox cm)"
    by (rule two_starts_two_jobs [OF assms])
  have "jobs (world u) = (jobs (world t))\<lparr>cancelled := cancelled (jobs (world s)) @ [n2]\<rparr>"
    if "n2 < 2 ^ 31" "StopContainer V k t = Some ((Some (), None), u)" for u
    using stop_running_history [OF assms(1) c(5,4,1) _ c(2) _ _ that(2)] c(3,6) n(1) that(1) assms(6) j by simp
  with i j show "\<exists>t n1 n2. interleaved (flight_step V) [StartCheck k, StartCheck k] s [Replied (Some (), None), Replied (Some (), None)] t
      \<and> jobs (world t) = (jobs (world s))\<lparr>submitted := submitted (jobs (world s)) @ [n1, n2]\<rparr>
      \<and> (\<forall>u. n2 < 2 ^ 31 \<longrightarrow> StopContainer V k t = Some ((Some (), None), u) \<longrightarrow>
           jobs (world u) = (jobs (world t))\<lparr>cancelled := cancelled (jobs (world s)) @ [n2]\<rparr>)" by blast
  show "\<exists>t. StartContainer V k s = Some ((Some (), None), t)
         \<and> StartContainer V k t = Some ((Some (), Some ''Container already started''), t)"
    by (rule runtime.serial_starts [OF slurm_localD(4) [OF assms(1)] assms(3-5,7,6,8)])
qed

theorem concurrent_starts_lose_job_witness:
  "\<exists>t n1 n2. interleaved (flight_step hist_V) [StartCheck ''c1'', StartCheck ''c1''] hist_s [Replied (Some (), None), Replied (Some (), None)] t
     \<and> world t = \<lparr>submitted = [7, n1, n2], cancelled = []\<rparr>"
proof -
  have "map_option (\<lambda>(e, s). (e, map_option fst (ad_StartContainer (sv_adapter hist_V) 0 s))) (ad_StartContainer (sv_adapter hist_V) 0 hist_s)
      = Some (None, Some None)" by code_simp
  then obtain s1 s2 where a: "ad_StartContainer (sv_adapter hist_V) 0 hist_s = Some (None, s1)" "ad_StartContainer (sv_adapter hist_V) 0 s1 = Some (None, s2)"
    by auto
  have s: "file_apart id hist_s" "mget (ContainerPool hist_s) ''c1'' = Some 0" "world hist_s = \<lparr>submitted = [7], cancelled = []\<rparr>"
    "cells (ctrs hist_s) 0 = Some ((ex_ctr CONTAINER_CREATED [])\<lparr>c_Environment := [(''CLUSTER_PASSWORD'', ''x'')]\<rparr>)"
    by (simp_all add: file_apart_def hist_s_def empty_state_def ex_heap_def)
  have "GetRemoteRuntime (sv_remoteCRI hist_V) h = Inr None" for h by (simp add: hist_V_def)
  from concurrent_starts_lose_job [OF hist_local s(1,2,4) _ this _ a] s(3) show ?thesis by fastforce
qed

end
