(* ===== verification/Spec2Isabelle.thy ===== *)
theory Spec2Isabelle
  imports Properties_Registry Properties_Service Properties_Lifecycle Properties_Runtime Properties_Slurm Properties_Data
    Properties_Host Properties_Cluster
begin

text \<open>
  A model of multi-cri, a Kubernetes container runtime (CRI) in Go that runs the containers of a
  pod as jobs of a Slurm cluster, or forwards them to other CRI runtimes.

  \<^bold>\<open>The program.\<close>  The kubelet calls the handlers of \<open>pkg/cri/runtime\<close> over gRPC.  A handler
  looks the pod, container or image up in one of the three stores of \<open>pkg/cri/store\<close>, asks
  \<open>pkg/cri/runtime/remote\<close> whether the pod's runtime handler belongs to a configured remote
  runtime, and forwards the request there; otherwise it calls the adapter
  (\<open>pkg/cri/adapters\<close>) and updates the stores, which are written through to key-value files.
  The Slurm adapter builds images (\<open>builder\<close>), writes batch scripts and runs Slurm commands
  (\<open>cmd\<close>) over SSH (\<open>pkg/cri/common/ssh\<close>).  Pods get a network through a CNI plugin, a network
  namespace and firewall rules (\<open>pkg/cri/network\<close>).

  \<^bold>\<open>Theories\<close>, in the order they build on each other:
  \<^item> \<open>Prelude\<close>: Go maps as association lists whose order is the order of the next \<open>range\<close>, heaps
    of objects reached through pointers, and \<open>keeps\<close>, the frame calculus for handlers that may panic.
  \<^item> \<open>Go_Strings\<close>, \<open>Go_OS\<close>: what the sources use of Go's \<open>strings\<close>, \<open>strconv\<close>, \<open>fmt\<close>, \<open>path\<close> and \<open>os\<close>;
    \<open>pkg/os\<close> (\<open>RealOS\<close>) and \<open>pkg/cri/common/file\<close>.
  \<^item> \<open>Metadata\<close>: \<open>store/metadata.go\<close>, the CRI messages the sources read, the state of the service,
    and the locales \<open>keyed_store\<close> and \<open>lookup_store\<close>, the interface of a store.
  \<^item> \<open>Network\<close>: \<open>network/netns.go\<close> and \<open>network/iptables.go\<close>.
  \<^item> \<open>File_Store\<close>, \<open>Sandbox_Store\<close>, \<open>Container_Store\<close>, \<open>Image_Store\<close>: \<open>store/*.go\<close>, each store an
    interpretation of the store interface.
  \<^item> \<open>Common\<close>: \<open>common/env.go\<close>, \<open>parse.go\<close>, \<open>logger.go\<close>, \<open>cmd/singularity.go\<close>, \<open>auth/auth.go\<close>.
  \<^item> \<open>Ssh\<close>: \<open>common/ssh/ssh.go\<close>.  \<open>Slurm_Cmd\<close>: \<open>adapters/slurm/cmd/cmd.go\<close>.
  \<^item> \<open>Builder\<close>: \<open>adapters/slurm/builder\<close>, the two image builders, interpretations of the locale
    \<open>image_builder\<close>.
  \<^item> \<open>Adapter\<close>: the interface of \<open>adapters/adapter.go\<close>, the contract the runtime needs of it as the
    locale \<open>adapter\<close>, and the fake adapter of \<open>runtime/fakes.go\<close>, which meets it.
  \<^item> \<open>Slurm_Adapter\<close>: \<open>adapters/slurm/{adapter,container,image,sandbox,exec}.go\<close> and \<open>loadAdapter\<close>; the
    locale \<open>slurm_adapter\<close> gives the contract (a \<open>sublocale\<close>) from that of the image builder.
  \<^item> \<open>Remote_CRI\<close>: \<open>runtime/remote/*.go\<close>, the configuration and the routing of remote runtimes.
  \<^item> \<open>Runtime\<close>: \<open>runtime/helpers.go\<close>, the service record and the small interfaces it is built from.
  \<^item> \<open>Invariant\<close>: the invariant \<open>Inv\<close> of the state, the relation \<open>evolves\<close> and the locale \<open>runtime\<close>.
  \<^item> \<open>Runtime_Sandbox\<close>, \<open>Runtime_Container\<close>, \<open>Runtime_Image\<close>: the handlers of \<open>runtime/sandbox.go\<close>,
    \<open>container.go\<close>, \<open>exec.go\<close> and \<open>image.go\<close>, each with the proof that it \<open>evolves\<close> the state.
  \<^item> \<open>Service\<close>: \<open>cmd/options.go\<close>, \<open>runtime/service.go\<close>, \<open>runtime/runtime.go\<close>, \<open>slurm/stream.go\<close>, the
    construction of the service from its flags.
  \<^item> \<open>Requests\<close>: all requests as a datatype, the request constructors of \<open>runtime/fakes.go\<close>, the step
    relation and its reachable states.
  \<^item> \<open>Answering\<close>: which requests crash the service in which states (\<open>crashes\<close>), what the adapter has to
    answer (\<open>adapter_answers\<close>), and that a handler then returns exactly where it does not crash; that the Slurm
    adapter crashes only in its connections (\<open>ssh_crashes\<close>).  \<open>Replies\<close>: every handler gives a response or an error.
  \<^item> \<open>Concurrency\<close>: the handlers that start, stop and create a container and the one that removes a pod, cut
    into steps that interleave.  \<open>Interleaving\<close>: what every step leaves in place (\<open>advances\<close>) and what a
    request in flight relies on (\<open>relies\<close>), over all these handlers together.
  \<^item> \<open>Cluster\<close>: what Slurm documents of \<open>sbatch\<close> and \<open>scancel\<close>, stated over the history of jobs submitted and
    cancelled, and followed from the SSH session up to the handlers.
  \<^item> \<open>Service_Run\<close>: \<open>Run\<close> and \<open>Stop\<close> of \<open>runtime/service.go\<close> with the interrupt handler of \<open>main.go\<close>,
    a step relation.  \<open>Fake_OS\<close>: \<open>pkg/os/testing/fake_os.go\<close> and its specification \<open>reports\<close>.
  \<^item> \<open>Registry\<close>: the abstract specification of the service, a machine on a registry that maps pod IDs
    to state, handler and list of containers, and container IDs to state and pod; the abstraction
    \<open>registry_of\<close>.  \<open>Simulation\<close>: every request is a step of that machine, and runs follow.
  \<^item> \<open>Example_Host\<close>: a concrete environment for the witnesses.
  \<^item> \<open>Properties_*\<close>: the properties, by subject.

  \<^bold>\<open>State.\<close>  \<open>mstate\<close> holds the objects (three heaps), the pools (maps from IDs to pointers), the
  persistence files' handles, the local file system, and \<open>world\<close>, everything outside the process.
  A handler takes the state and returns \<open>None\<close> for a panic (a nil dereference or an index out of
  range), else the reply, a response and an error that may both be present as in Go, and the new
  state.  Containers share image objects through pointers and copy their pod's record, as in Go.
  A store's mutex makes each of its operations atomic; the requests of a step sequence are served
  one after the other, but for \<open>Concurrency\<close> and \<open>Interleaving\<close>.  Sizes are 64-bit words, job numbers pass through \<open>int32\<close>, Go's \<open>int\<close> results
  of \<open>Atoi\<close> saturate at 64 bits.  Every recursion is structural or has a termination proof: no fuel.

  \<^bold>\<open>Parameters.\<close>  Code that is not in the repository is a record of functions on the outside world:
  the key-value store (\<open>KVStore\<close>), uuid and clock (\<open>golib\<close>), CNI namespaces (\<open>nslib\<close>), fifos
  and mounts (\<open>mountlib\<close>), HTTP and gzip (\<open>httplib\<close>), running
  programs (\<open>execlib\<close>, \<open>proclib\<close>), the SSH and SCP packages (\<open>sshlib\<close>), the CRI logger (\<open>cilib\<close>), gRPC
  (\<open>grpclib\<close>) and the remote runtimes, the CNI plugin, cgroups, the streaming server (\<open>hostlib\<close>).
  Some properties assume documented behaviour of such code, by name: \<open>skv_behaves\<close> (a put or
  delete changes one key, a list shows the contents), \<open>skv_gets\<close> (a get decodes the record of a key),
  \<open>iptables_behaves\<close> (check, append), \<open>ssh_counts\<close> (what opens and closes connections and sessions),
  \<open>logging_apart\<close> (the logger opens and closes neither), \<open>dial_returns\<close> (a connection attempt without nil methods
  returns), \<open>namespaces_apart\<close> (network namespaces do not change the sandbox file), \<open>slurm_history\<close> (the job that a successful submission or
  cancellation submits or cancels), \<open>file_apart\<close> (writing the container file submits and cancels nothing) and \<open>images_keyed\<close> (the image file
  holds what the program put there, under the image's ID).

  \<^bold>\<open>What is shown.\<close>  \<open>Properties_Registry\<close>: the service refines the abstract registry, so that a
  request touches only the pods and containers it names and moves them only along the allowed
  changes of state; listed containers have records, and records are kept.  \<open>Properties_Service\<close>: in every state a built service can reach, by any requests,
  outside changes and map orders, the invariant holds, exited containers stay exited, a
  request is answered exactly where it does not crash, and listings are exact; what is answered is a response or an
  error, with one exception; a restart keeps the ready pods with a namespace path; every adapter the service can be built with meets the contract.
  \<open>Properties_Lifecycle\<close>: what running a pod and creating a container do to the stores on success
  and on failure, what a restart brings back, what the container file gives back, that a pod's network is never torn down.
  \<open>Properties_Runtime\<close>: the effects and errors of single handlers, local and remote.
  \<open>Properties_Slurm\<close>: the command, the batch script and the start script of a job, the image a job runs, the accounting and SSH connections.
  \<open>Properties_Cluster\<close>: a started container is one submitted job, and a stop cancels it; two starts in flight
  together submit two jobs, of which one is lost.  \<open>Properties_Data\<close>: image
  references, the remote configuration, the removal loop, resolver file and firewall rules.
  \<open>Properties_Host\<close>: interleaved starts, stops, creations and pod removals keep the invariant, but a pod removed while a container is created in it comes back; \<open>Run\<close> always ends in an orderly way; the recording OS meets its specification.
  Several theorems pin down behaviour that is not what the program means to do; they are stated
  the way the code behaves.

  \<^bold>\<open>Not modelled.\<close>  Library code: the gRPC and streaming servers, the cutting of the command line into
  names and values, SELinux, klog output.  The fake streaming server and the names used by the tests in
  \<open>fakes.go\<close>.  Handlers other than those that start, stop and create containers and that remove pods are not interleaved, and Go's data races
  on the fields of one object within such a step are not modelled.  The URL a streaming request
  returns is a parameter.
\<close>

end
